(* ===== verification/Prelude.thy ===== *)
theory Prelude
  imports Main "HOL-Library.Word" "HOL-Library.List_Lexorder" "HOL-Library.Char_ord"
    "HOL-Library.Option_ord" "HOL-Library.Product_Lexorder" "HOL-Library.Multiset"
begin

text \<open>
  What every component shares: results as sums (\<open>Inl\<close> the error, \<open>Inr\<close> the value) with
  a bind that is Rust's \<open>?\<close>, and Rust's string operations over UTF-8 bytes.

  A Rust \<open>String\<close> is its UTF-8 bytes, a HOL \<open>string\<close> (a \<open>char\<close> is a byte), so
  \<open>len()\<close> is \<open>length\<close>. Operations of the source that look at Unicode scalar values
  (\<open>trim\<close>, \<open>chars().count()\<close>, \<open>char::is_control\<close>) are written over the bytes that
  encode them.
\<close>

named_theorems res_simps "rewriting of results and of the bind on them"
named_theorems str_simps "rewriting of the string operations"

subsection \<open>Results\<close>

text \<open>The \<open>?\<close> operator: an error returns at once.\<close>

definition ebind :: "'e + 'a \<Rightarrow> ('a \<Rightarrow> 'e + 'b) \<Rightarrow> 'e + 'b" where
  "ebind m f = (case m of Inl e \<Rightarrow> Inl e | Inr x \<Rightarrow> f x)"

text \<open>\<open>Option::ok_or\<close>.\<close>

definition ok_or :: "'e \<Rightarrow> 'a option \<Rightarrow> 'e + 'a" where
  "ok_or e v = (case v of None \<Rightarrow> Inl e | Some x \<Rightarrow> Inr x)"

text \<open>\<open>Result::map_err\<close> and \<open>Result::ok\<close>.\<close>

definition map_err :: "('e \<Rightarrow> 'f) \<Rightarrow> 'e + 'a \<Rightarrow> 'f + 'a" where
  "map_err f m = (case m of Inl e \<Rightarrow> Inl (f e) | Inr x \<Rightarrow> Inr x)"

definition ok_of :: "'e + 'a \<Rightarrow> 'a option" where
  "ok_of m = (case m of Inl e \<Rightarrow> None | Inr x \<Rightarrow> Some x)"

text \<open>An early return of an error under a condition.\<close>

definition fail_if :: "bool \<Rightarrow> 'e \<Rightarrow> 'e + unit" where
  "fail_if c e = (if c then Inl e else Inr ())"

lemma ebind_simps [simp, res_simps]:
  "ebind (Inl e) f = Inl e" "ebind (Inr x) f = f x"
  by (simp_all add: ebind_def)

lemma ebind_Inr [res_simps]: "ebind m f = Inr y \<longleftrightarrow> (\<exists>x. m = Inr x \<and> f x = Inr y)"
  by (cases m) auto

lemma ebind_Inl [res_simps]:
  "ebind m f = Inl e \<longleftrightarrow> m = Inl e \<or> (\<exists>x. m = Inr x \<and> f x = Inl e)"
  by (cases m) auto

lemma ok_or_simps [simp, res_simps]:
  "ok_or e None = Inl e" "ok_or e (Some x) = Inr x"
  "ok_or e v = Inr x \<longleftrightarrow> v = Some x"
  by (auto simp: ok_or_def split: option.splits)

lemma map_err_simps [simp, res_simps]:
  "map_err f (Inr x) = Inr x" "map_err f (Inl e) = Inl (f e)"
  "map_err f m = Inr x \<longleftrightarrow> m = Inr x"
  by (auto simp: map_err_def split: sum.splits)

lemma ok_of_simps [simp, res_simps]:
  "ok_of (Inr x) = Some x" "ok_of (Inl e) = None" "ok_of m = Some x \<longleftrightarrow> m = Inr x"
  by (auto simp: ok_of_def split: sum.splits)

lemma fail_if_simps [simp, res_simps]:
  "fail_if c e = Inr u \<longleftrightarrow> \<not> c" "fail_if c e = Inl d \<longleftrightarrow> c \<and> d = e"
  by (auto simp: fail_if_def)

text \<open>A fold whose body may return early: \<open>for x in xs { \<dots>? }\<close>.\<close>

fun efold :: "('a \<Rightarrow> 's \<Rightarrow> 'e + 's) \<Rightarrow> 'a list \<Rightarrow> 's \<Rightarrow> 'e + 's" where
  "efold f [] s = Inr s"
| "efold f (x # xs) s = ebind (f x s) (efold f xs)"

lemma efold_invariant:
  assumes "efold f xs s = Inr t" and "P s"
    and "\<And>x a b. x \<in> set xs \<Longrightarrow> f x a = Inr b \<Longrightarrow> P a \<Longrightarrow> P b"
  shows "P t"
  using assms
proof (induction xs arbitrary: s)
  case Nil
  then show ?case by simp
next
  case (Cons x xs)
  from Cons.prems(1) obtain a where a: "f x s = Inr a" "efold f xs a = Inr t"
    by (auto simp: res_simps)
  show ?case
  proof (rule Cons.IH[OF a(2)])
    show "P a" by (rule Cons.prems(3)[OF _ a(1) Cons.prems(2)]) simp
  qed (use Cons.prems(3) in auto)
qed

lemma fold_invariant_on:
  assumes "P s" and "\<And>x a. x \<in> set xs \<Longrightarrow> P a \<Longrightarrow> P (f x a)"
  shows "P (fold f xs s)"
  using assms by (induction xs arbitrary: s) auto

subsection \<open>Lists\<close>

lemma find_SomeD: "find P xs = Some x \<Longrightarrow> x \<in> set xs \<and> P x"
  by (induction xs) (auto split: if_splits)

lemma find_None_iff': "find P xs = None \<longleftrightarrow> (\<forall>x \<in> set xs. \<not> P x)"
  by (induction xs) auto

text \<open>\<open>max_by_key\<close> keeps the last of the largest elements.\<close>

fun max_by_key :: "('a \<Rightarrow> 'b::linorder) \<Rightarrow> 'a list \<Rightarrow> 'a option" where
  "max_by_key k [] = None"
| "max_by_key k (x # xs) = (case max_by_key k xs of None \<Rightarrow> Some x
     | Some y \<Rightarrow> Some (if k x > k y then x else y))"

lemma max_by_key_None [simp]: "max_by_key k xs = None \<longleftrightarrow> xs = []"
  by (cases xs) (auto split: option.splits)

lemma max_by_key_Some:
  "max_by_key k xs = Some x \<Longrightarrow> x \<in> set xs \<and> (\<forall>y \<in> set xs. k y \<le> k x)"
  by (induction xs arbitrary: x) (fastforce split: option.splits if_splits)+

text \<open>\<open>Vec::dedup\<close>: drops an element equal to the one before it.\<close>

fun dedup :: "'a list \<Rightarrow> 'a list" where
  "dedup [] = []"
| "dedup [x] = [x]"
| "dedup (x # y # zs) = (if x = y then dedup (y # zs) else x # dedup (y # zs))"

lemma set_dedup [simp]: "set (dedup xs) = set xs"
  by (induction xs rule: dedup.induct) auto

lemma dedup_Nil [simp]: "dedup xs = [] \<longleftrightarrow> xs = []"
  by (induction xs rule: dedup.induct) auto

lemma sorted_wrt_dedup: "sorted xs \<Longrightarrow> sorted_wrt (<) (dedup (xs :: 'a::linorder list))"
proof (induction xs rule: dedup.induct)
  case (3 x y zs)
  have "sorted (y # zs)" using "3.prems" by simp
  then have IH: "sorted_wrt (<) (dedup (y # zs))" using "3.IH" by (cases "x = y") auto
  show ?case
  proof (cases "x = y")
    case True
    with IH show ?thesis by simp
  next
    case False
    have "\<forall>z \<in> set (dedup (y # zs)). x < z"
      using "3.prems" False by (simp del: dedup.simps) (metis order_le_imp_less_or_eq order_less_le_trans)
    with IH False show ?thesis by simp
  qed
qed auto

lemma sorted_distinct_dedup:
  "sorted xs \<Longrightarrow> sorted (dedup xs) \<and> distinct (dedup (xs :: 'a::linorder list))"
  using sorted_wrt_dedup strict_sorted_iff by blast

lemma dedup_strict_sorted:
  "sorted_wrt (<) (xs :: 'a::linorder list) \<Longrightarrow> dedup xs = xs"
  by (induction xs rule: dedup.induct) auto

lemma dedup_sort_idem:
  fixes xs :: "'a::linorder list"
  shows "dedup (sort (dedup (sort xs))) = dedup (sort xs)"
proof -
  have s: "sorted_wrt (<) (dedup (sort xs))" by (rule sorted_wrt_dedup) simp
  then have "sort (dedup (sort xs)) = dedup (sort xs)"
    using strict_sorted_iff sorted_sort_id by blast
  with s show ?thesis by (simp add: dedup_strict_sorted)
qed

lemma sort_sort [simp]: "sort (sort xs) = sort (xs :: 'a::linorder list)"
  by (simp add: sorted_sort_id)

text \<open>Numbering from one, as \<open>zip(1u32..)\<close>.\<close>

definition enum1 :: "'a list \<Rightarrow> ('a \<times> nat) list" where
  "enum1 xs = zip xs [1..<Suc (length xs)]"

lemma map_fst_enum1 [simp]: "map fst (enum1 xs) = xs"
  by (simp add: enum1_def del: upt_Suc)

lemma set_enum1: "(x, i) \<in> set (enum1 xs) \<Longrightarrow> x \<in> set xs \<and> 1 \<le> i \<and> i \<le> length xs \<and> xs ! (i - 1) = x"
  by (auto simp: enum1_def set_zip simp del: upt_Suc)

subsection \<open>Normalisation\<close>

text \<open>\<open>Vec::push\<close> of what is not there yet, over a list whose entries are checked one by one.\<close>

definition push_new :: "'a \<Rightarrow> 'a list \<Rightarrow> 'a list" where
  "push_new x xs = (if x \<in> set xs then xs else xs @ [x])"

definition collect_new :: "('a \<Rightarrow> 'e + 'a) \<Rightarrow> 'a list \<Rightarrow> 'e + 'a list" where
  "collect_new f xs = efold (\<lambda>x out. ebind (f x) (\<lambda>y. Inr (push_new y out))) xs []"

text \<open>The contract of a function that tidies and checks what a user typed: what it returns it
  leaves alone.\<close>

locale normalizer =
  fixes norm :: "'a \<Rightarrow> 'a option"
  assumes again: "norm x = Some y \<Longrightarrow> norm y = Some y"
begin

lemma collect_results:
  assumes "efold (\<lambda>x out. ebind (ok_or (err x) (norm x)) (\<lambda>y. Inr (push_new y out))) xs s = Inr out"
    and "distinct s" and "\<forall>y \<in> set s. norm y = Some y"
  shows "distinct out \<and> (\<forall>y \<in> set out. norm y = Some y)"
  using assms
proof (induction xs arbitrary: s)
  case (Cons x xs)
  then obtain y where y: "norm x = Some y"
    and out: "efold (\<lambda>x out. ebind (ok_or (err x) (norm x)) (\<lambda>y. Inr (push_new y out))) xs (push_new y s) = Inr out"
    by (auto simp: res_simps)
  have "norm y = Some y" using again y .
  with Cons.prems(2,3) have "distinct (push_new y s)" "\<forall>z \<in> set (push_new y s). norm z = Some z"
    by (auto simp: push_new_def)
  with out show ?case by (rule Cons.IH)
qed simp

lemma collect_fixed:
  assumes "distinct (s @ ys)" and "\<forall>y \<in> set ys. norm y = Some y"
  shows "efold (\<lambda>x out. ebind (ok_or (err x) (norm x)) (\<lambda>y. Inr (push_new y out))) ys s = Inr (s @ ys)"
  using assms by (induction ys arbitrary: s) (auto simp: push_new_def)

text \<open>Collecting the same entries again, in any order, changes nothing.\<close>

lemma collect_again:
  assumes "collect_new (\<lambda>x. ok_or (err x) (norm x)) xs = Inr out" and "mset ys = mset out"
  shows "collect_new (\<lambda>x. ok_or (err x) (norm x)) ys = Inr ys"
proof -
  have "distinct out \<and> (\<forall>y \<in> set out. norm y = Some y)"
    using collect_results[of err xs "[]" out] assms(1) by (simp add: collect_new_def)
  then have "distinct ys \<and> (\<forall>y \<in> set ys. norm y = Some y)"
    using assms(2) by (metis mset_eq_imp_distinct_iff mset_eq_setD)
  then show ?thesis using collect_fixed[of "[]" ys err] by (simp add: collect_new_def)
qed

lemma collected: "collect_new (\<lambda>x. ok_or (err x) (norm x)) xs = Inr out \<Longrightarrow> y \<in> set out \<Longrightarrow> norm y = Some y"
  using collect_results[of err xs "[]" out] by (simp add: collect_new_def)

end

end
