(* ===== verification/Rust_Str.thy ===== *)
theory Rust_Str
  imports Prelude
begin

text \<open>
  The string operations of Rust's standard library that the modelled code calls, over
  UTF-8 bytes, and the laws the components use. Byte-wise operations (ASCII case,
  \<open>split\<close> at an ASCII character) are the same on bytes as on characters, because no
  byte of a multi-byte UTF-8 sequence is ASCII.
\<close>

subsection \<open>ASCII\<close>

definition code :: "char \<Rightarrow> nat" where
  "code c = of_char c"

definition is_digit :: "char \<Rightarrow> bool" where
  "is_digit c \<longleftrightarrow> 48 \<le> code c \<and> code c \<le> 57"

definition is_lower :: "char \<Rightarrow> bool" where
  "is_lower c \<longleftrightarrow> 97 \<le> code c \<and> code c \<le> 122"

definition is_upper :: "char \<Rightarrow> bool" where
  "is_upper c \<longleftrightarrow> 65 \<le> code c \<and> code c \<le> 90"

definition is_alnum :: "char \<Rightarrow> bool" where
  "is_alnum c \<longleftrightarrow> is_digit c \<or> is_lower c \<or> is_upper c"

definition lower_char :: "char \<Rightarrow> char" where
  "lower_char c = (if is_upper c then char_of (code c + 32) else c)"

text \<open>\<open>str::to_ascii_lowercase\<close> and \<open>str::eq_ignore_ascii_case\<close>.\<close>

definition lower :: "string \<Rightarrow> string" where
  "lower s = map lower_char s"

definition eq_ic :: "string \<Rightarrow> string \<Rightarrow> bool" where
  "eq_ic a b \<longleftrightarrow> lower a = lower b"

lemma code_char_of: "n < 256 \<Longrightarrow> code (char_of n) = n"
  by (simp add: code_def)

lemma is_upper_lower_char [simp]: "\<not> is_upper (lower_char c)"
proof (cases "is_upper c")
  case True
  then have "code (lower_char c) = code c + 32"
    unfolding lower_char_def is_upper_def by (simp add: code_char_of)
  with True show ?thesis by (simp add: is_upper_def)
qed (simp add: lower_char_def)

lemma lower_char_idem [simp]: "lower_char (lower_char c) = lower_char c"
  by (simp add: lower_char_def[of "lower_char c"])

lemma lower_idem [simp, str_simps]: "lower (lower s) = lower s"
  by (simp add: lower_def)

lemma length_lower [simp, str_simps]: "length (lower s) = length s"
  by (simp add: lower_def)

lemma lower_append [str_simps]: "lower (a @ b) = lower a @ lower b"
  by (simp add: lower_def)

lemma lower_Nil [simp]: "lower [] = []"
  by (simp add: lower_def)

lemma lower_eq_Nil [simp]: "lower s = [] \<longleftrightarrow> s = []"
  by (simp add: lower_def)

lemma eq_ic_refl [simp, str_simps]: "eq_ic a a"
  by (simp add: eq_ic_def)

lemma eq_ic_sym: "eq_ic a b \<Longrightarrow> eq_ic b a"
  by (simp add: eq_ic_def)

lemma eq_ic_trans: "eq_ic a b \<Longrightarrow> eq_ic b c \<Longrightarrow> eq_ic a c"
  by (simp add: eq_ic_def)

lemma eq_ic_lower [simp, str_simps]: "eq_ic (lower a) b = eq_ic a b" "eq_ic a (lower b) = eq_ic a b"
  by (simp_all add: eq_ic_def)

subsection \<open>Prefixes, suffixes, substrings\<close>

definition starts_with :: "string \<Rightarrow> string \<Rightarrow> bool" where
  "starts_with p s \<longleftrightarrow> take (length p) s = p"

definition ends_with :: "string \<Rightarrow> string \<Rightarrow> bool" where
  "ends_with p s \<longleftrightarrow> starts_with (rev p) (rev s)"

definition strip_prefix :: "string \<Rightarrow> string \<Rightarrow> string option" where
  "strip_prefix p s = (if starts_with p s then Some (drop (length p) s) else None)"

definition strip_suffix :: "string \<Rightarrow> string \<Rightarrow> string option" where
  "strip_suffix p s = map_option rev (strip_prefix (rev p) (rev s))"

fun contains_str :: "string \<Rightarrow> string \<Rightarrow> bool" where
  "contains_str p [] = (p = [])"
| "contains_str p (c # s) = (starts_with p (c # s) \<or> contains_str p s)"

lemma starts_with_append [simp, str_simps]: "starts_with p (p @ s)"
  by (simp add: starts_with_def)

lemma starts_with_iff: "starts_with p s \<longleftrightarrow> (\<exists>t. s = p @ t)"
  by (metis append_eq_conv_conj append_take_drop_id starts_with_def)

lemma ends_with_iff: "ends_with p s \<longleftrightarrow> (\<exists>t. s = t @ p)"
  unfolding ends_with_def starts_with_iff by (metis rev_append rev_rev_ident)

lemma strip_prefix_iff [str_simps]: "strip_prefix p s = Some t \<longleftrightarrow> s = p @ t"
  by (auto simp: strip_prefix_def starts_with_iff)

lemma strip_prefix_append [simp]: "strip_prefix p (p @ t) = Some t"
  by (simp add: strip_prefix_iff)

lemma strip_suffix_iff [str_simps]: "strip_suffix p s = Some t \<longleftrightarrow> s = t @ p"
  unfolding strip_suffix_def by (auto simp: strip_prefix_iff) (metis rev_append rev_rev_ident)

lemma starts_with_Nil [simp, str_simps]: "starts_with [] s"
  by (simp add: starts_with_def)

lemma starts_with_Cons [simp, str_simps]:
  "starts_with (p # ps) (c # s) \<longleftrightarrow> p = c \<and> starts_with ps s"
  "\<not> starts_with (p # ps) []"
  by (auto simp: starts_with_def)

lemma contains_str_append: "contains_str p (a @ p @ b)"
proof (induction a)
  case Nil
  have "starts_with p (p @ b)" by simp
  then show ?case by (cases "p @ b") auto
qed simp

subsection \<open>Trimming\<close>

text \<open>
  \<open>trim_prefixes ws\<close> drops, again and again, the first of \<open>ws\<close> the string starts with:
  \<open>trim_start_matches\<close> of a set of characters (one-character strings, or the UTF-8 bytes
  of one character) and of one string.
\<close>

function trim_prefixes :: "string list \<Rightarrow> string \<Rightarrow> string" where
  "trim_prefixes ws s = (case find (\<lambda>w. w \<noteq> [] \<and> starts_with w s) ws of
      None \<Rightarrow> s
    | Some w \<Rightarrow> trim_prefixes ws (drop (length w) s))"
  by pat_completeness auto
termination
proof (relation "measure (\<lambda>(ws, s). length s)", goal_cases)
  case (2 ws s w)
  then have "w \<noteq> [] \<and> starts_with w s" by (auto dest: find_SomeD)
  then show ?case by (auto simp: starts_with_iff)
qed simp

declare trim_prefixes.simps [simp del]

definition trim_suffixes :: "string list \<Rightarrow> string \<Rightarrow> string" where
  "trim_suffixes ws s = rev (trim_prefixes (map rev ws) (rev s))"

text \<open>The UTF-8 encodings of the 25 characters with Unicode's \<open>White_Space\<close> property.\<close>

definition white_space :: "string list" where
  "white_space = map (map char_of)
     ([[9], [10], [11], [12], [13], [32], [194, 133], [194, 160], [225, 154, 128],
       [226, 128, 168], [226, 128, 169], [226, 128, 175], [226, 129, 159], [227, 128, 128]]
      @ map (\<lambda>b. [226, 128, b]) [128..<139] :: nat list list)"

text \<open>The same, evaluated once.\<close>

lemma white_space_code [code]:
  "white_space = [[CHR 0x09], [CHR 0x0A], [CHR 0x0B], [CHR 0x0C], [CHR 0x0D], [CHR 0x20], [CHR 0xC2, CHR 0x85],
    [CHR 0xC2, CHR 0xA0], [CHR 0xE1, CHR 0x9A, CHR 0x80], [CHR 0xE2, CHR 0x80, CHR 0xA8],
    [CHR 0xE2, CHR 0x80, CHR 0xA9], [CHR 0xE2, CHR 0x80, CHR 0xAF], [CHR 0xE2, CHR 0x81, CHR 0x9F],
    [CHR 0xE3, CHR 0x80, CHR 0x80], [CHR 0xE2, CHR 0x80, CHR 0x80], [CHR 0xE2, CHR 0x80, CHR 0x81],
    [CHR 0xE2, CHR 0x80, CHR 0x82], [CHR 0xE2, CHR 0x80, CHR 0x83], [CHR 0xE2, CHR 0x80, CHR 0x84],
    [CHR 0xE2, CHR 0x80, CHR 0x85], [CHR 0xE2, CHR 0x80, CHR 0x86], [CHR 0xE2, CHR 0x80, CHR 0x87],
    [CHR 0xE2, CHR 0x80, CHR 0x88], [CHR 0xE2, CHR 0x80, CHR 0x89], [CHR 0xE2, CHR 0x80, CHR 0x8A]]"
  by (simp add: white_space_def upt_rec char_of_def bit_0)

definition trim_start :: "string \<Rightarrow> string" where
  "trim_start s = trim_prefixes white_space s"

definition trim_end :: "string \<Rightarrow> string" where
  "trim_end s = trim_suffixes white_space s"

definition trim :: "string \<Rightarrow> string" where
  "trim s = trim_end (trim_start s)"

definition trim_start_char :: "char \<Rightarrow> string \<Rightarrow> string" where
  "trim_start_char c s = trim_prefixes [[c]] s"

definition trim_end_char :: "char \<Rightarrow> string \<Rightarrow> string" where
  "trim_end_char c s = trim_suffixes [[c]] s"

lemma trim_prefixes_none:
  "\<forall>w \<in> set ws. w = [] \<or> \<not> starts_with w s \<Longrightarrow> trim_prefixes ws s = s"
  by (subst trim_prefixes.simps) (auto split: option.split dest: find_SomeD)

lemma trim_prefixes_result:
  "w \<in> set ws \<Longrightarrow> w \<noteq> [] \<Longrightarrow> \<not> starts_with w (trim_prefixes ws s)"
proof (induction ws s rule: trim_prefixes.induct)
  case (1 ws s)
  show ?case
  proof (cases "find (\<lambda>w. w \<noteq> [] \<and> starts_with w s) ws")
    case None
    then have "trim_prefixes ws s = s" by (subst trim_prefixes.simps) simp
    with None "1.prems" show ?thesis by (auto simp: find_None_iff')
  next
    case (Some v)
    then have "trim_prefixes ws s = trim_prefixes ws (drop (length v) s)"
      by (subst trim_prefixes.simps) simp
    with "1.IH"[OF Some] "1.prems" show ?thesis by simp
  qed
qed

lemma trim_prefixes_suffix: "\<exists>t. s = t @ trim_prefixes ws s"
proof (induction ws s rule: trim_prefixes.induct)
  case (1 ws s)
  show ?case
  proof (cases "find (\<lambda>w. w \<noteq> [] \<and> starts_with w s) ws")
    case None
    then have "trim_prefixes ws s = s" by (subst trim_prefixes.simps) simp
    then show ?thesis by simp
  next
    case (Some v)
    then have eq: "trim_prefixes ws s = trim_prefixes ws (drop (length v) s)"
      by (subst trim_prefixes.simps) simp
    obtain t where "drop (length v) s = t @ trim_prefixes ws s" using "1.IH"[OF Some] eq by auto
    then have "s = (take (length v) s @ t) @ trim_prefixes ws s"
      by (metis append_assoc append_take_drop_id)
    then show ?thesis by blast
  qed
qed

lemma trim_prefixes_idem [simp, str_simps]:
  "trim_prefixes ws (trim_prefixes ws s) = trim_prefixes ws s"
  by (rule trim_prefixes_none) (use trim_prefixes_result in blast)

lemma trim_suffixes_idem [simp, str_simps]:
  "trim_suffixes ws (trim_suffixes ws s) = trim_suffixes ws s"
  by (simp add: trim_suffixes_def)

lemma trim_suffixes_prefix: "\<exists>t. s = trim_suffixes ws s @ t"
proof -
  obtain t where "rev s = t @ trim_prefixes (map rev ws) (rev s)"
    using trim_prefixes_suffix by blast
  then have "s = trim_suffixes ws s @ rev t"
    by (metis trim_suffixes_def rev_append rev_rev_ident)
  then show ?thesis by blast
qed

text \<open>Trimming the end leaves the start trimmed.\<close>

lemma trim_prefixes_of_suffixes:
  "trim_prefixes vs s = s \<Longrightarrow> trim_prefixes vs (trim_suffixes ws s) = trim_suffixes ws s"
proof (rule trim_prefixes_none, intro ballI)
  fix w assume s: "trim_prefixes vs s = s" and w: "w \<in> set vs"
  obtain t where t: "s = trim_suffixes ws s @ t" using trim_suffixes_prefix by blast
  have "w \<noteq> [] \<Longrightarrow> \<not> starts_with w s" using trim_prefixes_result[OF w] s by metis
  then show "w = [] \<or> \<not> starts_with w (trim_suffixes ws s)"
    using t by (metis append_assoc starts_with_iff)
qed

lemma trim_idem [simp, str_simps]: "trim (trim s) = trim s"
  by (simp add: trim_def trim_start_def trim_end_def trim_prefixes_of_suffixes)

lemma set_trim_prefixes: "set (trim_prefixes ws s) \<subseteq> set s"
  using trim_prefixes_suffix[of s ws] by (metis Un_upper2 set_append)

lemma set_trim_suffixes: "set (trim_suffixes ws s) \<subseteq> set s"
  using trim_suffixes_prefix[of s ws] by (metis Un_upper1 set_append)

lemma length_trim_suffixes: "length (trim_suffixes ws s) \<le> length s"
  using trim_suffixes_prefix[of s ws] by (metis length_append le_add1)

lemma length_trim_prefixes: "length (trim_prefixes ws s) \<le> length s"
  using trim_prefixes_suffix[of s ws] by (metis length_append le_add2)

lemma set_trim: "set (trim s) \<subseteq> set s"
  unfolding trim_def trim_start_def trim_end_def
  using set_trim_suffixes set_trim_prefixes by blast

text \<open>A string that starts and ends with a plain ASCII character is already trimmed.\<close>

definition plain_char :: "char \<Rightarrow> bool" where
  "plain_char c \<longleftrightarrow> 33 \<le> code c \<and> code c < 128"

lemma white_space_not_plain:
  "\<forall>w \<in> set white_space. w \<noteq> [] \<and> \<not> plain_char (hd w) \<and> \<not> plain_char (last w)"
  by code_simp

lemma starts_with_hd: "starts_with w s \<Longrightarrow> w \<noteq> [] \<Longrightarrow> s \<noteq> [] \<and> hd s = hd w"
  by (auto simp: starts_with_iff)

lemma trim_start_id: "s = [] \<or> plain_char (hd s) \<Longrightarrow> trim_start s = s"
  unfolding trim_start_def
  by (rule trim_prefixes_none) (use white_space_not_plain starts_with_hd in fastforce)

lemma trim_end_id: "s = [] \<or> plain_char (last s) \<Longrightarrow> trim_end s = s"
  unfolding trim_end_def trim_suffixes_def
proof -
  assume s: "s = [] \<or> plain_char (last s)"
  have "trim_prefixes (map rev white_space) (rev s) = rev s"
  proof (rule trim_prefixes_none, intro ballI)
    fix v assume "v \<in> set (map rev white_space)"
    then obtain w where w: "w \<in> set white_space" "v = rev w" by auto
    show "v = [] \<or> \<not> starts_with v (rev s)"
      using starts_with_hd[of v "rev s"] white_space_not_plain w s by (auto simp: hd_rev)
  qed
  then show "rev (trim_prefixes (map rev white_space) (rev s)) = s" by simp
qed

lemma trim_id: "s = [] \<or> (plain_char (hd s) \<and> plain_char (last s)) \<Longrightarrow> trim s = s"
  unfolding trim_def using trim_start_id trim_end_id by metis

lemma trim_char_id:
  "s = [] \<or> hd s \<noteq> c \<Longrightarrow> trim_start_char c s = s" "s = [] \<or> last s \<noteq> c \<Longrightarrow> trim_end_char c s = s"
  unfolding trim_start_char_def trim_end_char_def trim_suffixes_def
  by (cases s; auto intro!: trim_prefixes_none)
     (cases s rule: rev_cases; auto simp: trim_prefixes_none)

subsection \<open>Splitting\<close>

text \<open>\<open>split(c)\<close>: one piece more than there are separators.\<close>

fun split_on :: "char \<Rightarrow> string \<Rightarrow> string list" where
  "split_on c [] = [[]]"
| "split_on c (x # xs) = (if x = c then [] # split_on c xs
     else (case split_on c xs of [] \<Rightarrow> [[x]] | y # ys \<Rightarrow> (x # y) # ys))"

text \<open>\<open>split_once\<close> at the first, \<open>rsplit_once\<close> at the last occurrence.\<close>

fun split_once :: "string \<Rightarrow> string \<Rightarrow> (string \<times> string) option" where
  "split_once sep [] = (if sep = [] then Some ([], []) else None)"
| "split_once sep (c # s) = (if starts_with sep (c # s) then Some ([], drop (length sep) (c # s))
     else map_option (\<lambda>(a, b). (c # a, b)) (split_once sep s))"

definition rsplit_once :: "string \<Rightarrow> string \<Rightarrow> (string \<times> string) option" where
  "rsplit_once sep s = map_option (\<lambda>(a, b). (rev b, rev a)) (split_once (rev sep) (rev s))"

text \<open>The text before the first of some characters (\<open>split([\<dots>]).next()\<close>).\<close>

definition before_any :: "char list \<Rightarrow> string \<Rightarrow> string" where
  "before_any cs s = takeWhile (\<lambda>c. c \<notin> set cs) s"

fun join :: "string \<Rightarrow> string list \<Rightarrow> string" where
  "join sep [] = []"
| "join sep [x] = x"
| "join sep (x # y # zs) = x @ sep @ join sep (y # zs)"

lemma split_on_not_Nil [simp]: "split_on c s \<noteq> []"
  by (cases s) (auto split: list.split)

lemma split_on_no_sep: "c \<notin> set s \<Longrightarrow> split_on c s = [s]"
  by (induction s) auto

lemma split_on_append: "c \<notin> set a \<Longrightarrow> split_on c (a @ c # b) = a # split_on c b"
  by (induction a) auto

lemma split_on_pieces: "p \<in> set (split_on c s) \<Longrightarrow> c \<notin> set p"
proof (induction s arbitrary: p)
  case (Cons x s)
  then show ?case by (cases "split_on c s") (auto split: if_splits)
qed simp

lemma split_on_join: "xs \<noteq> [] \<Longrightarrow> \<forall>x \<in> set xs. c \<notin> set x \<Longrightarrow> split_on c (join [c] xs) = xs"
  by (induction "[c]" xs rule: join.induct) (auto simp: split_on_no_sep split_on_append)

lemma join_split_on: "join [c] (split_on c s) = s"
proof (induction s)
  case (Cons x s)
  obtain y ys where "split_on c s = y # ys" by (cases "split_on c s") auto
  with Cons show ?case by (cases ys) auto
qed simp

lemma split_once_char_None: "split_once [c] s = None \<longleftrightarrow> c \<notin> set s"
  by (induction s) auto

lemma split_once_char_append: "c \<notin> set a \<Longrightarrow> split_once [c] (a @ c # b) = Some (a, b)"
  by (induction a) auto

lemma split_once_SomeD: "split_once sep s = Some (a, b) \<Longrightarrow> s = a @ sep @ b"
proof (induction s arbitrary: a b)
  case (Cons c s)
  then show ?case
    by (auto split: if_splits simp: starts_with_iff)
qed (auto split: if_splits)

lemma split_once_char_SomeD: "split_once [c] s = Some (a, b) \<Longrightarrow> s = a @ c # b \<and> c \<notin> set a"
  by (induction s arbitrary: a b) (auto split: if_splits)

text \<open>\<open>split_whitespace\<close>: the pieces between white space that are not empty.\<close>

function split_space :: "string \<Rightarrow> string list" where
  "split_space [] = [[]]"
| "split_space (c # s) = (case find (\<lambda>w. w \<noteq> [] \<and> starts_with w (c # s)) white_space of
      Some w \<Rightarrow> [] # split_space (drop (length w) (c # s))
    | None \<Rightarrow> (case split_space s of [] \<Rightarrow> [[c]] | p # ps \<Rightarrow> (c # p) # ps))"
  by pat_completeness auto
termination
proof (relation "measure length", goal_cases)
  case (3 c s w)
  then have "w \<noteq> []" by (auto dest: find_SomeD)
  then show ?case by (cases w) auto
qed auto

definition split_whitespace :: "string \<Rightarrow> string list" where
  "split_whitespace s = filter (\<lambda>p. p \<noteq> []) (split_space s)"

text \<open>A \<open>BTreeSet\<close> collected from a list.\<close>

definition btree_set :: "'a::linorder list \<Rightarrow> 'a list" where
  "btree_set xs = dedup (sort xs)"

subsection \<open>Characters of UTF-8 text\<close>

text \<open>\<open>chars().count()\<close>: bytes that are not continuation bytes.\<close>

definition chars_count :: "string \<Rightarrow> nat" where
  "chars_count s = length (filter (\<lambda>c. \<not> (128 \<le> code c \<and> code c < 192)) s)"

text \<open>\<open>chars().any(char::is_control)\<close>: U+0000 to U+001F, U+007F, and U+0080 to U+009F
  (the bytes C2 80 to C2 9F). \<open>allowed\<close> lists ASCII controls the caller lets through.\<close>

fun has_control_except :: "char list \<Rightarrow> string \<Rightarrow> bool" where
  "has_control_except ok [] = False"
| "has_control_except ok [c] = ((code c < 32 \<or> code c = 127) \<and> c \<notin> set ok)"
| "has_control_except ok (c # d # s) =
     (((code c < 32 \<or> code c = 127) \<and> c \<notin> set ok)
      \<or> (code c = 194 \<and> 128 \<le> code d \<and> code d < 160)
      \<or> has_control_except ok (d # s))"

definition has_control :: "string \<Rightarrow> bool" where
  "has_control s = has_control_except [] s"

subsection \<open>Numbers\<close>

text \<open>\<open>str::parse\<close> of an unsigned integer below \<open>max + 1\<close>: an optional \<open>+\<close> and one or
  more digits.\<close>

definition digits_value :: "string \<Rightarrow> nat" where
  "digits_value s = foldl (\<lambda>n c. 10 * n + (code c - 48)) 0 s"

definition parse_uint :: "nat \<Rightarrow> string \<Rightarrow> nat option" where
  "parse_uint limit s =
     (let d = (case s of c # r \<Rightarrow> if c = CHR ''+'' \<and> r \<noteq> [] then r else s | [] \<Rightarrow> [])
      in if d \<noteq> [] \<and> list_all is_digit d \<and> digits_value d \<le> limit
         then Some (digits_value d) else None)"

text \<open>\<open>str::parse\<close> of a signed integer between \<open>- limit - 1\<close> and \<open>limit\<close>.\<close>

definition parse_int :: "nat \<Rightarrow> string \<Rightarrow> int option" where
  "parse_int limit s =
     (case s of
        c # r \<Rightarrow> if c = CHR ''-''
                then (if r \<noteq> [] \<and> list_all is_digit r \<and> digits_value r \<le> limit + 1
                      then Some (- int (digits_value r)) else None)
                else map_option int (parse_uint limit s)
      | [] \<Rightarrow> None)"

definition U16_MAX :: nat where "U16_MAX = 65535"
definition U32_MAX :: nat where "U32_MAX = 4294967295"
definition U64_MAX :: nat where "U64_MAX = 18446744073709551615"
definition I64_MAX :: nat where "I64_MAX = 9223372036854775807"

text \<open>Decimal display, and with leading zeros to a width (\<open>{:04}\<close>).\<close>

fun show_nat :: "nat \<Rightarrow> string" where
  "show_nat n = (if n < 10 then [char_of (48 + n)]
     else show_nat (n div 10) @ [char_of (48 + n mod 10)])"

declare show_nat.simps [simp del]

definition show_pad :: "nat \<Rightarrow> nat \<Rightarrow> string" where
  "show_pad w n = replicate (w - length (show_nat n)) (CHR ''0'') @ show_nat n"

lemma is_digit_char_of: "(d::nat) < 10 \<Longrightarrow> is_digit (char_of (48 + d))"
  by (simp add: is_digit_def code_char_of)

lemma list_all_show_nat: "list_all is_digit (show_nat n)"
proof (induction n rule: show_nat.induct)
  case (1 n)
  show ?case
    by (subst show_nat.simps) (use 1 in \<open>simp add: is_digit_char_of\<close>)
qed

lemma show_nat_not_Nil [simp]: "show_nat n \<noteq> []"
  by (subst show_nat.simps) simp

lemma length_show_nat: "n < 10 ^ k \<Longrightarrow> 0 < k \<Longrightarrow> length (show_nat n) \<le> k"
proof (induction k arbitrary: n)
  case (Suc k)
  show ?case
  proof (cases "n < 10")
    case True
    then show ?thesis by (subst show_nat.simps) simp
  next
    case False
    then have "0 < k" using Suc.prems(1) by (cases k) auto
    moreover have "n div 10 < 10 ^ k" using Suc.prems(1) by (simp add: less_mult_imp_div_less)
    ultimately have "length (show_nat (n div 10)) \<le> k" using Suc.IH by simp
    with False show ?thesis by (subst show_nat.simps) simp
  qed
qed simp

lemma length_show_pad: "n < 10 ^ k \<Longrightarrow> 0 < k \<Longrightarrow> length (show_pad k n) = k"
  using length_show_nat[of n k] by (simp add: show_pad_def)

lemma digits_value_snoc: "digits_value (s @ [c]) = 10 * digits_value s + (code c - 48)"
  by (simp add: digits_value_def)

lemma digits_value_Nil [simp]: "digits_value [] = 0"
  by (simp add: digits_value_def)

lemma digits_value_show_nat: "digits_value (show_nat n) = n"
proof (induction n rule: show_nat.induct)
  case (1 n)
  show ?case
  proof (cases "n < 10")
    case True
    then show ?thesis
      by (subst show_nat.simps) (simp add: digits_value_def code_char_of)
  next
    case False
    then have "digits_value (show_nat n) = 10 * digits_value (show_nat (n div 10)) + n mod 10"
      by (subst show_nat.simps) (simp add: digits_value_snoc code_char_of)
    with "1.IH"[OF False] show ?thesis by simp
  qed
qed

lemma foldl_zeros: "foldl (\<lambda>n c. 10 * n + (code c - 48)) 0 (replicate k (CHR ''0'') @ s) =
    foldl (\<lambda>n c. 10 * n + (code c - 48)) 0 s"
  by (induction k) (simp_all add: code_def)

lemma digits_value_show_pad: "digits_value (show_pad w n) = n"
  using digits_value_show_nat[of n]
  unfolding show_pad_def digits_value_def foldl_zeros by simp

lemma list_all_show_pad: "list_all is_digit (show_pad w n)"
  by (simp add: show_pad_def list_all_show_nat list_all_iff is_digit_def code_def)
     (use list_all_show_nat in \<open>auto simp: list_all_iff is_digit_def code_def\<close>)

lemma show_pad_not_Nil [simp]: "show_pad w n \<noteq> []"
  by (simp add: show_pad_def)

lemma digit_not_plus: "is_digit c \<Longrightarrow> c \<noteq> CHR ''+'' \<and> c \<noteq> CHR ''-''"
  by (auto simp: is_digit_def code_def)

lemma parse_uint_digits:
  assumes "s \<noteq> []" and "list_all is_digit s" and "digits_value s \<le> limit"
  shows "parse_uint limit s = Some (digits_value s)"
proof -
  obtain c r where s: "s = c # r" using assms(1) by (cases s) auto
  then have "c \<noteq> CHR ''+''" using assms(2) digit_not_plus by auto
  with assms s show ?thesis by (simp add: parse_uint_def Let_def)
qed

lemma parse_uint_bound: "parse_uint limit s = Some n \<Longrightarrow> n \<le> limit"
  by (auto simp: parse_uint_def Let_def split: list.splits if_splits)

lemma parse_uint_show: "n \<le> limit \<Longrightarrow> parse_uint limit (show_nat n) = Some n"
  using parse_uint_digits[OF show_nat_not_Nil list_all_show_nat] digits_value_show_nat by simp

lemma parse_uint_pad: "n \<le> limit \<Longrightarrow> parse_uint limit (show_pad w n) = Some n"
  using parse_uint_digits[OF show_pad_not_Nil list_all_show_pad] digits_value_show_pad by simp

lemma parse_int_pad: "n \<le> limit \<Longrightarrow> parse_int limit (show_pad w n) = Some (int n)"
proof -
  assume n: "n \<le> limit"
  obtain c r where s: "show_pad w n = c # r" by (cases "show_pad w n") auto
  then have "c \<noteq> CHR ''-''"
    using list_all_show_pad[of w n] digit_not_plus by (metis list.pred_inject(2))
  with s parse_uint_pad[OF n, of w] show ?thesis by (simp add: parse_int_def)
qed

end
