(* ===== verification/Externals.thy ===== *)
theory Externals
  imports Rust_Str
begin

text \<open>
  Code the modelled program calls and that is not part of the repository, gathered in one
  record of functions. Every definition that reaches such code takes the record as its first
  argument \<open>X\<close>, so the properties hold for whatever these functions do; where the program
  relies on documented behaviour of one of them, the property says so in a hypothesis.
\<close>

subsection \<open>Addresses\<close>

text \<open>\<open>std::net::IpAddr\<close> and the \<open>ipnet\<close> crate's \<open>IpNet\<close> (an address and a prefix length).\<close>

datatype ip_addr = V4 "32 word" | V6 "128 word"

datatype ip_net = Net4 "32 word" nat | Net6 "128 word" nat

fun net_addr :: "ip_net \<Rightarrow> ip_addr" where
  "net_addr (Net4 a _) = V4 a"
| "net_addr (Net6 a _) = V6 a"

fun net_prefix_len :: "ip_net \<Rightarrow> nat" where
  "net_prefix_len (Net4 _ n) = n"
| "net_prefix_len (Net6 _ n) = n"

text \<open>\<open>IpNet::from(IpAddr)\<close>: a single host.\<close>

fun net_of_addr :: "ip_addr \<Rightarrow> ip_net" where
  "net_of_addr (V4 a) = Net4 a 32"
| "net_of_addr (V6 a) = Net6 a 128"

subsection \<open>The crates\<close>

record externals =
  \<comment> \<open>\<open>idna::domain_to_ascii\<close>\<close>
  idna_to_ascii :: "string \<Rightarrow> string option"
  \<comment> \<open>\<open>regex::Regex::new\<close>: the error's text, or success\<close>
  regex_new :: "string \<Rightarrow> string + unit"
  \<comment> \<open>\<open>ipnet\<close>: \<open>IpNet::from_str\<close>, \<open>trunc\<close>, \<open>contains\<close> and \<open>Display\<close>\<close>
  ipnet_from_str :: "string \<Rightarrow> ip_net option"
  ipnet_trunc :: "ip_net \<Rightarrow> ip_net"
  ipnet_contains :: "ip_net \<Rightarrow> ip_net \<Rightarrow> bool"
  ipnet_show :: "ip_net \<Rightarrow> string"
  \<comment> \<open>\<open>sha2::Sha256::digest\<close>\<close>
  sha256 :: "string \<Rightarrow> string"

end
