(* ===== verification/Domain.thy ===== *)
theory Domain
  imports Externals
begin

text \<open>
  The validated values of \<open>crates/core/src/domain/\<close>: hostnames, path rules, HTTP origins,
  route origins, private hostnames and private ranges. A newtype over \<open>String\<close> is the
  string it wraps; \<open>*_parse\<close> is the type's \<open>parse\<close>.
\<close>

subsection \<open>IP addresses of the standard library\<close>

text \<open>\<open>char::to_digit\<close>.\<close>

definition to_digit :: "nat \<Rightarrow> char \<Rightarrow> nat option" where
  "to_digit radix c =
     (let v = (if is_digit c then code c - 48
               else if is_lower c then code c - 97 + 10
               else if is_upper c then code c - 65 + 10 else radix)
      in if v < radix then Some v else None)"

text \<open>\<open>read_number(radix, max_digits, allow_zero_prefix)\<close> of the address parser: the value and
  the rest of the input.\<close>

definition read_number :: "nat \<Rightarrow> nat \<Rightarrow> bool \<Rightarrow> nat \<Rightarrow> string \<Rightarrow> (nat \<times> string) option" where
  "read_number radix max_digits zero_prefix limit s =
     (let ds = takeWhile (\<lambda>c. to_digit radix c \<noteq> None) s;
          v = foldl (\<lambda>n c. radix * n + the (to_digit radix c)) 0 ds
      in if ds = [] \<or> length ds > max_digits
            \<or> (\<not> zero_prefix \<and> hd ds = CHR ''0'' \<and> length ds > 1) \<or> v > limit
         then None else Some (v, drop (length ds) s))"

definition read_char :: "char \<Rightarrow> string \<Rightarrow> string option" where
  "read_char c s = strip_prefix [c] s"

text \<open>\<open>read_ipv4_addr\<close>: four octets.\<close>

fun read_octets :: "nat \<Rightarrow> string \<Rightarrow> (nat list \<times> string) option" where
  "read_octets 0 s = Some ([], s)"
| "read_octets (Suc n) s =
     Option.bind (read_number 10 3 False 255 s) (\<lambda>(v, r).
     Option.bind (if n = 0 then Some r else read_char (CHR ''.'') r) (\<lambda>r.
     map_option (\<lambda>(vs, r). (v # vs, r)) (read_octets n r)))"

definition be_value :: "nat \<Rightarrow> nat list \<Rightarrow> nat" where
  "be_value base vs = foldl (\<lambda>n v. base * n + v) 0 vs"

definition read_ipv4 :: "string \<Rightarrow> (nat list \<times> string) option" where
  "read_ipv4 s = read_octets 4 s"

text \<open>\<open>read_groups\<close>: up to \<open>limit\<close> 16-bit groups, the last two of them perhaps as an IPv4
  address; the groups, whether they end in one, and the rest. \<open>first\<close> is \<open>i = 0\<close>.\<close>

fun read_groups :: "bool \<Rightarrow> nat \<Rightarrow> string \<Rightarrow> nat list \<times> bool \<times> string" where
  "read_groups first 0 s = ([], False, s)"
| "read_groups first (Suc n) s =
     (let after_sep = (if first then Some s else read_char (CHR '':'') s)
      in case (if n \<ge> 1 then Option.bind after_sep read_ipv4 else None) of
           Some ([a, b, c, d], r) \<Rightarrow> ([256 * a + b, 256 * c + d], True, r)
         | _ \<Rightarrow> (case Option.bind after_sep (read_number 16 4 True 65535) of
                    None \<Rightarrow> ([], False, s)
                  | Some (g, r) \<Rightarrow> (let (gs, v4, rest) = read_groups False n r in (g # gs, v4, rest))))"

definition read_ipv6 :: "string \<Rightarrow> (nat list \<times> string) option" where
  "read_ipv6 s =
     (let (head, v4, r) = read_groups True 8 s
      in if length head = 8 then Some (head, r)
         else if v4 then None
         else Option.bind (Option.bind (read_char (CHR '':'') r) (read_char (CHR '':''))) (\<lambda>r.
           let (tail, _, rest) = read_groups True (8 - (length head + 1)) r
           in Some (head @ replicate (8 - length head - length tail) 0 @ tail, rest)))"

text \<open>\<open>Ipv6Addr::from_str\<close> and \<open>IpAddr::from_str\<close>: the whole input.\<close>

definition ipv6_parse :: "string \<Rightarrow> (128 word) option" where
  "ipv6_parse s = (case read_ipv6 s of
      Some (gs, []) \<Rightarrow> Some (of_nat (be_value 65536 gs)) | _ \<Rightarrow> None)"

definition ip_parse :: "string \<Rightarrow> ip_addr option" where
  "ip_parse s = (case read_ipv4 s of
      Some (os, r) \<Rightarrow> if r = [] then Some (V4 (of_nat (be_value 256 os))) else None
    | None \<Rightarrow> map_option V6 (ipv6_parse s))"

subsection \<open>Hostnames (\<open>domain/hostname.rs\<close>)\<close>

datatype hostname_error = HostEmpty | HostInvalid | HostNoDomain | HostBadWildcard | HostTooLong

type_synonym hostname = string

definition valid_label :: "string \<Rightarrow> bool" where
  "valid_label l \<longleftrightarrow> l \<noteq> [] \<and> length l \<le> 63
     \<and> list_all (\<lambda>b. is_lower b \<or> is_digit b \<or> b = CHR ''-'') l
     \<and> \<not> starts_with ''-'' l \<and> \<not> ends_with ''-'' l"

definition hostname_parse :: "externals \<Rightarrow> string \<Rightarrow> hostname_error + hostname" where
  "hostname_parse X input =
     (let trimmed = trim_end_char (CHR ''.'') (trim input);
          (wildcard, rest) = (case strip_prefix ''*.'' trimmed of
             Some rest \<Rightarrow> (True, rest) | None \<Rightarrow> (False, trimmed))
      in ebind (fail_if (trimmed = []) HostEmpty) (\<lambda>_.
         ebind (fail_if (CHR ''*'' \<in> set rest) HostBadWildcard) (\<lambda>_.
         ebind (ok_or HostInvalid (idna_to_ascii X rest)) (\<lambda>ascii.
         let labels = split_on (CHR ''.'') ascii; full = (if wildcard then ''*.'' @ ascii else ascii)
         in ebind (fail_if (length labels < 2) HostNoDomain) (\<lambda>_.
            ebind (fail_if (\<not> list_all valid_label labels) HostInvalid) (\<lambda>_.
            ebind (fail_if (length full > 253) HostTooLong) (\<lambda>_. Inr full)))))))"

definition is_wildcard :: "hostname \<Rightarrow> bool" where
  "is_wildcard h = starts_with ''*.'' h"

definition is_in_zone :: "hostname \<Rightarrow> string \<Rightarrow> bool" where
  "is_in_zone h zone =
     (let name = trim_prefixes [''*.''] h in name = zone \<or> ends_with (''.'' @ zone) name)"

text \<open>\<open>zone_in\<close>, with the name of a zone as \<open>nm\<close> (\<open>AsRef<str>\<close>).\<close>

definition zone_in :: "('z \<Rightarrow> string) \<Rightarrow> hostname \<Rightarrow> 'z list \<Rightarrow> 'z option" where
  "zone_in nm h zones = max_by_key (\<lambda>z. length (nm z)) (filter (\<lambda>z. is_in_zone h (nm z)) zones)"

subsection \<open>Path rules (\<open>domain/path_rule.rs\<close>)\<close>

datatype path_error = PathInvalid string | PathUnsupported

definition path_parse :: "externals \<Rightarrow> string \<Rightarrow> path_error + string" where
  "path_parse X input =
     (let pattern = trim input
      in if list_ex (\<lambda>s. contains_str s pattern) [''(?='', ''(?!'', ''(?<='', ''(?<!'']
            \<or> contains_str [char_of (92::nat), CHR ''1''] pattern
         then Inl PathUnsupported
         else ebind (map_err PathInvalid (regex_new X pattern)) (\<lambda>_. Inr pattern))"

subsection \<open>HTTP origins (\<open>domain/origin.rs\<close>)\<close>

datatype origin_error = OriginEmpty | OriginInvalidPort | OriginUnsupportedScheme | OriginInvalidHost

text \<open>\<open>parse::<u16>().ok().filter(|p| *p > 0)\<close>.\<close>

definition parse_port :: "string \<Rightarrow> nat option" where
  "parse_port p = (case parse_uint U16_MAX p of Some n \<Rightarrow> if n > 0 then Some n else None | None \<Rightarrow> None)"

definition split_host_port :: "string \<Rightarrow> origin_error + (string \<times> nat option)" where
  "split_host_port authority =
     (let port = (\<lambda>p. ok_or OriginInvalidPort (parse_port p))
      in if list_all is_digit authority \<and> authority \<noteq> []
         then ebind (port authority) (\<lambda>p. Inr ([], Some p))
         else case strip_prefix ''['' authority of
           Some rest \<Rightarrow>
             ebind (ok_or OriginInvalidHost (split_once '']'' rest)) (\<lambda>(host, after).
             ebind (case strip_prefix '':'' after of
                Some p \<Rightarrow> ebind (port p) (\<lambda>p. Inr (Some p))
              | None \<Rightarrow> if after = [] then Inr None else Inl OriginInvalidHost) (\<lambda>p.
             Inr (''['' @ host @ '']'', p)))
         | None \<Rightarrow> (case rsplit_once '':'' authority of
             Some (host, p) \<Rightarrow> ebind (port p) (\<lambda>p. Inr (lower host, Some p))
           | None \<Rightarrow> Inr (lower authority, None)))"

definition validate_host :: "string \<Rightarrow> origin_error + unit" where
  "validate_host host =
     (case Option.bind (strip_prefix ''['' host) (strip_suffix '']'') of
        Some v6 \<Rightarrow> ebind (ok_or OriginInvalidHost (ip_parse v6)) (\<lambda>_. Inr ())
      | None \<Rightarrow> fail_if (\<not> (length host \<le> 253 \<and> list_all (\<lambda>l. l \<noteq> [] \<and> length l \<le> 63
           \<and> list_all (\<lambda>c. is_alnum c \<or> c = CHR ''-'') l
           \<and> \<not> starts_with ''-'' l \<and> \<not> ends_with ''-'' l) (split_on (CHR ''.'') host)))
           OriginInvalidHost)"

definition origin_parse :: "string \<Rightarrow> origin_error + string" where
  "origin_parse text =
     (let input = trim text;
          (scheme, rest) = (case split_once ''://'' input of
             Some (s, r) \<Rightarrow> (lower s, r) | None \<Rightarrow> (''http'', input));
          authority = before_any [CHR ''/'', CHR ''?'', CHR ''#''] rest;
          authority = (case rsplit_once ''@'' authority of Some (_, r) \<Rightarrow> r | None \<Rightarrow> authority)
      in ebind (fail_if (input = []) OriginEmpty) (\<lambda>_.
         ebind (fail_if (scheme \<noteq> ''http'' \<and> scheme \<noteq> ''https'') OriginUnsupportedScheme) (\<lambda>_.
         ebind (split_host_port authority) (\<lambda>(host, port).
         let host = (if host = [] then ''localhost'' else host)
         in ebind (validate_host host) (\<lambda>_.
            ebind (case port of
               Some p \<Rightarrow> Inr p
             | None \<Rightarrow> if list_all is_digit input then Inl OriginInvalidPort
                       else Inr (if scheme = ''https'' then 443 else 80)) (\<lambda>port.
            Inr (scheme @ ''://'' @ host @ '':'' @ show_nat port)))))))"

definition origin_port :: "string \<Rightarrow> nat" where
  "origin_port origin =
     (case parse_uint U16_MAX (last (split_on (CHR '':'') origin)) of Some n \<Rightarrow> n | None \<Rightarrow> 0)"

subsection \<open>Route origins (\<open>domain/route_origin.rs\<close>)\<close>

datatype route_origin_error = RouteOriginEmpty | RouteOriginScheme | RouteOriginAddress | RouteOriginStatus

definition SCHEMES :: "string list" where
  "SCHEMES = [''http'', ''https'', ''tcp'', ''ssh'', ''rdp'', ''smb'']"

definition has_white_space :: "string \<Rightarrow> bool" where
  "has_white_space s = list_ex (\<lambda>w. contains_str w s) white_space"

text \<open>The host and the port text of an authority, and whether the host is a bracketed IPv6
  address.\<close>

definition route_authority :: "string \<Rightarrow> route_origin_error + (string \<times> string option \<times> bool)" where
  "route_authority authority =
     (if list_all is_digit authority then Inr (''localhost'', Some authority, False)
      else case strip_prefix '':'' authority of
        Some port \<Rightarrow> Inr (''localhost'', Some port, False)
      | None \<Rightarrow> (case strip_prefix ''['' authority of
          Some bracketed \<Rightarrow>
            ebind (ok_or RouteOriginAddress (split_once '']'' bracketed)) (\<lambda>(host, after).
              if ipv6_parse host = None then Inl RouteOriginAddress
              else Inr (host, strip_prefix '':'' after, True))
        | None \<Rightarrow> (case rsplit_once '':'' authority of
            Some (host, port) \<Rightarrow> Inr (host, Some port, False)
          | None \<Rightarrow> Inr (authority, None, False))))"

definition route_url :: "string \<Rightarrow> route_origin_error + string" where
  "route_url input =
     (let (scheme, rest) = (case split_once ''://'' input of
             Some (s, r) \<Rightarrow> (lower s, r) | None \<Rightarrow> (''http'', input))
      in ebind (fail_if (scheme \<notin> set SCHEMES) RouteOriginScheme) (\<lambda>_.
         ebind (route_authority (before_any [CHR ''/'', CHR ''?'', CHR ''#''] rest)) (\<lambda>(host, port, ipv6).
         let host_ok = (ipv6 \<or> (host \<noteq> [] \<and> list_all (\<lambda>b. is_alnum b \<or> b \<in> {CHR ''-'', CHR ''.''}) host))
         in ebind (case port of
               Some p \<Rightarrow> ebind (ok_or RouteOriginAddress (parse_port p)) (\<lambda>n. Inr (Some n))
             | None \<Rightarrow> Inr None) (\<lambda>port.
            ebind (fail_if (\<not> host_ok \<or> (port = None \<and> scheme \<notin> {''http'', ''https''}))
               RouteOriginAddress) (\<lambda>_.
            let host = (if ipv6 then ''['' @ host @ '']'' else lower host)
            in Inr (case port of
                 Some port \<Rightarrow> scheme @ ''://'' @ host @ '':'' @ show_nat port
               | None \<Rightarrow> scheme @ ''://'' @ host))))))"

definition route_origin_parse :: "string \<Rightarrow> route_origin_error + string" where
  "route_origin_parse text =
     (let input = trim text;
          socket = (\<lambda>path. if starts_with ''/'' path \<and> \<not> has_white_space path
                           then Inr input else Inl RouteOriginAddress)
      in if input = [] then Inl RouteOriginEmpty
         else if input = ''hello_world'' then Inr input
         else case strip_prefix ''http_status:'' input of
           Some c \<Rightarrow> ebind (ok_or RouteOriginStatus (parse_uint U16_MAX c)) (\<lambda>n.
             if 100 \<le> n \<and> n < 600 then Inr (''http_status:'' @ show_nat n) else Inl RouteOriginStatus)
         | None \<Rightarrow> (case strip_prefix ''unix+tls:'' input of
             Some path \<Rightarrow> socket path
           | None \<Rightarrow> (case strip_prefix ''unix:'' input of
               Some path \<Rightarrow> socket path
             | None \<Rightarrow> route_url input)))"

definition route_origin_port :: "string \<Rightarrow> nat option" where
  "route_origin_port s =
     Option.bind (split_once ''://'' s) (\<lambda>(_, rest).
     Option.bind (rsplit_once '':'' rest) (\<lambda>(_, p). parse_uint U16_MAX p))"

definition is_web :: "string \<Rightarrow> bool" where
  "is_web s = (\<not> list_ex (\<lambda>p. starts_with p s) [''tcp://'', ''ssh://'', ''rdp://'', ''smb://''])"

definition is_local :: "string \<Rightarrow> bool" where
  "is_local s = (case split_once ''://'' s of
      None \<Rightarrow> starts_with ''unix'' s \<or> s = ''hello_world''
    | Some (_, rest) \<Rightarrow>
        (let host = (case rsplit_once '':'' rest of None \<Rightarrow> rest | Some (h, _) \<Rightarrow> h)
         in host \<in> {''localhost'', ''127.0.0.1'', ''[::1]'', ''0.0.0.0''}))"

subsection \<open>Private ranges (\<open>domain/private_network.rs\<close>)\<close>

datatype private_network_error = NetInvalid | NetTooBroad string | NetUnroutable string

text \<open>\<open>Ipv4Addr::is_loopback\<close>, \<open>is_link_local\<close>, \<open>is_multicast\<close>, \<open>is_unspecified\<close>,
  \<open>is_broadcast\<close>, and their IPv6 forms; an octet or a segment is read by shifting.\<close>

definition octet :: "nat \<Rightarrow> 32 word \<Rightarrow> nat" where
  "octet i a = unat (drop_bit (8 * (3 - i)) a) mod 256"

definition segment0 :: "128 word \<Rightarrow> 16 word" where
  "segment0 a = ucast (drop_bit 112 a)"

unbundle bit_operations_syntax

fun unroutable :: "ip_addr \<Rightarrow> bool" where
  "unroutable (V4 a) = (octet 0 a = 127 \<or> (octet 0 a = 169 \<and> octet 1 a = 254)
     \<or> (224 \<le> octet 0 a \<and> octet 0 a \<le> 239) \<or> a = 0 \<or> a = 0xffffffff)"
| "unroutable (V6 a) = (a = 1 \<or> segment0 a AND 0xff00 = 0xff00 \<or> a = 0
     \<or> segment0 a AND 0xffc0 = 0xfe80)"

fun too_broad :: "ip_net \<Rightarrow> bool" where
  "too_broad (Net4 _ len) = (len < 8)"
| "too_broad (Net6 _ len) = (len < 16)"

definition network_parse :: "externals \<Rightarrow> string \<Rightarrow> private_network_error + ip_net" where
  "network_parse X text =
     (let input = trim text
      in ebind (ok_or NetInvalid (case ipnet_from_str X input of
             Some n \<Rightarrow> Some n | None \<Rightarrow> map_option net_of_addr (ip_parse input))) (\<lambda>parsed.
         let net = ipnet_trunc X parsed
         in ebind (fail_if (too_broad net) (NetTooBroad (ipnet_show X net))) (\<lambda>_.
            ebind (fail_if (unroutable (net_addr net)) (NetUnroutable (ipnet_show X net))) (\<lambda>_.
            Inr net))))"

definition ipv4 :: "nat \<Rightarrow> nat \<Rightarrow> nat \<Rightarrow> nat \<Rightarrow> 32 word" where
  "ipv4 a b c d = of_nat (be_value 256 [a, b, c, d])"

fun is_private :: "externals \<Rightarrow> ip_net \<Rightarrow> bool" where
  "is_private X (Net4 a n) =
     (ipnet_contains X (Net4 (ipv4 10 0 0 0) 8) (Net4 a n)
      \<or> ipnet_contains X (Net4 (ipv4 172 16 0 0) 12) (Net4 a n)
      \<or> ipnet_contains X (Net4 (ipv4 192 168 0 0) 16) (Net4 a n)
      \<or> ipnet_contains X (Net4 (ipv4 100 64 0 0) 10) (Net4 a n))"
| "is_private X (Net6 a n) =
     ipnet_contains X (Net6 (of_nat (be_value 65536 [0xfc00, 0, 0, 0, 0, 0, 0, 0])) 7) (Net6 a n)"

definition overlaps :: "externals \<Rightarrow> ip_net \<Rightarrow> ip_net \<Rightarrow> bool" where
  "overlaps X a b \<longleftrightarrow> ipnet_contains X a b \<or> ipnet_contains X b a"

subsection \<open>Private hostnames (\<open>domain/private_hostname.rs\<close>)\<close>

datatype private_hostname_error = PrivInvalid | PrivWildcard | PrivLocalhost string

definition private_hostname_parse :: "externals \<Rightarrow> string \<Rightarrow> private_hostname_error + hostname" where
  "private_hostname_parse X input =
     ebind (fail_if (CHR ''*'' \<in> set input) PrivWildcard) (\<lambda>_.
     ebind (map_err (\<lambda>_. PrivInvalid) (hostname_parse X input)) (\<lambda>h.
     ebind (fail_if (is_in_zone h ''localhost'') (PrivLocalhost h)) (\<lambda>_. Inr h)))"

definition private_hostname_matches :: "hostname \<Rightarrow> string \<Rightarrow> bool" where
  "private_hostname_matches h stored = eq_ic (trim_end_char (CHR ''.'') stored) h"

datatype private_target = TargetNetwork ip_net | TargetHostname hostname

datatype private_target_error =
  TargetNetworkError private_network_error | TargetHostnameError private_hostname_error

definition private_target_parse :: "externals \<Rightarrow> string \<Rightarrow> private_target_error + private_target" where
  "private_target_parse X input =
     (let trimmed = trim input;
          address = (trimmed = [] \<or> CHR '':'' \<in> set trimmed \<or> CHR ''/'' \<in> set trimmed
             \<or> list_all (\<lambda>b. is_digit b \<or> b = CHR ''.'') trimmed)
      in if address
         then ebind (map_err TargetNetworkError (network_parse X trimmed)) (\<lambda>n. Inr (TargetNetwork n))
         else ebind (map_err TargetHostnameError (private_hostname_parse X trimmed)) (\<lambda>h. Inr (TargetHostname h)))"

end
