(* ===== verification/Cf_Api.thy ===== *)
theory Cf_Api
  imports Rust_Str
begin

text \<open>
  The data of the Cloudflare API client (\<open>crates/cf-api/src/\<close>) that the engine plans
  over: DNS records, ingress rules, Access policies and applications, zone rules, load
  balancing and Workers. A \<open>u32\<close> is a \<open>nat\<close>; \<open>serde_json::Value\<close> is \<open>json\<close>, its objects
  association lists sorted by key (a \<open>BTreeMap\<close>).
\<close>

subsection \<open>JSON values\<close>

datatype json = JNull | JBool bool | JInt int | JFloat "64 word" | JStr string
  | JArr "json list" | JObj "(string \<times> json) list"

type_synonym json_map = "(string \<times> json) list"

text \<open>\<open>Value::get\<close> with a key, and \<open>Value::as_str\<close>.\<close>

fun json_get :: "string \<Rightarrow> json \<Rightarrow> json option" where
  "json_get k (JObj m) = map_of m k"
| "json_get k _ = None"

fun json_str :: "json \<Rightarrow> string option" where
  "json_str (JStr s) = Some s"
| "json_str _ = None"

fun is_object :: "json \<Rightarrow> bool" where
  "is_object (JObj m) = True"
| "is_object _ = False"

text \<open>Insertion into a \<open>BTreeMap\<close>, and one collected from pairs (a later one replaces an earlier).\<close>

fun json_insert :: "string \<Rightarrow> json \<Rightarrow> json_map \<Rightarrow> json_map" where
  "json_insert k v [] = [(k, v)]"
| "json_insert k v ((a, b) # m) =
     (if k < a then (k, v) # (a, b) # m else if k = a then (k, v) # m else (a, b) # json_insert k v m)"

definition json_map_of :: "(string \<times> json) list \<Rightarrow> json_map" where
  "json_map_of kvs = fold (\<lambda>(k, v). json_insert k v) kvs []"

text \<open>\<open>Value::pointer\<close> through two keys of objects.\<close>

definition json_pointer :: "string \<Rightarrow> string \<Rightarrow> json \<Rightarrow> json option" where
  "json_pointer a b v = Option.bind (json_get a v) (json_get b)"

subsection \<open>DNS (\<open>dns.rs\<close>) and ingress rules (\<open>tunnels.rs\<close>)\<close>

record dns_record =
  rec_id :: string
  rec_name :: string
  rec_kind :: string
  rec_content :: string
  rec_proxied :: bool
  rec_comment :: "string option"
  rec_ttl :: nat

record ingress_rule =
  rule_hostname :: "string option"
  rule_path :: "string option"
  rule_service :: string
  rule_origin_request :: json_map
  rule_extra :: json_map

record tunnel_config =
  cfg_ingress :: "ingress_rule list"
  cfg_origin_request :: json_map
  cfg_extra :: json_map

subsection \<open>Access (\<open>access.rs\<close>, \<open>service_tokens.rs\<close>)\<close>

record access_policy =
  pol_id :: "string option"
  pol_name :: string
  pol_decision :: string
  pol_include :: "json list"
  pol_precedence :: "nat option"
  pol_reusable :: bool
  pol_app_count :: "nat option"

record access_app =
  aa_id :: string
  aa_name :: string
  aa_domain :: string
  aa_kind :: string
  aa_session :: "string option"
  aa_policies :: "access_policy list"
  aa_allowed_idps :: "string list"
  aa_auto_redirect :: bool

record new_access_app =
  app_name :: string
  app_domain :: string
  app_kind :: string
  app_session :: string
  app_launcher_visible :: bool
  app_policies :: "access_policy list"
  app_allowed_idps :: "string list"
  app_auto_redirect :: bool

text \<open>\<open>TEITUNNEL_PREFIX\<close>: "Teitunnel", a middle dot (C2 B7) between spaces.\<close>

definition middle_dot :: string where
  "middle_dot = [char_of (194::nat), char_of (183::nat)]"

lemma middle_dot_code [code]: "middle_dot = [CHR 0xC2, CHR 0xB7]"
  by (simp add: middle_dot_def char_of_def bit_0)

definition TEITUNNEL_PREFIX :: string where
  "TEITUNNEL_PREFIX = ''Teitunnel '' @ middle_dot @ '' ''"

definition email_rule :: "string \<Rightarrow> json" where
  "email_rule email = JObj [(''email'', JObj [(''email'', JStr email)])]"

definition everyone_rule :: json where
  "everyone_rule = JObj [(''everyone'', JObj [])]"

definition rule_is_everyone :: "json \<Rightarrow> bool" where
  "rule_is_everyone r = (case json_get ''everyone'' r of Some v \<Rightarrow> is_object v | None \<Rightarrow> False)"

definition email_domain_rule :: "string \<Rightarrow> json" where
  "email_domain_rule domain = JObj [(''email_domain'', JObj [(''domain'', JStr domain)])]"

definition rule_email :: "json \<Rightarrow> string option" where
  "rule_email r = Option.bind (json_pointer ''email'' ''email'' r) json_str"

definition rule_email_domain :: "json \<Rightarrow> string option" where
  "rule_email_domain r = Option.bind (json_pointer ''email_domain'' ''domain'' r) json_str"

definition github_rule :: "string \<Rightarrow> string \<Rightarrow> string option \<Rightarrow> json" where
  "github_rule provider organization team =
     JObj [(''github-organization'', JObj ([(''identity_provider_id'', JStr provider),
        (''name'', JStr organization)]
        @ (case team of Some t \<Rightarrow> [(''team'', JStr t)] | None \<Rightarrow> [])))]"

definition rule_github :: "json \<Rightarrow> (string \<times> string option \<times> string) option" where
  "rule_github r =
     Option.bind (json_get ''github-organization'' r) (\<lambda>github.
     Option.bind (Option.bind (json_get ''name'' github) json_str) (\<lambda>org.
     map_option (\<lambda>idp. (org, Option.bind (json_get ''team'' github) json_str, idp))
       (Option.bind (json_get ''identity_provider_id'' github) json_str)))"

definition service_token_rule :: "string \<Rightarrow> json" where
  "service_token_rule tid = JObj [(''service_token'', JObj [(''token_id'', JStr tid)])]"

definition rule_service_token :: "json \<Rightarrow> string option" where
  "rule_service_token r = Option.bind (json_pointer ''service_token'' ''token_id'' r) json_str"

lemma rule_readers [simp]:
  "rule_email (email_rule e) = Some e"
  "rule_email (email_domain_rule d) = None"
  "rule_email (github_rule i g t) = None"
  "rule_email everyone_rule = None"
  "rule_email (service_token_rule s) = None"
  "rule_email_domain (email_rule e) = None"
  "rule_email_domain (email_domain_rule d) = Some d"
  "rule_email_domain (github_rule i g t) = None"
  "rule_email_domain everyone_rule = None"
  "rule_email_domain (service_token_rule s) = None"
  "rule_github (email_rule e) = None"
  "rule_github (email_domain_rule d) = None"
  "rule_github (github_rule i g t) = Some (g, t, i)"
  "rule_github everyone_rule = None"
  "rule_github (service_token_rule s) = None"
  "rule_service_token (email_rule e) = None"
  "rule_service_token (email_domain_rule d) = None"
  "rule_service_token (github_rule i g t) = None"
  "rule_service_token everyone_rule = None"
  "rule_service_token (service_token_rule s) = Some s"
  "rule_is_everyone (email_rule e) = False"
  "rule_is_everyone (email_domain_rule d) = False"
  "rule_is_everyone (github_rule i g t) = False"
  "rule_is_everyone everyone_rule = True"
  "rule_is_everyone (service_token_rule s) = False"
  by (simp_all add: rule_email_def rule_email_domain_def rule_github_def rule_service_token_def
      rule_is_everyone_def email_rule_def email_domain_rule_def github_rule_def everyone_rule_def
      service_token_rule_def json_pointer_def split: option.split)

subsection \<open>Zone rules (\<open>rulesets.rs\<close>)\<close>

definition PHASE_CUSTOM :: string where
  "PHASE_CUSTOM = ''http_request_firewall_custom''"
definition PHASE_RATE_LIMIT :: string where
  "PHASE_RATE_LIMIT = ''http_ratelimit''"
definition PHASE_REQUEST_HEADERS :: string where
  "PHASE_REQUEST_HEADERS = ''http_request_late_transform''"
definition PHASE_RESPONSE_HEADERS :: string where
  "PHASE_RESPONSE_HEADERS = ''http_response_headers_transform''"
definition PHASE_URL_REWRITE :: string where
  "PHASE_URL_REWRITE = ''http_request_transform''"
definition PHASE_CACHE :: string where
  "PHASE_CACHE = ''http_request_cache_settings''"

record rate_limit =
  rl_characteristics :: "string list"
  rl_period :: nat
  rl_requests :: nat
  rl_timeout :: nat

record new_rule =
  nr_action :: string
  nr_expression :: string
  nr_description :: string
  nr_enabled :: bool
  nr_parameters :: "json option"
  nr_ratelimit :: "rate_limit option"

subsection \<open>Load balancing (\<open>load_balancing.rs\<close>)\<close>

type_synonym header_map = "(string \<times> string list) list"

record monitor =
  mon_id :: string
  mon_kind :: string
  mon_description :: string
  mon_path :: string
  mon_expected_codes :: string
  mon_follow_redirects :: bool
  mon_header :: header_map

record lb_origin =
  org_name :: string
  org_address :: string
  org_enabled :: bool
  org_header :: header_map

record pool =
  pool_id :: string
  pool_name :: string
  pool_description :: string
  pool_enabled :: bool
  pool_monitor :: "string option"
  pool_origins :: "lb_origin list"

record load_balancer =
  lb_id :: string
  lb_name :: string
  lb_description :: string
  lb_default_pools :: "string list"
  lb_fallback_pool :: string
  lb_proxied :: bool

subsection \<open>Workers (\<open>workers.rs\<close>)\<close>

record worker_domain =
  wd_id :: string
  wd_hostname :: string
  wd_service :: string
  wd_zone_id :: string
  wd_zone_name :: string

record worker_route =
  wr_id :: string
  wr_pattern :: string
  wr_script :: "string option"
  wr_fail_open :: "bool option"

end
