(* ===== verification/Access.thy ===== *)
theory Access
  imports Domain Cf_Api
begin

text \<open>
  Logins (\<open>engine/access.rs\<close>): who may reach a protected route, the Access application that
  says so, and the paths and machines that skip it.
\<close>

subsection \<open>Who may log in\<close>

datatype sign_in = Any | Github | Google

fun sign_in_kinds :: "sign_in \<Rightarrow> string list" where
  "sign_in_kinds Any = []"
| "sign_in_kinds Github = [''github'']"
| "sign_in_kinds Google = [''google'', ''google-apps'']"

fun sign_in_name :: "sign_in \<Rightarrow> string option" where
  "sign_in_name Any = None"
| "sign_in_name Github = Some ''GitHub''"
| "sign_in_name Google = Some ''Google''"

definition sign_in_parse :: "string \<Rightarrow> sign_in option" where
  "sign_in_parse input =
     (let s = lower (trim input)
      in if s = ''any'' \<or> s = [] then Some Any
         else if s = ''github'' then Some Github
         else if s = ''google'' then Some Google else None)"

record login_method =
  lm_id :: string
  lm_kind :: string

definition GITHUB_PREFIX :: string where
  "GITHUB_PREFIX = ''github:''"

record access_rule =
  ar_emails :: "string list"
  ar_email_domains :: "string list"
  ar_github :: "string list"
  ar_sign_in :: sign_in
  ar_bypass :: "string list"

definition default_rule :: access_rule where
  "default_rule = \<lparr>ar_emails = [], ar_email_domains = [], ar_github = [], ar_sign_in = Any, ar_bypass = []\<rparr>"

definition MAX_BYPASS :: nat where
  "MAX_BYPASS = 10"

datatype access_rule_error = AccessEmpty | AccessEmail string | AccessDomain string
  | AccessBypassPath string | AccessTooManyBypass | AccessGithub string | AccessGithubNeedsGithub

definition valid_domain :: "externals \<Rightarrow> string \<Rightarrow> bool" where
  "valid_domain X domain \<longleftrightarrow> ok_of (hostname_parse X domain) \<noteq> None \<and> CHR ''.'' \<in> set domain"

definition github_entry :: "string \<Rightarrow> string option" where
  "github_entry text =
     (let raw = trim text;
          raw = trim (case strip_prefix GITHUB_PREFIX raw of Some r \<Rightarrow> r | None \<Rightarrow> raw);
          (org, team) = (case split_once ''/'' raw of
             Some (g, t) \<Rightarrow> (trim g, Some (trim t)) | None \<Rightarrow> (raw, None));
          org_ok = (1 \<le> length org \<and> length org \<le> 39 \<and> \<not> starts_with ''-'' org
             \<and> list_all (\<lambda>b. is_alnum b \<or> b = CHR ''-'') org);
          team_ok = (case team of None \<Rightarrow> True
             | Some t \<Rightarrow> 1 \<le> chars_count t \<and> chars_count t \<le> 100 \<and> \<not> has_control t
                 \<and> list_all (\<lambda>c. c \<notin> {CHR '','', CHR '';'', CHR ''/''}) t)
      in if org_ok \<and> team_ok
         then Some (case team of Some t \<Rightarrow> org @ ''/'' @ t | None \<Rightarrow> org) else None)"

definition PEOPLE_POLICY :: string where
  "PEOPLE_POLICY = ''Allowed people''"
definition BYPASS_POLICY :: string where
  "BYPASS_POLICY = ''Anyone, without a login''"
definition MACHINES_POLICY :: string where
  "MACHINES_POLICY = ''Machines''"

definition policy_name :: "sign_in \<Rightarrow> string" where
  "policy_name s = (case sign_in_name s of
      Some method \<Rightarrow> PEOPLE_POLICY @ '' '' @ middle_dot @ '' '' @ method | None \<Rightarrow> PEOPLE_POLICY)"

definition sign_in_of :: "string \<Rightarrow> sign_in option" where
  "sign_in_of name = find (\<lambda>s. name = policy_name s) [Any, Github, Google]"

text \<open>A path that skips a login, as Access writes it.\<close>

definition path_char :: "char \<Rightarrow> bool" where
  "path_char b \<longleftrightarrow> is_alnum b \<or> b \<in> {CHR ''-'', CHR ''_'', CHR ''.'', CHR ''/'', CHR ''~''}"

definition bypass_path :: "string \<Rightarrow> string option" where
  "bypass_path raw =
     (let trimmed = trim_end_char (CHR ''/'') (trim_end_char (CHR ''*'') (trim raw));
          path = (if starts_with ''/'' trimmed then trimmed else ''/'' @ trimmed);
          ok = (length path > 1 \<and> list_all path_char (drop 1 path)
             \<and> \<not> contains_str ''//'' path \<and> ''..'' \<notin> set (split_on (CHR ''/'') path))
      in if ok then Some path else None)"

subsection \<open>\<open>AccessRule::normalized\<close>\<close>

definition clean :: "string list \<Rightarrow> string list" where
  "clean items = dedup (sort (filter (\<lambda>s. s \<noteq> [])
     (map (\<lambda>s. lower (trim_start_char (CHR ''@'') (trim s))) items)))"

definition normal_github :: "string list \<Rightarrow> access_rule_error + string list" where
  "normal_github gs =
     ebind (collect_new (\<lambda>raw. ok_or (AccessGithub raw) (github_entry raw)) (filter (\<lambda>g. trim g \<noteq> []) gs))
       (\<lambda>out. Inr (sort out))"

definition normal_bypass :: "string list \<Rightarrow> access_rule_error + string list" where
  "normal_bypass bs =
     ebind (collect_new (\<lambda>raw. ok_or (AccessBypassPath raw) (bypass_path raw)) bs) (\<lambda>out.
     ebind (fail_if (length out > MAX_BYPASS) AccessTooManyBypass) (\<lambda>_. Inr (sort out)))"

definition normal_sign_in :: "sign_in \<Rightarrow> string list \<Rightarrow> access_rule_error + sign_in" where
  "normal_sign_in s github =
     (if s = Any \<and> github \<noteq> [] then Inr Github
      else if s = Google \<and> github \<noteq> [] then Inl AccessGithubNeedsGithub else Inr s)"

definition valid_email :: "externals \<Rightarrow> string \<Rightarrow> bool" where
  "valid_email X email = (case split_once ''@'' email of
      Some (user, domain) \<Rightarrow> user \<noteq> [] \<and> valid_domain X domain | None \<Rightarrow> False)"

definition normalized :: "externals \<Rightarrow> access_rule \<Rightarrow> access_rule_error + access_rule" where
  "normalized X r =
     (let emails = clean (ar_emails r); domains = clean (ar_email_domains r)
      in ebind (normal_github (ar_github r)) (\<lambda>github.
         ebind (fail_if (emails = [] \<and> domains = [] \<and> github = []) AccessEmpty) (\<lambda>_.
         ebind (normal_sign_in (ar_sign_in r) github) (\<lambda>s.
         ebind (case find (\<lambda>e. \<not> valid_email X e) emails of
            Some bad \<Rightarrow> Inl (AccessEmail bad) | None \<Rightarrow> Inr ()) (\<lambda>_.
         ebind (case find (\<lambda>d. \<not> valid_domain X d) domains of
            Some bad \<Rightarrow> Inl (AccessDomain bad) | None \<Rightarrow> Inr ()) (\<lambda>_.
         ebind (normal_bypass (ar_bypass r)) (\<lambda>bypass.
         Inr \<lparr>ar_emails = emails, ar_email_domains = domains, ar_github = github,
              ar_sign_in = s, ar_bypass = bypass\<rparr>)))))))"

text \<open>\<open>AccessRule::from_allow\<close>. Rust's slice \<open>entry[..7]\<close> panics when byte 7 is inside a
  character; \<open>None\<close> is that panic.\<close>

definition char_boundary :: "string \<Rightarrow> nat \<Rightarrow> bool" where
  "char_boundary s i \<longleftrightarrow> i = 0 \<or> i = length s
     \<or> (i < length s \<and> \<not> (128 \<le> code (s ! i) \<and> code (s ! i) < 192))"

definition allow_entry :: "string \<Rightarrow> access_rule \<Rightarrow> access_rule option" where
  "allow_entry entry r =
     (let n = length GITHUB_PREFIX
      in if length entry > n \<and> \<not> char_boundary entry n then None
         else if length entry > n \<and> eq_ic (take n entry) GITHUB_PREFIX
         then Some (r\<lparr>ar_github := ar_github r @ [drop n entry]\<rparr>)
         else if \<not> starts_with ''@'' entry \<and> CHR ''@'' \<in> set entry
         then Some (r\<lparr>ar_emails := ar_emails r @ [entry]\<rparr>)
         else Some (r\<lparr>ar_email_domains := ar_email_domains r @ [entry]\<rparr>))"

fun allow_entries :: "string list \<Rightarrow> access_rule \<Rightarrow> access_rule option" where
  "allow_entries [] r = Some r"
| "allow_entries (e # es) r = Option.bind (allow_entry (trim e) r) (allow_entries es)"

definition from_allow :: "string list \<Rightarrow> string list \<Rightarrow> access_rule option option" where
  "from_allow allow bypass =
     (if allow = [] then Some None
      else map_option Some (allow_entries allow (default_rule\<lparr>ar_bypass := bypass\<rparr>)))"

definition people_only :: "access_rule \<Rightarrow> access_rule" where
  "people_only r = r\<lparr>ar_bypass := []\<rparr>"

text \<open>The entries \<open>--allow\<close> takes for who is allowed.\<close>

definition allow_list :: "access_rule \<Rightarrow> string list" where
  "allow_list r = ar_emails r @ map (\<lambda>d. ''@'' @ d) (ar_email_domains r)
     @ map (\<lambda>g. GITHUB_PREFIX @ g) (ar_github r)"

definition people :: "access_rule \<Rightarrow> string" where
  "people r = join '', '' (allow_list r)"

subsection \<open>Applications\<close>

definition is_machines :: "access_policy \<Rightarrow> bool" where
  "is_machines p \<longleftrightarrow> pol_decision p = ''non_identity'' \<and> pol_include p \<noteq> []
     \<and> list_all (\<lambda>r. rule_service_token r \<noteq> None) (pol_include p)"

definition add_include :: "json \<Rightarrow> access_rule \<Rightarrow> access_rule option" where
  "add_include i r = (case rule_email i of
      Some email \<Rightarrow> Some (r\<lparr>ar_emails := ar_emails r @ [email]\<rparr>)
    | None \<Rightarrow> (case rule_github i of
        Some (org, team, _) \<Rightarrow> Some (r\<lparr>ar_github := ar_github r
           @ [case team of None \<Rightarrow> org | Some t \<Rightarrow> org @ ''/'' @ t]\<rparr>)
      | None \<Rightarrow> map_option (\<lambda>d. r\<lparr>ar_email_domains := ar_email_domains r @ [d]\<rparr>) (rule_email_domain i)))"

fun add_includes :: "json list \<Rightarrow> access_rule \<Rightarrow> access_rule option" where
  "add_includes [] r = Some r"
| "add_includes (i # is) r = Option.bind (add_include i r) (add_includes is)"

definition from_policies :: "externals \<Rightarrow> access_policy list \<Rightarrow> access_rule option" where
  "from_policies X policies =
     (case filter (\<lambda>p. \<not> is_machines p) policies of
        [policy] \<Rightarrow>
          if pol_decision policy \<noteq> ''allow'' then None
          else Option.bind (sign_in_of (pol_name policy)) (\<lambda>s.
               Option.bind (add_includes (pol_include policy) (default_rule\<lparr>ar_sign_in := s\<rparr>)) (\<lambda>r.
               ok_of (normalized X r)))
      | _ \<Rightarrow> None)"

definition from_app :: "externals \<Rightarrow> access_app \<Rightarrow> access_rule option" where
  "from_app X app = from_policies X (aa_policies app)"

definition from_new :: "externals \<Rightarrow> new_access_app \<Rightarrow> access_rule option" where
  "from_new X app = from_policies X (app_policies app)"

datatype access_domain_error = PathPattern string

definition access_domain :: "hostname \<Rightarrow> string option \<Rightarrow> access_domain_error + string" where
  "access_domain h path = (case path of
      None \<Rightarrow> Inr h
    | Some raw \<Rightarrow>
        (let prefix = trim_end_char (CHR ''/'') (trim_suffixes [''.*''] (trim_start_char (CHR ''^'') raw));
             ok = (starts_with ''/'' prefix \<and> list_all path_char (drop 1 prefix))
         in if ok \<and> length prefix > 1 then Inr (h @ prefix) else Inl (PathPattern raw)))"

definition login_method_for :: "sign_in \<Rightarrow> login_method list \<Rightarrow> sign_in + login_method option" where
  "login_method_for s methods =
     (if s = Any then Inr None
      else case find (\<lambda>m. lm_kind m \<in> set (sign_in_kinds s)) methods of
        Some m \<Rightarrow> Inr (Some m) | None \<Rightarrow> Inl s)"

definition github_methods :: "new_access_app \<Rightarrow> string list" where
  "github_methods app = concat (map (\<lambda>p. map (\<lambda>(_, _, i). i) (List.map_filter rule_github (pol_include p)))
     (app_policies app))"

definition github_include :: "string \<Rightarrow> string \<Rightarrow> json" where
  "github_include provider entry = (case split_once ''/'' entry of
      None \<Rightarrow> github_rule provider entry None
    | Some (org, team) \<Rightarrow> github_rule provider org (Some team))"

definition inline_policy :: "string \<Rightarrow> string \<Rightarrow> json list \<Rightarrow> nat option \<Rightarrow> access_policy" where
  "inline_policy name decision include precedence =
     \<lparr>pol_id = None, pol_name = name, pol_decision = decision, pol_include = include,
      pol_precedence = precedence, pol_reusable = False, pol_app_count = None\<rparr>"

definition teitunnel_app :: "string \<Rightarrow> string list \<Rightarrow> bool \<Rightarrow> access_policy list \<Rightarrow> new_access_app" where
  "teitunnel_app domain idps redirect policies =
     \<lparr>app_name = TEITUNNEL_PREFIX @ domain, app_domain = domain, app_kind = ''self_hosted'',
      app_session = ''24h'', app_launcher_visible = False, app_policies = policies,
      app_allowed_idps = idps, app_auto_redirect = redirect\<rparr>"

definition app_definition :: "string \<Rightarrow> access_rule \<Rightarrow> login_method option \<Rightarrow> new_access_app" where
  "app_definition domain r method =
     (let provider = (case method of Some m \<Rightarrow> lm_id m | None \<Rightarrow> []);
          include = map email_rule (ar_emails r) @ map email_domain_rule (ar_email_domains r)
             @ map (github_include provider) (ar_github r)
      in teitunnel_app domain (case method of Some m \<Rightarrow> [lm_id m] | None \<Rightarrow> []) (method \<noteq> None)
           [inline_policy (policy_name (ar_sign_in r)) ''allow'' include (Some 1)])"

definition bypass_definition :: "string \<Rightarrow> new_access_app" where
  "bypass_definition domain =
     teitunnel_app domain [] False [inline_policy BYPASS_POLICY ''bypass'' [everyone_rule] (Some 1)]"

definition is_bypass :: "new_access_app \<Rightarrow> bool" where
  "is_bypass app = (case app_policies app of
      [p] \<Rightarrow> pol_decision p = ''bypass'' \<and> length (pol_include p) = 1 \<and> list_all rule_is_everyone (pol_include p)
    | _ \<Rightarrow> False)"

definition machine_only_definition :: "string \<Rightarrow> new_access_app" where
  "machine_only_definition domain = teitunnel_app domain [] False []"

definition service_tokens_of :: "new_access_app \<Rightarrow> string list" where
  "service_tokens_of app =
     concat (map (\<lambda>p. List.map_filter rule_service_token (pol_include p)) (filter is_machines (app_policies app)))"

definition renumber :: "new_access_app \<Rightarrow> new_access_app" where
  "renumber app = app\<lparr>app_policies :=
     map (\<lambda>(p, n). p\<lparr>pol_precedence := Some n\<rparr>) (enum1 (app_policies app))\<rparr>"

text \<open>\<open>iter_mut().find\<close>: only the first Service Auth policy changes.\<close>

fun add_token :: "json \<Rightarrow> access_policy list \<Rightarrow> access_policy list option" where
  "add_token rule [] = None"
| "add_token rule (p # ps) =
     (if is_machines p
      then Some ((if rule \<in> set (pol_include p) then p else p\<lparr>pol_include := pol_include p @ [rule]\<rparr>) # ps)
      else map_option ((#) p) (add_token rule ps))"

definition with_service_token :: "new_access_app \<Rightarrow> string \<Rightarrow> new_access_app" where
  "with_service_token app tid =
     (let rule = service_token_rule tid
      in renumber (app\<lparr>app_policies := (case add_token rule (app_policies app) of
           Some ps \<Rightarrow> ps
         | None \<Rightarrow> inline_policy MACHINES_POLICY ''non_identity'' [rule] None # app_policies app)\<rparr>))"

definition without_service_token :: "new_access_app \<Rightarrow> string \<Rightarrow> new_access_app" where
  "without_service_token app tid =
     (let rule = service_token_rule tid;
          ps = map (\<lambda>p. if is_machines p then p\<lparr>pol_include := filter (\<lambda>r. r \<noteq> rule) (pol_include p)\<rparr> else p)
                 (app_policies app)
      in renumber (app\<lparr>app_policies :=
           filter (\<lambda>p. \<not> (pol_decision p = ''non_identity'' \<and> pol_include p = [])) ps\<rparr>))"

definition keep_machines :: "new_access_app \<Rightarrow> new_access_app \<Rightarrow> new_access_app" where
  "keep_machines to from =
     renumber (to\<lparr>app_policies := filter is_machines (app_policies from)
        @ filter (\<lambda>p. \<not> is_machines p) (app_policies to)\<rparr>)"

definition definition_of :: "access_app \<Rightarrow> new_access_app" where
  "definition_of app =
     \<lparr>app_name = aa_name app, app_domain = aa_domain app,
      app_kind = (if aa_kind app = [] then ''self_hosted'' else aa_kind app),
      app_session = (case aa_session app of Some s \<Rightarrow> s | None \<Rightarrow> ''24h''),
      app_launcher_visible = False,
      app_policies = map (\<lambda>p. p\<lparr>pol_id := None\<rparr>) (aa_policies app),
      app_allowed_idps = aa_allowed_idps app, app_auto_redirect = aa_auto_redirect app\<rparr>"

subsection \<open>Access as observed\<close>

record observed_app =
  oa_id :: string
  oa_domain :: string
  oa_owned :: bool
  oa_rule :: "access_rule option"
  oa_definition :: new_access_app

record access_state =
  as_organization :: "bool option"
  as_login_methods :: "login_method list option"
  as_apps :: "observed_app list"

definition domain_host :: "string \<Rightarrow> string" where
  "domain_host domain = (case split_once ''/'' domain of None \<Rightarrow> domain | Some (h, _) \<Rightarrow> h)"

definition app_at :: "access_state \<Rightarrow> string \<Rightarrow> observed_app option" where
  "app_at s domain = find (\<lambda>a. eq_ic (oa_domain a) domain) (as_apps s)"

definition bypass_paths :: "access_state \<Rightarrow> string \<Rightarrow> string list" where
  "bypass_paths s domain =
     (let prefix = domain @ ''/''
      in sort (map (\<lambda>a. drop (length domain) (oa_domain a))
           (filter (\<lambda>a. oa_owned a \<and> is_bypass (oa_definition a)
              \<and> length prefix \<le> length (oa_domain a) \<and> eq_ic (take (length prefix) (oa_domain a)) prefix)
              (as_apps s))))"

end
