(* ===== verification/Edge.thy ===== *)
theory Edge
  imports Domain Cf_Api
begin

text \<open>
  Edge protection for one hostname (\<open>engine/edge.rs\<close>): what may be enforced, the zone rules
  that enforce it, and what the rules of a zone enforce now.
\<close>

subsection \<open>Settings\<close>

datatype bot_mode = BotOff | BotChallenge | BotBlock

datatype limit_action = LimitBlock | LimitChallenge

fun limit_cloudflare :: "limit_action \<Rightarrow> string" where
  "limit_cloudflare LimitBlock = ''block''"
| "limit_cloudflare LimitChallenge = ''managed_challenge''"

definition limit_from_cloudflare :: "string \<Rightarrow> limit_action option" where
  "limit_from_cloudflare action =
     (if action = ''block'' then Some LimitBlock
      else if action = ''managed_challenge'' then Some LimitChallenge else None)"

record rate_limit_spec =
  spec_requests :: nat
  spec_period :: nat
  spec_action :: limit_action

definition PERIODS :: "nat list" where
  "PERIODS = [10, 60, 120, 300, 600, 3600]"

datatype edge_header_op = HeaderSet | HeaderAdd | HeaderRemove

fun op_cloudflare :: "edge_header_op \<Rightarrow> string" where
  "op_cloudflare HeaderSet = ''set''"
| "op_cloudflare HeaderAdd = ''add''"
| "op_cloudflare HeaderRemove = ''remove''"

record header_rule =
  hdr_name :: string
  hdr_op :: edge_header_op
  hdr_value :: "string option"

record edge_protection =
  ep_bots :: bot_mode
  ep_ai_crawlers :: bool
  ep_rate_limit :: "rate_limit_spec option"
  ep_request_headers :: "header_rule list"
  ep_response_headers :: "header_rule list"
  ep_bypass_cache :: bool

definition protection_default :: edge_protection where
  "protection_default = \<lparr>ep_bots = BotOff, ep_ai_crawlers = False, ep_rate_limit = None,
     ep_request_headers = [], ep_response_headers = [], ep_bypass_cache = False\<rparr>"

datatype edge_input_error = EdgeHeaderName string | EdgeHeaderValue string | EdgeMissingValue string
  | EdgeDuplicateHeader string | EdgeProtectedHeader string | EdgeCookieRemoveOnly
  | EdgeAddOnRequest string | EdgeTooManyHeaders | EdgeRequests | EdgePeriod nat

definition MAX_HEADERS :: nat where
  "MAX_HEADERS = 20"

definition PROTECTED_REQUEST :: "string list" where
  "PROTECTED_REQUEST = [''x-forwarded-for'', ''true-client-ip'', ''x-real-ip'', ''x-forwarded-proto'',
     ''accept-encoding'', ''host'', ''content-length'', ''connection'', ''transfer-encoding'',
     ''upgrade'', ''te'', ''trailer'', ''keep-alive'']"

definition valid_name :: "string \<Rightarrow> bool" where
  "valid_name name \<longleftrightarrow> name \<noteq> [] \<and> length name \<le> 64
     \<and> list_all (\<lambda>b. is_alnum b \<or> b = CHR ''-'' \<or> b = CHR ''_'') name"

text \<open>The checks on a request header.\<close>

definition check_request_header :: "string \<Rightarrow> edge_header_op \<Rightarrow> edge_input_error + unit" where
  "check_request_header name hop =
     (let low = lower name;
          cf = (starts_with ''cf-'' low \<or> starts_with ''x-cf-'' low);
          removable_cf = (low = ''cf-connecting-ip'' \<and> hop = HeaderRemove)
      in ebind (fail_if ((cf \<and> \<not> removable_cf) \<or> low \<in> set PROTECTED_REQUEST) (EdgeProtectedHeader name)) (\<lambda>_.
         ebind (fail_if (low = ''cookie'' \<and> hop \<noteq> HeaderRemove) EdgeCookieRemoveOnly) (\<lambda>_.
         fail_if (hop = HeaderAdd) (EdgeAddOnRequest name))))"

definition header_value :: "string \<Rightarrow> header_rule \<Rightarrow> edge_input_error + string option" where
  "header_value name r =
     (if hdr_op r = HeaderRemove then Inr None
      else (let v = (case hdr_value r of Some t \<Rightarrow> trim t | None \<Rightarrow> [])
            in ebind (fail_if (v = []) (EdgeMissingValue name)) (\<lambda>_.
               ebind (fail_if (length v > 1024 \<or> has_control v) (EdgeHeaderValue name)) (\<lambda>_. Inr (Some v)))))"

text \<open>One pass of the loop: the names seen (lower-cased) and the rules kept so far.\<close>

definition normal_header ::
    "bool \<Rightarrow> header_rule \<Rightarrow> string list \<times> header_rule list \<Rightarrow> edge_input_error + string list \<times> header_rule list" where
  "normal_header request r st =
     (let (seen, out) = st; name = trim (hdr_name r)
      in ebind (fail_if (\<not> valid_name name) (EdgeHeaderName name)) (\<lambda>_.
         ebind (fail_if (lower name \<in> set seen) (EdgeDuplicateHeader name)) (\<lambda>_.
         ebind (if request then check_request_header name (hdr_op r) else Inr ()) (\<lambda>_.
         ebind (header_value name r) (\<lambda>v.
         Inr (lower name # seen, out @ [\<lparr>hdr_name = name, hdr_op = hdr_op r, hdr_value = v\<rparr>]))))))"

definition normalize_headers :: "header_rule list \<Rightarrow> bool \<Rightarrow> edge_input_error + header_rule list" where
  "normalize_headers hs request =
     ebind (fail_if (length hs > MAX_HEADERS) EdgeTooManyHeaders) (\<lambda>_.
     ebind (efold (normal_header request) hs ([], [])) (\<lambda>(_, out).
     Inr (sort_key (\<lambda>r. lower (hdr_name r)) out)))"

definition is_off :: "edge_protection \<Rightarrow> bool" where
  "is_off p \<longleftrightarrow> p = protection_default"

definition check_limit :: "rate_limit_spec option \<Rightarrow> edge_input_error + unit" where
  "check_limit l = (case l of None \<Rightarrow> Inr ()
     | Some limit \<Rightarrow>
         ebind (fail_if (spec_requests limit = 0 \<or> spec_requests limit > 1000000) EdgeRequests) (\<lambda>_.
         fail_if (spec_period limit \<notin> set PERIODS) (EdgePeriod (spec_period limit))))"

definition protection_normalized :: "edge_protection \<Rightarrow> edge_input_error + edge_protection" where
  "protection_normalized p =
     ebind (check_limit (ep_rate_limit p)) (\<lambda>_.
     ebind (normalize_headers (ep_request_headers p) True) (\<lambda>req.
     ebind (normalize_headers (ep_response_headers p) False) (\<lambda>resp.
     Inr (p\<lparr>ep_request_headers := req, ep_response_headers := resp\<rparr>))))"

subsection \<open>Plans and quotas\<close>

datatype zone_plan = PlanFree | PlanPro | PlanBusiness | PlanEnterprise

record plan_limits =
  lim_custom :: nat
  lim_rate_limit :: nat
  lim_transform :: nat
  lim_host_rate_limit :: bool
  lim_longest_period :: nat
  lim_cache :: nat

definition from_legacy_id :: "string option \<Rightarrow> zone_plan" where
  "from_legacy_id v = (if v = Some ''pro'' then PlanPro else if v = Some ''business'' then PlanBusiness
     else if v = Some ''enterprise'' then PlanEnterprise else PlanFree)"

fun plan_limits_of :: "zone_plan \<Rightarrow> plan_limits" where
  "plan_limits_of PlanFree = \<lparr>lim_custom = 5, lim_rate_limit = 1, lim_transform = 10,
     lim_host_rate_limit = False, lim_longest_period = 10, lim_cache = 10\<rparr>"
| "plan_limits_of PlanPro = \<lparr>lim_custom = 20, lim_rate_limit = 2, lim_transform = 25,
     lim_host_rate_limit = True, lim_longest_period = 60, lim_cache = 25\<rparr>"
| "plan_limits_of PlanBusiness = \<lparr>lim_custom = 100, lim_rate_limit = 5, lim_transform = 50,
     lim_host_rate_limit = True, lim_longest_period = 600, lim_cache = 50\<rparr>"
| "plan_limits_of PlanEnterprise = \<lparr>lim_custom = 1000, lim_rate_limit = 100, lim_transform = 300,
     lim_host_rate_limit = True, lim_longest_period = 3600, lim_cache = 300\<rparr>"

datatype rule_kind = KindBlock | KindChallenge | KindRateLimit | KindRequestHeaders
  | KindResponseHeaders | KindBypassCache

datatype quota_kind = QuotaCustom | QuotaRateLimit | QuotaTransform | QuotaCache

definition PER_HOSTNAME :: "rule_kind list" where
  "PER_HOSTNAME = [KindBlock, KindChallenge, KindRequestHeaders, KindResponseHeaders, KindBypassCache]"

fun slug :: "rule_kind \<Rightarrow> string" where
  "slug KindBlock = ''block''"
| "slug KindChallenge = ''challenge''"
| "slug KindRateLimit = ''ratelimit''"
| "slug KindRequestHeaders = ''request-headers''"
| "slug KindResponseHeaders = ''response-headers''"
| "slug KindBypassCache = ''bypass-cache''"

fun phase :: "rule_kind \<Rightarrow> string" where
  "phase KindBlock = PHASE_CUSTOM"
| "phase KindChallenge = PHASE_CUSTOM"
| "phase KindRateLimit = PHASE_RATE_LIMIT"
| "phase KindRequestHeaders = PHASE_REQUEST_HEADERS"
| "phase KindResponseHeaders = PHASE_RESPONSE_HEADERS"
| "phase KindBypassCache = PHASE_CACHE"

fun quota :: "rule_kind \<Rightarrow> quota_kind" where
  "quota KindBlock = QuotaCustom"
| "quota KindChallenge = QuotaCustom"
| "quota KindRateLimit = QuotaRateLimit"
| "quota KindRequestHeaders = QuotaTransform"
| "quota KindResponseHeaders = QuotaTransform"
| "quota KindBypassCache = QuotaCache"

definition ALL_QUOTAS :: "quota_kind list" where
  "ALL_QUOTAS = [QuotaCustom, QuotaRateLimit, QuotaTransform, QuotaCache]"

fun phases :: "quota_kind \<Rightarrow> string list" where
  "phases QuotaCustom = [PHASE_CUSTOM]"
| "phases QuotaRateLimit = [PHASE_RATE_LIMIT]"
| "phases QuotaTransform = [PHASE_REQUEST_HEADERS, PHASE_RESPONSE_HEADERS, PHASE_URL_REWRITE]"
| "phases QuotaCache = [PHASE_CACHE]"

fun quota_limit :: "quota_kind \<Rightarrow> zone_plan \<Rightarrow> nat" where
  "quota_limit QuotaCustom p = lim_custom (plan_limits_of p)"
| "quota_limit QuotaRateLimit p = lim_rate_limit (plan_limits_of p)"
| "quota_limit QuotaTransform p = lim_transform (plan_limits_of p)"
| "quota_limit QuotaCache p = lim_cache (plan_limits_of p)"

subsection \<open>Rules\<close>

definition RULE_MARKER :: string where
  "RULE_MARKER = ''teitunnel:''"
definition RATE_LIMIT_MARKER :: string where
  "RATE_LIMIT_MARKER = ''teitunnel:ratelimit:''"

text \<open>The id of a route (\<open>engine/views.rs\<close>): the first six bytes of a digest in hexadecimal.\<close>

definition hex_digit :: "nat \<Rightarrow> char" where
  "hex_digit d = char_of (if d < 10 then 48 + d else 87 + d)"

definition hex_byte :: "char \<Rightarrow> string" where
  "hex_byte b = [hex_digit (code b div 16), hex_digit (code b mod 16)]"

definition route_id :: "externals \<Rightarrow> hostname \<Rightarrow> string option \<Rightarrow> string" where
  "route_id X h path =
     concat (map hex_byte (take 6 (sha256 X (h @ [char_of (0::nat)] @ (case path of Some p \<Rightarrow> p | None \<Rightarrow> [])))))"

definition edge_marker :: "externals \<Rightarrow> hostname \<Rightarrow> rule_kind \<Rightarrow> string" where
  "edge_marker X h kind = RULE_MARKER @ route_id X h None @ '':'' @ slug kind"

definition rate_limit_marker :: "rate_limit_spec \<Rightarrow> string" where
  "rate_limit_marker spec = RATE_LIMIT_MARKER @ show_nat (spec_requests spec) @ ''-''
     @ show_nat (spec_period spec) @ ''-'' @ limit_cloudflare (spec_action spec)"

text \<open>A double quote, and text between two.\<close>

definition dq :: string where
  "dq = [char_of (34::nat)]"

definition quoted :: "string \<Rightarrow> string" where
  "quoted s = dq @ s @ dq"

definition agent_contains :: "string \<Rightarrow> string" where
  "agent_contains s = '' or lower(http.user_agent) contains '' @ quoted s"

definition BOTS_EXPRESSION :: string where
  "BOTS_EXPRESSION = ''(not cf.client.bot and (http.user_agent eq '' @ quoted [] @ concat (map agent_contains
     [''curl'', ''wget'', ''python-requests'', ''python-urllib'', ''aiohttp'', ''httpx'', ''go-http-client'',
      ''okhttp'', ''java/'', ''libwww-perl'', ''node-fetch'', ''axios'', ''scrapy'', ''headlesschrome'',
      ''phantomjs'']) @ ''))''"

definition AI_EXPRESSION :: string where
  "AI_EXPRESSION = ''(cf.verified_bot_category eq '' @ quoted ''AI Crawler'' @ '')''"

definition host_expression :: "hostname \<Rightarrow> string" where
  "host_expression h = ''(http.host eq '' @ quoted h @ '')''"

definition hosts_expression :: "string list \<Rightarrow> string" where
  "hosts_expression hosts = ''(http.host in {'' @ join '' '' (map quoted hosts) @ ''})''"

definition hosts_of :: "string \<Rightarrow> string list" where
  "hosts_of expression =
     (case Option.bind (split_once ''{'' expression) (\<lambda>(_, rest). split_once ''}'' rest) of
        None \<Rightarrow> []
      | Some (inner, _) \<Rightarrow> btree_set (filter (\<lambda>h. h \<noteq> [])
          (map (\<lambda>h. lower (trim_end_char (hd dq) (trim_start_char (hd dq) h))) (split_whitespace inner))))"

definition header_json :: "header_rule \<Rightarrow> json" where
  "header_json r = JObj ((''operation'', JStr (op_cloudflare (hdr_op r)))
     # (case hdr_value r of Some v \<Rightarrow> [(''value'', JStr v)] | None \<Rightarrow> []))"

definition headers_parameters :: "header_rule list \<Rightarrow> json" where
  "headers_parameters hs = JObj [(''headers'', JObj (json_map_of (map (\<lambda>r. (hdr_name r, header_json r)) hs)))]"

definition header_of :: "string \<times> json \<Rightarrow> header_rule option" where
  "header_of kv = (let (name, v) = kv in
     Option.bind (Option.bind (json_get ''operation'' v) json_str) (\<lambda>text.
     map_option (\<lambda>hop. \<lparr>hdr_name = name, hdr_op = hop, hdr_value = Option.bind (json_get ''value'' v) json_str\<rparr>)
       (if text = ''set'' then Some HeaderSet else if text = ''add'' then Some HeaderAdd
        else if text = ''remove'' then Some HeaderRemove else None)))"

definition headers_of :: "json option \<Rightarrow> header_rule list" where
  "headers_of parameters = (case Option.bind parameters (json_get ''headers'') of
      Some (JObj m) \<Rightarrow> sort_key (\<lambda>r. lower (hdr_name r)) (List.map_filter header_of m)
    | _ \<Rightarrow> [])"

definition hostname_rule ::
    "externals \<Rightarrow> hostname \<Rightarrow> rule_kind \<Rightarrow> string \<Rightarrow> string option \<Rightarrow> json option \<Rightarrow> rule_kind \<times> new_rule" where
  "hostname_rule X h kind action condition params =
     (kind, \<lparr>nr_action = action,
        nr_expression = (case condition of None \<Rightarrow> host_expression h
           | Some c \<Rightarrow> host_expression h @ '' and '' @ c),
        nr_description = edge_marker X h kind, nr_enabled = True, nr_parameters = params,
        nr_ratelimit = None\<rparr>)"

definition blocked_expressions :: "edge_protection \<Rightarrow> string list" where
  "blocked_expressions p = (if ep_bots p = BotBlock then [BOTS_EXPRESSION] else [])
     @ (if ep_ai_crawlers p then [AI_EXPRESSION] else [])"

definition hostname_rules :: "externals \<Rightarrow> hostname \<Rightarrow> edge_protection \<Rightarrow> (rule_kind \<times> new_rule) list" where
  "hostname_rules X h p =
     (let blocked = blocked_expressions p
      in (if blocked \<noteq> [] then [hostname_rule X h KindBlock ''block''
            (Some (if length blocked = 1 then hd blocked else ''('' @ join '' or '' blocked @ '')'')) None] else [])
       @ (if ep_bots p = BotChallenge then [hostname_rule X h KindChallenge ''managed_challenge''
            (Some BOTS_EXPRESSION) None] else [])
       @ (if ep_request_headers p \<noteq> [] then [hostname_rule X h KindRequestHeaders ''rewrite'' None
            (Some (headers_parameters (ep_request_headers p)))] else [])
       @ (if ep_response_headers p \<noteq> [] then [hostname_rule X h KindResponseHeaders ''rewrite'' None
            (Some (headers_parameters (ep_response_headers p)))] else [])
       @ (if ep_bypass_cache p then [hostname_rule X h KindBypassCache ''set_cache_settings'' None
            (Some (JObj [(''cache'', JBool False)]))] else []))"

definition rate_limit_rule :: "rate_limit_spec \<Rightarrow> string list \<Rightarrow> new_rule" where
  "rate_limit_rule spec hosts =
     \<lparr>nr_action = limit_cloudflare (spec_action spec), nr_expression = hosts_expression hosts,
      nr_description = rate_limit_marker spec, nr_enabled = True, nr_parameters = None,
      nr_ratelimit = Some \<lparr>rl_characteristics = [''cf.colo.id'', ''ip.src''], rl_period = spec_period spec,
        rl_requests = spec_requests spec, rl_timeout = spec_period spec\<rparr>\<rparr>"

definition rate_limit_spec_of :: "new_rule \<Rightarrow> rate_limit_spec option" where
  "rate_limit_spec_of r =
     (if \<not> starts_with RATE_LIMIT_MARKER (nr_description r) then None
      else Option.bind (nr_ratelimit r) (\<lambda>limit.
           map_option (\<lambda>action. \<lparr>spec_requests = rl_requests limit, spec_period = rl_period limit,
              spec_action = action\<rparr>) (limit_from_cloudflare (nr_action r))))"

subsection \<open>A zone's rules as observed\<close>

record observed_rule =
  or_id :: string
  or_rule :: new_rule
  or_owned :: bool

record observed_ruleset =
  rs_phase :: string
  rs_id :: "string option"
  rs_rules :: "observed_rule list"

record edge_state =
  es_zone_id :: string
  es_zone :: string
  es_plan :: zone_plan
  es_rulesets :: "observed_ruleset list"
  es_cache_readable :: bool

definition ruleset_in :: "edge_state \<Rightarrow> string \<Rightarrow> observed_ruleset option" where
  "ruleset_in s ph = find (\<lambda>r. rs_phase r = ph) (es_rulesets s)"

definition quota_used :: "edge_state \<Rightarrow> quota_kind \<Rightarrow> nat" where
  "quota_used s q = sum_list (map (\<lambda>r. length (rs_rules r)) (List.map_filter (ruleset_in s) (phases q)))"

definition owned_rule :: "edge_state \<Rightarrow> string \<Rightarrow> string \<Rightarrow> (nat \<times> observed_rule) option" where
  "owned_rule s ph description =
     Option.bind (ruleset_in s ph) (\<lambda>rs.
     map_option (\<lambda>(r, i). (i, r))
       (find (\<lambda>(r, _). or_owned r \<and> nr_description (or_rule r) = description) (enum1 (rs_rules rs))))"

definition rate_limits :: "edge_state \<Rightarrow> (nat \<times> observed_rule \<times> rate_limit_spec \<times> string list) list" where
  "rate_limits s = (case ruleset_in s PHASE_RATE_LIMIT of
      None \<Rightarrow> []
    | Some rs \<Rightarrow> List.map_filter (\<lambda>(r, i).
         if \<not> or_owned r then None
         else map_option (\<lambda>spec. (i, r, spec, hosts_of (nr_expression (or_rule r))))
                (rate_limit_spec_of (or_rule r))) (enum1 (rs_rules rs)))"

definition headers_now :: "externals \<Rightarrow> edge_state \<Rightarrow> hostname \<Rightarrow> rule_kind \<Rightarrow> header_rule list" where
  "headers_now X s h kind = (case owned_rule s (phase kind) (edge_marker X h kind) of
      Some (_, r) \<Rightarrow> headers_of (nr_parameters (or_rule r)) | None \<Rightarrow> [])"

definition protection_of :: "externals \<Rightarrow> edge_state \<Rightarrow> hostname \<Rightarrow> edge_protection" where
  "protection_of X s h =
     (let block = map_option (\<lambda>(_, r). nr_expression (or_rule r))
            (owned_rule s PHASE_CUSTOM (edge_marker X h KindBlock));
          bots = (case block of Some e \<Rightarrow> if contains_str BOTS_EXPRESSION e then BotBlock else BotOff
                  | None \<Rightarrow> BotOff);
          bots = (if bots = BotOff \<and> owned_rule s PHASE_CUSTOM (edge_marker X h KindChallenge) \<noteq> None
                  then BotChallenge else bots)
      in \<lparr>ep_bots = bots,
          ep_ai_crawlers = (case block of Some e \<Rightarrow> contains_str AI_EXPRESSION e | None \<Rightarrow> False),
          ep_rate_limit = map_option (\<lambda>(_, _, spec, _). spec)
             (find (\<lambda>(_, _, _, hosts). h \<in> set hosts) (rate_limits s)),
          ep_request_headers = headers_now X s h KindRequestHeaders,
          ep_response_headers = headers_now X s h KindResponseHeaders,
          ep_bypass_cache = (owned_rule s (phase KindBypassCache) (edge_marker X h KindBypassCache) \<noteq> None)\<rparr>)"

subsection \<open>Service tokens\<close>

record service_token =
  tok_id :: string
  tok_name :: string
  tok_client_id :: string
  tok_expires_at :: "string option"
  tok_owned :: bool
  tok_made_for :: "string option"

definition MAX_SERVICE_TOKENS :: nat where
  "MAX_SERVICE_TOKENS = 50"

definition service_token_name :: "hostname \<Rightarrow> string \<Rightarrow> string" where
  "service_token_name h label = TEITUNNEL_PREFIX @ h @ '' '' @ middle_dot @ '' '' @ trim label"

end
