(* ===== verification/Front.thy ===== *)
theory Front
  imports Edge
begin

text \<open>
  Workers in front of a route (\<open>engine/front.rs\<close>): the offline page and webhook inboxes, the
  names and patterns they are deployed under, and what a hostname has now.
\<close>

subsection \<open>The code\<close>

definition MAX_TITLE :: nat where
  "MAX_TITLE = 120"
definition MAX_MESSAGE :: nat where
  "MAX_MESSAGE = 1000"
definition MAX_INBOX_ITEMS :: nat where
  "MAX_INBOX_ITEMS = 1000"
definition MAX_RETENTION_DAYS :: nat where
  "MAX_RETENTION_DAYS = 30"
definition SCRIPT_PREFIX :: string where
  "SCRIPT_PREFIX = ''tt-''"

datatype front_kind = FrontOffline | FrontInbox

fun front_kind_str :: "front_kind \<Rightarrow> string" where
  "front_kind_str FrontOffline = ''offline''"
| "front_kind_str FrontInbox = ''inbox''"

definition front_kind_parse :: "string \<Rightarrow> front_kind option" where
  "front_kind_parse s = (if s = ''offline'' then Some FrontOffline
     else if s = ''inbox'' then Some FrontInbox else None)"

record offline_page =
  off_title :: string
  off_message :: string
  off_when_app_down :: bool

datatype front_error = FrontTitle | FrontMessage | FrontPath | FrontLimits

definition newline :: char where
  "newline = char_of (10::nat)"

definition plain_text :: "string \<Rightarrow> nat \<Rightarrow> bool \<Rightarrow> string option" where
  "plain_text text limit lines =
     (let t = trim text
      in if chars_count t \<le> limit \<and> \<not> has_control_except (if lines then [newline] else []) t
         then Some t else None)"

text \<open>\<open>replace("\r\n", "\n")\<close>.\<close>

fun replace_crlf :: "string \<Rightarrow> string" where
  "replace_crlf [] = []"
| "replace_crlf [c] = [c]"
| "replace_crlf (c # d # s) = (if code c = 13 \<and> code d = 10 then d # replace_crlf s
     else c # replace_crlf (d # s))"

definition offline_normalized :: "offline_page \<Rightarrow> front_error + offline_page" where
  "offline_normalized p =
     ebind (ok_or FrontTitle (case plain_text (off_title p) MAX_TITLE False of
        Some t \<Rightarrow> if t = [] then None else Some t | None \<Rightarrow> None)) (\<lambda>title.
     ebind (ok_or FrontMessage (plain_text (replace_crlf (off_message p)) MAX_MESSAGE True)) (\<lambda>message.
     Inr (p\<lparr>off_title := title, off_message := message\<rparr>)))"

datatype inbox_verify = VerifyGithub | VerifyStripe | VerifyStandard

record inbox_settings =
  inb_max_items :: nat
  inb_retention_days :: nat
  inb_verify :: "inbox_verify option"

definition inbox_normalized :: "inbox_settings \<Rightarrow> front_error + inbox_settings" where
  "inbox_normalized s =
     (if 1 \<le> inb_max_items s \<and> inb_max_items s \<le> MAX_INBOX_ITEMS
         \<and> 1 \<le> inb_retention_days s \<and> inb_retention_days s \<le> MAX_RETENTION_DAYS
      then Inr s else Inl FrontLimits)"

definition inbox_path_char :: "char \<Rightarrow> bool" where
  "inbox_path_char c \<longleftrightarrow> c \<notin> {CHR ''*'', CHR ''?'', CHR ''#'', CHR '' '', char_of (92::nat)}"

definition clean_inbox_path :: "string \<Rightarrow> front_error + string" where
  "clean_inbox_path text =
     (let path = trim text
      in if \<not> starts_with ''/'' path \<or> length path > 200 \<or> has_control path
            \<or> \<not> list_all inbox_path_char path
         then Inl FrontPath else Inr path)"

datatype front_config = OfflineConfig offline_page | InboxConfig string inbox_settings

fun config_kind :: "front_config \<Rightarrow> front_kind" where
  "config_kind (OfflineConfig _) = FrontOffline"
| "config_kind (InboxConfig _ _) = FrontInbox"

fun config_path :: "front_config \<Rightarrow> string" where
  "config_path (OfflineConfig _) = []"
| "config_path (InboxConfig path _) = path"

datatype database_ref = DbExisting string | DbCreated

record database_state =
  db_id :: "string option"

definition DATABASE_NAME :: string where
  "DATABASE_NAME = ''teitunnel-data''"

definition script_for :: "externals \<Rightarrow> front_kind \<Rightarrow> string \<Rightarrow> string \<Rightarrow> string" where
  "script_for X kind hostname path =
     SCRIPT_PREFIX @ front_kind_str kind @ ''-''
     @ concat (map hex_byte (take 5 (sha256 X (lower hostname @ [char_of (0::nat)] @ path))))"

definition pattern_for :: "string \<Rightarrow> front_config \<Rightarrow> string" where
  "pattern_for hostname config = (case config of
      OfflineConfig _ \<Rightarrow> lower hostname @ ''/*''
    | InboxConfig path _ \<Rightarrow> lower hostname @ path @ ''*'')"

record observed_front =
  of_config :: front_config
  of_script :: string
  of_exists :: bool
  of_route :: "worker_route option"

record front_state =
  fs_hostname :: string
  fs_zone_id :: string
  fs_fronts :: "observed_front list"
  fs_foreign :: "worker_route list"

definition front_find :: "front_state \<Rightarrow> front_kind \<Rightarrow> string \<Rightarrow> observed_front option" where
  "front_find s kind path =
     find (\<lambda>f. config_kind (of_config f) = kind \<and> config_path (of_config f) = path) (fs_fronts s)"

definition foreign_on :: "front_state \<Rightarrow> string \<Rightarrow> worker_route option" where
  "foreign_on s pattern = find (\<lambda>r. eq_ic (wr_pattern r) pattern) (fs_foreign s)"

subsection \<open>Normalising twice\<close>

lemma plain_text_again: "plain_text t n l = Some u \<Longrightarrow> plain_text u n l = Some u"
  by (auto simp: plain_text_def Let_def split: if_splits)

lemma replace_crlf_id: "\<forall>c \<in> set s. code c \<noteq> 13 \<Longrightarrow> replace_crlf s = s"
  by (induction s rule: replace_crlf.induct) auto

lemma no_control_cr: "\<not> has_control_except ok s \<Longrightarrow> \<forall>c \<in> set ok. code c \<noteq> 13 \<Longrightarrow> \<forall>c \<in> set s. code c \<noteq> 13"
  by (induction ok s rule: has_control_except.induct) auto

lemma newline_code [simp]: "code newline = 10"
  by (simp add: newline_def code_char_of)

lemma plain_text_cr: "plain_text t n l = Some u \<Longrightarrow> \<forall>c \<in> set u. code c \<noteq> 13"
  using no_control_cr[of "if l then [newline] else []" u]
  by (auto simp: plain_text_def Let_def split: if_splits)

lemma offline_again: "offline_normalized p = Inr q \<Longrightarrow> offline_normalized q = Inr q"
proof -
  assume "offline_normalized p = Inr q"
  then obtain t m where t: "plain_text (off_title p) MAX_TITLE False = Some t" "t \<noteq> []"
    and m: "plain_text (replace_crlf (off_message p)) MAX_MESSAGE True = Some m"
    and q: "q = p\<lparr>off_title := t, off_message := m\<rparr>"
    by (auto simp: offline_normalized_def res_simps split: option.splits if_splits)
  show ?thesis
    using plain_text_again[OF t(1)] plain_text_again[OF m] t(2) replace_crlf_id[OF plain_text_cr[OF m]]
    by (simp add: offline_normalized_def q)
qed

lemma inbox_again: "inbox_normalized s = Inr t \<Longrightarrow> inbox_normalized t = Inr t"
  by (auto simp: inbox_normalized_def split: if_splits)

lemma inbox_path_again: "clean_inbox_path t = Inr p \<Longrightarrow> clean_inbox_path p = Inr p"
  by (auto simp: clean_inbox_path_def Let_def split: if_splits)

interpretation offline: normalizer "ok_of \<circ> offline_normalized"
  by unfold_locales (auto intro: offline_again)

interpretation inbox: normalizer "ok_of \<circ> inbox_normalized"
  by unfold_locales (auto intro: inbox_again)

interpretation inbox_path: normalizer "ok_of \<circ> clean_inbox_path"
  by unfold_locales (auto intro: inbox_path_again)

end
