(* ===== verification/Sites.thy ===== *)
theory Sites
  imports Access Front
begin

text \<open>
  Snapshots (\<open>engine/sites.rs\<close>): a folder of files served by a Worker, its address, its login
  and how it answers. Sizes are \<open>u64\<close> sums, here \<open>nat\<close>.
\<close>

record site_file =
  sf_path :: string
  sf_hash :: string
  sf_size :: nat
  sf_content_type :: string

record site_content =
  sc_root :: "string option"
  sc_files :: "site_file list"
  sc_headers :: "string option"
  sc_redirects :: "string option"

definition content_bytes :: "site_content \<Rightarrow> nat" where
  "content_bytes c = sum_list (map sf_size (sc_files c))"

text \<open>Files (count, bytes) that are not in \<open>previous\<close> with the same content; the map of the
  old files keeps the last of a path.\<close>

definition changes_from :: "site_content \<Rightarrow> site_file list \<Rightarrow> nat \<times> nat" where
  "changes_from c previous =
     (let old = map_of (rev (map (\<lambda>f. (sf_path f, sf_hash f)) previous));
          changed = filter (\<lambda>f. old (sf_path f) \<noteq> Some (sf_hash f)) (sc_files c)
      in (length changed, sum_list (map sf_size changed)))"

datatype site_address = AtDomain hostname | WorkersDev

fun address_hostname :: "site_address \<Rightarrow> hostname option" where
  "address_hostname (AtDomain h) = Some h"
| "address_hostname WorkersDev = None"

record site_spec =
  ss_id :: string
  ss_name :: string
  ss_script :: string
  ss_address :: site_address
  ss_access :: "access_rule option"

datatype password = PasswordOff | PasswordKeep | PasswordSet string

record site_comments =
  cm_database :: database_ref
  cm_identity :: bool

record site_settings =
  set_spa :: bool
  set_password :: password
  set_overlay :: "string option"
  set_comments :: "site_comments option"

definition worker_first :: "site_settings \<Rightarrow> bool" where
  "worker_first s \<longleftrightarrow> set_password s \<noteq> PasswordOff \<or> set_overlay s \<noteq> None \<or> set_comments s \<noteq> None"

record site_state =
  st_script :: string
  st_exists :: bool
  st_active_version :: "string option"
  st_workers_dev :: bool
  st_subdomain :: "string option"
  st_domains :: "worker_domain list"
  st_hostname_taken_by :: "string option"

lemma changes_from_same:
  assumes "distinct (map sf_path (sc_files c))"
  shows "changes_from c (sc_files c) = (0, 0)"
proof -
  have "map_of (rev (map (\<lambda>f. (sf_path f, sf_hash f)) (sc_files c))) (sf_path f) = Some (sf_hash f)"
    if "f \<in> set (sc_files c)" for f
    using assms that by (intro map_of_is_SomeI) (auto simp: rev_map[symmetric] o_def)
  then have "filter (\<lambda>f. map_of (rev (map (\<lambda>f. (sf_path f, sf_hash f)) (sc_files c))) (sf_path f) \<noteq> Some (sf_hash f))
      (sc_files c) = []"
    by (auto simp: filter_empty_conv)
  then show ?thesis by (simp add: changes_from_def)
qed

end
