(* ===== verification/Civil_Date.thy ===== *)
theory Civil_Date
  imports Rust_Str
begin

text \<open>
  Calendar dates of \<open>engine/ownership.rs\<close>: days since 1970-01-01 to and from year, month
  and day (Howard Hinnant's algorithm), and the two text forms of a lease's end.
  \<open>i64\<close> is \<open>int\<close> (every value here stays far inside 64 bits) and Rust's \<open>/\<close> is only
  used on non-negative values, where it is \<open>div\<close>.
\<close>

subsection \<open>The code\<close>

definition days_in_month :: "int \<Rightarrow> nat \<Rightarrow> nat" where
  "days_in_month year month =
     (if month = 2 \<and> ((year mod 4 = 0 \<and> year mod 100 \<noteq> 0) \<or> year mod 400 = 0) then 29
      else if month = 2 then 28
      else if month = 4 \<or> month = 6 \<or> month = 9 \<or> month = 11 then 30
      else 31)"

definition days_from_civil :: "int \<Rightarrow> nat \<Rightarrow> nat \<Rightarrow> int" where
  "days_from_civil year month day =
     (let y = (if month \<le> 2 then year - 1 else year);
          era = y div 400;
          yoe = y - era * 400;
          m = int month;
          doy = (153 * (if m > 2 then m - 3 else m + 9) + 2) div 5 + int day - 1;
          doe = yoe * 365 + yoe div 4 - yoe div 100 + doy
      in era * 146097 + doe - 719468)"

definition civil_from_days :: "int \<Rightarrow> int \<times> nat \<times> nat" where
  "civil_from_days days =
     (let z = days + 719468;
          era = z div 146097;
          doe = z - era * 146097;
          yoe = (doe - doe div 1460 + doe div 36524 - doe div 146096) div 365;
          doy = doe - (365 * yoe + yoe div 4 - yoe div 100);
          mp = (5 * doy + 2) div 153;
          day = (let d = doy - (153 * mp + 2) div 5 + 1 in if d < 0 then 1 else nat d);
          month = (let m = (if mp < 10 then mp + 3 else mp - 9) in if m < 0 then 1 else nat m);
          year = yoe + era * 400 + (if month \<le> 2 then 1 else 0)
      in (year, month, day))"

text \<open>\<open>2026-12-31T00:00Z\<close> for milliseconds since the epoch.\<close>

definition format_until :: "nat \<Rightarrow> string" where
  "format_until ms =
     (let minutes = ms div 60000;
          (year, month, day) = civil_from_days (int (minutes div (24 * 60)));
          rest = minutes mod (24 * 60)
      in show_pad 4 (nat year) @ ''-'' @ show_pad 2 month @ ''-'' @ show_pad 2 day @ ''T''
         @ show_pad 2 (rest div 60) @ '':'' @ show_pad 2 (rest mod 60) @ ''Z'')"

text \<open>The time part of a date (\<open>HH:MM\<close> or \<open>HH:MM:SS\<close>, any number of \<open>Z\<close> after it) in
  seconds.\<close>

definition parse_time :: "string \<Rightarrow> nat option" where
  "parse_time time =
     (let parts = split_on (CHR '':'') (trim_suffixes [''Z'', ''z''] time)
      in case parts of
           h # m # rest \<Rightarrow>
             Option.bind (parse_uint U64_MAX h) (\<lambda>hours.
             Option.bind (parse_uint U64_MAX m) (\<lambda>minutes.
             Option.bind (case rest of [] \<Rightarrow> Some 0 | s # _ \<Rightarrow> parse_uint U64_MAX s) (\<lambda>secs.
               if length rest > 1 \<or> hours > 23 \<or> minutes > 59 \<or> secs > 59 then None
               else Some (hours * 3600 + minutes * 60 + secs))))
         | _ \<Rightarrow> None)"

text \<open>The separator is the first \<open>T\<close>, \<open>t\<close> or space.\<close>

fun split_date :: "string \<Rightarrow> string \<times> string option" where
  "split_date [] = ([], None)"
| "split_date (c # s) = (if c \<in> {CHR ''T'', CHR ''t'', CHR '' ''} then ([], Some s)
     else (let (a, b) = split_date s in (c # a, b)))"

definition parse_until :: "string \<Rightarrow> nat option" where
  "parse_until text =
     (let (date, time) = split_date (trim text)
      in case split_on (CHR ''-'') date of
           [y, m, d] \<Rightarrow>
             Option.bind (parse_int I64_MAX y) (\<lambda>year.
             Option.bind (parse_uint U32_MAX m) (\<lambda>month.
             Option.bind (parse_uint U32_MAX d) (\<lambda>day.
               if \<not> (1970 \<le> year \<and> year \<le> 9999) \<or> \<not> (1 \<le> month \<and> month \<le> 12) then None
               else if day = 0 \<or> day > days_in_month year month then None
               else Option.bind (case time of None \<Rightarrow> Some (24 * 3600) | Some t \<Rightarrow> parse_time t) (\<lambda>seconds.
                 let days = days_from_civil year month day
                 in if days < 0 then None else Some ((nat days * 86400 + seconds) * 1000)))))
         | _ \<Rightarrow> None)"

subsection \<open>The two conversions are inverse\<close>

text \<open>A day of a 400-year era as centuries, four-year spans, years and days.\<close>

lemma era_decompose:
  fixes doe :: int
  assumes "0 \<le> doe" and "doe \<le> 146096"
  obtains q r s d :: int where
    "doe = 36524 * q + 1461 * r + 365 * s + d"
    "0 \<le> q" "q \<le> 3" "0 \<le> r" "r \<le> 24" "0 \<le> s" "s \<le> 3" "0 \<le> d"
    "d \<le> 364 \<or> (d = 365 \<and> s = 3 \<and> (r \<le> 23 \<or> q = 3))"
proof -
  define q where "q = (if doe = 146096 then 3 else doe div 36524)"
  define e where "e = doe - 36524 * q"
  have q: "0 \<le> q" "q \<le> 3" using assms by (auto simp: q_def)
  have e: "0 \<le> e" "e \<le> 36523 \<or> (e = 36524 \<and> q = 3)" using assms by (auto simp: e_def q_def)
  define r where "r = e div 1461"
  define f where "f = e - 1461 * r"
  have r: "0 \<le> r" "r \<le> 24" using e by (auto simp: r_def)
  have f: "0 \<le> f" "f \<le> 1460" by (auto simp: f_def r_def)
  have f2: "f = 1460 \<Longrightarrow> r \<le> 23 \<or> q = 3" using e by (auto simp: f_def)
  define s where "s = (if f = 1460 then 3 else f div 365)"
  define d where "d = f - 365 * s"
  have s: "0 \<le> s" "s \<le> 3" using f by (auto simp: s_def)
  have d: "0 \<le> d" "d \<le> 364 \<or> (d = 365 \<and> s = 3 \<and> f = 1460)" using f by (auto simp: d_def s_def)
  show thesis
  proof (rule that[of q r s d])
    show "doe = 36524 * q + 1461 * r + 365 * s + d" by (simp add: d_def f_def e_def)
    show "d \<le> 364 \<or> (d = 365 \<and> s = 3 \<and> (r \<le> 23 \<or> q = 3))" using d f2 by auto
  qed (use q r s d in auto)
qed

lemma yoe_decompose:
  fixes q r s d :: int
  assumes doe: "doe = 36524 * q + 1461 * r + 365 * s + d"
    and b: "0 \<le> q" "q \<le> 3" "0 \<le> r" "r \<le> 24" "0 \<le> s" "s \<le> 3" "0 \<le> d"
    and d: "d \<le> 364 \<or> (d = 365 \<and> s = 3 \<and> (r \<le> 23 \<or> q = 3))"
  shows "(doe - doe div 1460 + doe div 36524 - doe div 146096) div 365 = 100 * q + 4 * r + s"
proof -
  let ?y = "100 * q + 4 * r + s"
  define u where "u = 24 * q + r + 365 * s + d"
  have a: "doe div 1460 = 25 * q + r + (if u < 1460 then 0 else 1)"
  proof -
    have eq: "doe = 1460 * (25 * q + r) + u" by (simp add: doe u_def)
    have "0 \<le> u" "u < 2920" using b d by (auto simp: u_def)
    then show ?thesis unfolding eq by auto
  qed
  define v where "v = 1461 * r + 365 * s + d"
  have v: "0 \<le> v" "v \<le> 36524" using b d by (auto simp: v_def)
  have v_last: "r = 24 \<and> s = 3 \<and> d = 365" if "v = 36524"
  proof -
    have "1461 * r + 365 * s + d = 36524" using that by (simp add: v_def)
    moreover have "d \<le> 365" using d by auto
    ultimately show ?thesis using b by linarith
  qed
  have c: "doe div 36524 = q + (if v = 36524 then 1 else 0)"
  proof -
    have eq: "doe = 36524 * q + v" by (simp add: doe v_def)
    show ?thesis unfolding eq using v by auto
  qed
  have "doe \<le> 146096" "0 \<le> doe" using b v by (auto simp: doe v_def)
  then have e: "doe div 146096 = (if v = 36524 \<and> q = 3 then 1 else 0)"
    using b v unfolding doe v_def by auto
  have last: "v = 36524 \<Longrightarrow> q = 3" using v_last d by auto
  have num: "doe - doe div 1460 + doe div 36524 - doe div 146096
      = 365 * ?y + d - (if u < 1460 then 0 else 1)"
    using a c e last by (auto simp: doe)
  have "u \<ge> 1460 \<Longrightarrow> d \<ge> 1" "d = 365 \<Longrightarrow> u \<ge> 1460" using b d by (auto simp: u_def)
  then have "0 \<le> d - (if u < 1460 then 0 else 1)" "d - (if u < 1460 then 0 else 1) < 365"
    using b d by auto
  then show ?thesis unfolding num by (auto simp: algebra_simps)
qed

text \<open>Facts about the day of the year (March first) and its month, for one variable.\<close>

lemma month_of_doy:
  fixes d :: int
  assumes "0 \<le> d" "d \<le> 365"
  defines "mp \<equiv> (5 * d + 2) div 153"
  shows "0 \<le> mp" "mp \<le> 11" "1 \<le> d - (153 * mp + 2) div 5 + 1"
    "d - (153 * mp + 2) div 5 + 1 \<le> 31"
    "mp \<in> {1, 3, 6, 8} \<Longrightarrow> d - (153 * mp + 2) div 5 + 1 \<le> 30"
    "mp = 11 \<Longrightarrow> d - (153 * mp + 2) div 5 + 1 = d - 336"
proof -
  have m: "153 * mp \<le> 5 * d + 2" "5 * d + 2 < 153 * mp + 153" by (auto simp: mp_def)
  show mp: "0 \<le> mp" "mp \<le> 11" using assms m by auto
  have k: "5 * ((153 * mp + 2) div 5) \<le> 153 * mp + 2" "153 * mp + 2 < 5 * ((153 * mp + 2) div 5) + 5"
    by presburger+
  show "1 \<le> d - (153 * mp + 2) div 5 + 1" using m k by linarith
  show "d - (153 * mp + 2) div 5 + 1 \<le> 31" using m k by linarith
  show "mp \<in> {1, 3, 6, 8} \<Longrightarrow> d - (153 * mp + 2) div 5 + 1 \<le> 30" using m by auto
  show "mp = 11 \<Longrightarrow> d - (153 * mp + 2) div 5 + 1 = d - 336" by simp
qed

text \<open>The date of a day whose era and position in it are known.\<close>

lemma civil_from_days_eq:
  fixes q r s d era :: int
  assumes z: "days + 719468 = era * 146097 + (36524 * q + 1461 * r + 365 * s + d)"
    and b: "0 \<le> q" "q \<le> 3" "0 \<le> r" "r \<le> 24" "0 \<le> s" "s \<le> 3" "0 \<le> d"
    and d: "d \<le> 364 \<or> (d = 365 \<and> s = 3 \<and> (r \<le> 23 \<or> q = 3))"
    and mp: "mp = (5 * d + 2) div 153"
    and month: "month = (if mp < 10 then mp + 3 else mp - 9)"
  shows "civil_from_days days = (100 * q + 4 * r + s + era * 400 + (if month \<le> 2 then 1 else 0),
           nat month, nat (d - (153 * mp + 2) div 5 + 1))"
proof -
  let ?doe = "36524 * q + 1461 * r + 365 * s + d"
  have bound: "0 \<le> ?doe" "?doe < 146097" using b d by auto
  have era: "(days + 719468) div 146097 = era" unfolding z using bound by simp
  have doe: "days + 719468 - era * 146097 = ?doe" using z by simp
  have yoe: "(?doe - ?doe div 1460 + ?doe div 36524 - ?doe div 146096) div 365 = 100 * q + 4 * r + s"
    by (rule yoe_decompose[OF refl b d])
  have y4: "(100 * q + 4 * r + s) div 4 = 25 * q + r" using b by auto
  have y100: "(100 * q + 4 * r + s) div 100 = q" using b by auto
  have doy: "?doe - (365 * (100 * q + 4 * r + s) + (100 * q + 4 * r + s) div 4 - (100 * q + 4 * r + s) div 100) = d"
    unfolding y4 y100 by simp
  have dd: "0 \<le> d" "d \<le> 365" using b d by auto
  note m = month_of_doy[OF dd, folded mp]
  have "0 \<le> month" using m month by auto
  then show ?thesis
    unfolding civil_from_days_def Let_def era doe yoe doy mp[symmetric] month[symmetric]
    using m(3) by (auto simp: month split: if_splits)
qed

lemma civil_decompose:
  obtains q r s d era :: int where
    "days + 719468 = era * 146097 + (36524 * q + 1461 * r + 365 * s + d)"
    "0 \<le> q" "q \<le> 3" "0 \<le> r" "r \<le> 24" "0 \<le> s" "s \<le> 3" "0 \<le> d"
    "d \<le> 364 \<or> (d = 365 \<and> s = 3 \<and> (r \<le> 23 \<or> q = 3))"
proof -
  have "0 \<le> (days + 719468) mod 146097" "(days + 719468) mod 146097 \<le> 146096"
    by simp_all
  then obtain q r s d :: int where
    "(days + 719468) mod 146097 = 36524 * q + 1461 * r + 365 * s + d"
    "0 \<le> q" "q \<le> 3" "0 \<le> r" "r \<le> 24" "0 \<le> s" "s \<le> 3" "0 \<le> d"
    "d \<le> 364 \<or> (d = 365 \<and> s = 3 \<and> (r \<le> 23 \<or> q = 3))"
    by (rule era_decompose)
  moreover have "days + 719468 = (days + 719468) div 146097 * 146097 + (days + 719468) mod 146097"
    by simp
  ultimately show thesis by (intro that[of "(days + 719468) div 146097" q r s d]) simp_all
qed

theorem days_from_civil_from_days:
  "(case civil_from_days days of (y, m, d) \<Rightarrow> days_from_civil y m d) = days"
proof -
  obtain q r s d era where dec:
    "days + 719468 = era * 146097 + (36524 * q + 1461 * r + 365 * s + d)"
    "0 \<le> q" "q \<le> 3" "0 \<le> r" "r \<le> 24" "0 \<le> s" "s \<le> 3" "0 \<le> d"
    "d \<le> 364 \<or> (d = 365 \<and> s = 3 \<and> (r \<le> 23 \<or> q = 3))"
    by (rule civil_decompose)
  define mp where "mp = (5 * d + 2) div 153"
  define month where "month = (if mp < 10 then mp + 3 else mp - 9)"
  define y where "y = 100 * q + 4 * r + s"
  have dd: "0 \<le> d" "d \<le> 365" using dec by auto
  note m = month_of_doy[OF dd, folded mp_def]
  have ym: "0 \<le> y" "y \<le> 399" "y div 4 = 25 * q + r" "y div 100 = q" using dec by (auto simp: y_def)
  have mm: "1 \<le> month" "month \<le> 12" using m by (auto simp: month_def)
  have inv: "(if month > 2 then month - 3 else month + 9) = mp" using m by (auto simp: month_def)
  have le2: "nat month \<le> 2 \<longleftrightarrow> month \<le> 2" by auto
  let ?Y = "y + era * 400 + (if month \<le> 2 then 1 else 0)"
  let ?D = "d - (153 * mp + 2) div 5 + 1"
  have era: "(y + era * 400) div 400 = era" using ym by simp
  have Y: "(if nat month \<le> 2 then ?Y - 1 else ?Y) = y + era * 400" using le2 by simp
  have M: "int (nat month) = month" "int (nat ?D) = ?D" using mm m(3) by auto
  have yoe: "y + era * 400 - era * 400 = y" by simp
  have leap: "y * 365 + y div 4 - y div 100 = 36524 * q + 1461 * r + 365 * s"
    unfolding ym(3,4) by (simp add: y_def)
  have "days_from_civil ?Y (nat month) (nat ?D)
      = era * 146097 + (y * 365 + y div 4 - y div 100 + ((153 * mp + 2) div 5 + ?D - 1)) - 719468"
    unfolding days_from_civil_def Let_def Y era M yoe inv by simp
  also have "\<dots> = days" unfolding leap using dec(1) by simp
  finally show ?thesis
    unfolding civil_from_days_eq[OF dec mp_def month_def] prod.case by (simp only: y_def)
qed

theorem civil_from_days_valid:
  assumes "civil_from_days days = (y, m, d)"
  shows "1 \<le> m \<and> m \<le> 12 \<and> 1 \<le> d \<and> d \<le> days_in_month y m"
proof -
  obtain q r s e era where dec:
    "days + 719468 = era * 146097 + (36524 * q + 1461 * r + 365 * s + e)"
    "0 \<le> q" "q \<le> 3" "0 \<le> r" "r \<le> 24" "0 \<le> s" "s \<le> 3" "0 \<le> e"
    "e \<le> 364 \<or> (e = 365 \<and> s = 3 \<and> (r \<le> 23 \<or> q = 3))"
    by (rule civil_decompose)
  define mp where "mp = (5 * e + 2) div 153"
  define month where "month = (if mp < 10 then mp + 3 else mp - 9)"
  have ee: "0 \<le> e" "e \<le> 365" using dec by auto
  note k = month_of_doy[OF ee, folded mp_def]
  from civil_from_days_eq[OF dec mp_def month_def] assms
  have y: "y = 100 * q + 4 * r + s + era * 400 + (if month \<le> 2 then 1 else 0)"
    and m: "m = nat month" and d: "d = nat (e - (153 * mp + 2) div 5 + 1)" by auto
  have mm: "1 \<le> month" "month \<le> 12" using k by (auto simp: month_def)
  have short: "month \<in> {4, 6, 9, 11} \<Longrightarrow> mp \<in> {1, 3, 6, 8}"
    using k(1,2) unfolding month_def by (cases "mp < 10") auto
  have feb: "month = 2 \<Longrightarrow> mp = 11" using k(1,2) unfolding month_def by (cases "mp < 10") auto
  have leap: "s = 3 \<Longrightarrow> r \<le> 23 \<or> q = 3 \<Longrightarrow> month = 2 \<Longrightarrow> days_in_month y m = 29"
  proof -
    assume a: "s = 3" "r \<le> 23 \<or> q = 3" "month = 2"
    then have "y = 4 * (25 * q + r + 1 + 100 * era)" using y by simp
    then have "y mod 4 = 0" by simp
    moreover have "y mod 100 \<noteq> 0 \<or> y mod 400 = 0"
    proof (cases "r = 24")
      case True
      then have "y = 400 * (era + 1)" using y a by simp
      then show ?thesis by simp
    next
      case False
      then have "y = (4 * r + 4) + 100 * (q + 4 * era)" and r4: "0 < 4 * r + 4" "4 * r + 4 < 100"
        using y a dec by auto
      then have "y mod 100 = (4 * r + 4) mod 100" by (simp only: mod_mult_self2)
      with r4 show ?thesis by simp
    qed
    ultimately show ?thesis using a m by (simp add: days_in_month_def)
  qed
  have "d \<le> days_in_month y m"
  proof (cases "month = 2")
    case True
    then have "e - (153 * mp + 2) div 5 + 1 = e - 336" using k(6) feb by simp
    moreover have "28 \<le> days_in_month y m" by (simp add: days_in_month_def)
    ultimately show ?thesis using d dec leap True by (cases "e = 365") auto
  next
    case False
    have d31: "d \<le> 31" unfolding d using k(4) by (simp add: nat_le_iff)
    have d30: "month \<in> {4, 6, 9, 11} \<Longrightarrow> d \<le> 30"
      unfolding d using k(5)[OF short] by (simp add: nat_le_iff)
    have mi: "int m = month" using m mm by simp
    show ?thesis
    proof (cases "m \<in> {4, 6, 9, 11}")
      case True
      then have "month \<in> {4, 6, 9, 11}" using mi by auto
      with True d30 show ?thesis by (auto simp: days_in_month_def)
    next
      case False': False
      have "m \<noteq> 2" using mi False by auto
      with False' d31 show ?thesis by (simp add: days_in_month_def)
    qed
  qed
  then show ?thesis using m mm d k(3) by auto
qed

end
