(* ===== verification/Ownership.thy ===== *)
theory Ownership
  imports Civil_Date Cf_Api
begin

text \<open>
  Who holds a hostname (\<open>engine/ownership.rs\<close>): the comment on a DNS record that marks it as
  Teitunnel's, its owner and its reservation, and whether a record is held by someone else.
\<close>

subsection \<open>The code\<close>

definition MAX_COMMENT :: nat where
  "MAX_COMMENT = 100"
definition LEASE_ADDRESS :: string where
  "LEASE_ADDRESS = ''100::''"
definition LEASE_KIND :: string where
  "LEASE_KIND = ''AAAA''"
definition MAX_OWNER :: nat where
  "MAX_OWNER = 40"
definition SHORTENED :: nat where
  "SHORTENED = 24"
definition PREFIX :: string where
  "PREFIX = ''teitunnel:''"

datatype marker = Route string | Lease | Other string

record ownership =
  own_marker :: marker
  own_owner :: "string option"
  own_lease :: bool
  own_until :: "nat option"

definition ownership_route :: "string \<Rightarrow> string \<Rightarrow> ownership" where
  "ownership_route route_id owner =
     \<lparr>own_marker = Route route_id, own_owner = Some owner, own_lease = False, own_until = None\<rparr>"

definition ownership_lease :: "string \<Rightarrow> nat option \<Rightarrow> ownership" where
  "ownership_lease owner til =
     \<lparr>own_marker = Lease, own_owner = Some owner, own_lease = True, own_until = til\<rparr>"

text \<open>An owner label safe inside a comment. The loop over characters is over bytes here: the
  later bytes of a character outside ASCII find the dash its first byte left.\<close>

definition owner_char :: "char \<Rightarrow> bool" where
  "owner_char c \<longleftrightarrow> is_alnum c \<or> c \<in> {CHR ''@'', CHR ''.'', CHR ''_'', CHR ''+'', CHR ''-'', CHR ''/''}"

fun sanitize_chars :: "string \<Rightarrow> string \<Rightarrow> string" where
  "sanitize_chars out [] = out"
| "sanitize_chars out (c # cs) =
     (let out' = (if owner_char c then out @ [c]
                  else if \<not> ends_with ''-'' out then out @ ''-'' else out)
      in if length out' \<ge> MAX_OWNER then out' else sanitize_chars out' cs)"

definition sanitize_owner :: "string \<Rightarrow> string" where
  "sanitize_owner owner = trim_end_char (CHR ''-'') (trim_start_char (CHR ''-'') (sanitize_chars [] (trim owner)))"

text \<open>One \<open>;\<close>-separated part after the marker.\<close>

definition read_part :: "string \<Rightarrow> ownership \<Rightarrow> ownership" where
  "read_part part w = (case split_once ''='' part of
      Some (k, v) \<Rightarrow> if k = ''by'' \<and> v \<noteq> [] then w\<lparr>own_owner := Some v\<rparr>
                     else if k = ''until'' then w\<lparr>own_until := parse_until v\<rparr> else w
    | None \<Rightarrow> if part = ''lease'' then w\<lparr>own_lease := True\<rparr> else w)"

definition read_marker :: "string \<Rightarrow> marker" where
  "read_marker head = (case strip_prefix ''route='' head of
      Some rid \<Rightarrow> Route rid
    | None \<Rightarrow> if head = ''lease'' then Lease else Other head)"

definition ownership_parse :: "string \<Rightarrow> ownership option" where
  "ownership_parse comment =
     map_option (\<lambda>rest.
       let parts = split_on (CHR '';'') rest; m = read_marker (hd parts)
       in fold read_part (tl parts)
            \<lparr>own_marker = m, own_owner = None, own_lease = (m = Lease), own_until = None\<rparr>)
     (strip_prefix PREFIX (trim comment))"

fun render_marker :: "marker \<Rightarrow> string" where
  "render_marker (Route rid) = ''route='' @ rid"
| "render_marker Lease = ''lease''"
| "render_marker (Other head) = head"

definition render_tail :: "ownership \<Rightarrow> string" where
  "render_tail w =
     (if own_lease w \<and> own_marker w \<noteq> Lease then '';lease'' else [])
     @ (case own_until w of Some u \<Rightarrow> '';until='' @ format_until u | None \<Rightarrow> [])"

definition render :: "ownership \<Rightarrow> string" where
  "render w =
     (let out = PREFIX @ render_marker (own_marker w); tail = render_tail w;
          by = (case own_owner w of None \<Rightarrow> []
             | Some owner \<Rightarrow>
                 (let room = MAX_COMMENT - (length out + length tail + length '';by='');
                      owner = take room (sanitize_owner owner)
                  in if owner = [] then [] else '';by='' @ owner))
      in out @ by @ tail)"

fun marker_route_id :: "marker \<Rightarrow> string option" where
  "marker_route_id (Route rid) = Some rid"
| "marker_route_id _ = None"

definition leased_at :: "ownership \<Rightarrow> nat \<Rightarrow> bool" where
  "leased_at w now \<longleftrightarrow> own_lease w \<and> (case own_until w of None \<Rightarrow> True | Some til \<Rightarrow> til > now)"

definition same_owner :: "string \<Rightarrow> string \<Rightarrow> bool" where
  "same_owner a b =
     (let a = lower (sanitize_owner a); b = lower (sanitize_owner b);
          (short, long) = (if length a \<le> length b then (a, b) else (b, a))
      in short \<noteq> [] \<and> (short = long \<or> (length short \<ge> SHORTENED \<and> starts_with short long)))"

definition route_comment :: "string \<Rightarrow> string \<Rightarrow> string option \<Rightarrow> nat \<Rightarrow> string" where
  "route_comment route_id owner previous now =
     render (case Option.bind previous ownership_parse of
         Some held \<Rightarrow>
           (if leased_at held now \<and> (case own_owner held of Some w \<Rightarrow> same_owner w owner | None \<Rightarrow> False)
            then (ownership_route route_id owner)\<lparr>own_lease := True, own_until := own_until held\<rparr>
            else ownership_route route_id owner)
       | None \<Rightarrow> ownership_route route_id owner)"

datatype hold_kind = Reservation | RouteHold

record hold =
  hold_hostname :: string
  hold_owner :: "string option"
  hold_until :: "nat option"
  hold_kind :: hold_kind

record me =
  me_owner :: string
  me_tunnels :: "string list"
  me_now :: nat

definition is_mine :: "me \<Rightarrow> string option \<Rightarrow> bool" where
  "is_mine m owner = (case owner of Some w \<Rightarrow> same_owner w (me_owner m) | None \<Rightarrow> False)"

definition held_by_other :: "dns_record \<Rightarrow> me \<Rightarrow> hold option" where
  "held_by_other r m =
     Option.bind (Option.bind (rec_comment r) ownership_parse) (\<lambda>w.
       let tunnel = strip_suffix ''.cfargotunnel.com'' (lower (rec_content r));
           mk = (\<lambda>kind til. \<lparr>hold_hostname = lower (rec_name r), hold_owner = own_owner w,
                               hold_until = til, hold_kind = kind\<rparr>);
           reserved = (if leased_at w (me_now m) \<and> \<not> is_mine m (own_owner w)
                       then Some (mk Reservation (own_until w)) else None)
       in case (own_marker w, tunnel) of
            (Route _, Some t) \<Rightarrow>
              if t \<in> set (me_tunnels m) \<or> is_mine m (own_owner w) then None
              else Some (if leased_at w (me_now m) then mk Reservation (own_until w) else mk RouteHold None)
          | _ \<Rightarrow> reserved)"


subsection \<open>Owner labels\<close>

lemma ends_with_snoc: "ends_with [d] s \<longleftrightarrow> s \<noteq> [] \<and> last s = d"
  by (cases s rule: rev_cases) (auto simp: ends_with_iff)

lemma owner_char_dash [simp]: "owner_char (CHR ''-'')"
  by (simp add: owner_char_def)

lemma owner_char_plain: "owner_char c \<Longrightarrow> plain_char c"
  by (auto simp: owner_char_def plain_char_def is_alnum_def is_digit_def is_lower_def is_upper_def code_def)

lemma owner_char_not_sep: "owner_char c \<Longrightarrow> c \<noteq> CHR '';'' \<and> c \<noteq> CHR ''=''"
  by (auto simp: owner_char_def is_alnum_def is_digit_def is_lower_def is_upper_def code_def)

lemma sanitize_chars_ok:
  "list_all owner_char out \<Longrightarrow> length out < MAX_OWNER \<Longrightarrow>
     list_all owner_char (sanitize_chars out cs) \<and> length (sanitize_chars out cs) \<le> MAX_OWNER"
  by (induction out cs rule: sanitize_chars.induct) (auto simp: Let_def)

lemma sanitize_chars_id:
  "list_all owner_char cs \<Longrightarrow> length out + length cs \<le> MAX_OWNER \<Longrightarrow> sanitize_chars out cs = out @ cs"
proof (induction out cs rule: sanitize_chars.induct)
  case (2 out c cs)
  show ?case
  proof (cases "MAX_OWNER \<le> length (out @ [c])")
    case True
    with "2.prems" have "cs = []" by (cases cs) auto
    with True "2.prems" show ?thesis by (simp add: Let_def)
  qed (use 2 in \<open>simp add: Let_def\<close>)
qed simp

lemma trim_char_result:
  "s' = trim_end_char c (trim_start_char c s) \<Longrightarrow> s' = [] \<or> (hd s' \<noteq> c \<and> last s' \<noteq> c)"
proof -
  assume s': "s' = trim_end_char c (trim_start_char c s)"
  let ?t = "trim_start_char c s"
  have hd: "?t = [] \<or> hd ?t \<noteq> c"
    using trim_prefixes_result[of "[c]" "[[c]]" s] unfolding trim_start_char_def
    by (cases "trim_prefixes [[c]] s") auto
  have last: "s' = [] \<or> last s' \<noteq> c"
    using trim_prefixes_result[of "[c]" "[[c]]" "rev ?t"] unfolding s' trim_end_char_def trim_suffixes_def
    by (cases "trim_prefixes [[c]] (rev ?t)") auto
  obtain u where "?t = s' @ u" using trim_suffixes_prefix[of ?t "[[c]]"] unfolding s' trim_end_char_def by auto
  with hd last show ?thesis by (cases s') auto
qed

lemma sanitize_owner_shape:
  "list_all owner_char (sanitize_owner s) \<and> length (sanitize_owner s) \<le> MAX_OWNER
     \<and> (sanitize_owner s = [] \<or> (hd (sanitize_owner s) \<noteq> CHR ''-'' \<and> last (sanitize_owner s) \<noteq> CHR ''-''))"
proof -
  let ?c = "sanitize_chars [] (trim s)"
  have ok: "list_all owner_char ?c \<and> length ?c \<le> MAX_OWNER" by (rule sanitize_chars_ok) (auto simp: MAX_OWNER_def)
  let ?t = "trim_start_char (CHR ''-'') ?c"
  have t: "set ?t \<subseteq> set ?c" "length ?t \<le> length ?c"
    unfolding trim_start_char_def by (rule set_trim_prefixes, rule length_trim_prefixes)
  have r: "set (sanitize_owner s) \<subseteq> set ?t" "length (sanitize_owner s) \<le> length ?t"
    unfolding sanitize_owner_def trim_end_char_def by (rule set_trim_suffixes, rule length_trim_suffixes)
  show ?thesis
    using ok t r trim_char_result[OF sanitize_owner_def[of s]] by (auto simp: list_all_iff)
qed

lemma sanitize_owner_id:
  assumes "list_all owner_char s" and "length s \<le> MAX_OWNER"
    and "s = [] \<or> (hd s \<noteq> CHR ''-'' \<and> last s \<noteq> CHR ''-'')"
  shows "sanitize_owner s = s"
proof -
  have "s = [] \<or> plain_char (hd s) \<and> plain_char (last s)"
    using assms(1) owner_char_plain by (cases s) (auto simp: list_all_iff)
  then have "trim s = s" by (rule trim_id)
  moreover have "sanitize_chars [] s = s" using sanitize_chars_id[OF assms(1), of "[]"] assms(2) by simp
  ultimately show ?thesis
    unfolding sanitize_owner_def using assms(3) trim_char_id by metis
qed

lemma sanitize_owner_again [simp, str_simps]: "sanitize_owner (sanitize_owner s) = sanitize_owner s"
  using sanitize_owner_shape[of s] by (intro sanitize_owner_id) auto

lemma same_owner_refl: "sanitize_owner a \<noteq> [] \<Longrightarrow> same_owner a a"
  by (auto simp: same_owner_def Let_def)

lemma same_owner_commute: "same_owner a b \<Longrightarrow> same_owner b a"
  unfolding same_owner_def Let_def
  by (cases "length (sanitize_owner a) = length (sanitize_owner b)")
     (auto simp: starts_with_def split: if_splits)

text \<open>Cutting a label at the end keeps it the same owner, as long as 24 characters stay.\<close>

lemma same_owner_prefix:
  assumes "sanitize_owner a = p @ r" and "sanitize_owner b = p" and "length p \<ge> SHORTENED"
  shows "same_owner b a"
  using assms unfolding same_owner_def Let_def
  by (auto simp: starts_with_iff lower_append SHORTENED_def)

subsection \<open>The end of a lease\<close>

lemma days_from_civil_eq:
  "days_from_civil year month day =
     (let y = (if month \<le> 2 then year - 1 else year); m = int month
      in 365 * y + y div 4 - y div 100 + y div 400
         + (153 * (if m > 2 then m - 3 else m + 9) + 2) div 5 + int day - 719469)"
proof -
  define y where "y = (if month \<le> 2 then year - 1 else year)"
  define e r where "e = y div 400" and "r = y - y div 400 * 400"
  have y: "y = 400 * e + r" and r: "0 \<le> r" "r < 400" by (auto simp: e_def r_def)
  have d: "y div 4 = 100 * e + r div 4" "y div 100 = 4 * e + r div 100" unfolding y by auto
  show ?thesis
    unfolding days_from_civil_def Let_def y_def[symmetric] e_def[symmetric] r_def[symmetric] d
    by (simp add: y)
qed

lemma days_from_civil_year:
  assumes "0 \<le> days_from_civil y m d" and "days_from_civil y m d < 2932897"
    and "1 \<le> m" "m \<le> 12" "1 \<le> d" "d \<le> 31"
  shows "1970 \<le> y \<and> y \<le> 9999"
proof -
  define v where "v = (if m \<le> 2 then y - 1 else y)"
  define t where "t = (153 * (if int m > 2 then int m - 3 else int m + 9) + 2) div 5"
  have t: "0 \<le> t" "m \<le> 2 \<longrightarrow> 306 \<le> t" "t \<le> 337" "m > 2 \<longrightarrow> t \<le> 275"
    using assms(3,4) unfolding t_def by auto
  have eq: "days_from_civil y m d = 365 * v + v div 4 - v div 100 + v div 400 + t + int d - 719469"
    unfolding days_from_civil_eq Let_def v_def t_def by simp
  have q: "4 * (v div 4) \<le> v" "v - 3 \<le> 4 * (v div 4)" "100 * (v div 100) \<le> v" "v - 99 \<le> 100 * (v div 100)"
    "400 * (v div 400) \<le> v" "v - 399 \<le> 400 * (v div 400)" by presburger+
  have hi: "v \<le> 9999" using assms q t eq by linarith
  have hi': "v = 9999 \<longrightarrow> m > 2" using assms q t eq by auto
  have lo: "1969 \<le> v" using assms q t eq by linarith
  have lo': "v = 1969 \<longrightarrow> m \<le> 2" using assms q t eq by auto
  show ?thesis using hi hi' lo lo' unfolding v_def by (auto split: if_splits)
qed

text \<open>The last millisecond before the year 10000.\<close>

definition LAST_UNTIL :: nat where
  "LAST_UNTIL = 253402300799999"

lemma civil_of_ms:
  assumes "ms \<le> LAST_UNTIL" and "civil_from_days (int (ms div 60000 div 1440)) = (y, m, d)"
  shows "1970 \<le> y" "y \<le> 9999" "1 \<le> m" "m \<le> 12" "1 \<le> d" "d \<le> days_in_month y m"
    "days_from_civil y m d = int (ms div 60000 div 1440)"
proof -
  have v: "1 \<le> m \<and> m \<le> 12 \<and> 1 \<le> d \<and> d \<le> days_in_month y m" by (rule civil_from_days_valid[OF assms(2)])
  have e: "days_from_civil y m d = int (ms div 60000 div 1440)"
    using days_from_civil_from_days[of "int (ms div 60000 div 1440)"] unfolding assms(2) by simp
  have b: "days_in_month y m \<le> 31" by (simp add: days_in_month_def)
  have "ms div 60000 div 1440 < 2932897" using assms(1) unfolding LAST_UNTIL_def by linarith
  then have "1970 \<le> y \<and> y \<le> 9999" using v b by (intro days_from_civil_year[of y m d]) (auto simp: e)
  with v e show "1970 \<le> y" "y \<le> 9999" "1 \<le> m" "m \<le> 12" "1 \<le> d" "d \<le> days_in_month y m"
    "days_from_civil y m d = int (ms div 60000 div 1440)" by auto
qed


lemma digit_plain: "is_digit c \<Longrightarrow> plain_char c \<and> owner_char c \<and> is_alnum c"
  by (auto simp: is_digit_def plain_char_def owner_char_def is_alnum_def)

lemma digits_no_sep:
  "list_all is_digit s \<Longrightarrow> c \<in> {CHR ''-'', CHR '':'', CHR ''T'', CHR ''t'', CHR '' '', CHR '';'', CHR ''='', CHR ''Z'', CHR ''z''}
     \<Longrightarrow> c \<notin> set s"
  by (auto simp: list_all_iff is_digit_def code_def)

lemma split_date_append:
  "\<forall>c \<in> set a. c \<notin> {CHR ''T'', CHR ''t'', CHR '' ''} \<Longrightarrow> split_date (a @ CHR ''T'' # b) = (a, Some b)"
  by (induction a) auto

lemma show_pad_last: "is_digit (last (show_pad w n))"
  using list_all_show_pad[of w n] show_pad_not_Nil[of w n] by (metis last_in_set list_all_iff)

lemma show_pad_hd: "is_digit (hd (show_pad w n))"
  using list_all_show_pad[of w n] show_pad_not_Nil[of w n] by (metis hd_in_set list_all_iff)

lemma trim_suffixes_Z: "s \<noteq> [] \<Longrightarrow> is_digit (last s) \<Longrightarrow> trim_suffixes [''Z'', ''z''] (s @ ''Z'') = s"
proof -
  assume s: "s \<noteq> []" "is_digit (last s)"
  then have n: "\<forall>w \<in> set [''Z'', ''z'']. w = [] \<or> \<not> starts_with w (rev s)"
    by (cases s rule: rev_cases) (auto simp: is_digit_def code_def)
  have "trim_prefixes [''Z'', ''z''] (rev (s @ ''Z'')) = trim_prefixes [''Z'', ''z''] (rev s)"
    by (subst trim_prefixes.simps) simp
  then show ?thesis unfolding trim_suffixes_def using trim_prefixes_none[OF n] by simp
qed

lemma parse_time_format:
  "h < 24 \<Longrightarrow> m < 60 \<Longrightarrow>
     parse_time (show_pad 2 h @ '':'' @ show_pad 2 m @ ''Z'') = Some (h * 3600 + m * 60)"
proof -
  assume b: "h < 24" "m < 60"
  let ?s = "show_pad 2 h @ '':'' @ show_pad 2 m"
  have t: "trim_suffixes [''Z'', ''z''] (?s @ ''Z'') = ?s"
    by (rule trim_suffixes_Z) (simp_all add: show_pad_last)
  have n: "CHR '':'' \<notin> set (show_pad 2 k)" for k by (rule digits_no_sep[OF list_all_show_pad]) simp
  have "split_on (CHR '':'') ?s = [show_pad 2 h, show_pad 2 m]"
    using split_on_append[OF n] split_on_no_sep[OF n] by simp
  then show ?thesis
    using t b by (simp add: parse_time_def parse_uint_pad U64_MAX_def)
qed

theorem parse_format_until:
  assumes "ms \<le> LAST_UNTIL"
  shows "parse_until (format_until ms) = Some (ms div 60000 * 60000)"
proof -
  define mins where "mins = ms div 60000"
  obtain y m d where c: "civil_from_days (int (mins div 1440)) = (y, m, d)"
    by (cases "civil_from_days (int (mins div 1440))")
  note v = civil_of_ms[OF assms c[unfolded mins_def], folded mins_def]
  let ?date = "show_pad 4 (nat y) @ ''-'' @ show_pad 2 m @ ''-'' @ show_pad 2 d"
  let ?time = "show_pad 2 (mins mod 1440 div 60) @ '':'' @ show_pad 2 (mins mod 1440 mod 60) @ ''Z''"
  have f: "format_until ms = ?date @ CHR ''T'' # ?time"
    unfolding format_until_def mins_def[symmetric] Let_def using c by simp
  have dig: "\<forall>c \<in> set (show_pad w n). is_digit c" for w n
    using list_all_show_pad[of w n] by (simp add: list_all_iff)
  have "plain_char (hd (?date @ CHR ''T'' # ?time))" "plain_char (last (?date @ CHR ''T'' # ?time))"
    using show_pad_hd[of 4 "nat y"] digit_plain by (auto simp: plain_char_def code_def)
  then have t: "trim (format_until ms) = ?date @ CHR ''T'' # ?time" unfolding f by (intro trim_id) auto
  have nT: "\<forall>c \<in> set ?date. c \<notin> {CHR ''T'', CHR ''t'', CHR '' ''}"
    using digits_no_sep[OF list_all_show_pad] by auto
  have nd: "CHR ''-'' \<notin> set (show_pad w n)" for w n by (rule digits_no_sep[OF list_all_show_pad]) simp
  have sp: "split_on (CHR ''-'') ?date = [show_pad 4 (nat y), show_pad 2 m, show_pad 2 d]"
    using split_on_append[OF nd] split_on_no_sep[OF nd] by simp
  have py: "parse_int I64_MAX (show_pad 4 (nat y)) = Some y"
    using v(1,2) parse_int_pad[of "nat y" I64_MAX 4] by (simp add: I64_MAX_def)
  have d31: "days_in_month y m \<le> 31" by (simp add: days_in_month_def)
  have pm: "parse_uint U32_MAX (show_pad 2 m) = Some m" "parse_uint U32_MAX (show_pad 2 d) = Some d"
    using v d31 by (auto intro!: parse_uint_pad simp: U32_MAX_def)
  have pt: "parse_time ?time = Some (mins mod 1440 div 60 * 3600 + mins mod 1440 mod 60 * 60)"
    by (rule parse_time_format) (auto simp: less_mult_imp_div_less)
  have "parse_until (format_until ms) =
      Some ((mins div 1440 * 86400 + (mins mod 1440 div 60 * 3600 + mins mod 1440 mod 60 * 60)) * 1000)"
    unfolding parse_until_def t split_date_append[OF nT] prod.case Let_def sp
    using v py pm pt by simp
  also have "\<dots> = Some (mins * 60000)"
  proof -
    define q r where "q = mins div 1440" and "r = mins mod 1440"
    have "mins = 1440 * q + r" by (simp add: q_def r_def)
    moreover have "3600000 * (r div 60) + 60000 * (r mod 60) = r * 60000"
      using mult_div_mod_eq[of 60 r] by linarith
    ultimately show ?thesis unfolding q_def[symmetric] r_def[symmetric] by simp
  qed
  finally show ?thesis by (simp add: mins_def)
qed


subsection \<open>Comments\<close>

lemma format_until_chars:
  assumes "ms \<le> LAST_UNTIL"
  shows "list_all plain_char (format_until ms)" "CHR '';'' \<notin> set (format_until ms)"
    "CHR ''='' \<notin> set (format_until ms)" "length (format_until ms) = 17" "format_until ms \<noteq> []"
proof -
  define mins where "mins = ms div 60000"
  obtain y m d where c: "civil_from_days (int (mins div 1440)) = (y, m, d)"
    by (cases "civil_from_days (int (mins div 1440))")
  note v = civil_of_ms[OF assms c[unfolded mins_def], folded mins_def]
  have f: "format_until ms = show_pad 4 (nat y) @ ''-'' @ show_pad 2 m @ ''-'' @ show_pad 2 d @ ''T''
      @ show_pad 2 (mins mod 1440 div 60) @ '':'' @ show_pad 2 (mins mod 1440 mod 60) @ ''Z''"
    unfolding format_until_def mins_def[symmetric] Let_def using c by simp
  have dig: "c \<in> set (show_pad w n) \<Longrightarrow> is_digit c" for c w n
    using list_all_show_pad[of w n] by (simp add: list_all_iff)
  show "list_all plain_char (format_until ms)"
    unfolding f using digit_plain dig by (auto simp: list_all_iff plain_char_def code_def)
  have n: "CHR '';'' \<notin> set (show_pad w n)" "CHR ''='' \<notin> set (show_pad w n)" for w n
    by (rule digits_no_sep[OF list_all_show_pad]; simp)+
  show "CHR '';'' \<notin> set (format_until ms)" "CHR ''='' \<notin> set (format_until ms)"
    unfolding f using n by auto
  have d31: "days_in_month y m \<le> 31" by (simp add: days_in_month_def)
  have l2: "n < 100 \<Longrightarrow> length (show_pad 2 n) = 2" and l4: "n < 10000 \<Longrightarrow> length (show_pad 4 n) = 4" for n
    using length_show_pad[of n 2] length_show_pad[of n 4] by auto
  have "mins mod 1440 div 60 < 100" "mins mod 1440 mod 60 < 100"
    using less_mult_imp_div_less[of "mins mod 1440" 24 60] mod_less_divisor[of 60 "mins mod 1440"] by simp_all
  then show "length (format_until ms) = 17"
    unfolding f using v d31 l2 l4 by (simp add: nat_less_iff)
  then show "format_until ms \<noteq> []" by auto
qed

text \<open>What Teitunnel writes: a route with an alphanumeric id, or a placeholder.\<close>

definition wf_ownership :: "ownership \<Rightarrow> bool" where
  "wf_ownership w \<longleftrightarrow>
     (case own_marker w of Route rid \<Rightarrow> list_all is_alnum rid | Lease \<Rightarrow> own_lease w | Other _ \<Rightarrow> False)
     \<and> (case own_until w of None \<Rightarrow> True | Some ms \<Rightarrow> ms \<le> LAST_UNTIL)"

text \<open>The owner as the comment shows it.\<close>

definition comment_room :: "ownership \<Rightarrow> nat" where
  "comment_room w = MAX_COMMENT - (length PREFIX + length (render_marker (own_marker w))
     + length (render_tail w) + length '';by='')"

definition shown_owner :: "ownership \<Rightarrow> string option" where
  "shown_owner w = (case own_owner w of None \<Rightarrow> None
     | Some owner \<Rightarrow> (let s = take (comment_room w) (sanitize_owner owner)
                      in if s = [] then None else Some s))"

definition render_parts :: "ownership \<Rightarrow> string list" where
  "render_parts w =
     (case shown_owner w of None \<Rightarrow> [] | Some s \<Rightarrow> [''by='' @ s])
     @ (if own_lease w \<and> own_marker w \<noteq> Lease then [''lease''] else [])
     @ (case own_until w of None \<Rightarrow> [] | Some u \<Rightarrow> [''until='' @ format_until u])"

lemma join_Cons: "join sep (x # ys) = x @ concat (map (\<lambda>y. sep @ y) ys)"
  by (induction ys arbitrary: x) auto

lemma render_eq: "render w = PREFIX @ join '';'' (render_marker (own_marker w) # render_parts w)"
  unfolding render_def join_Cons render_parts_def shown_owner_def comment_room_def render_tail_def Let_def
  by (auto simp: add.assoc split: option.split)

lemma shown_owner_chars: "shown_owner w = Some s \<Longrightarrow> s \<noteq> [] \<and> list_all owner_char s"
  using sanitize_owner_shape set_take_subset
  by (fastforce simp: shown_owner_def Let_def list_all_iff split: option.splits if_splits)

lemma alnum_owner_char: "is_alnum c \<Longrightarrow> owner_char c"
  by (simp add: owner_char_def)

lemma wf_marker_chars:
  "wf_ownership w \<Longrightarrow> CHR '';'' \<notin> set (render_marker (own_marker w))
     \<and> list_all plain_char (render_marker (own_marker w))"
  by (cases "own_marker w")
     (auto simp: wf_ownership_def list_all_iff plain_char_def code_def is_alnum_def is_digit_def
        is_lower_def is_upper_def)

lemma shown_owner_plain: "shown_owner w = Some s \<Longrightarrow> CHR '';'' \<notin> set s \<and> list_all plain_char s"
  using shown_owner_chars owner_char_plain owner_char_not_sep by (fastforce simp: list_all_iff)

lemma plain_by: "list_all plain_char ''by=''" "list_all plain_char ''until=''" "list_all plain_char ''lease''"
  by (simp_all add: plain_char_def code_def)

lemma render_parts_chars:
  assumes w: "wf_ownership w" and p: "p \<in> set (render_parts w)"
  shows "CHR '';'' \<notin> set p \<and> list_all plain_char p"
proof -
  have u: "own_until w = Some ms \<Longrightarrow> ms \<le> LAST_UNTIL" for ms using w by (simp add: wf_ownership_def)
  consider s where "shown_owner w = Some s" "p = ''by='' @ s" | "p = ''lease''"
    | ms where "own_until w = Some ms" "p = ''until='' @ format_until ms"
    using p unfolding render_parts_def
    by (cases "shown_owner w"; cases "own_until w"; auto split: if_splits)
  then show ?thesis
  proof cases
    case 1
    then show ?thesis using shown_owner_plain plain_by(1) by (simp only: list_all_append) auto
  next
    case 2
    then show ?thesis using plain_by(3) by simp
  next
    case 3
    then show ?thesis using format_until_chars[OF u] plain_by(2) by (simp only: list_all_append) auto
  qed
qed

lemma read_marker_render: "wf_ownership w \<Longrightarrow> read_marker (render_marker (own_marker w)) = own_marker w"
  by (cases "own_marker w")
     (auto simp: wf_ownership_def read_marker_def strip_prefix_def starts_with_def split: option.splits)

lemma trim_render: "wf_ownership w \<Longrightarrow> trim (render w) = render w"
proof (rule trim_id)
  assume w: "wf_ownership w"
  have "list_all plain_char (render w)"
    unfolding render_eq join_Cons
    using wf_marker_chars[OF w] render_parts_chars[OF w]
    by (auto simp: list_all_iff PREFIX_def plain_char_def code_def)
  then show "render w = [] \<or> plain_char (hd (render w)) \<and> plain_char (last (render w))"
    by (cases "render w") (auto simp: list_all_iff)
qed

lemma read_part_by: "owner \<noteq> [] \<Longrightarrow> read_part (''by='' @ owner) v = v\<lparr>own_owner := Some owner\<rparr>"
  using split_once_char_append[of "CHR ''=''" "''by''" owner] by (simp add: read_part_def)

lemma read_part_until: "read_part (''until='' @ t) v = v\<lparr>own_until := parse_until t\<rparr>"
  using split_once_char_append[of "CHR ''=''" "''until''" t] by (simp add: read_part_def)

lemma read_part_lease: "read_part ''lease'' v = v\<lparr>own_lease := True\<rparr>"
  using split_once_char_None[of "CHR ''=''" "''lease''"] by (simp add: read_part_def)

theorem parse_render:
  assumes w: "wf_ownership w"
  shows "ownership_parse (render w) = Some (w\<lparr>own_owner := shown_owner w,
     own_until := map_option (\<lambda>ms. ms div 60000 * 60000) (own_until w)\<rparr>)"
proof -
  let ?parts = "render_marker (own_marker w) # render_parts w"
  have sp: "split_on (CHR '';'') (join '';'' ?parts) = ?parts"
    by (rule split_on_join) (use wf_marker_chars[OF w] render_parts_chars[OF w] in auto)
  have st: "strip_prefix PREFIX (trim (render w)) = Some (join '';'' ?parts)"
    unfolding trim_render[OF w] unfolding render_eq by simp
  have u: "own_until w = Some ms \<Longrightarrow> parse_until (format_until ms) = Some (ms div 60000 * 60000)" for ms
    using w by (intro parse_format_until) (auto simp: wf_ownership_def)
  have l: "own_marker w = Lease \<Longrightarrow> own_lease w" using w by (auto simp: wf_ownership_def)
  have o: "shown_owner w = Some s \<Longrightarrow> s \<noteq> []" for s using shown_owner_chars by blast
  show ?thesis
    unfolding ownership_parse_def st sp option.map Let_def list.sel read_marker_render[OF w]
    using u l o unfolding render_parts_def
    by (cases "shown_owner w"; cases "own_until w"; cases "own_lease w"; cases "own_marker w = Lease")
       (simp_all del: append_Cons add: read_part_by read_part_until read_part_lease)
qed

subsection \<open>Bounds of a comment, and its owner\<close>

definition marker_short :: "nat \<Rightarrow> ownership \<Rightarrow> bool" where
  "marker_short n w \<longleftrightarrow> (case own_marker w of Route rid \<Rightarrow> length rid \<le> n | _ \<Rightarrow> True)"

lemma render_tail_length: "wf_ownership w \<Longrightarrow> length (render_tail w) \<le> 30"
  by (auto simp: render_tail_def wf_ownership_def format_until_chars split: option.splits)

lemma render_marker_length:
  "wf_ownership w \<Longrightarrow> marker_short n w \<Longrightarrow> length (render_marker (own_marker w)) \<le> max 6 (6 + n)"
  by (cases "own_marker w") (auto simp: wf_ownership_def marker_short_def)

lemma render_length:
  assumes "wf_ownership w" and "marker_short 54 w"
  shows "length (render w) \<le> MAX_COMMENT"
  using render_tail_length[OF assms(1)] render_marker_length[OF assms]
  unfolding render_def Let_def MAX_COMMENT_def PREFIX_def by (auto split: option.split)

text \<open>A label without two dashes in a row, cut to fit, stays the same owner.\<close>

definition no_double_dash :: "string \<Rightarrow> bool" where
  "no_double_dash s \<longleftrightarrow> (\<forall>i. Suc i < length s \<longrightarrow> \<not> (s ! i = CHR ''-'' \<and> s ! Suc i = CHR ''-''))"

lemma take_sanitized:
  assumes s: "s = sanitize_owner a" and nd: "no_double_dash s" and n: "SHORTENED < n" "n \<le> length s"
  shows "\<exists>p r. s = p @ r \<and> sanitize_owner (take n s) = p \<and> SHORTENED \<le> length p"
proof (cases "last (take n s) = CHR ''-''")
  case False
  have len: "length (take n s) = n" using n by simp
  have ok: "list_all owner_char (take n s)" "length (take n s) \<le> MAX_OWNER"
    using sanitize_owner_shape[of a] n by (auto simp: s list_all_iff dest: in_set_takeD)
  have "hd (take n s) \<noteq> CHR ''-''"
    using sanitize_owner_shape[of a] n by (auto simp: s[symmetric] hd_conv_nth)
  then have "sanitize_owner (take n s) = take n s"
    using ok False by (intro sanitize_owner_id) auto
  then show ?thesis using n len by (intro exI[of _ "take n s"] exI[of _ "drop n s"]) auto
next
  case True
  define p where "p = take (n - 1) s"
  have n1: "0 < n - 1" "n - 1 < length s" using n by (auto simp: SHORTENED_def)
  have tn: "take n s = p @ [s ! (n - 1)]"
    using take_Suc_conv_app_nth[of "n - 1" s] n1 by (simp add: p_def)
  then have dash: "s ! (n - 1) = CHR ''-''" using True by simp
  obtain k where k: "n = Suc (Suc k)" using n1 by (cases n rule: nat.exhaust; cases "n - 1") auto
  have "p = take k s @ [s ! k]" using n1 k take_Suc_conv_app_nth[of k s] by (simp add: p_def)
  then have lp: "last p = s ! k" by simp
  have "s ! k \<noteq> CHR ''-''" using nd dash n1 k by (auto simp: no_double_dash_def)
  then have last: "last p \<noteq> CHR ''-''" using lp by simp
  have p: "p \<noteq> []" "hd p = hd s" using n1 by (auto simp: p_def)
  have shape: "list_all owner_char s" "length s \<le> MAX_OWNER" "hd s \<noteq> CHR ''-''"
    using sanitize_owner_shape[of a] n by (auto simp: s[symmetric])
  have pc: "list_all owner_char p" "length p \<le> MAX_OWNER"
    using shape by (auto simp: p_def list_all_iff dest: in_set_takeD)
  have pl: "plain_char (hd p)" using pc(1) p(1) owner_char_plain by (cases p) auto
  have t: "trim (p @ ''-'') = p @ ''-''" using pl p(1) by (intro trim_id) (auto simp: plain_char_def code_def)
  have c: "sanitize_chars [] (p @ ''-'') = p @ ''-''"
    using pc shape(2) n1 by (subst sanitize_chars_id) (auto simp: p_def)
  have st: "trim_start_char (CHR ''-'') (p @ ''-'') = p @ ''-''"
    using p shape(3) by (intro trim_char_id(1)) simp
  have en: "trim_end_char (CHR ''-'') (p @ ''-'') = p"
  proof -
    have "trim_prefixes [''-''] (CHR ''-'' # rev p) = trim_prefixes [''-''] (rev p)"
      by (subst trim_prefixes.simps) simp
    moreover have "trim_end_char (CHR ''-'') p = p" using last by (intro trim_char_id(2)) simp
    ultimately show ?thesis by (simp add: trim_end_char_def trim_suffixes_def)
  qed
  have "sanitize_owner (take n s) = p" unfolding sanitize_owner_def tn dash t c st en ..
  moreover have "SHORTENED \<le> length p" using n by (simp add: p_def)
  ultimately show ?thesis by (intro exI[of _ p] exI[of _ "drop (n - 1) s"]) (simp add: p_def)
qed

lemma shown_owner_same:
  assumes w: "wf_ownership w" and id: "marker_short 12 w" and ow: "own_owner w = Some a"
    and ne: "sanitize_owner a \<noteq> []" and nd: "no_double_dash (sanitize_owner a)"
  shows "\<exists>s. shown_owner w = Some s \<and> same_owner s a"
proof -
  have room: "comment_room w > SHORTENED"
    using render_tail_length[OF w] render_marker_length[OF w id]
    by (simp add: comment_room_def MAX_COMMENT_def PREFIX_def SHORTENED_def)
  let ?s = "take (comment_room w) (sanitize_owner a)"
  have shown: "shown_owner w = Some ?s" using ow ne room by (simp add: shown_owner_def Let_def SHORTENED_def)
  have "same_owner ?s a"
  proof (cases "length (sanitize_owner a) \<le> comment_room w")
    case True
    then show ?thesis using ne by (simp add: same_owner_def Let_def)
  next
    case False
    then have "comment_room w \<le> length (sanitize_owner a)" by simp
    from take_sanitized[OF refl nd room this] show ?thesis using same_owner_prefix by blast
  qed
  with shown show ?thesis by blast
qed

text \<open>What this owner wrote is never held by someone else.\<close>

lemma own_record_not_held:
  assumes w: "wf_ownership w" and id: "marker_short 12 w" and ow: "own_owner w = Some (me_owner m)"
    and ne: "sanitize_owner (me_owner m) \<noteq> []" and nd: "no_double_dash (sanitize_owner (me_owner m))"
    and c: "rec_comment r = Some (render w)"
  shows "held_by_other r m = None"
proof -
  obtain s where s: "shown_owner w = Some s" "same_owner s (me_owner m)"
    using shown_owner_same[OF w id ow ne nd] by blast
  show ?thesis
    unfolding held_by_other_def c using parse_render[OF w] s
    by (auto simp: is_mine_def Let_def split: marker.split option.split)
qed

lemma wf_ownership_route: "list_all is_alnum rid \<Longrightarrow> wf_ownership (ownership_route rid owner)"
  by (simp add: wf_ownership_def ownership_route_def)

text \<open>The comment of a route keeps a live reservation of its owner, and only that.\<close>

lemma route_comment_parse:
  assumes id: "list_all is_alnum rid"
    and held: "\<And>h. Option.bind previous ownership_parse = Some h \<Longrightarrow> (case own_until h of None \<Rightarrow> True | Some ms \<Rightarrow> ms \<le> LAST_UNTIL)"
  shows "\<exists>w. ownership_parse (route_comment rid owner previous now) = Some w
     \<and> own_marker w = Route rid
     \<and> own_lease w = (case Option.bind previous ownership_parse of
          Some h \<Rightarrow> leased_at h now \<and> (\<exists>v. own_owner h = Some v \<and> same_owner v owner) | None \<Rightarrow> False)
     \<and> own_until w = (if own_lease w
          then map_option (\<lambda>ms. ms div 60000 * 60000) (own_until (the (Option.bind previous ownership_parse)))
          else None)"
proof (cases "Option.bind previous ownership_parse")
  case None
  then show ?thesis
    using parse_render[OF wf_ownership_route[OF id], of owner]
    by (simp add: route_comment_def ownership_route_def)
next
  case (Some h)
  show ?thesis
  proof (cases "leased_at h now \<and> (case own_owner h of Some v \<Rightarrow> same_owner v owner | None \<Rightarrow> False)")
    case True
    let ?w = "(ownership_route rid owner)\<lparr>own_lease := True, own_until := own_until h\<rparr>"
    have "wf_ownership ?w" using id held[OF Some] by (simp add: wf_ownership_def ownership_route_def)
    from parse_render[OF this] True Some show ?thesis
      by (auto simp: route_comment_def ownership_route_def split: option.splits)
  next
    case False
    then show ?thesis
      using parse_render[OF wf_ownership_route[OF id], of owner] Some
      by (auto simp: route_comment_def ownership_route_def split: option.splits)
  qed
qed

end
