(* ===== verification/Balance.thy ===== *)
theory Balance
  imports Domain Cf_Api
begin

text \<open>
  What load balancing a hostname and private networks know: \<open>engine/balance.rs\<close> and
  \<open>engine/networks.rs\<close>. Hostnames are ASCII (\<open>domain/hostname.rs\<close>), so a map over characters
  is one over bytes.
\<close>

subsection \<open>Load balancing (\<open>engine/balance.rs\<close>)\<close>

definition tunnel_target :: "string \<Rightarrow> string" where
  "tunnel_target tunnel_id = tunnel_id @ ''.cfargotunnel.com''"

definition lb_marker :: "string \<Rightarrow> string" where
  "lb_marker hostname = ''teitunnel:lb='' @ lower hostname"

definition lb_pool_name :: "string \<Rightarrow> string" where
  "lb_pool_name hostname = ''teitunnel-''
     @ map (\<lambda>c. if is_alnum c \<or> c = CHR ''-'' then c else CHR ''_'') (lower hostname)"

definition monitor_for :: "string \<Rightarrow> monitor" where
  "monitor_for hostname =
     \<lparr>mon_id = [], mon_kind = ''https'', mon_description = lb_marker hostname, mon_path = ''/'',
      mon_expected_codes = ''2xx'', mon_follow_redirects = True,
      mon_header = [(''Host'', [lower hostname])]\<rparr>"

definition origin_for :: "string \<Rightarrow> string \<Rightarrow> string \<Rightarrow> lb_origin" where
  "origin_for hostname tunnel_id name =
     \<lparr>org_name = name, org_address = tunnel_target tunnel_id, org_enabled = True,
      org_header = [(''Host'', [lower hostname])]\<rparr>"

record serving_tunnel =
  srv_id :: string
  srv_name :: string

record balance_state =
  bal_hostname :: string
  bal_zone_id :: string
  bal_balancer :: "load_balancer option"
  bal_pool :: "pool option"
  bal_monitor :: "monitor option"
  bal_serving :: "serving_tunnel list"

definition bal_owned :: "balance_state \<Rightarrow> bool" where
  "bal_owned b = (case bal_balancer b of None \<Rightarrow> True
     | Some lb \<Rightarrow> lb_description lb = lb_marker (bal_hostname b))"

definition bal_active :: "balance_state \<Rightarrow> bool" where
  "bal_active b \<longleftrightarrow> bal_balancer b \<noteq> None \<and> bal_owned b"

subsection \<open>Private networks (\<open>engine/networks.rs\<close>)\<close>

record network_route =
  net_id :: string
  net_network :: string
  net_tunnel_id :: string
  net_tunnel_name :: "string option"
  net_vnet :: "string option"
  net_comment :: string

record hostname_route =
  hr_id :: string
  hr_hostname :: string
  hr_tunnel_id :: string
  hr_tunnel_name :: "string option"
  hr_comment :: string

record network_state =
  ns_default_vnet :: "string option"
  ns_routes :: "network_route list"
  ns_hostnames :: "hostname_route list option"

definition route_range :: "externals \<Rightarrow> network_route \<Rightarrow> ip_net option" where
  "route_range X r = ok_of (network_parse X (net_network r))"

definition route_hostname :: "externals \<Rightarrow> hostname_route \<Rightarrow> hostname option" where
  "route_hostname X r = ok_of (private_hostname_parse X (hr_hostname r))"

definition in_default_vnet :: "network_state \<Rightarrow> network_route list" where
  "in_default_vnet s = filter (\<lambda>r. case (net_vnet r, ns_default_vnet s) of
     (Some v, Some d) \<Rightarrow> v = d | _ \<Rightarrow> True) (ns_routes s)"

definition of_tunnel :: "network_state \<Rightarrow> string \<Rightarrow> network_route list" where
  "of_tunnel s tid = filter (\<lambda>r. net_tunnel_id r = tid) (ns_routes s)"

definition ns_hostname_list :: "network_state \<Rightarrow> hostname_route list" where
  "ns_hostname_list s = (case ns_hostnames s of None \<Rightarrow> [] | Some hs \<Rightarrow> hs)"

definition hostnames_of_tunnel :: "network_state \<Rightarrow> string \<Rightarrow> hostname_route list" where
  "hostnames_of_tunnel s tid = filter (\<lambda>r. hr_tunnel_id r = tid) (ns_hostname_list s)"

definition hostname_routes :: "network_state \<Rightarrow> hostname \<Rightarrow> hostname_route list" where
  "hostname_routes s h = filter (\<lambda>r. private_hostname_matches h (hr_hostname r)) (ns_hostname_list s)"

end
