(* ===== verification/Ingress.thy ===== *)
theory Ingress
  imports Cf_Api
begin

text \<open>
  Ingress ordering (\<open>engine/ingress.rs\<close>): cloudflared matches the rules of a tunnel from top
  to bottom, so the more specific ones come first and a single catch-all comes last.
\<close>

subsection \<open>The code\<close>

definition CATCH_ALL :: string where
  "CATCH_ALL = ''http_status:404''"

text \<open>The key \<open>(u8, u8, Reverse<usize>)\<close>; a reversed length is its negation.\<close>

definition specificity :: "ingress_rule \<Rightarrow> nat \<times> nat \<times> int" where
  "specificity r =
     (of_bool (rule_hostname r = None),
      of_bool (case rule_hostname r of Some h \<Rightarrow> starts_with ''*'' h | None \<Rightarrow> False),
      - int ((case rule_path r of Some p \<Rightarrow> length p | None \<Rightarrow> 0) + of_bool (rule_path r \<noteq> None)))"

definition catch_all :: ingress_rule where
  "catch_all = \<lparr>rule_hostname = None, rule_path = None, rule_service = CATCH_ALL,
     rule_origin_request = [], rule_extra = []\<rparr>"

definition sort_ingress :: "ingress_rule list \<Rightarrow> ingress_rule list" where
  "sort_ingress rules = sort_key specificity (filter (\<lambda>r. rule_hostname r \<noteq> None) rules) @ [catch_all]"

subsection \<open>What the order gives\<close>

text \<open>The rules a tunnel routes: those with a hostname.\<close>

definition routed :: "ingress_rule list \<Rightarrow> ingress_rule list" where
  "routed rules = filter (\<lambda>r. rule_hostname r \<noteq> None) rules"

lemma catch_all_hostname [simp]: "rule_hostname catch_all = None"
  by (simp add: catch_all_def)

lemma set_routed [simp]: "set (routed rules) = {r \<in> set rules. rule_hostname r \<noteq> None}"
  by (simp add: routed_def)

lemma routed_routed [simp]: "routed (routed rules) = routed rules"
  by (simp add: routed_def)

lemma sort_ingress_eq: "sort_ingress rules = sort_key specificity (routed rules) @ [catch_all]"
  by (simp add: sort_ingress_def routed_def)

lemma routed_sort_key: "routed (sort_key f (routed rules)) = sort_key f (routed rules)"
  by (auto simp: routed_def filter_id_conv)

lemma routed_sort_ingress [simp]: "routed (sort_ingress rules) = sort_key specificity (routed rules)"
  using routed_sort_key[of specificity rules] by (simp add: sort_ingress_eq) (simp add: routed_def)

lemma set_sort_ingress [simp]: "set (sort_ingress rules) = insert catch_all (set (routed rules))"
  by (auto simp: sort_ingress_eq)

lemma sort_ingress_idem [simp]: "sort_ingress (sort_ingress rules) = sort_ingress rules"
proof -
  have "sort_key specificity (sort_key specificity (routed rules)) = sort_key specificity (routed rules)"
    by (rule sort_key_id_if_sorted) simp
  then show ?thesis by (simp only: sort_ingress_eq[of "sort_ingress rules"] routed_sort_ingress)
      (simp add: sort_ingress_eq)
qed

lemma sort_ingress_catch_all:
  "last (sort_ingress rules) = catch_all \<and> filter (\<lambda>r. rule_hostname r = None) (sort_ingress rules) = [catch_all]"
  by (auto simp: sort_ingress_eq filter_empty_conv)

lemma mset_sort_ingress: "mset (sort_ingress rules) = add_mset catch_all (mset (routed rules))"
  by (simp add: sort_ingress_eq)

text \<open>Rules of equal specificity keep the order they were given in.\<close>

lemma sort_ingress_stable:
  "filter (\<lambda>r. specificity r = k) (routed (sort_ingress rules)) = filter (\<lambda>r. specificity r = k) (routed rules)"
  by (simp only: routed_sort_ingress sort_key_stable)

text \<open>Of two rules for hostnames, the one that comes first is at least as specific: an exact
  name before a wildcard, and a longer path before a shorter one.\<close>

definition path_weight :: "ingress_rule \<Rightarrow> nat" where
  "path_weight r = (case rule_path r of Some p \<Rightarrow> Suc (length p) | None \<Rightarrow> 0)"

definition wildcard_rule :: "ingress_rule \<Rightarrow> bool" where
  "wildcard_rule r \<longleftrightarrow> (\<exists>h. rule_hostname r = Some h \<and> starts_with ''*'' h)"

lemma specificity_le:
  assumes "specificity r \<le> specificity s" and "rule_hostname r \<noteq> None" and "rule_hostname s \<noteq> None"
  shows "(wildcard_rule r \<longrightarrow> wildcard_rule s) \<and> (wildcard_rule r = wildcard_rule s \<longrightarrow> path_weight s \<le> path_weight r)"
  using assms unfolding specificity_def wildcard_rule_def path_weight_def less_eq_prod_def
  by (auto split: option.splits if_splits)

lemma sort_ingress_order:
  assumes "i < j" and "j < length (sort_ingress rules) - 1"
  shows "specificity (sort_ingress rules ! i) \<le> specificity (sort_ingress rules ! j)"
proof -
  let ?s = "sort_key specificity (routed rules)"
  have "sorted (map specificity ?s)" by simp
  moreover have j: "j < length ?s" using assms by (simp add: sort_ingress_eq)
  ultimately have "specificity (?s ! i) \<le> specificity (?s ! j)"
    using assms(1) sorted_nth_mono[of "map specificity ?s" i j] by simp
  then show ?thesis using assms j by (simp add: sort_ingress_eq nth_append)
qed


end
