(* ===== verification/Engine_Types.thy ===== *)
theory Engine_Types
  imports Sites Ownership Balance Ingress
begin

text \<open>
  The engine's vocabulary (\<open>engine/types.rs\<close>): what was observed (a snapshot), what the user
  asked for (an intent), and what a plan does (steps, in order, with warnings). The texts shown
  to people and the serialisation are not modelled.
\<close>

subsection \<open>Routes and the snapshot\<close>

definition ownership_comment :: "string \<Rightarrow> string" where
  "ownership_comment rid = ''teitunnel:route='' @ rid"

record route_spec =
  rt_id :: string
  rt_hostname :: hostname
  rt_path :: "string option"
  rt_origin :: string
  rt_options :: json_map
  rt_access :: "access_rule option"

definition to_rule :: "route_spec \<Rightarrow> ingress_rule" where
  "to_rule r = \<lparr>rule_hostname = Some (rt_hostname r), rule_path = rt_path r, rule_service = rt_origin r,
     rule_origin_request = rt_options r, rule_extra = []\<rparr>"

record zone_ref =
  zone_id :: string
  zone_name :: string

record observed_tunnel =
  tun_id :: string
  tun_name :: string
  tun_config_version :: nat
  tun_ingress :: "ingress_rule list"

record route_elsewhere =
  else_tunnel :: string
  else_hostname :: string
  else_path :: "string option"

record observed_record =
  obs_zone_id :: string
  obs_record :: dns_record
  obs_owned :: bool

record snapshot =
  sn_account_id :: string
  sn_machine_name :: string
  sn_zones :: "zone_ref list"
  sn_tunnel :: "observed_tunnel option"
  sn_tunnel_names :: "string list"
  sn_elsewhere :: "route_elsewhere list"
  sn_records :: "observed_record list"
  sn_access :: "access_state option"
  sn_networks :: "network_state option"
  sn_balance :: "balance_state option"
  sn_site :: "site_state option"
  sn_held :: "hold list"
  sn_owner :: string
  sn_now :: nat
  sn_edge :: "edge_state list"
  sn_service_tokens :: "service_token list option"
  sn_database :: "database_state option"
  sn_front :: "front_state list"

text \<open>\<open>J\<close> is \<open>serde_json::to_vec\<close> of a snapshot.\<close>

definition fingerprint :: "externals \<Rightarrow> (snapshot \<Rightarrow> string) \<Rightarrow> snapshot \<Rightarrow> string" where
  "fingerprint X J s = concat (map hex_byte (sha256 X (J s)))"

definition edge_in :: "snapshot \<Rightarrow> string \<Rightarrow> edge_state option" where
  "edge_in s zid = find (\<lambda>e. es_zone_id e = zid) (sn_edge s)"

definition front_of :: "snapshot \<Rightarrow> string \<Rightarrow> front_state option" where
  "front_of s hostname = find (\<lambda>f. eq_ic (fs_hostname f) hostname) (sn_front s)"

definition records_named :: "snapshot \<Rightarrow> string \<Rightarrow> observed_record list" where
  "records_named s name = filter (\<lambda>r. eq_ic (rec_name (obs_record r)) name) (sn_records s)"

definition routes :: "snapshot \<Rightarrow> ingress_rule list" where
  "routes s = (case sn_tunnel s of None \<Rightarrow> [] | Some t \<Rightarrow> filter (\<lambda>r. rule_hostname r \<noteq> None) (tun_ingress t))"

subsection \<open>Intents\<close>

datatype intent =
    AddRoute route_spec
  | UpdateRoute hostname "string option" route_spec
  | RemoveRoute hostname "string option"
  | RemoveTunnel
  | CreateTunnel string
  | BalanceRoute hostname
  | UnbalanceRoute hostname
  | ImportRoutes "route_spec list"
  | DeleteRecord string hostname string
  | AddNetwork ip_net
  | RemoveNetwork ip_net
  | AddPrivateHostname hostname
  | RemovePrivateHostname hostname
  | RemoveLogin string
  | CleanUpHostname hostname
  | RestoreConfig "ingress_rule list"
  | PublishSnapshot site_spec site_settings site_content
  | UpdateSnapshot site_spec site_settings site_content "site_file list"
  | RollbackSnapshot site_spec string nat
  | DeleteSnapshot site_spec
  | Reserve hostname "nat option"
  | Release hostname
  | ProtectHostname hostname edge_protection
  | CreateServiceToken hostname string
  | RevokeServiceToken hostname string
  | RotateServiceToken hostname string
  | SetOfflinePage hostname "offline_page option"
  | SetInbox hostname string "inbox_settings option" "string option"

text \<open>Hostnames whose DNS records the plan depends on (\<open>None\<close>: every routed hostname).\<close>

fun intent_hostnames :: "intent \<Rightarrow> hostname list option" where
  "intent_hostnames (AddRoute r) = Some [rt_hostname r]"
| "intent_hostnames (UpdateRoute h _ r) = Some [h, rt_hostname r]"
| "intent_hostnames (RemoveRoute h _) = Some [h]"
| "intent_hostnames RemoveTunnel = None"
| "intent_hostnames (intent.CreateTunnel _) = Some []"
| "intent_hostnames (BalanceRoute h) = Some [h]"
| "intent_hostnames (UnbalanceRoute h) = Some [h]"
| "intent_hostnames (ImportRoutes rs) = Some (map rt_hostname rs)"
| "intent_hostnames (intent.DeleteRecord _ h _) = Some [h]"
| "intent_hostnames (AddNetwork _) = Some []"
| "intent_hostnames (RemoveNetwork _) = Some []"
| "intent_hostnames (AddPrivateHostname _) = Some []"
| "intent_hostnames (RemovePrivateHostname _) = Some []"
| "intent_hostnames (RemoveLogin _) = Some []"
| "intent_hostnames (CleanUpHostname h) = Some [h]"
| "intent_hostnames (RestoreConfig _) = Some []"
| "intent_hostnames (PublishSnapshot site _ _) = Some (case address_hostname (ss_address site) of None \<Rightarrow> [] | Some h \<Rightarrow> [h])"
| "intent_hostnames (UpdateSnapshot site _ _ _) = Some (case address_hostname (ss_address site) of None \<Rightarrow> [] | Some h \<Rightarrow> [h])"
| "intent_hostnames (RollbackSnapshot site _ _) = Some (case address_hostname (ss_address site) of None \<Rightarrow> [] | Some h \<Rightarrow> [h])"
| "intent_hostnames (DeleteSnapshot site) = Some (case address_hostname (ss_address site) of None \<Rightarrow> [] | Some h \<Rightarrow> [h])"
| "intent_hostnames (Reserve h _) = Some [h]"
| "intent_hostnames (Release h) = Some [h]"
| "intent_hostnames (ProtectHostname h _) = Some [h]"
| "intent_hostnames (intent.CreateServiceToken h _) = Some [h]"
| "intent_hostnames (RevokeServiceToken h _) = Some [h]"
| "intent_hostnames (intent.RotateServiceToken h _) = Some [h]"
| "intent_hostnames (SetOfflinePage h _) = Some [h]"
| "intent_hostnames (SetInbox h _ _ _) = Some [h]"

fun intent_site :: "intent \<Rightarrow> site_spec option" where
  "intent_site (PublishSnapshot site _ _) = Some site"
| "intent_site (UpdateSnapshot site _ _ _) = Some site"
| "intent_site (RollbackSnapshot site _ _) = Some site"
| "intent_site (DeleteSnapshot site) = Some site"
| "intent_site _ = None"

subsection \<open>Steps\<close>

datatype tunnel_ref = Existing string | Created
datatype lb_ref = LbExisting string | LbCreated
datatype token_ref = TokExisting string | TokCreated

record pool_endpoint =
  ep_tunnel :: tunnel_ref
  ep_name :: string

datatype step =
    CreateTunnel string
  | PutConfig tunnel_ref "ingress_rule list" "nat option" "ingress_rule list"
      \<comment> \<open>tunnel, ingress, expected version, previous\<close>
  | CreateRecord string string tunnel_ref string
      \<comment> \<open>zone, hostname, tunnel, route id\<close>
  | UpdateRecord string string string tunnel_ref string dns_record
      \<comment> \<open>zone, record id, hostname, tunnel, route id, previous\<close>
  | DeleteRecord string dns_record
  | StopConnector string
  | DeleteTunnel string
  | AddLoginMethod
  | CreateAccessApp new_access_app
  | UpdateAccessApp string new_access_app new_access_app
  | DeleteAccessApp string new_access_app
  | CreateNetworkRoute ip_net tunnel_ref
  | DeleteNetworkRoute network_route
  | CreateHostnameRoute hostname tunnel_ref
  | DeleteHostnameRoute hostname_route
  | CreateLbMonitor string
  | CreateLbPool string lb_ref "pool_endpoint list"
  | UpdateLbPool string string lb_ref "pool_endpoint list" pool
  | CreateLoadBalancer string string lb_ref
  | DeleteLoadBalancer string load_balancer
  | DeleteLbPool pool
  | DeleteLbMonitor monitor
  | Verify string
  | UploadSnapshotFiles string site_content nat nat
  | CreateSnapshotWorker string string site_settings
  | PublishSnapshotVersion string string site_settings "string option"
  | RollBackSnapshot string string string nat "string option"
  | EnableWorkersDev string string
  | DisableWorkersDev string string
  | AttachSnapshotDomain string string string
  | DetachSnapshotDomain worker_domain
  | DeleteSnapshotWorker string string
  | CreateReservation string string "nat option"
  | SetLease string dns_record bool "nat option"
  | CreateEdgeRule string string "string option" rule_kind "string list" new_rule
      \<comment> \<open>zone, phase, ruleset id, kind, hostnames, rule\<close>
  | UpdateEdgeRule string string string rule_kind "string list" new_rule new_rule
      \<comment> \<open>zone, ruleset id, rule id, kind, hostnames, rule, previous\<close>
  | DeleteEdgeRule string string string string rule_kind "string list" new_rule nat
      \<comment> \<open>zone, phase, ruleset id, rule id, kind, hostnames, previous, position\<close>
  | CreateServiceToken string string
  | AllowServiceToken string "(string \<times> new_access_app) option" token_ref
  | DeleteServiceToken service_token
  | RotateServiceToken service_token
  | CreateDatabase string
  | PutFrontWorker string string string front_config "front_config option" "database_ref option" "string option"
      \<comment> \<open>hostname, zone, script, config, previous, database, secret\<close>
  | CreateWorkerRoute string string string string front_kind string
      \<comment> \<open>hostname, zone, pattern, script, kind, path\<close>
  | DeleteWorkerRoute string string worker_route front_kind string
  | DeleteFrontWorker string string string front_config "string option"

text \<open>Whether a step changes something in Cloudflare.\<close>

fun is_mutation :: "step \<Rightarrow> bool" where
  "is_mutation (Verify _) = False"
| "is_mutation (StopConnector _) = False"
| "is_mutation _ = True"

datatype warning =
    SingleEndpoint string
  | ReplacesForeignRecord string string string
  | DeletesForeignRecord string string string
  | KeepsForeignRecord string
  | TunnelEmpty
  | RemoteOrigin string
  | PublicNetwork string
  | PublicHostname string
  | OverlapsNetwork string string string
  | HeldBy string "string option" "nat option" hold_kind
  | EdgeQuota quota_kind string nat nat
  | MachineOnly string
  | WorkerRequests string

record plan =
  pl_steps :: "step list"
  pl_warnings :: "warning list"
  pl_requires_confirmation :: bool
  pl_fingerprint :: string
  pl_tunnel_name :: string

definition plan_is_empty :: "plan \<Rightarrow> bool" where
  "plan_is_empty p \<longleftrightarrow> list_all (\<lambda>s. \<not> is_mutation s) (pl_steps p)"

subsection \<open>What a change reads about Access (\<open>AccessNeed\<close>)\<close>

record access_need =
  an_setup :: bool
  an_domains :: "string list"
  an_owned :: bool

definition no_access_need :: access_need where
  "no_access_need = \<lparr>an_setup = False, an_domains = [], an_owned = False\<rparr>"

definition requested_domains :: "route_spec \<Rightarrow> string list" where
  "requested_domains r = (case (rt_access r, access_domain (rt_hostname r) (rt_path r)) of
      (Some rule, Inr domain) \<Rightarrow> domain # map (\<lambda>p. domain @ p) (ar_bypass rule)
    | _ \<Rightarrow> [])"

definition site_domains :: "site_spec \<Rightarrow> string list" where
  "site_domains site = (case (ss_access site, address_hostname (ss_address site)) of
      (Some _, Some h) \<Rightarrow> [h] | _ \<Rightarrow> [])"

fun access_need_of :: "intent \<Rightarrow> access_need" where
  "access_need_of (AddRoute r) =
     \<lparr>an_setup = (requested_domains r \<noteq> []), an_domains = requested_domains r, an_owned = False\<rparr>"
| "access_need_of (UpdateRoute _ _ r) =
     \<lparr>an_setup = (requested_domains r \<noteq> []), an_domains = requested_domains r, an_owned = True\<rparr>"
| "access_need_of (RemoveRoute _ _) = no_access_need\<lparr>an_owned := True\<rparr>"
| "access_need_of RemoveTunnel = no_access_need\<lparr>an_owned := True\<rparr>"
| "access_need_of (CleanUpHostname h) = no_access_need\<lparr>an_domains := [h], an_owned := True\<rparr>"
| "access_need_of (RemoveLogin d) = no_access_need\<lparr>an_domains := [d]\<rparr>"
| "access_need_of (PublishSnapshot site _ _) =
     \<lparr>an_setup = (site_domains site \<noteq> []), an_domains = site_domains site, an_owned = False\<rparr>"
| "access_need_of (UpdateSnapshot site _ _ _) =
     \<lparr>an_setup = (site_domains site \<noteq> []), an_domains = site_domains site,
      an_owned = (address_hostname (ss_address site) \<noteq> None)\<rparr>"
| "access_need_of (DeleteSnapshot site) = no_access_need\<lparr>an_owned := (address_hostname (ss_address site) \<noteq> None)\<rparr>"
| "access_need_of (intent.CreateServiceToken h _) = \<lparr>an_setup = True, an_domains = [h], an_owned = False\<rparr>"
| "access_need_of (RevokeServiceToken h _) = no_access_need\<lparr>an_domains := [h]\<rparr>"
| "access_need_of _ = no_access_need"

definition access_need_is_empty :: "access_need \<Rightarrow> bool" where
  "access_need_is_empty n \<longleftrightarrow> \<not> an_setup n \<and> \<not> an_owned n \<and> an_domains n = []"

end
