(* ===== verification/Builder.thy ===== *)
theory Builder
  imports Engine_Types
begin

text \<open>
  The planner's builder (\<open>engine/planner.rs\<close>, \<open>struct Builder\<close>): the snapshot is read only, so
  it is an argument of every operation; the steps, warnings and the confirmation flag are the
  builder's state, passed through. An operation that can fail returns a sum.
\<close>

subsection \<open>Errors and state\<close>

datatype plan_error =
    NoZone string
  | RouteExists string
  | NoSuchRoute string
  | NoTunnel
  | NoSuchRecord string
  | ZeroTrustNotSetUp
  | NoSuchLogin string
  | AccessAppExists string
  | AccessDomain access_domain_error
  | NetworkRouted string string
  | NoSuchNetwork string
  | PrivateHostnameRouted string string
  | NoSuchPrivateHostname string
  | RoutedElsewhere string string
  | InvalidTunnelName
  | TunnelNameTaken string
  | BalancerExists string
  | NotBalanced string
  | SnapshotExists string
  | NoSuchSnapshot string
  | HostnameRouted string
  | HostnameServed string string
  | NoWorkersSubdomain
  | SnapshotLoginNeedsDomain
  | HostnameInUse string
  | NotReserved string
  | EdgeRateLimitNeedsPro string
  | NoLoginMethod sign_in
  | EdgeRateLimitPeriod string nat
  | EdgeQuotaFull quota_kind string nat
  | EdgeRateLimitConflict string string nat nat
  | InvalidTokenLabel
  | ServiceTokenLimit nat
  | ServiceTokenExists string
  | NoSuchServiceToken string
  | ServiceTokenNotOwned string
  | FrontNeedsRoute string
  | WorkerRouteTaken string string
  | NoFront string
  | FrontInvalid front_error
  | InboxNeedsSecret

record builder =
  b_steps :: "step list"
  b_warnings :: "warning list"
  b_confirm :: bool

definition new_builder :: builder where
  "new_builder = \<lparr>b_steps = [], b_warnings = [], b_confirm = False\<rparr>"

definition push :: "step \<Rightarrow> builder \<Rightarrow> builder" where
  "push st b = b\<lparr>b_steps := b_steps b @ [st]\<rparr>"

definition push_all :: "step list \<Rightarrow> builder \<Rightarrow> builder" where
  "push_all sts b = b\<lparr>b_steps := b_steps b @ sts\<rparr>"

definition warn :: "warning \<Rightarrow> builder \<Rightarrow> builder" where
  "warn w b = b\<lparr>b_warnings := b_warnings b @ [w]\<rparr>"

definition require_confirmation :: "builder \<Rightarrow> builder" where
  "require_confirmation b = b\<lparr>b_confirm := True\<rparr>"

subsection \<open>Names and routes\<close>

definition same_route :: "ingress_rule \<Rightarrow> hostname \<Rightarrow> string option \<Rightarrow> bool" where
  "same_route r h path \<longleftrightarrow> rule_hostname r = Some h \<and> rule_path r = path"

text \<open>\<open>base\<close>, or \<open>base 2\<close>, \<open>base 3\<close>, \<dots> The source searches without a bound; one more
  candidate than there are names taken always holds a free one (\<open>unique_name_free\<close>).\<close>

definition name_free :: "string list \<Rightarrow> string \<Rightarrow> bool" where
  "name_free taken name \<longleftrightarrow> \<not> list_ex (\<lambda>t. eq_ic t name) taken"

definition numbered_name :: "string \<Rightarrow> nat \<Rightarrow> string" where
  "numbered_name base n = base @ '' '' @ show_nat n"

definition unique_name :: "string \<Rightarrow> string list \<Rightarrow> string" where
  "unique_name base taken =
     (if name_free taken base then base
      else case find (name_free taken) (map (numbered_name base) [2..<length taken + 3]) of
        Some name \<Rightarrow> name | None \<Rightarrow> base)"

definition find_zone :: "snapshot \<Rightarrow> hostname \<Rightarrow> plan_error + string" where
  "find_zone s h = ok_or (NoZone h) (map_option zone_id (zone_in zone_name h (sn_zones s)))"

definition not_elsewhere :: "snapshot \<Rightarrow> hostname \<Rightarrow> string option \<Rightarrow> plan_error + unit" where
  "not_elsewhere s h path =
     (case find (\<lambda>r. else_hostname r = h \<and> else_path r = path) (sn_elsewhere s) of
        Some other \<Rightarrow> Inl (RoutedElsewhere h (else_tunnel other)) | None \<Rightarrow> Inr ())"

definition route_domain :: "route_spec \<Rightarrow> plan_error + string" where
  "route_domain r = map_err AccessDomain (access_domain (rt_hostname r) (rt_path r))"

subsection \<open>The tunnel and its configuration\<close>

definition ensure_tunnel :: "snapshot \<Rightarrow> builder \<Rightarrow> tunnel_ref \<times> builder" where
  "ensure_tunnel s b = (case sn_tunnel s of
      Some t \<Rightarrow> (Existing (tun_id t), b)
    | None \<Rightarrow> (Created, push (CreateTunnel (unique_name (sn_machine_name s) (sn_tunnel_names s))) b))"

definition put_config :: "snapshot \<Rightarrow> tunnel_ref \<Rightarrow> ingress_rule list \<Rightarrow> builder \<Rightarrow> builder" where
  "put_config s t desired b =
     (let current = (case sn_tunnel s of Some u \<Rightarrow> tun_ingress u | None \<Rightarrow> []);
          desired = sort_ingress desired
      in if desired \<noteq> current
         then push (PutConfig t desired (map_option tun_config_version (sn_tunnel s)) current) b else b)"

definition verify_route :: "route_spec \<Rightarrow> builder \<Rightarrow> builder" where
  "verify_route r b = (if is_web (rt_origin r) then push (Verify (rt_hostname r)) b else b)"

definition remote_origin_warning :: "route_spec \<Rightarrow> builder \<Rightarrow> builder" where
  "remote_origin_warning r b = (if \<not> is_local (rt_origin r) then warn (RemoteOrigin (rt_origin r)) b else b)"

subsection \<open>Load balancing\<close>

definition endpoints :: "snapshot \<Rightarrow> tunnel_ref option \<Rightarrow> pool_endpoint list" where
  "endpoints s own =
     (let ours = map_option tun_id (sn_tunnel s)
      in map (\<lambda>t. \<lparr>ep_tunnel = Existing (srv_id t), ep_name = srv_name t\<rparr>)
           (filter (\<lambda>t. Some (srv_id t) \<noteq> ours) (case sn_balance s of Some b \<Rightarrow> bal_serving b | None \<Rightarrow> []))
         @ (case own of None \<Rightarrow> []
            | Some t \<Rightarrow> [\<lparr>ep_tunnel = t,
                 ep_name = (case sn_tunnel s of None \<Rightarrow> sn_machine_name s | Some u \<Rightarrow> tun_name u)\<rparr>]))"

definition endpoint_target :: "pool_endpoint \<Rightarrow> string" where
  "endpoint_target e = (case ep_tunnel e of Existing tid \<Rightarrow> tunnel_target tid | Created \<Rightarrow> [])"

text \<open>The monitor to use, created first when there is none.\<close>

definition ensure_monitor :: "balance_state \<Rightarrow> string \<Rightarrow> builder \<Rightarrow> lb_ref \<times> builder" where
  "ensure_monitor st hostname b = (case bal_monitor st of
      Some m \<Rightarrow> (LbExisting (mon_id m), b)
    | None \<Rightarrow> (LbCreated, push (CreateLbMonitor hostname) b))"

text \<open>\<open>matches!(&monitor, LbRef::Existing(id) if pool.monitor == id)\<close>.\<close>

definition same_monitor :: "pool \<Rightarrow> lb_ref \<Rightarrow> bool" where
  "same_monitor p m = (case m of LbExisting mid \<Rightarrow> pool_monitor p = Some mid | LbCreated \<Rightarrow> False)"

definition sync_pool :: "snapshot \<Rightarrow> string \<Rightarrow> pool_endpoint list \<Rightarrow> builder \<Rightarrow> lb_ref option \<times> builder" where
  "sync_pool s hostname eps b = (case sn_balance s of
      None \<Rightarrow> (None, b)
    | Some st \<Rightarrow>
        (let (m, b) = ensure_monitor st hostname b
         in case bal_pool st of
              Some p \<Rightarrow>
                (Some (LbExisting (pool_id p)),
                 if btree_set (map endpoint_target eps) \<noteq> btree_set (map org_address (pool_origins p))
                    \<or> \<not> same_monitor p m
                 then push (UpdateLbPool hostname (pool_id p) m eps p) b else b)
            | None \<Rightarrow> (Some LbCreated, push (CreateLbPool hostname m eps) b)))"

definition balanced :: "snapshot \<Rightarrow> bool" where
  "balanced s = (case sn_balance s of Some st \<Rightarrow> bal_active st | None \<Rightarrow> False)"

definition unbalance :: "snapshot \<Rightarrow> builder \<Rightarrow> builder" where
  "unbalance s b = (case sn_balance s of
      Some st \<Rightarrow>
        if \<not> bal_active st then b
        else push_all
          ((case bal_balancer st of Some lb \<Rightarrow> [DeleteLoadBalancer (bal_zone_id st) lb] | None \<Rightarrow> [])
           @ (case bal_pool st of Some p \<Rightarrow> [DeleteLbPool p] | None \<Rightarrow> [])
           @ (case bal_monitor st of Some m \<Rightarrow> [DeleteLbMonitor m] | None \<Rightarrow> [])) b
    | None \<Rightarrow> b)"

subsection \<open>Reservations (\<open>planner/reservations.rs\<close>)\<close>

definition holder :: "snapshot \<Rightarrow> string \<Rightarrow> hold option" where
  "holder s hostname = find (\<lambda>h. eq_ic (hold_hostname h) hostname) (sn_held s)"

definition take_over :: "snapshot \<Rightarrow> string \<Rightarrow> builder \<Rightarrow> builder" where
  "take_over s hostname b = (case holder s hostname of
      None \<Rightarrow> b
    | Some h \<Rightarrow>
        (let w = HeldBy (hold_hostname h) (hold_owner h) (hold_until h) (hold_kind h);
             b = require_confirmation b
         in if w \<in> set (b_warnings b) then b else warn w b))"

definition record_ownership :: "observed_record \<Rightarrow> ownership option" where
  "record_ownership r = Option.bind (rec_comment (obs_record r)) ownership_parse"

definition is_address_kind :: "string \<Rightarrow> bool" where
  "is_address_kind k \<longleftrightarrow> k = ''A'' \<or> k = ''AAAA'' \<or> k = ''CNAME''"

fun is_route_marker :: "marker \<Rightarrow> bool" where
  "is_route_marker (Route _) = True"
| "is_route_marker _ = False"

definition restore :: "snapshot \<Rightarrow> observed_record \<Rightarrow> builder \<Rightarrow> builder" where
  "restore s r b = (case record_ownership r of
      None \<Rightarrow> b
    | Some w \<Rightarrow>
        if is_route_marker (own_marker w) \<and> leased_at w (sn_now s)
        then push (CreateReservation (obs_zone_id r) (rec_name (obs_record r)) (own_until w)) b else b)"

subsection \<open>DNS\<close>

definition flag_foreign :: "observed_record \<Rightarrow> builder \<Rightarrow> builder" where
  "flag_foreign r b =
     (if \<not> obs_owned r
      then warn (ReplacesForeignRecord (rec_name (obs_record r)) (rec_kind (obs_record r)) (rec_content (obs_record r)))
             (require_confirmation b)
      else b)"

definition address_records :: "snapshot \<Rightarrow> string \<Rightarrow> observed_record list" where
  "address_records s name = filter (\<lambda>r. is_address_kind (rec_kind (obs_record r))) (records_named s name)"

definition already_ours :: "observed_record list \<Rightarrow> tunnel_ref \<Rightarrow> bool" where
  "already_ours existing t = (case (existing, t) of
      ([r], Existing tid) \<Rightarrow> eq_ic (rec_content (obs_record r)) (tunnel_target tid) \<and> rec_proxied (obs_record r)
    | _ \<Rightarrow> False)"

definition remove_extra :: "string \<Rightarrow> observed_record \<Rightarrow> builder \<Rightarrow> builder" where
  "remove_extra zone r b = push (DeleteRecord zone (obs_record r)) (flag_foreign r b)"

definition ensure_dns :: "snapshot \<Rightarrow> hostname \<Rightarrow> tunnel_ref \<Rightarrow> string \<Rightarrow> builder \<Rightarrow> plan_error + builder" where
  "ensure_dns s h t rid b =
     ebind (find_zone s h) (\<lambda>zone.
     let existing = address_records s h; b = take_over s h b
     in if already_ours existing t then Inr b
        else Inr (case existing of
            [] \<Rightarrow> push (CreateRecord zone h t rid) b
          | first # extra \<Rightarrow>
              fold (remove_extra zone) extra
                (push (UpdateRecord zone (rec_id (obs_record first)) h t rid (obs_record first))
                  (flag_foreign first b))))"

definition release_record :: "snapshot \<Rightarrow> string \<Rightarrow> observed_record \<Rightarrow> builder \<Rightarrow> builder" where
  "release_record s hostname r b =
     (if obs_owned r then restore s r (push (DeleteRecord (obs_zone_id r) (obs_record r)) b)
      else warn (KeepsForeignRecord hostname) b)"

definition release_dns :: "snapshot \<Rightarrow> string \<Rightarrow> string \<Rightarrow> builder \<Rightarrow> builder" where
  "release_dns s hostname tunnel_id b =
     fold (release_record s hostname)
       (filter (\<lambda>r. eq_ic (rec_content (obs_record r)) (tunnel_target tunnel_id)) (records_named s hostname)) b"

definition serve :: "snapshot \<Rightarrow> hostname \<Rightarrow> tunnel_ref \<Rightarrow> string \<Rightarrow> builder \<Rightarrow> plan_error + builder" where
  "serve s h t rid b =
     (if balanced s then Inr (snd (sync_pool s h (endpoints s (Some t)) b)) else ensure_dns s h t rid b)"

subsection \<open>Logins\<close>

definition access_apps :: "snapshot \<Rightarrow> observed_app list" where
  "access_apps s = (case sn_access s of Some a \<Rightarrow> as_apps a | None \<Rightarrow> [])"

definition find_app :: "snapshot \<Rightarrow> string \<Rightarrow> observed_app option" where
  "find_app s domain = Option.bind (sn_access s) (\<lambda>a. app_at a domain)"

definition current_bypasses :: "snapshot \<Rightarrow> string \<Rightarrow> string list" where
  "current_bypasses s domain = (case sn_access s of Some a \<Rightarrow> bypass_paths a domain | None \<Rightarrow> [])"

definition close_bypass :: "snapshot \<Rightarrow> string \<Rightarrow> builder \<Rightarrow> builder" where
  "close_bypass s at b = (case find_app s at of
      Some a \<Rightarrow> if oa_owned a \<and> is_bypass (oa_definition a)
                then push (DeleteAccessApp (oa_id a) (oa_definition a)) b else b
    | None \<Rightarrow> b)"

definition open_bypass :: "snapshot \<Rightarrow> string \<Rightarrow> string \<Rightarrow> builder \<Rightarrow> plan_error + builder" where
  "open_bypass s domain path b =
     (let at = domain @ path
      in if find_app s at \<noteq> None then Inl (AccessAppExists at)
         else Inr (push (CreateAccessApp (bypass_definition at)) b))"

definition bypass :: "snapshot \<Rightarrow> string \<Rightarrow> string list \<Rightarrow> builder \<Rightarrow> plan_error + builder" where
  "bypass s domain paths b =
     (let current = current_bypasses s domain
      in ebind (efold (open_bypass s domain) (filter (\<lambda>p. p \<notin> set current) paths) b) (\<lambda>b.
         Inr (fold (\<lambda>p. close_bypass s (domain @ p)) (filter (\<lambda>p. p \<notin> set paths) current) b)))"

definition close_bypasses :: "snapshot \<Rightarrow> string \<Rightarrow> builder \<Rightarrow> builder" where
  "close_bypasses s domain b = fold (\<lambda>p. close_bypass s (domain @ p)) (current_bypasses s domain) b"

definition unprotect :: "snapshot \<Rightarrow> string \<Rightarrow> builder \<Rightarrow> builder" where
  "unprotect s domain b =
     (let b = close_bypasses s domain b
      in case find_app s domain of
           Some a \<Rightarrow> if oa_owned a then push (DeleteAccessApp (oa_id a) (oa_definition a)) b else b
         | None \<Rightarrow> b)"

definition drop_login :: "snapshot \<Rightarrow> string \<Rightarrow> builder \<Rightarrow> builder" where
  "drop_login s domain b = (case find_app s domain of
      Some a \<Rightarrow>
        if \<not> oa_owned a then b
        else if service_tokens_of (oa_definition a) = [] then unprotect s domain b
        else push (UpdateAccessApp (oa_id a)
                (keep_machines (machine_only_definition domain) (oa_definition a)) (oa_definition a))
               (close_bypasses s domain b)
    | None \<Rightarrow> b)"

definition login_methods :: "snapshot \<Rightarrow> login_method list option" where
  "login_methods s = Option.bind (sn_access s) as_login_methods"

definition zero_trust_off :: "snapshot \<Rightarrow> bool" where
  "zero_trust_off s \<longleftrightarrow> Option.bind (sn_access s) as_organization = Some False"

text \<open>The application differs from the one wanted in its login method.\<close>

definition stale_method :: "observed_app \<Rightarrow> new_access_app \<Rightarrow> login_method option \<Rightarrow> bool" where
  "stale_method a wanted method \<longleftrightarrow>
     app_allowed_idps (oa_definition a) \<noteq> app_allowed_idps wanted
     \<or> list_ex (\<lambda>i. Some i \<noteq> map_option lm_id method) (github_methods (oa_definition a))"

definition create_login :: "snapshot \<Rightarrow> string \<Rightarrow> access_rule \<Rightarrow> login_method option \<Rightarrow> builder \<Rightarrow> plan_error + builder" where
  "create_login s domain r method b =
     (if zero_trust_off s then Inl ZeroTrustNotSetUp
      else (let no_login = (login_methods s = Some []);
                b = (if method = None \<and> no_login \<and> AddLoginMethod \<notin> set (b_steps b)
                     then push AddLoginMethod b else b)
            in Inr (push (CreateAccessApp (app_definition domain r method)) b)))"

definition protect :: "snapshot \<Rightarrow> string \<Rightarrow> access_rule \<Rightarrow> builder \<Rightarrow> plan_error + builder" where
  "protect s domain r b =
     (let people = people_only r
      in ebind (map_err NoLoginMethod (login_method_for (ar_sign_in r)
            (case login_methods s of Some ms \<Rightarrow> ms | None \<Rightarrow> []))) (\<lambda>method.
         ebind (case find_app s domain of
             Some a \<Rightarrow>
               if \<not> oa_owned a
               then (if oa_rule a \<noteq> Some people then Inl (AccessAppExists domain) else Inr b)
               else (let wanted = keep_machines (app_definition domain r method) (oa_definition a)
                     in if oa_rule a \<noteq> Some people \<or> app_name (oa_definition a) \<noteq> app_name wanted
                           \<or> stale_method a wanted method
                        then Inr (push (UpdateAccessApp (oa_id a) wanted (oa_definition a)) b) else Inr b)
           | None \<Rightarrow> create_login s domain r method b) (\<lambda>b.
         bypass s domain (ar_bypass r) b)))"

text \<open>The login of a route that asks for one.\<close>

definition protect_route :: "snapshot \<Rightarrow> route_spec \<Rightarrow> builder \<Rightarrow> plan_error + builder" where
  "protect_route s r b = (case rt_access r of
      Some rule \<Rightarrow> ebind (route_domain r) (\<lambda>domain. protect s domain rule b) | None \<Rightarrow> Inr b)"

subsection \<open>The finished plan\<close>

definition created_tunnel :: "step list \<Rightarrow> string option" where
  "created_tunnel sts = (case List.map_filter (\<lambda>st. case st of CreateTunnel name \<Rightarrow> Some name | _ \<Rightarrow> None) sts of
      [] \<Rightarrow> None | name # _ \<Rightarrow> Some name)"

definition finish :: "externals \<Rightarrow> (snapshot \<Rightarrow> string) \<Rightarrow> snapshot \<Rightarrow> builder \<Rightarrow> plan" where
  "finish X J s b =
     (let steps = (if list_ex is_mutation (b_steps b) then b_steps b else [])
      in \<lparr>pl_steps = steps, pl_warnings = b_warnings b, pl_requires_confirmation = b_confirm b,
          pl_fingerprint = fingerprint X J s,
          pl_tunnel_name = (case sn_tunnel s of
             Some t \<Rightarrow> tun_name t
           | None \<Rightarrow> (case created_tunnel steps of Some name \<Rightarrow> name | None \<Rightarrow> sn_machine_name s))\<rparr>)"

end
