(* ===== verification/Planner_Edge.thy ===== *)
theory Planner_Edge
  imports Builder
begin

text \<open>
  Planning edge protection and service tokens (\<open>engine/planner/edge.rs\<close>): what changes in the
  rules of a zone, checked against the quotas of its plan, and put in an order that can be
  undone.
\<close>

subsection \<open>Changes\<close>

record changes =
  ch_creates :: "step list"
  ch_updates :: "step list"
  ch_deletes :: "(nat \<times> step) list"

definition no_changes :: changes where
  "no_changes = \<lparr>ch_creates = [], ch_updates = [], ch_deletes = []\<rparr>"

definition ruleset_id :: "edge_state \<Rightarrow> rule_kind \<Rightarrow> string option" where
  "ruleset_id es kind = Option.bind (ruleset_in es (phase kind)) rs_id"

definition or_default :: "string option \<Rightarrow> string" where
  "or_default v = (case v of Some x \<Rightarrow> x | None \<Rightarrow> [])"

definition ch_create :: "edge_state \<Rightarrow> rule_kind \<Rightarrow> string list \<Rightarrow> new_rule \<Rightarrow> changes \<Rightarrow> changes" where
  "ch_create es kind hosts rule c = c\<lparr>ch_creates := ch_creates c
     @ [CreateEdgeRule (es_zone_id es) (phase kind) (ruleset_id es kind) kind hosts rule]\<rparr>"

definition ch_update ::
    "edge_state \<Rightarrow> rule_kind \<Rightarrow> string list \<Rightarrow> observed_rule \<Rightarrow> new_rule \<Rightarrow> changes \<Rightarrow> changes" where
  "ch_update es kind hosts r rule c = c\<lparr>ch_updates := ch_updates c
     @ [UpdateEdgeRule (es_zone_id es) (or_default (ruleset_id es kind)) (or_id r) kind hosts rule (or_rule r)]\<rparr>"

definition ch_delete ::
    "edge_state \<Rightarrow> rule_kind \<Rightarrow> string list \<Rightarrow> nat \<Rightarrow> observed_rule \<Rightarrow> changes \<Rightarrow> changes" where
  "ch_delete es kind hosts position r c = c\<lparr>ch_deletes := ch_deletes c
     @ [(position, DeleteEdgeRule (es_zone_id es) (phase kind) (or_default (ruleset_id es kind)) (or_id r)
          kind hosts (or_rule r) position)]\<rparr>"

definition created_in :: "quota_kind \<Rightarrow> step \<Rightarrow> bool" where
  "created_in q st = (case st of CreateEdgeRule _ ph _ _ _ _ \<Rightarrow> ph \<in> set (phases q) | _ \<Rightarrow> False)"

definition deleted_in :: "quota_kind \<Rightarrow> step \<Rightarrow> bool" where
  "deleted_in q st = (case st of DeleteEdgeRule _ ph _ _ _ _ _ _ \<Rightarrow> ph \<in> set (phases q) | _ \<Rightarrow> False)"

definition delta :: "changes \<Rightarrow> quota_kind \<Rightarrow> int" where
  "delta c q = int (length (filter (created_in q) (ch_creates c)))
     - int (length (filter (\<lambda>(_, st). deleted_in q st) (ch_deletes c)))"

definition step_quota :: "step \<Rightarrow> quota_kind option" where
  "step_quota st = (case st of
      CreateEdgeRule _ _ _ kind _ _ \<Rightarrow> Some (quota kind)
    | UpdateEdgeRule _ _ _ kind _ _ _ \<Rightarrow> Some (quota kind)
    | DeleteEdgeRule _ _ _ _ kind _ _ _ \<Rightarrow> Some (quota kind)
    | _ \<Rightarrow> None)"

definition touches :: "changes \<Rightarrow> quota_kind \<Rightarrow> bool" where
  "touches c q \<longleftrightarrow> list_ex (\<lambda>st. step_quota st = Some q) (ch_creates c @ ch_updates c @ map snd (ch_deletes c))"

subsection \<open>The shared rate limit\<close>

type_synonym limit_group = "nat \<times> observed_rule \<times> rate_limit_spec \<times> string list"

fun group_rule :: "limit_group \<Rightarrow> observed_rule" where
  "group_rule (_, r, _, _) = r"
fun group_spec :: "limit_group \<Rightarrow> rate_limit_spec" where
  "group_spec (_, _, spec, _) = spec"
fun group_hosts :: "limit_group \<Rightarrow> string list" where
  "group_hosts (_, _, _, hosts) = hosts"

text \<open>Out of the rule it is in now; the rule goes when nobody is left in it.\<close>

definition leave_limit ::
    "edge_state \<Rightarrow> string \<Rightarrow> limit_group option \<Rightarrow> changes \<Rightarrow> (rate_limit_spec \<times> string list) option \<times> changes" where
  "leave_limit es host current c = (case current of
      None \<Rightarrow> (None, c)
    | Some (position, r, spec, hosts) \<Rightarrow>
        (let rest = filter (\<lambda>h. h \<noteq> host) hosts
         in if rest = [] then (None, ch_delete es KindRateLimit hosts position r c)
            else (Some (spec, rest), ch_update es KindRateLimit rest r (rate_limit_rule spec rest) c)))"

definition limit_allowed :: "edge_state \<Rightarrow> rate_limit_spec \<Rightarrow> plan_error + unit" where
  "limit_allowed es spec =
     (let limits = plan_limits_of (es_plan es)
      in ebind (fail_if (\<not> lim_host_rate_limit limits) (EdgeRateLimitNeedsPro (es_zone es))) (\<lambda>_.
         fail_if (spec_period spec > lim_longest_period limits)
           (EdgeRateLimitPeriod (es_zone es) (lim_longest_period limits))))"

text \<open>Into the rule that has this limit already, or a rule of its own while there is room.\<close>

definition join_limit ::
    "edge_state \<Rightarrow> string \<Rightarrow> limit_group option \<Rightarrow> (rate_limit_spec \<times> string list) option \<Rightarrow>
       rate_limit_spec \<Rightarrow> changes \<Rightarrow> plan_error + changes" where
  "join_limit es host current remaining spec c =
     (let groups = rate_limits es; current_id = map_option (\<lambda>g. or_id (group_rule g)) current
      in case find (\<lambda>g. group_spec g = spec \<and> Some (or_id (group_rule g)) \<noteq> current_id) groups of
           Some g \<Rightarrow>
             (let hosts = btree_set (host # group_hosts g)
              in Inr (ch_update es KindRateLimit hosts (group_rule g) (rate_limit_rule spec hosts) c))
         | None \<Rightarrow>
             (let freed = of_bool (current \<noteq> None \<and> remaining = None);
                  used = quota_used es QuotaRateLimit - freed;
                  limit = quota_limit QuotaRateLimit (es_plan es)
              in if used \<ge> limit
                 then (let other = (case find (\<lambda>g. Some (or_id (group_rule g)) \<noteq> current_id) groups of
                              Some g \<Rightarrow> Some (group_spec g, group_hosts g) | None \<Rightarrow> remaining)
                       in case other of
                            Some (spec', hosts) \<Rightarrow> Inl (EdgeRateLimitConflict (es_zone es) (join '', '' hosts)
                              (spec_requests spec') (spec_period spec'))
                          | None \<Rightarrow> Inl (EdgeQuotaFull QuotaRateLimit (es_zone es) limit))
                 else Inr (ch_create es KindRateLimit [host] (rate_limit_rule spec [host]) c)))"

definition rate_limit_changes ::
    "edge_state \<Rightarrow> hostname \<Rightarrow> rate_limit_spec option \<Rightarrow> changes \<Rightarrow> plan_error + changes" where
  "rate_limit_changes es host wanted c =
     (let current = find (\<lambda>g. host \<in> set (group_hosts g)) (rate_limits es)
      in if map_option group_spec current = wanted then Inr c
         else ebind (case wanted of Some spec \<Rightarrow> limit_allowed es spec | None \<Rightarrow> Inr ()) (\<lambda>_.
              let (remaining, c) = leave_limit es host current c
              in case wanted of
                   None \<Rightarrow> Inr c
                 | Some spec \<Rightarrow> join_limit es host current remaining spec c))"

subsection \<open>Rules of one hostname\<close>

definition rule_change ::
    "externals \<Rightarrow> edge_state \<Rightarrow> hostname \<Rightarrow> (rule_kind \<times> new_rule) list \<Rightarrow> rule_kind \<Rightarrow> changes \<Rightarrow> changes" where
  "rule_change X es h desired kind c =
     (case (owned_rule es (phase kind) (edge_marker X h kind), map_of desired kind) of
        (None, Some rule) \<Rightarrow> ch_create es kind [h] rule c
      | (Some (_, r), Some rule) \<Rightarrow> if or_rule r \<noteq> rule then ch_update es kind [h] r rule c else c
      | (Some (position, r), None) \<Rightarrow> ch_delete es kind [h] position r c
      | (None, None) \<Rightarrow> c)"

definition changed_kinds :: "edge_state \<Rightarrow> rule_kind list" where
  "changed_kinds es = filter (\<lambda>k. k \<noteq> KindBypassCache \<or> es_cache_readable es) PER_HOSTNAME"

definition protection_changes ::
    "externals \<Rightarrow> edge_state \<Rightarrow> hostname \<Rightarrow> edge_protection \<Rightarrow> plan_error + changes" where
  "protection_changes X es h p =
     rate_limit_changes es h (ep_rate_limit p)
       (fold (rule_change X es h (hostname_rules X h p)) (changed_kinds es) no_changes)"

definition check_quota :: "edge_state \<Rightarrow> changes \<Rightarrow> quota_kind \<Rightarrow> builder \<Rightarrow> plan_error + builder" where
  "check_quota es c q b =
     (if \<not> touches c q then Inr b
      else (let limit = quota_limit q (es_plan es);
                used = nat (max 0 (int (quota_used es q) + delta c q))
            in if delta c q > 0 \<and> used > limit then Inl (EdgeQuotaFull q (es_zone es) limit)
               else Inr (warn (EdgeQuota q (es_zone es) used limit) b)))"

definition ordered_steps :: "changes \<Rightarrow> step list" where
  "ordered_steps c = ch_creates c @ ch_updates c
     @ map snd (sort_key (\<lambda>d. - int (fst d)) (ch_deletes c))"

definition edge_protect ::
    "externals \<Rightarrow> snapshot \<Rightarrow> hostname \<Rightarrow> edge_protection \<Rightarrow> builder \<Rightarrow> plan_error + builder" where
  "edge_protect X s h p b =
     ebind (find_zone s h) (\<lambda>zone.
     ebind (ok_or (NoZone h) (edge_in s zone)) (\<lambda>es.
     ebind (protection_changes X es h p) (\<lambda>c.
     ebind (efold (check_quota es c) ALL_QUOTAS b) (\<lambda>b.
     Inr (push_all (ordered_steps c) b)))))"

subsection \<open>Service tokens\<close>

definition tokens :: "snapshot \<Rightarrow> service_token list" where
  "tokens s = (case sn_service_tokens s of Some ts \<Rightarrow> ts | None \<Rightarrow> [])"

definition own_token :: "snapshot \<Rightarrow> string \<Rightarrow> plan_error + service_token" where
  "own_token s tid =
     ebind (ok_or (NoSuchServiceToken tid) (find (\<lambda>t. tok_id t = tid) (tokens s))) (\<lambda>t.
     ebind (fail_if (\<not> tok_owned t) (ServiceTokenNotOwned (tok_name t))) (\<lambda>_. Inr t))"

text \<open>The application the token is to pass, with the warning when there is none.\<close>

definition token_app :: "snapshot \<Rightarrow> string \<Rightarrow> builder \<Rightarrow> plan_error + (string \<times> new_access_app) option \<times> builder" where
  "token_app s domain b = (case find_app s domain of
      Some a \<Rightarrow> if \<not> oa_owned a then Inl (AccessAppExists domain)
                else Inr (Some (oa_id a, oa_definition a), b)
    | None \<Rightarrow> if zero_trust_off s then Inl ZeroTrustNotSetUp
              else Inr (None, warn (MachineOnly domain) b))"

definition create_token :: "snapshot \<Rightarrow> hostname \<Rightarrow> string \<Rightarrow> builder \<Rightarrow> plan_error + builder" where
  "create_token s h text b =
     (let label = trim text; name = service_token_name h label
      in ebind (fail_if (label = [] \<or> chars_count label > 40 \<or> has_control label) InvalidTokenLabel) (\<lambda>_.
         ebind (find_zone s h) (\<lambda>_.
         ebind (fail_if (length (tokens s) \<ge> MAX_SERVICE_TOKENS) (ServiceTokenLimit MAX_SERVICE_TOKENS)) (\<lambda>_.
         ebind (fail_if (list_ex (\<lambda>t. eq_ic (tok_name t) name) (tokens s)) (ServiceTokenExists label)) (\<lambda>_.
         ebind (token_app s h b) (\<lambda>(app, b).
         Inr (push (AllowServiceToken h app TokCreated) (push (CreateServiceToken h name) b))))))))"

definition revoke_token :: "snapshot \<Rightarrow> hostname \<Rightarrow> string \<Rightarrow> builder \<Rightarrow> plan_error + builder" where
  "revoke_token s h tid b =
     ebind (own_token s tid) (\<lambda>t.
     let b = (case find_app s h of
           Some a \<Rightarrow>
             if oa_owned a \<and> tok_id t \<in> set (service_tokens_of (oa_definition a))
             then (let without = without_service_token (oa_definition a) (tok_id t)
                   in if app_policies without = []
                      then push (DeleteAccessApp (oa_id a) (oa_definition a)) b
                      else push (UpdateAccessApp (oa_id a) without (oa_definition a)) b)
             else b
         | None \<Rightarrow> b)
     in Inr (push (DeleteServiceToken t) b))"

definition rotate_token :: "snapshot \<Rightarrow> string \<Rightarrow> builder \<Rightarrow> plan_error + builder" where
  "rotate_token s tid b = ebind (own_token s tid) (\<lambda>t. Inr (push (RotateServiceToken t) b))"

end
