(* ===== verification/Planner_Front.thy ===== *)
theory Planner_Front
  imports Builder
begin

text \<open>
  Planning Workers in front of a route and the account's database (\<open>engine/planner/front.rs\<close>):
  database, then Worker, then route; removing runs the other way.
\<close>

definition existing_database :: "snapshot \<Rightarrow> string option" where
  "existing_database s = Option.bind (sn_database s) db_id"

fun is_create_database :: "step \<Rightarrow> bool" where
  "is_create_database (CreateDatabase _) = True"
| "is_create_database _ = False"

definition database :: "snapshot \<Rightarrow> builder \<Rightarrow> database_ref \<times> builder" where
  "database s b = (case existing_database s of
      Some i \<Rightarrow> (DbExisting i, b)
    | None \<Rightarrow> (DbCreated, if list_ex is_create_database (b_steps b) then b
                           else push (CreateDatabase DATABASE_NAME) b))"

definition front_routed :: "snapshot \<Rightarrow> hostname \<Rightarrow> plan_error + string" where
  "front_routed s h =
     ebind (find_zone s h) (\<lambda>zone.
       if list_ex (\<lambda>r. rec_proxied (obs_record r)) (address_records s h)
       then Inr zone else Inl (FrontNeedsRoute h))"

definition front_put ::
    "externals \<Rightarrow> snapshot \<Rightarrow> hostname \<Rightarrow> front_config \<Rightarrow> database_ref option \<Rightarrow> string option \<Rightarrow>
       builder \<Rightarrow> plan_error + builder" where
  "front_put X s h config db secret b =
     ebind (front_routed s h) (\<lambda>zone.
     ebind (ok_or (NoZone h) (front_of s h)) (\<lambda>fs.
     let pattern = pattern_for h config; kind = config_kind config; path = config_path config;
         existing = front_find fs kind path;
         script = (case existing of Some f \<Rightarrow> of_script f | None \<Rightarrow> script_for X kind h path);
         has_route = (case existing of Some f \<Rightarrow> of_route f \<noteq> None | None \<Rightarrow> False)
     in ebind (case (has_route, foreign_on fs pattern) of
            (False, Some foreign) \<Rightarrow> Inl (WorkerRouteTaken pattern (case wr_script foreign of Some w \<Rightarrow> w | None \<Rightarrow> []))
          | _ \<Rightarrow> Inr ()) (\<lambda>_.
        let unchanged = ((case existing of Some f \<Rightarrow> of_exists f \<and> of_config f = config | None \<Rightarrow> False)
              \<and> secret = None);
            previous = (case existing of Some f \<Rightarrow> if of_exists f then Some (of_config f) else None | None \<Rightarrow> None);
            b = (if \<not> unchanged then push (PutFrontWorker h zone script config previous db secret) b else b)
        in Inr (if \<not> has_route
                then push (CreateWorkerRoute h zone pattern script kind path) (warn (WorkerRequests pattern) b)
                else b))))"

text \<open>Whether there was one, and the steps that remove it (route first).\<close>

definition front_remove :: "snapshot \<Rightarrow> string \<Rightarrow> front_kind \<Rightarrow> string \<Rightarrow> builder \<Rightarrow> bool \<times> builder" where
  "front_remove s hostname kind path b =
     (case Option.bind (front_of s hostname) (\<lambda>fs. map_option (Pair fs) (front_find fs kind path)) of
        None \<Rightarrow> (False, b)
      | Some (fs, f) \<Rightarrow>
          (let b = (case of_route f of
                 Some route \<Rightarrow> push (DeleteWorkerRoute hostname (fs_zone_id fs) route kind path) b | None \<Rightarrow> b)
           in (True, push (DeleteFrontWorker hostname (fs_zone_id fs) (of_script f) (of_config f)
                 (existing_database s)) b)))"

definition front_offline ::
    "externals \<Rightarrow> snapshot \<Rightarrow> hostname \<Rightarrow> offline_page option \<Rightarrow> builder \<Rightarrow> plan_error + builder" where
  "front_offline X s h page b = (case page of
      Some p \<Rightarrow> ebind (map_err FrontInvalid (offline_normalized p)) (\<lambda>p.
                  front_put X s h (OfflineConfig p) None None b)
    | None \<Rightarrow> (let (found, b) = front_remove s h FrontOffline [] b
               in if found then Inr b else Inl (NoFront h)))"

definition verifying_inbox :: "snapshot \<Rightarrow> hostname \<Rightarrow> string \<Rightarrow> bool" where
  "verifying_inbox s h path =
     (case Option.bind (front_of s h) (\<lambda>fs. front_find fs FrontInbox path) of
        Some f \<Rightarrow> of_exists f \<and> (case of_config f of
            InboxConfig _ settings \<Rightarrow> inb_verify settings \<noteq> None | _ \<Rightarrow> False)
      | None \<Rightarrow> False)"

definition front_inbox ::
    "externals \<Rightarrow> snapshot \<Rightarrow> hostname \<Rightarrow> string \<Rightarrow> inbox_settings option \<Rightarrow> string option \<Rightarrow>
       builder \<Rightarrow> plan_error + builder" where
  "front_inbox X s h text settings secret b =
     ebind (map_err FrontInvalid (clean_inbox_path text)) (\<lambda>path.
     case settings of
       Some given \<Rightarrow>
         ebind (map_err FrontInvalid (inbox_normalized given)) (\<lambda>set.
         ebind (fail_if (inb_verify set \<noteq> None \<and> secret = None \<and> \<not> verifying_inbox s h path) InboxNeedsSecret) (\<lambda>_.
         ebind (front_routed s h) (\<lambda>_.
         let (db, b) = database s b
         in front_put X s h (InboxConfig path set) (Some db) secret b)))
     | None \<Rightarrow> (let (found, b) = front_remove s h FrontInbox path b
                in if found then Inr b else Inl (NoFront (h @ path))))"

definition front_remove_all :: "snapshot \<Rightarrow> string \<Rightarrow> builder \<Rightarrow> builder" where
  "front_remove_all s hostname b = (case front_of s hostname of
      None \<Rightarrow> b
    | Some fs \<Rightarrow> fold (\<lambda>f b. snd (front_remove s hostname (config_kind (of_config f)) (config_path (of_config f)) b))
        (fs_fronts fs) b)"

end
