(* ===== verification/Planner_Sites.thy ===== *)
theory Planner_Sites
  imports Planner_Front
begin

text \<open>
  Planning Snapshots (\<open>engine/planner/sites.rs\<close>): files, then Worker or version, then login,
  then address; deleting runs the other way and removes the Worker last.
\<close>

definition site_at :: "snapshot \<Rightarrow> site_spec \<Rightarrow> site_state option" where
  "site_at s site = (case sn_site s of
      Some st \<Rightarrow> if st_script st = ss_script site then Some st else None | None \<Rightarrow> None)"

definition site_of :: "snapshot \<Rightarrow> site_spec \<Rightarrow> plan_error + site_state" where
  "site_of s site = ok_or (NoSuchSnapshot (ss_name site)) (site_at s site)"

definition workers_dev_address :: "string \<Rightarrow> string \<Rightarrow> string" where
  "workers_dev_address script subdomain = script @ ''.'' @ subdomain @ ''.workers.dev''"

definition is_placeholder :: "observed_record \<Rightarrow> bool" where
  "is_placeholder r = (case record_ownership r of Some w \<Rightarrow> own_marker w = Lease | None \<Rightarrow> False)"

definition delete_foreign :: "observed_record \<Rightarrow> builder \<Rightarrow> builder" where
  "delete_foreign r b = push (DeleteRecord (obs_zone_id r) (obs_record r))
     (warn (DeletesForeignRecord (rec_name (obs_record r)) (rec_kind (obs_record r)) (rec_content (obs_record r)))
        (require_confirmation b))"

definition serve_domain :: "snapshot \<Rightarrow> site_spec \<Rightarrow> site_state \<Rightarrow> hostname \<Rightarrow> builder \<Rightarrow> plan_error + builder" where
  "serve_domain s site st h b =
     ebind (find_zone s h) (\<lambda>zone.
       if list_ex (\<lambda>d. eq_ic (wd_hostname d) h) (st_domains st) then Inr b
       else
         ebind (fail_if (list_ex (\<lambda>r. rule_hostname r = Some h) (routes s)
              \<or> list_ex (\<lambda>r. eq_ic (else_hostname r) h) (sn_elsewhere s)) (HostnameRouted h)) (\<lambda>_.
         ebind (case st_hostname_taken_by st of Some w \<Rightarrow> Inl (HostnameServed h w) | None \<Rightarrow> Inr ()) (\<lambda>_.
         let (placeholders, existing) = partition is_placeholder (address_records s h);
             b = (if placeholders \<noteq> [] then take_over s h b else b);
             b = push_all (map (\<lambda>r. DeleteRecord (obs_zone_id r) (obs_record r)) placeholders) b
         in ebind (fail_if (list_ex obs_owned existing) (HostnameRouted h)) (\<lambda>_.
            Inr (push (AttachSnapshotDomain zone h (ss_script site)) (fold delete_foreign existing b))))))"

definition serve_workers_dev :: "site_spec \<Rightarrow> site_state \<Rightarrow> builder \<Rightarrow> plan_error + builder" where
  "serve_workers_dev site st b =
     ebind (ok_or NoWorkersSubdomain (st_subdomain st)) (\<lambda>subdomain.
       Inr (if \<not> st_workers_dev st
            then push (EnableWorkersDev (ss_script site) (workers_dev_address (ss_script site) subdomain)) b
            else b))"

definition serve_site :: "snapshot \<Rightarrow> site_spec \<Rightarrow> site_state \<Rightarrow> builder \<Rightarrow> plan_error + builder" where
  "serve_site s site st b = (case ss_address site of
      AtDomain h \<Rightarrow> serve_domain s site st h b | WorkersDev \<Rightarrow> serve_workers_dev site st b)"

definition protect_site :: "snapshot \<Rightarrow> site_spec \<Rightarrow> builder \<Rightarrow> plan_error + builder" where
  "protect_site s site b = (case ss_access site of
      None \<Rightarrow> Inr b
    | Some rule \<Rightarrow> (case address_hostname (ss_address site) of
          Some h \<Rightarrow> protect s h rule b | None \<Rightarrow> Inl SnapshotLoginNeedsDomain))"

definition with_database :: "snapshot \<Rightarrow> site_settings \<Rightarrow> builder \<Rightarrow> site_settings \<times> builder" where
  "with_database s settings b = (case set_comments settings of
      None \<Rightarrow> (settings, b)
    | Some cm \<Rightarrow> (let (db, b) = database s b in (settings\<lparr>set_comments := Some (cm\<lparr>cm_database := db\<rparr>)\<rparr>, b)))"

definition publish :: "snapshot \<Rightarrow> site_spec \<Rightarrow> site_settings \<Rightarrow> site_content \<Rightarrow> builder \<Rightarrow> plan_error + builder" where
  "publish s site settings content b =
     ebind (site_of s site) (\<lambda>st.
     ebind (fail_if (st_exists st) (SnapshotExists (ss_name site))) (\<lambda>_.
     ebind (case ss_address site of AtDomain h \<Rightarrow> ebind (find_zone s h) (\<lambda>_. Inr ()) | WorkersDev \<Rightarrow> Inr ()) (\<lambda>_.
     ebind (fail_if (ss_access site \<noteq> None \<and> address_hostname (ss_address site) = None) SnapshotLoginNeedsDomain) (\<lambda>_.
     ebind (fail_if (ss_address site = WorkersDev \<and> st_subdomain st = None) NoWorkersSubdomain) (\<lambda>_.
     let (settings, b) = with_database s settings b;
         b = push (UploadSnapshotFiles (ss_script site) content (length (sc_files content)) (content_bytes content)) b;
         b = push (CreateSnapshotWorker (ss_id site) (ss_script site) settings) b
     in ebind (protect_site s site b) (serve_site s site st))))))"

definition update :: "snapshot \<Rightarrow> site_spec \<Rightarrow> site_settings \<Rightarrow> site_content \<Rightarrow> site_file list \<Rightarrow> builder \<Rightarrow> plan_error + builder" where
  "update s site settings content previous b =
     ebind (site_of s site) (\<lambda>st.
     ebind (fail_if (\<not> st_exists st) (NoSuchSnapshot (ss_name site))) (\<lambda>_.
     ebind (protect_site s site b) (\<lambda>b.
     let (settings, b) = with_database s settings b;
         (files, bytes) = changes_from content previous;
         b = push (UploadSnapshotFiles (ss_script site) content files bytes) b;
         b = push (PublishSnapshotVersion (ss_id site) (ss_script site) settings (st_active_version st)) b
     in ebind (serve_site s site st b) (\<lambda>b.
        Inr (case (ss_access site, address_hostname (ss_address site)) of
          (None, Some h) \<Rightarrow> unprotect s h b | _ \<Rightarrow> b)))))"

definition rollback :: "snapshot \<Rightarrow> site_spec \<Rightarrow> string \<Rightarrow> nat \<Rightarrow> builder \<Rightarrow> plan_error + builder" where
  "rollback s site version number b =
     ebind (site_of s site) (\<lambda>st.
     ebind (fail_if (\<not> st_exists st) (NoSuchSnapshot (ss_name site))) (\<lambda>_.
     Inr (if st_active_version st \<noteq> Some version
          then push (RollBackSnapshot (ss_id site) (ss_script site) version number (st_active_version st)) b
          else b)))"

definition delete_site :: "snapshot \<Rightarrow> site_spec \<Rightarrow> builder \<Rightarrow> builder" where
  "delete_site s site b = (case site_at s site of
      None \<Rightarrow> b
    | Some st \<Rightarrow>
        (let b = (if st_workers_dev st
                  then push (DisableWorkersDev (ss_script site) (workers_dev_address (ss_script site)
                         (case st_subdomain st of Some d \<Rightarrow> d | None \<Rightarrow> []))) b else b);
             b = push_all (map DetachSnapshotDomain (st_domains st)) b;
             b = (case address_hostname (ss_address site) of Some h \<Rightarrow> unprotect s h b | None \<Rightarrow> b)
         in if st_exists st then push (DeleteSnapshotWorker (ss_id site) (ss_script site)) b else b))"

end
