(* ===== verification/Planner_Reservations.thy ===== *)
theory Planner_Reservations
  imports Builder
begin

text \<open>
  Planning reservations (\<open>engine/planner/reservations.rs\<close>): leases on hostnames, kept in DNS.
\<close>

definition owned_records :: "snapshot \<Rightarrow> string \<Rightarrow> (observed_record \<times> ownership option) list" where
  "owned_records s hostname = map (\<lambda>r. (r, record_ownership r)) (address_records s hostname)"

definition delete_found :: "(observed_record \<times> ownership option) list \<Rightarrow> builder \<Rightarrow> builder" where
  "delete_found found b = push_all (map (\<lambda>(r, _). DeleteRecord (obs_zone_id r) (obs_record r)) found) b"

text \<open>The record whose comment alone changes: this machine's route, or its own live lease.\<close>

definition keeps_record :: "nat \<Rightarrow> (observed_record \<times> ownership option) list \<Rightarrow> (observed_record \<times> ownership) option" where
  "keeps_record now found = (case found of
      [(r, Some w)] \<Rightarrow>
        if is_route_marker (own_marker w) \<or> (own_marker w = Lease \<and> leased_at w now) then Some (r, w) else None
    | _ \<Rightarrow> None)"

definition reserve :: "snapshot \<Rightarrow> hostname \<Rightarrow> nat option \<Rightarrow> builder \<Rightarrow> plan_error + builder" where
  "reserve s h til b =
     ebind (find_zone s h) (\<lambda>zone.
     let found = owned_records s h; create = CreateReservation zone h til
     in ebind (fail_if (list_ex (\<lambda>(_, w). w = None) found) (HostnameInUse h)) (\<lambda>_.
        if holder s h \<noteq> None then Inr (push create (delete_found found (take_over s h b)))
        else if found = [] then Inr (push create b)
        else case keeps_record (sn_now s) found of
          Some (r, w) \<Rightarrow>
            Inr (if \<not> (leased_at w (sn_now s) \<and> own_until w = til)
                 then push (SetLease (obs_zone_id r) (obs_record r) True til) b else b)
        | None \<Rightarrow> Inr (push create (delete_found found b))))"

definition leased_records :: "snapshot \<Rightarrow> hostname \<Rightarrow> (observed_record \<times> ownership) list" where
  "leased_records s h = filter (\<lambda>(_, w). own_lease w)
     (List.map_filter (\<lambda>(r, w). map_option (Pair r) w) (owned_records s h))"

definition release_step :: "observed_record \<times> ownership \<Rightarrow> step" where
  "release_step = (\<lambda>(r, w). if is_route_marker (own_marker w)
     then SetLease (obs_zone_id r) (obs_record r) False None
     else DeleteRecord (obs_zone_id r) (obs_record r))"

definition release :: "snapshot \<Rightarrow> hostname \<Rightarrow> builder \<Rightarrow> plan_error + builder" where
  "release s h b =
     ebind (find_zone s h) (\<lambda>_.
     let leased = leased_records s h
     in ebind (fail_if (leased = []) (NotReserved h)) (\<lambda>_.
        Inr (push_all (map release_step leased) (take_over s h b))))"

end
