(* ===== verification/Planner.thy ===== *)
theory Planner
  imports Planner_Edge Planner_Sites Planner_Reservations
begin

text \<open>
  The planner (\<open>engine/planner.rs\<close>, \<open>plan\<close>): one definition per kind of change, and the
  dispatch over them. Every arm takes the snapshot and a builder and returns the builder to
  finish, or the error.
\<close>

subsection \<open>What goes with a hostname\<close>

definition release_workers_and_rules :: "externals \<Rightarrow> snapshot \<Rightarrow> hostname \<Rightarrow> builder \<Rightarrow> plan_error + builder" where
  "release_workers_and_rules X s h b =
     (let b = front_remove_all s h b;
          observed = (case zone_in zone_name h (sn_zones s) of
              Some z \<Rightarrow> edge_in s (zone_id z) \<noteq> None | None \<Rightarrow> False)
      in if observed then edge_protect X s h protection_default b else Inr b)"

definition release_hostname :: "externals \<Rightarrow> snapshot \<Rightarrow> hostname \<Rightarrow> builder \<Rightarrow> plan_error + builder" where
  "release_hostname X s h b =
     ebind (release_workers_and_rules X s h b) (\<lambda>b.
     Inr (push_all (map DeleteServiceToken (filter (\<lambda>t. tok_owned t \<and> tok_made_for t = Some h) (tokens s))) b))"

subsection \<open>Routes\<close>

definition own_tunnel :: "snapshot \<Rightarrow> plan_error + observed_tunnel" where
  "own_tunnel s = ok_or NoTunnel (sn_tunnel s)"

definition has_route_at :: "ingress_rule list \<Rightarrow> hostname \<Rightarrow> string option \<Rightarrow> bool" where
  "has_route_at rules h path \<longleftrightarrow> list_ex (\<lambda>r. same_route r h path) rules"

definition routes_hostname :: "ingress_rule list \<Rightarrow> hostname \<Rightarrow> bool" where
  "routes_hostname rules h \<longleftrightarrow> list_ex (\<lambda>r. rule_hostname r = Some h) rules"

definition unchanged_route :: "ingress_rule \<Rightarrow> route_spec \<Rightarrow> bool" where
  "unchanged_route r rt \<longleftrightarrow> rule_service r = rt_origin rt \<and> rule_origin_request r = rt_options rt"

definition plan_add_route :: "snapshot \<Rightarrow> route_spec \<Rightarrow> builder \<Rightarrow> plan_error + builder" where
  "plan_add_route s r b =
     (let rules = routes s
      in ebind (find_zone s (rt_hostname r)) (\<lambda>_.
         ebind (not_elsewhere s (rt_hostname r) (rt_path r)) (\<lambda>_.
         case find (\<lambda>x. same_route x (rt_hostname r) (rt_path r)) rules of
           Some existing \<Rightarrow>
             if unchanged_route existing r
             then (let (t, b) = ensure_tunnel s b
                   in ebind (protect_route s r b) (\<lambda>b.
                      ebind (serve s (rt_hostname r) t (rt_id r) b) (\<lambda>b.
                      Inr (verify_route r b))))
             else Inl (RouteExists (rt_hostname r))
         | None \<Rightarrow>
             (let (t, b) = ensure_tunnel s (remote_origin_warning r b)
              in ebind (protect_route s r b) (\<lambda>b.
                 ebind (serve s (rt_hostname r) t (rt_id r) (put_config s t (rules @ [to_rule r]) b)) (\<lambda>b.
                 Inr (verify_route r b)))))))"

definition replace_route :: "ingress_rule list \<Rightarrow> hostname \<Rightarrow> string option \<Rightarrow> route_spec \<Rightarrow> ingress_rule list" where
  "replace_route rules h path r = map (\<lambda>x. if same_route x h path then to_rule r else x) rules"

definition check_update :: "snapshot \<Rightarrow> hostname \<Rightarrow> string option \<Rightarrow> route_spec \<Rightarrow> plan_error + unit" where
  "check_update s h path r =
     (let rules = routes s
      in ebind (fail_if (\<not> has_route_at rules h path) (NoSuchRoute h)) (\<lambda>_.
         ebind (find_zone s (rt_hostname r)) (\<lambda>_.
         ebind (if h \<noteq> rt_hostname r \<or> path \<noteq> rt_path r
                then not_elsewhere s (rt_hostname r) (rt_path r) else Inr ()) (\<lambda>_.
         fail_if (h \<noteq> rt_hostname r \<and> has_route_at rules (rt_hostname r) (rt_path r))
           (RouteExists (rt_hostname r))))))"

text \<open>The login the route had, taken down once nothing reaches it any more.\<close>

definition drop_old_login ::
    "snapshot \<Rightarrow> hostname \<Rightarrow> string option \<Rightarrow> route_spec \<Rightarrow> builder \<Rightarrow> builder" where
  "drop_old_login s h path r b =
     (let new_domain = (case rt_access r of None \<Rightarrow> None | Some _ \<Rightarrow> ok_of (access_domain (rt_hostname r) (rt_path r)))
      in case ok_of (access_domain h path) of
           Some old \<Rightarrow>
             if new_domain = Some old then b
             else if h \<noteq> rt_hostname r \<or> path \<noteq> rt_path r then unprotect s old b else drop_login s old b
         | None \<Rightarrow> b)"

definition plan_update_route :: "snapshot \<Rightarrow> hostname \<Rightarrow> string option \<Rightarrow> route_spec \<Rightarrow> builder \<Rightarrow> plan_error + builder" where
  "plan_update_route s h path r b =
     ebind (own_tunnel s) (\<lambda>t.
     ebind (check_update s h path r) (\<lambda>_.
     ebind (protect_route s r (remote_origin_warning r b)) (\<lambda>b.
     ebind (ensure_dns s (rt_hostname r) (Existing (tun_id t)) (rt_id r)
              (put_config s (Existing (tun_id t)) (replace_route (routes s) h path r) b)) (\<lambda>b.
     let b = (if h \<noteq> rt_hostname r
                 \<and> \<not> list_ex (\<lambda>x. rule_hostname x = Some h \<and> \<not> same_route x h path) (routes s)
              then release_dns s h (tun_id t) b else b)
     in Inr (verify_route r (drop_old_login s h path r b))))))"

text \<open>Leaving a balanced hostname: out of its pool, or, as the last tunnel serving it, the load
  balancing goes too. Whether other computers still serve it.\<close>

definition leave_pool :: "snapshot \<Rightarrow> hostname \<Rightarrow> builder \<Rightarrow> bool \<times> builder" where
  "leave_pool s h b =
     (if \<not> balanced s then (False, b)
      else (let eps = endpoints s None
            in if eps = [] then (False, unbalance s b) else (True, snd (sync_pool s h eps b))))"

definition plan_remove_route :: "externals \<Rightarrow> snapshot \<Rightarrow> hostname \<Rightarrow> string option \<Rightarrow> builder \<Rightarrow> plan_error + builder" where
  "plan_remove_route X s h path b =
     ebind (own_tunnel s) (\<lambda>t.
     let rules = routes s; desired = filter (\<lambda>r. \<not> same_route r h path) rules;
         still_used = routes_hostname desired h
     in ebind (fail_if (\<not> has_route_at rules h path) (NoSuchRoute h)) (\<lambda>_.
        let b = (if desired = [] then warn TunnelEmpty b else b);
            b = put_config s (Existing (tun_id t)) desired b;
            (served_elsewhere, b) = (if still_used then (False, b)
               else leave_pool s h (release_dns s h (tun_id t) b));
            b = (case access_domain h path of Inr d \<Rightarrow> unprotect s d b | Inl _ \<Rightarrow> b)
        in if \<not> still_used \<and> \<not> served_elsewhere then release_hostname X s h b else Inr b))"

definition plan_balance_route :: "snapshot \<Rightarrow> hostname \<Rightarrow> builder \<Rightarrow> plan_error + builder" where
  "plan_balance_route s h b =
     ebind (find_zone s h) (\<lambda>zone.
     ebind (own_tunnel s) (\<lambda>t.
     ebind (fail_if (\<not> routes_hostname (routes s) h) (NoSuchRoute h)) (\<lambda>_.
     ebind (ok_or (NoZone h) (sn_balance s)) (\<lambda>st.
     ebind (fail_if (\<not> bal_owned st) (BalancerExists h)) (\<lambda>_.
     let eps = endpoints s (Some (Existing (tun_id t)));
         b = (if length eps = 1 then warn (SingleEndpoint h) b else b);
         (p, b) = sync_pool s h eps b
     in Inr (case (bal_balancer st, p) of
          (None, Some p) \<Rightarrow> push (CreateLoadBalancer zone h p) b | _ \<Rightarrow> b))))))"

definition plan_unbalance_route :: "snapshot \<Rightarrow> hostname \<Rightarrow> builder \<Rightarrow> plan_error + builder" where
  "plan_unbalance_route s h b = (if balanced s then Inr (unbalance s b) else Inl (NotBalanced h))"

definition plan_create_tunnel :: "snapshot \<Rightarrow> string \<Rightarrow> builder \<Rightarrow> plan_error + builder" where
  "plan_create_tunnel s text b =
     (let name = trim text
      in ebind (fail_if (name = [] \<or> chars_count name > 64 \<or> has_control name) InvalidTunnelName) (\<lambda>_.
         ebind (fail_if (list_ex (\<lambda>t. eq_ic t name) (sn_tunnel_names s)) (TunnelNameTaken name)) (\<lambda>_.
         Inr (push (CreateTunnel name) b))))"

definition import_route ::
    "snapshot \<Rightarrow> route_spec \<Rightarrow> ingress_rule list \<times> builder \<Rightarrow> plan_error + ingress_rule list \<times> builder" where
  "import_route s r st =
     (let (desired, b) = st
      in ebind (find_zone s (rt_hostname r)) (\<lambda>_.
         ebind (not_elsewhere s (rt_hostname r) (rt_path r)) (\<lambda>_.
         case find (\<lambda>x. same_route x (rt_hostname r) (rt_path r)) desired of
           Some existing \<Rightarrow> if unchanged_route existing r then Inr (desired, b) else Inl (RouteExists (rt_hostname r))
         | None \<Rightarrow> Inr (desired @ [to_rule r], remote_origin_warning r b))))"

text \<open>The first route of each hostname.\<close>

fun first_per_hostname :: "hostname list \<Rightarrow> route_spec list \<Rightarrow> route_spec list" where
  "first_per_hostname seen [] = []"
| "first_per_hostname seen (r # rs) =
     (if rt_hostname r \<in> set seen then first_per_hostname seen rs
      else r # first_per_hostname (rt_hostname r # seen) rs)"

definition plan_import_routes :: "snapshot \<Rightarrow> route_spec list \<Rightarrow> builder \<Rightarrow> plan_error + builder" where
  "plan_import_routes s rs b =
     ebind (efold (import_route s) rs (routes s, b)) (\<lambda>(desired, b).
     let (t, b) = ensure_tunnel s b; added = first_per_hostname [] rs
     in ebind (efold (\<lambda>r. ensure_dns s (rt_hostname r) t (rt_id r)) added (put_config s t desired b)) (\<lambda>b.
        Inr (fold verify_route added b)))"

definition plan_delete_record :: "snapshot \<Rightarrow> string \<Rightarrow> hostname \<Rightarrow> string \<Rightarrow> builder \<Rightarrow> plan_error + builder" where
  "plan_delete_record s zone h rid b =
     ebind (ok_or (NoSuchRecord h) (find (\<lambda>r. rec_id (obs_record r) = rid) (sn_records s))) (\<lambda>r.
     let b = (if \<not> obs_owned r
              then warn (DeletesForeignRecord (rec_name (obs_record r)) (rec_kind (obs_record r)) (rec_content (obs_record r)))
                     (require_confirmation b) else b)
     in Inr (push (DeleteRecord zone (obs_record r)) b))"

definition plan_clean_up :: "externals \<Rightarrow> snapshot \<Rightarrow> hostname \<Rightarrow> builder \<Rightarrow> plan_error + builder" where
  "plan_clean_up X s h b =
     ebind (fail_if (routes_hostname (routes s) h \<or> records_named s h \<noteq> []) (HostnameRouted h)) (\<lambda>_.
     release_hostname X s h (unprotect s h b))"

text \<open>Whether a rule's route has its login at \<open>domain\<close>.\<close>

definition rule_domain_is :: "externals \<Rightarrow> string \<Rightarrow> ingress_rule \<Rightarrow> bool" where
  "rule_domain_is X domain r =
     (case Option.bind (rule_hostname r) (\<lambda>h. ok_of (hostname_parse X h)) of
        None \<Rightarrow> False
      | Some h \<Rightarrow>
          (case access_domain h (Option.bind (rule_path r) (\<lambda>p. ok_of (path_parse X p))) of
             Inr d \<Rightarrow> eq_ic d domain | Inl _ \<Rightarrow> False))"

definition plan_remove_login :: "externals \<Rightarrow> snapshot \<Rightarrow> string \<Rightarrow> builder \<Rightarrow> plan_error + builder" where
  "plan_remove_login X s domain b =
     ebind (fail_if (list_ex (rule_domain_is X domain) (routes s)) (RouteExists domain)) (\<lambda>_.
     let b = unprotect s domain b
     in ebind (fail_if (b_steps b = []) (NoSuchLogin domain)) (\<lambda>_. Inr b))"

subsection \<open>Private networks\<close>

definition vnet_routes :: "snapshot \<Rightarrow> network_route list" where
  "vnet_routes s = (case sn_networks s of Some n \<Rightarrow> in_default_vnet n | None \<Rightarrow> [])"

definition is_own_tunnel :: "snapshot \<Rightarrow> string \<Rightarrow> bool" where
  "is_own_tunnel s tid = (case sn_tunnel s of Some t \<Rightarrow> tun_id t = tid | None \<Rightarrow> False)"

definition route_tunnel_name :: "network_route \<Rightarrow> string" where
  "route_tunnel_name r = (case net_tunnel_name r of Some n \<Rightarrow> n | None \<Rightarrow> net_tunnel_id r)"

definition overlap_warnings :: "externals \<Rightarrow> snapshot \<Rightarrow> ip_net \<Rightarrow> warning list" where
  "overlap_warnings X s net =
     map (\<lambda>r. OverlapsNetwork (ipnet_show X net) (net_network r) (route_tunnel_name r))
       (filter (\<lambda>r. \<not> is_own_tunnel s (net_tunnel_id r)
           \<and> (case route_range X r of Some o' \<Rightarrow> overlaps X o' net | None \<Rightarrow> False)) (vnet_routes s))"

definition plan_add_network :: "externals \<Rightarrow> snapshot \<Rightarrow> ip_net \<Rightarrow> builder \<Rightarrow> plan_error + builder" where
  "plan_add_network X s net b =
     (case find (\<lambda>r. route_range X r = Some net) (vnet_routes s) of
        Some existing \<Rightarrow>
          if is_own_tunnel s (net_tunnel_id existing) then Inr b
          else Inl (NetworkRouted (ipnet_show X net) (route_tunnel_name existing))
      | None \<Rightarrow>
          (let b = (if \<not> is_private X net then warn (PublicNetwork (ipnet_show X net)) (require_confirmation b) else b);
               b = fold warn (overlap_warnings X s net) b;
               (t, b) = ensure_tunnel s b
           in Inr (push (CreateNetworkRoute net t) b)))"

definition plan_remove_network :: "externals \<Rightarrow> snapshot \<Rightarrow> ip_net \<Rightarrow> builder \<Rightarrow> plan_error + builder" where
  "plan_remove_network X s net b =
     ebind (own_tunnel s) (\<lambda>t.
     let rs = filter (\<lambda>r. net_tunnel_id r = tun_id t \<and> route_range X r = Some net) (vnet_routes s)
     in ebind (fail_if (rs = []) (NoSuchNetwork (ipnet_show X net))) (\<lambda>_.
        Inr (push_all (map DeleteNetworkRoute rs) b)))"

definition private_hostname_routes :: "snapshot \<Rightarrow> hostname \<Rightarrow> hostname_route list" where
  "private_hostname_routes s h = (case sn_networks s of Some n \<Rightarrow> hostname_routes n h | None \<Rightarrow> [])"

definition plan_add_private_hostname :: "snapshot \<Rightarrow> hostname \<Rightarrow> builder \<Rightarrow> plan_error + builder" where
  "plan_add_private_hostname s h b =
     (case private_hostname_routes s h of
        r # _ \<Rightarrow>
          if is_own_tunnel s (hr_tunnel_id r) then Inr b
          else Inl (PrivateHostnameRouted h (case hr_tunnel_name r of Some n \<Rightarrow> n | None \<Rightarrow> hr_tunnel_id r))
      | [] \<Rightarrow>
          (let b = (if list_ex (\<lambda>z. is_in_zone h (zone_name z)) (sn_zones s)
                    then warn (PublicHostname h) (require_confirmation b) else b);
               (t, b) = ensure_tunnel s b
           in Inr (push (CreateHostnameRoute h t) b)))"

definition plan_remove_private_hostname :: "snapshot \<Rightarrow> hostname \<Rightarrow> builder \<Rightarrow> plan_error + builder" where
  "plan_remove_private_hostname s h b =
     ebind (own_tunnel s) (\<lambda>t.
     let rs = filter (\<lambda>r. hr_tunnel_id r = tun_id t) (private_hostname_routes s h)
     in ebind (fail_if (rs = []) (NoSuchPrivateHostname h)) (\<lambda>_.
        Inr (push_all (map DeleteHostnameRoute rs) b)))"

subsection \<open>The tunnel\<close>

definition plan_restore_config :: "snapshot \<Rightarrow> ingress_rule list \<Rightarrow> builder \<Rightarrow> plan_error + builder" where
  "plan_restore_config s ingress b =
     ebind (own_tunnel s) (\<lambda>t.
     Inr (put_config s (Existing (tun_id t)) (filter (\<lambda>r. rule_hostname r \<noteq> None) ingress) b))"

definition routed_hostnames :: "snapshot \<Rightarrow> string list" where
  "routed_hostnames s = dedup (sort (List.map_filter rule_hostname (routes s)))"

text \<open>A hostname whose record pointed at the tunnel stops resolving: what is in front of it goes.\<close>

definition release_resolving :: "externals \<Rightarrow> snapshot \<Rightarrow> string \<Rightarrow> string \<Rightarrow> builder \<Rightarrow> plan_error + builder" where
  "release_resolving X s tid name b =
     (case hostname_parse X name of
        Inl _ \<Rightarrow> Inr b
      | Inr h \<Rightarrow>
          if list_ex (\<lambda>r. obs_owned r \<and> eq_ic (rec_content (obs_record r)) (tunnel_target tid)) (records_named s name)
          then release_workers_and_rules X s h b else Inr b)"

definition doomed_tokens :: "snapshot \<Rightarrow> string list \<Rightarrow> service_token list" where
  "doomed_tokens s names = filter (\<lambda>t. tok_owned t
     \<and> (case tok_made_for t of Some h \<Rightarrow> h \<in> set names | None \<Rightarrow> False)) (tokens s)"

definition owned_domains :: "snapshot \<Rightarrow> string list" where
  "owned_domains s = map oa_domain (filter oa_owned (access_apps s))"

definition plan_remove_tunnel :: "externals \<Rightarrow> snapshot \<Rightarrow> builder \<Rightarrow> plan_error + builder" where
  "plan_remove_tunnel X s b =
     ebind (own_tunnel s) (\<lambda>t.
     let names = routed_hostnames s;
         b = (if routes s \<noteq> [] then put_config s (Existing (tun_id t)) [] b else b);
         b = fold (\<lambda>h. release_dns s h (tun_id t)) names b
     in ebind (efold (release_resolving X s (tun_id t)) names b) (\<lambda>b.
        let b = fold (unprotect s) (owned_domains s) b;
            b = push_all (map DeleteServiceToken (doomed_tokens s names)) b;
            b = push_all (map DeleteNetworkRoute
                  (case sn_networks s of Some n \<Rightarrow> of_tunnel n (tun_id t) | None \<Rightarrow> [])) b;
            b = push_all (map DeleteHostnameRoute
                  (case sn_networks s of Some n \<Rightarrow> hostnames_of_tunnel n (tun_id t) | None \<Rightarrow> [])) b
        in Inr (push (DeleteTunnel (tun_id t)) (push (StopConnector (tun_id t)) b))))"

subsection \<open>Every intent\<close>

fun plan_steps :: "externals \<Rightarrow> snapshot \<Rightarrow> intent \<Rightarrow> builder \<Rightarrow> plan_error + builder" where
  "plan_steps X s (AddRoute r) b = plan_add_route s r b"
| "plan_steps X s (UpdateRoute h path r) b = plan_update_route s h path r b"
| "plan_steps X s (RemoveRoute h path) b = plan_remove_route X s h path b"
| "plan_steps X s RemoveTunnel b = plan_remove_tunnel X s b"
| "plan_steps X s (intent.CreateTunnel name) b = plan_create_tunnel s name b"
| "plan_steps X s (BalanceRoute h) b = plan_balance_route s h b"
| "plan_steps X s (UnbalanceRoute h) b = plan_unbalance_route s h b"
| "plan_steps X s (ImportRoutes rs) b = plan_import_routes s rs b"
| "plan_steps X s (intent.DeleteRecord zone h rid) b = plan_delete_record s zone h rid b"
| "plan_steps X s (AddNetwork net) b = plan_add_network X s net b"
| "plan_steps X s (RemoveNetwork net) b = plan_remove_network X s net b"
| "plan_steps X s (AddPrivateHostname h) b = plan_add_private_hostname s h b"
| "plan_steps X s (RemovePrivateHostname h) b = plan_remove_private_hostname s h b"
| "plan_steps X s (RemoveLogin d) b = plan_remove_login X s d b"
| "plan_steps X s (CleanUpHostname h) b = plan_clean_up X s h b"
| "plan_steps X s (RestoreConfig ingress) b = plan_restore_config s ingress b"
| "plan_steps X s (PublishSnapshot site settings content) b = publish s site settings content b"
| "plan_steps X s (UpdateSnapshot site settings content previous) b = update s site settings content previous b"
| "plan_steps X s (RollbackSnapshot site version number) b = rollback s site version number b"
| "plan_steps X s (DeleteSnapshot site) b = Inr (delete_site s site b)"
| "plan_steps X s (Reserve h til) b = reserve s h til b"
| "plan_steps X s (Release h) b = release s h b"
| "plan_steps X s (ProtectHostname h p) b = edge_protect X s h p b"
| "plan_steps X s (intent.CreateServiceToken h label) b = create_token s h label b"
| "plan_steps X s (RevokeServiceToken h tid) b = revoke_token s h tid b"
| "plan_steps X s (intent.RotateServiceToken h tid) b = rotate_token s tid b"
| "plan_steps X s (SetOfflinePage h page) b = front_offline X s h page b"
| "plan_steps X s (SetInbox h path settings secret) b = front_inbox X s h path settings secret b"

definition plan :: "externals \<Rightarrow> (snapshot \<Rightarrow> string) \<Rightarrow> intent \<Rightarrow> snapshot \<Rightarrow> plan_error + plan" where
  "plan X J i s = ebind (plan_steps X s i new_builder) (\<lambda>b. Inr (finish X J s b))"

end
