(* ===== verification/Plan_Spec.thy ===== *)
theory Plan_Spec
  imports Planner
begin

text \<open>
  What a plan may contain. \<open>permitted\<close> states, step by step, the condition under which the
  planner may put a step in a plan for a snapshot: what it changes was observed and is
  Teitunnel's own or the plan asks for a confirmation, what it creates is not there yet, what it
  refers to exists or is created by an earlier step. \<open>class_of\<close> names the part of the account
  a step changes. \<open>grows\<close> is the contract of the planner's operations: they only append steps,
  each satisfying a condition that may depend on the steps before it, and never take a
  confirmation back.
\<close>

subsection \<open>Classes of steps\<close>

datatype step_class =
    TunnelClass | ConfigClass | RecordClass | LoginClass | NetworkClass | BalanceClass | VerifyClass
  | FilesClass | WorkerClass | AddressClass | LeaseClass | EdgeClass | TokenClass | DatabaseClass
  | FrontClass | StopClass

fun class_of :: "step \<Rightarrow> step_class" where
  "class_of (CreateTunnel _) = TunnelClass"
| "class_of (PutConfig _ _ _ _) = ConfigClass"
| "class_of (CreateRecord _ _ _ _) = RecordClass"
| "class_of (UpdateRecord _ _ _ _ _ _) = RecordClass"
| "class_of (DeleteRecord _ _) = RecordClass"
| "class_of (StopConnector _) = StopClass"
| "class_of (DeleteTunnel _) = StopClass"
| "class_of AddLoginMethod = LoginClass"
| "class_of (CreateAccessApp _) = LoginClass"
| "class_of (UpdateAccessApp _ _ _) = LoginClass"
| "class_of (DeleteAccessApp _ _) = LoginClass"
| "class_of (CreateNetworkRoute _ _) = NetworkClass"
| "class_of (DeleteNetworkRoute _) = NetworkClass"
| "class_of (CreateHostnameRoute _ _) = NetworkClass"
| "class_of (DeleteHostnameRoute _) = NetworkClass"
| "class_of (CreateLbMonitor _) = BalanceClass"
| "class_of (CreateLbPool _ _ _) = BalanceClass"
| "class_of (UpdateLbPool _ _ _ _ _) = BalanceClass"
| "class_of (CreateLoadBalancer _ _ _) = BalanceClass"
| "class_of (DeleteLoadBalancer _ _) = BalanceClass"
| "class_of (DeleteLbPool _) = BalanceClass"
| "class_of (DeleteLbMonitor _) = BalanceClass"
| "class_of (Verify _) = VerifyClass"
| "class_of (UploadSnapshotFiles _ _ _ _) = FilesClass"
| "class_of (CreateSnapshotWorker _ _ _) = WorkerClass"
| "class_of (PublishSnapshotVersion _ _ _ _) = WorkerClass"
| "class_of (RollBackSnapshot _ _ _ _ _) = WorkerClass"
| "class_of (EnableWorkersDev _ _) = AddressClass"
| "class_of (DisableWorkersDev _ _) = AddressClass"
| "class_of (AttachSnapshotDomain _ _ _) = AddressClass"
| "class_of (DetachSnapshotDomain _) = AddressClass"
| "class_of (DeleteSnapshotWorker _ _) = WorkerClass"
| "class_of (CreateReservation _ _ _) = LeaseClass"
| "class_of (SetLease _ _ _ _) = LeaseClass"
| "class_of (CreateEdgeRule _ _ _ _ _ _) = EdgeClass"
| "class_of (UpdateEdgeRule _ _ _ _ _ _ _) = EdgeClass"
| "class_of (DeleteEdgeRule _ _ _ _ _ _ _ _) = EdgeClass"
| "class_of (CreateServiceToken _ _) = TokenClass"
| "class_of (AllowServiceToken _ _ _) = TokenClass"
| "class_of (DeleteServiceToken _) = TokenClass"
| "class_of (RotateServiceToken _) = TokenClass"
| "class_of (CreateDatabase _) = DatabaseClass"
| "class_of (PutFrontWorker _ _ _ _ _ _ _) = FrontClass"
| "class_of (CreateWorkerRoute _ _ _ _ _ _) = FrontClass"
| "class_of (DeleteWorkerRoute _ _ _ _ _) = FrontClass"
| "class_of (DeleteFrontWorker _ _ _ _ _) = FrontClass"

subsection \<open>References to what earlier steps create\<close>

definition is_create_tunnel :: "step \<Rightarrow> bool" where
  "is_create_tunnel st \<longleftrightarrow> class_of st = TunnelClass"

fun is_create_monitor :: "step \<Rightarrow> bool" where
  "is_create_monitor (CreateLbMonitor _) = True"
| "is_create_monitor _ = False"

fun is_create_pool :: "step \<Rightarrow> bool" where
  "is_create_pool (CreateLbPool _ _ _) = True"
| "is_create_pool _ = False"

fun is_create_token :: "step \<Rightarrow> bool" where
  "is_create_token (CreateServiceToken _ _) = True"
| "is_create_token _ = False"

fun puts_worker :: "string \<Rightarrow> step \<Rightarrow> bool" where
  "puts_worker script (PutFrontWorker _ _ w _ _ _ _) = (w = script)"
| "puts_worker script _ = False"

fun deletes_route :: "worker_route \<Rightarrow> step \<Rightarrow> bool" where
  "deletes_route route (DeleteWorkerRoute _ _ r _ _) = (r = route)"
| "deletes_route route _ = False"

text \<open>The tunnel of this machine, as steps refer to it.\<close>

definition machine_ref :: "snapshot \<Rightarrow> tunnel_ref" where
  "machine_ref s = (case sn_tunnel s of Some t \<Rightarrow> Existing (tun_id t) | None \<Rightarrow> Created)"

definition current_ingress :: "snapshot \<Rightarrow> ingress_rule list" where
  "current_ingress s = (case sn_tunnel s of Some t \<Rightarrow> tun_ingress t | None \<Rightarrow> [])"

definition tunnel_known :: "snapshot \<Rightarrow> step list \<Rightarrow> tunnel_ref \<Rightarrow> bool" where
  "tunnel_known s before t \<longleftrightarrow> t = machine_ref s \<and> (t = Created \<longrightarrow> list_ex is_create_tunnel before)"

definition endpoints_known :: "step list \<Rightarrow> pool_endpoint list \<Rightarrow> bool" where
  "endpoints_known before eps \<longleftrightarrow> (\<forall>e \<in> set eps. ep_tunnel e = Created \<longrightarrow> list_ex is_create_tunnel before)"

definition monitor_known :: "balance_state \<Rightarrow> step list \<Rightarrow> lb_ref \<Rightarrow> bool" where
  "monitor_known st before m \<longleftrightarrow> (case m of
     LbExisting i \<Rightarrow> map_option mon_id (bal_monitor st) = Some i | LbCreated \<Rightarrow> list_ex is_create_monitor before)"

definition pool_known :: "balance_state \<Rightarrow> step list \<Rightarrow> lb_ref \<Rightarrow> bool" where
  "pool_known st before p \<longleftrightarrow> (case p of
     LbExisting i \<Rightarrow> map_option pool_id (bal_pool st) = Some i | LbCreated \<Rightarrow> list_ex is_create_pool before)"

definition database_known :: "snapshot \<Rightarrow> step list \<Rightarrow> database_ref \<Rightarrow> bool" where
  "database_known s before db \<longleftrightarrow> (case db of
     DbExisting i \<Rightarrow> existing_database s = Some i | DbCreated \<Rightarrow> list_ex is_create_database before)"

definition comments_known :: "snapshot \<Rightarrow> step list \<Rightarrow> site_settings \<Rightarrow> bool" where
  "comments_known s before settings \<longleftrightarrow> (case set_comments settings of
     Some cm \<Rightarrow> database_known s before (cm_database cm) | None \<Rightarrow> True)"

subsection \<open>What a step may change\<close>

text \<open>Another owner holds the hostname (a live lease, or a route of another machine).\<close>

definition held :: "snapshot \<Rightarrow> string \<Rightarrow> bool" where
  "held s name \<longleftrightarrow> holder s name \<noteq> None"

text \<open>The record was observed, and it is this machine's own, or carries a Teitunnel comment
  on a hostname nobody else holds, or the plan asks for a confirmation (\<open>c\<close>).\<close>

definition may_replace :: "bool \<Rightarrow> snapshot \<Rightarrow> hostname \<Rightarrow> dns_record \<Rightarrow> bool" where
  "may_replace c s h r \<longleftrightarrow> (\<exists>x \<in> set (address_records s h). obs_record x = r \<and> (obs_owned x \<or> c))
     \<and> (held s h \<longrightarrow> c)"

definition may_delete :: "bool \<Rightarrow> snapshot \<Rightarrow> dns_record \<Rightarrow> bool" where
  "may_delete c s r \<longleftrightarrow> (\<exists>x \<in> set (sn_records s). obs_record x = r
     \<and> (c \<or> obs_owned x \<or> (record_ownership x \<noteq> None \<and> \<not> held s (rec_name r))))"

definition may_lease :: "bool \<Rightarrow> snapshot \<Rightarrow> string \<Rightarrow> dns_record \<Rightarrow> bool" where
  "may_lease c s zone r \<longleftrightarrow> (\<exists>x \<in> set (sn_records s). obs_record x = r \<and> obs_zone_id x = zone
     \<and> record_ownership x \<noteq> None) \<and> (held s (rec_name r) \<longrightarrow> c)"

definition may_reserve :: "bool \<Rightarrow> snapshot \<Rightarrow> string \<Rightarrow> string \<Rightarrow> bool" where
  "may_reserve c s zone h \<longleftrightarrow> (held s h \<longrightarrow> c)
     \<or> (\<exists>x \<in> set (sn_records s). obs_owned x \<and> obs_zone_id x = zone \<and> rec_name (obs_record x) = h
          \<and> record_ownership x \<noteq> None)"

definition own_app :: "snapshot \<Rightarrow> string \<Rightarrow> new_access_app \<Rightarrow> bool" where
  "own_app s i app \<longleftrightarrow> (\<exists>a \<in> set (access_apps s). oa_owned a \<and> oa_id a = i \<and> oa_definition a = app)"

definition own_tunnel_id :: "snapshot \<Rightarrow> string \<Rightarrow> bool" where
  "own_tunnel_id s i \<longleftrightarrow> map_option tun_id (sn_tunnel s) = Some i"

definition own_rule :: "snapshot \<Rightarrow> string \<Rightarrow> rule_kind \<Rightarrow> string \<Rightarrow> string \<Rightarrow> new_rule \<Rightarrow> bool" where
  "own_rule s zone kind rsid i rule \<longleftrightarrow> (\<exists>es rs r. edge_in s zone = Some es \<and> ruleset_in es (phase kind) = Some rs
     \<and> rsid = or_default (rs_id rs) \<and> r \<in> set (rs_rules rs) \<and> or_owned r \<and> or_id r = i \<and> or_rule r = rule)"

definition own_rule_at :: "snapshot \<Rightarrow> string \<Rightarrow> rule_kind \<Rightarrow> string \<Rightarrow> new_rule \<Rightarrow> nat \<Rightarrow> bool" where
  "own_rule_at s zone kind i rule n \<longleftrightarrow> (\<exists>es rs r. edge_in s zone = Some es
     \<and> ruleset_in es (phase kind) = Some rs \<and> 1 \<le> n \<and> n \<le> length (rs_rules rs)
     \<and> rs_rules rs ! (n - 1) = r \<and> or_owned r \<and> or_id r = i \<and> or_rule r = rule)"

definition site_known :: "snapshot \<Rightarrow> string \<Rightarrow> (site_state \<Rightarrow> bool) \<Rightarrow> bool" where
  "site_known s script P \<longleftrightarrow> (\<exists>st. sn_site s = Some st \<and> st_script st = script \<and> P st)"

definition balance_known :: "snapshot \<Rightarrow> (balance_state \<Rightarrow> bool) \<Rightarrow> bool" where
  "balance_known s P \<longleftrightarrow> (\<exists>st. sn_balance s = Some st \<and> bal_owned st \<and> P st)"

definition front_known :: "snapshot \<Rightarrow> string \<Rightarrow> (front_state \<Rightarrow> bool) \<Rightarrow> bool" where
  "front_known s h P \<longleftrightarrow> (\<exists>fs. front_of s h = Some fs \<and> P fs)"

definition deployed :: "front_state \<Rightarrow> front_config \<Rightarrow> front_config option" where
  "deployed fs config = (case front_find fs (config_kind config) (config_path config) of
     Some f \<Rightarrow> if of_exists f then Some (of_config f) else None | None \<Rightarrow> None)"

text \<open>A hostname a Snapshot may be attached to: no route and no other Worker answers there, and
  no record of this machine is in the way but a reservation.\<close>

definition free_for_site :: "snapshot \<Rightarrow> hostname \<Rightarrow> site_state \<Rightarrow> bool" where
  "free_for_site s h st \<longleftrightarrow> st_hostname_taken_by st = None \<and> \<not> routes_hostname (routes s) h
     \<and> \<not> list_ex (\<lambda>r. eq_ic (else_hostname r) h) (sn_elsewhere s)
     \<and> list_all (\<lambda>r. obs_owned r \<longrightarrow> is_placeholder r) (address_records s h)"

fun permitted :: "externals \<Rightarrow> snapshot \<Rightarrow> step list \<Rightarrow> bool \<Rightarrow> step \<Rightarrow> bool" where
  "permitted X s before c (CreateTunnel name) = name_free (sn_tunnel_names s) name"
| "permitted X s before c (PutConfig t desired v prev) =
     (tunnel_known s before t \<and> v = map_option tun_config_version (sn_tunnel s)
      \<and> prev = current_ingress s \<and> sort_ingress desired = desired \<and> desired \<noteq> prev)"
| "permitted X s before c (CreateRecord z h t rid) =
     (tunnel_known s before t \<and> find_zone s h = Inr z \<and> address_records s h = [] \<and> (held s h \<longrightarrow> c))"
| "permitted X s before c (UpdateRecord z i h t rid prev) =
     (tunnel_known s before t \<and> find_zone s h = Inr z \<and> i = rec_id prev \<and> may_replace c s h prev)"
| "permitted X s before c (DeleteRecord z prev) = may_delete c s prev"
| "permitted X s before c (StopConnector i) = own_tunnel_id s i"
| "permitted X s before c (DeleteTunnel i) = own_tunnel_id s i"
| "permitted X s before c AddLoginMethod =
     (login_methods s = Some [] \<and> \<not> zero_trust_off s \<and> AddLoginMethod \<notin> set before)"
| "permitted X s before c (CreateAccessApp app) = (find_app s (app_domain app) = None)"
| "permitted X s before c (UpdateAccessApp i wanted prev) = own_app s i prev"
| "permitted X s before c (DeleteAccessApp i prev) = own_app s i prev"
| "permitted X s before c (CreateNetworkRoute net t) =
     (tunnel_known s before t \<and> (\<forall>r \<in> set (vnet_routes s). route_range X r \<noteq> Some net)
      \<and> (is_private X net \<or> c))"
| "permitted X s before c (DeleteNetworkRoute r) =
     (own_tunnel_id s (net_tunnel_id r) \<and> (\<exists>n. sn_networks s = Some n \<and> r \<in> set (ns_routes n)))"
| "permitted X s before c (CreateHostnameRoute h t) =
     (tunnel_known s before t \<and> private_hostname_routes s h = []
      \<and> (c \<or> \<not> list_ex (\<lambda>z. is_in_zone h (zone_name z)) (sn_zones s)))"
| "permitted X s before c (DeleteHostnameRoute r) =
     (own_tunnel_id s (hr_tunnel_id r) \<and> (\<exists>n. sn_networks s = Some n \<and> r \<in> set (ns_hostname_list n)))"
| "permitted X s before c (CreateLbMonitor h) = balance_known s (\<lambda>st. bal_monitor st = None)"
| "permitted X s before c (CreateLbPool h m eps) =
     balance_known s (\<lambda>st. bal_pool st = None \<and> monitor_known st before m \<and> endpoints_known before eps)"
| "permitted X s before c (UpdateLbPool h i m eps prev) =
     balance_known s (\<lambda>st. bal_pool st = Some prev \<and> i = pool_id prev
       \<and> monitor_known st before m \<and> endpoints_known before eps)"
| "permitted X s before c (CreateLoadBalancer z h p) =
     (find_zone s h = Inr z \<and> balance_known s (\<lambda>st. bal_balancer st = None \<and> pool_known st before p))"
| "permitted X s before c (DeleteLoadBalancer z lb) =
     balance_known s (\<lambda>st. bal_balancer st = Some lb \<and> z = bal_zone_id st)"
| "permitted X s before c (DeleteLbPool p) = balance_known s (\<lambda>st. bal_pool st = Some p)"
| "permitted X s before c (DeleteLbMonitor m) = balance_known s (\<lambda>st. bal_monitor st = Some m)"
| "permitted X s before c (Verify h) = True"
| "permitted X s before c (UploadSnapshotFiles script content n bytes) = site_known s script (\<lambda>_. True)"
| "permitted X s before c (CreateSnapshotWorker i script settings) =
     (site_known s script (\<lambda>st. \<not> st_exists st) \<and> comments_known s before settings)"
| "permitted X s before c (PublishSnapshotVersion i script settings expected) =
     (site_known s script (\<lambda>st. st_exists st \<and> expected = st_active_version st) \<and> comments_known s before settings)"
| "permitted X s before c (RollBackSnapshot i script version n expected) =
     site_known s script (\<lambda>st. st_exists st \<and> expected = st_active_version st \<and> expected \<noteq> Some version)"
| "permitted X s before c (EnableWorkersDev script address) =
     site_known s script (\<lambda>st. \<not> st_workers_dev st \<and> st_subdomain st \<noteq> None)"
| "permitted X s before c (DisableWorkersDev script address) = site_known s script st_workers_dev"
| "permitted X s before c (AttachSnapshotDomain z h script) =
     (find_zone s h = Inr z \<and> site_known s script (free_for_site s h))"
| "permitted X s before c (DetachSnapshotDomain d) = (\<exists>st. sn_site s = Some st \<and> d \<in> set (st_domains st))"
| "permitted X s before c (DeleteSnapshotWorker i script) = site_known s script st_exists"
| "permitted X s before c (CreateReservation z h til) = may_reserve c s z h"
| "permitted X s before c (SetLease z r on til) = may_lease c s z r"
| "permitted X s before c (CreateEdgeRule z ph rsid kind hosts rule) =
     (ph = phase kind \<and> (\<exists>es. edge_in s z = Some es \<and> rsid = ruleset_id es kind))"
| "permitted X s before c (UpdateEdgeRule z rsid i kind hosts rule prev) = own_rule s z kind rsid i prev"
| "permitted X s before c (DeleteEdgeRule z ph rsid i kind hosts prev n) =
     (ph = phase kind \<and> own_rule s z kind rsid i prev \<and> own_rule_at s z kind i prev n)"
| "permitted X s before c (CreateServiceToken h name) =
     (list_all (\<lambda>t. \<not> eq_ic (tok_name t) name) (tokens s) \<and> length (tokens s) < MAX_SERVICE_TOKENS)"
| "permitted X s before c (AllowServiceToken h app tok) =
     (tok = TokCreated \<and> list_ex is_create_token before
      \<and> (case app of Some (i, d) \<Rightarrow> own_app s i d | None \<Rightarrow> find_app s h = None \<and> \<not> zero_trust_off s))"
| "permitted X s before c (DeleteServiceToken t) = (t \<in> set (tokens s) \<and> tok_owned t)"
| "permitted X s before c (RotateServiceToken t) = (t \<in> set (tokens s) \<and> tok_owned t)"
| "permitted X s before c (CreateDatabase name) =
     (name = DATABASE_NAME \<and> existing_database s = None \<and> \<not> list_ex is_create_database before)"
| "permitted X s before c (PutFrontWorker h z script config prev db secret) =
     (find_zone s h = Inr z \<and> list_ex (\<lambda>r. rec_proxied (obs_record r)) (address_records s h)
      \<and> front_known s h (\<lambda>fs. prev = deployed fs config)
      \<and> (case db of Some d \<Rightarrow> database_known s before d | None \<Rightarrow> True))"
| "permitted X s before c (CreateWorkerRoute h z pattern script kind path) =
     front_known s h (\<lambda>fs. foreign_on fs pattern = None
       \<and> (list_ex (puts_worker script) before \<or> (\<exists>f \<in> set (fs_fronts fs). of_exists f \<and> of_script f = script)))"
| "permitted X s before c (DeleteWorkerRoute h z route kind path) =
     front_known s h (\<lambda>fs. z = fs_zone_id fs \<and> (\<exists>f \<in> set (fs_fronts fs). of_route f = Some route))"
| "permitted X s before c (DeleteFrontWorker h z script config db) =
     front_known s h (\<lambda>fs. z = fs_zone_id fs \<and> (\<exists>f \<in> set (fs_fronts fs). of_script f = script \<and> of_config f = config
       \<and> (case of_route f of Some route \<Rightarrow> list_ex (deletes_route route) before | None \<Rightarrow> True)))"

subsection \<open>The contract of the builder's operations\<close>

fun all_ok :: "(step list \<Rightarrow> bool \<Rightarrow> step \<Rightarrow> bool) \<Rightarrow> step list \<Rightarrow> bool \<Rightarrow> step list \<Rightarrow> bool" where
  "all_ok ok before c [] = True"
| "all_ok ok before c (st # sts) = (ok before c st \<and> all_ok ok (before @ [st]) c sts)"

definition grows :: "(step list \<Rightarrow> bool \<Rightarrow> step \<Rightarrow> bool) \<Rightarrow> builder \<Rightarrow> builder \<Rightarrow> bool" where
  "grows ok b b' \<longleftrightarrow> (b_confirm b \<longrightarrow> b_confirm b')
     \<and> (\<exists>sts. b_steps b' = b_steps b @ sts \<and> all_ok ok (b_steps b) (b_confirm b') sts)"

lemma all_ok_append: "all_ok ok before c (xs @ ys) \<longleftrightarrow> all_ok ok before c xs \<and> all_ok ok (before @ xs) c ys"
  by (induction xs arbitrary: before) auto

lemma all_okD: "all_ok ok before c sts \<Longrightarrow> st \<in> set sts \<Longrightarrow> \<exists>pre. ok (before @ pre) c st"
proof (induction sts arbitrary: before)
  case (Cons x xs)
  then show ?case by (cases "st = x") (use Cons.IH[of "before @ [x]"] in \<open>auto intro: exI[of _ "[]"]\<close>)
qed simp

lemma all_ok_mono: "all_ok ok before c sts \<Longrightarrow> (\<And>pre st. ok pre c st \<Longrightarrow> ok' pre c' st) \<Longrightarrow> all_ok ok' before c' sts"
  by (induction sts arbitrary: before) auto

lemma all_ok_nth: "all_ok ok before c sts \<longleftrightarrow> (\<forall>i < length sts. ok (before @ take i sts) c (sts ! i))"
proof (induction sts arbitrary: before)
  case (Cons x xs)
  show ?case by (auto simp: Cons.IH nth_Cons' take_Cons' all_conj_distrib less_Suc_eq_0_disj
    split: nat.splits)
qed simp

lemma builder_simps [simp]:
  "b_steps (push st b) = b_steps b @ [st]" "b_steps (push_all sts b) = b_steps b @ sts"
  "b_steps (warn w b) = b_steps b" "b_steps (require_confirmation b) = b_steps b"
  "b_confirm (push st b) = b_confirm b" "b_confirm (push_all sts b) = b_confirm b"
  "b_confirm (warn w b) = b_confirm b" "b_confirm (require_confirmation b) = True"
  "b_warnings (push st b) = b_warnings b" "b_warnings (push_all sts b) = b_warnings b"
  "b_warnings (warn w b) = b_warnings b @ [w]" "b_warnings (require_confirmation b) = b_warnings b"
  "b_steps new_builder = []" "b_warnings new_builder = []" "b_confirm new_builder = False"
  by (simp_all add: push_def push_all_def warn_def require_confirmation_def new_builder_def)

text \<open>A condition on steps that a confirmation can only weaken.\<close>

locale step_contract =
  fixes ok :: "step list \<Rightarrow> bool \<Rightarrow> step \<Rightarrow> bool"
  assumes confirmed: "ok before c st \<Longrightarrow> ok before True st"
begin

lemma ok_mono: "ok before c st \<Longrightarrow> (c \<longrightarrow> d) \<Longrightarrow> ok before d st"
  using confirmed[of before c st] by (cases c; cases d) auto

lemma refl: "grows ok b b"
  by (simp add: grows_def)

lemma trans: "grows ok a b \<Longrightarrow> grows ok b c \<Longrightarrow> grows ok a c"
  unfolding grows_def by (fastforce simp: all_ok_append intro: all_ok_mono ok_mono)

lemma push_all:
  assumes "grows ok a b" and "all_ok ok (b_steps b) (b_confirm b) sts"
  shows "grows ok a (push_all sts b)"
  by (rule trans[OF assms(1)]) (use assms(2) in \<open>simp add: grows_def\<close>)

lemma push: "grows ok a b \<Longrightarrow> ok (b_steps b) (b_confirm b) st \<Longrightarrow> grows ok a (push st b)"
  using push_all[of a b "[st]"] by (simp add: push_all_def push_def)

lemma push_each:
  assumes "grows ok a b" and "\<And>before st. st \<in> set sts \<Longrightarrow> ok before (b_confirm b) st"
  shows "grows ok a (push_all sts b)"
  by (rule push_all[OF assms(1)]) (use assms(2) in \<open>simp add: all_ok_nth\<close>)

lemma warn: "grows ok a b \<Longrightarrow> grows ok a (warn w b)"
  by (simp add: grows_def)

lemma confirm: "grows ok a b \<Longrightarrow> grows ok a (require_confirmation b)"
  by (rule trans) (auto simp: grows_def)

lemma foldI:
  assumes "grows ok a b" and "\<And>x b'. x \<in> set xs \<Longrightarrow> grows ok b b' \<Longrightarrow> grows ok b' (f x b')"
  shows "grows ok a (fold f xs b)"
proof -
  have "grows ok b (fold f xs b)"
    by (rule fold_invariant_on) (auto intro: refl trans assms(2))
  with assms(1) show ?thesis by (rule trans)
qed

lemma efoldI:
  assumes "efold f xs b = Inr c" and "grows ok a b"
    and "\<And>x b' c'. x \<in> set xs \<Longrightarrow> grows ok b b' \<Longrightarrow> f x b' = Inr c' \<Longrightarrow> grows ok b' c'"
  shows "grows ok a c"
proof -
  have "grows ok b c"
    by (rule efold_invariant[OF assms(1)]) (auto intro: refl trans assms(3))
  with assms(2) show ?thesis by (rule trans)
qed

lemma warns: "grows ok a b \<Longrightarrow> grows ok a (fold warn ws b)"
  by (rule foldI) (auto intro: refl warn)

text \<open>What was appended can be read off the steps of the plan.\<close>

lemma all_steps: "grows ok new_builder b \<Longrightarrow> i < length (b_steps b) \<Longrightarrow> ok (take i (b_steps b)) (b_confirm b) (b_steps b ! i)"
  by (auto simp: grows_def all_ok_nth)

lemma every_step: "grows ok new_builder b \<Longrightarrow> st \<in> set (b_steps b) \<Longrightarrow> \<exists>before. ok before (b_confirm b) st"
  using all_steps[of b] by (metis in_set_conv_nth)

end

lemma grows_weaken: "grows ok b b' \<Longrightarrow> (\<And>before c st. ok before c st \<Longrightarrow> ok' before c st) \<Longrightarrow> grows ok' b b'"
  unfolding grows_def using all_ok_mono by blast

lemma grows_steps: "grows ok b b' \<Longrightarrow> list_ex P (b_steps b) \<Longrightarrow> list_ex P (b_steps b')"
  by (auto simp: grows_def)

lemma grows_confirm: "grows ok b b' \<Longrightarrow> b_confirm b \<Longrightarrow> b_confirm b'"
  by (simp add: grows_def)

subsection \<open>Permitted steps of given classes\<close>

definition allowed :: "externals \<Rightarrow> snapshot \<Rightarrow> step_class set \<Rightarrow> step list \<Rightarrow> bool \<Rightarrow> step \<Rightarrow> bool" where
  "allowed X s K before c st \<longleftrightarrow> permitted X s before c st \<and> class_of st \<in> K"

lemmas may_defs = may_replace_def may_delete_def may_lease_def may_reserve_def

lemma permitted_confirmed: "permitted X s before c st \<Longrightarrow> permitted X s before True st"
  by (cases st) (auto simp: may_defs)

interpretation allowed: step_contract "allowed X s K" for X s K
  by unfold_locales (auto simp: allowed_def intro: permitted_confirmed)

lemma allowed_widen: "grows (allowed X s K) b b' \<Longrightarrow> K \<subseteq> L \<Longrightarrow> grows (allowed X s L) b b'"
  by (erule grows_weaken) (auto simp: allowed_def)

text \<open>An operation's own classes are among those of the whole.\<close>

lemma grows_step: "grows (allowed X s K) a b \<Longrightarrow> grows (allowed X s L) b b' \<Longrightarrow> L \<subseteq> K \<Longrightarrow> grows (allowed X s K) a b'"
  using allowed.trans allowed_widen by blast

lemma tunnel_known_grows: "tunnel_known s (b_steps b) t \<Longrightarrow> grows ok b b' \<Longrightarrow> tunnel_known s (b_steps b') t"
  by (auto simp: tunnel_known_def dest: grows_steps)

lemma endpoints_known_grows: "endpoints_known (b_steps b) eps \<Longrightarrow> grows ok b b' \<Longrightarrow> endpoints_known (b_steps b') eps"
  by (auto simp: endpoints_known_def dest: grows_steps)

lemma database_known_grows: "database_known s (b_steps b) d \<Longrightarrow> grows ok b b' \<Longrightarrow> database_known s (b_steps b') d"
  by (auto simp: database_known_def dest: grows_steps split: database_ref.splits)

end
