(* ===== verification/Access_Laws.thy ===== *)
theory Access_Laws
  imports Access
begin

text \<open>
  What logins keep: entries that were tidied stay as they are, the rule an application
  expresses is the rule it was written from, and adding or removing a machine never changes
  which people may log in.
\<close>

subsection \<open>Entries\<close>

lemma path_char_plain: "path_char c \<Longrightarrow> plain_char c \<and> c \<noteq> CHR ''*''"
  by (auto simp: path_char_def plain_char_def is_alnum_def is_digit_def is_lower_def is_upper_def code_def)

lemma trim_end_char_last: "trim_end_char c s = [] \<or> last (trim_end_char c s) \<noteq> c"
proof -
  have "\<not> starts_with [c] (trim_prefixes [[c]] (rev s))"
    by (rule trim_prefixes_result) simp_all
  then show ?thesis
    unfolding trim_end_char_def trim_suffixes_def
    by (cases "trim_prefixes [[c]] (rev s)") auto
qed

lemma trim_start_char_hd: "trim_start_char c s = [] \<or> hd (trim_start_char c s) \<noteq> c"
proof -
  have "\<not> starts_with [c] (trim_prefixes [[c]] s)"
    by (rule trim_prefixes_result) simp_all
  then show ?thesis unfolding trim_start_char_def by (cases "trim_prefixes [[c]] s") auto
qed

lemma bypass_path_shape:
  assumes "bypass_path raw = Some p"
  shows "starts_with ''/'' p" "length p > 1" "list_all path_char p" "last p \<noteq> CHR ''/''"
    "\<not> contains_str ''//'' p" "''..'' \<notin> set (split_on (CHR ''/'') p)"
proof -
  define t where "t = trim_end_char (CHR ''/'') (trim_end_char (CHR ''*'') (trim raw))"
  have p: "p = (if starts_with ''/'' t then t else ''/'' @ t)"
    and ok: "length p > 1" "list_all path_char (drop 1 p)" "\<not> contains_str ''//'' p"
      "''..'' \<notin> set (split_on (CHR ''/'') p)"
    using assms unfolding bypass_path_def t_def[symmetric] Let_def by (auto split: if_splits)
  show s: "starts_with ''/'' p" unfolding p by (auto simp: starts_with_def)
  have t: "t \<noteq> []" using ok(1) by (auto simp: p)
  then have "last t \<noteq> CHR ''/''" using trim_end_char_last[of "CHR ''/''"] t_def by metis
  then show "last p \<noteq> CHR ''/''" using t by (auto simp: p)
  show "list_all path_char p" using ok(2) s by (cases p) (auto simp: path_char_def)
qed (use assms in \<open>auto simp: bypass_path_def Let_def split: if_splits\<close>)

lemma bypass_path_again: "bypass_path raw = Some p \<Longrightarrow> bypass_path p = Some p"
proof -
  assume a: "bypass_path raw = Some p"
  note s = bypass_path_shape[OF a]
  have ne: "p \<noteq> []" using s(2) by auto
  have "plain_char (hd p)" "plain_char (last p)" "last p \<noteq> CHR ''*''"
    using s(3) ne path_char_plain by (auto simp: list_all_iff)
  then have "trim_end_char (CHR ''/'') (trim_end_char (CHR ''*'') (trim p)) = p"
    using ne s(4) by (simp add: trim_id trim_char_id(2))
  then show "bypass_path p = Some p"
    using s by (simp add: bypass_path_def list_all_iff) (metis in_set_dropD One_nat_def)
qed

lemma github_char_plain: "is_alnum b \<or> b = CHR ''-'' \<Longrightarrow> plain_char b \<and> b \<noteq> CHR ''/'' \<and> b \<noteq> CHR '':''"
  by (auto simp: plain_char_def is_alnum_def is_digit_def is_lower_def is_upper_def code_def)

lemma trim_end_trim [simp]: "trim_end (trim s) = trim s"
  by (simp add: trim_def trim_end_def)

lemma trim_start_hd_plain: "s = [] \<or> plain_char (hd s) \<Longrightarrow> trim s = trim_end s"
  by (simp add: trim_def trim_start_id)

lemma white_space_no_plain: "\<forall>w \<in> set white_space. list_all (\<lambda>c. \<not> plain_char c) w"
  by code_simp

lemma starts_with_longer:
  "starts_with v (a @ b) \<Longrightarrow> b \<noteq> [] \<Longrightarrow> starts_with v a \<or> hd b \<in> set v"
proof -
  assume v: "starts_with v (a @ b)" "b \<noteq> []"
  then obtain t where t: "a @ b = v @ t" by (auto simp: starts_with_iff)
  then obtain u where "(a = v @ u \<and> u @ b = t) \<or> (a @ u = v \<and> b = u @ t)"
    by (auto simp: append_eq_append_conv2)
  then show ?thesis using v(2) by (cases u) (auto simp: starts_with_iff)
qed

text \<open>White space does not reach back over a plain character.\<close>

lemma trim_end_append: "trim_end t = t \<Longrightarrow> s \<noteq> [] \<Longrightarrow> plain_char (last s) \<Longrightarrow> trim_end (s @ t) = s @ t"
proof -
  assume t: "trim_end t = t" and s: "s \<noteq> []" "plain_char (last s)"
  have "\<forall>v \<in> set (map rev white_space). v = [] \<or> \<not> starts_with v (rev (s @ t))"
  proof
    fix v assume v: "v \<in> set (map rev white_space)"
    have "trim_prefixes (map rev white_space) (rev t) = rev t"
      using t unfolding trim_end_def trim_suffixes_def by (metis rev_rev_ident)
    then have 1: "v = [] \<or> \<not> starts_with v (rev t)" using trim_prefixes_result[OF v, of "rev t"] by metis
    have 2: "hd (rev s) \<notin> set v" using white_space_no_plain v s by (auto simp: hd_rev list_all_iff)
    show "v = [] \<or> \<not> starts_with v (rev (s @ t))"
      using 1 2 s(1) starts_with_longer[of v "rev t" "rev s"] by auto
  qed
  from trim_prefixes_none[OF this] show ?thesis by (simp add: trim_end_def trim_suffixes_def)
qed

lemma github_entry_shape:
  assumes "github_entry raw = Some g"
  obtains org t where "g = org \<and> t = None \<or> (\<exists>u. t = Some u \<and> g = org @ ''/'' @ u)"
    "1 \<le> length org" "length org \<le> 39" "\<not> starts_with ''-'' org"
    "list_all (\<lambda>b. is_alnum b \<or> b = CHR ''-'') org"
    "\<forall>u. t = Some u \<longrightarrow> trim u = u \<and> 1 \<le> chars_count u \<and> chars_count u \<le> 100 \<and> \<not> has_control u
       \<and> list_all (\<lambda>c. c \<notin> {CHR '','', CHR '';'', CHR ''/''}) u"
proof -
  let ?raw = "trim (case strip_prefix GITHUB_PREFIX (trim raw) of Some r \<Rightarrow> r | None \<Rightarrow> trim raw)"
  show thesis
  proof (cases "split_once ''/'' ?raw")
    case None
    then show thesis
      using assms that[of ?raw None] unfolding github_entry_def Let_def by (auto split: if_splits)
  next
    case (Some a)
    obtain o1 t1 where a: "a = (o1, t1)" by (cases a)
    show thesis
      using assms that[of "trim o1" "Some (trim t1)"] Some
      unfolding github_entry_def Let_def a by (auto split: if_splits)
  qed
qed

lemma github_entry_again: "github_entry raw = Some g \<Longrightarrow> github_entry g = Some g"
proof -
  assume "github_entry raw = Some g"
  then obtain org t where
    g: "g = org \<and> t = None \<or> (\<exists>u. t = Some u \<and> g = org @ ''/'' @ u)"
    and org: "1 \<le> length org" "length org \<le> 39" "\<not> starts_with ''-'' org"
      "list_all (\<lambda>b. is_alnum b \<or> b = CHR ''-'') org"
    and u: "\<forall>u. t = Some u \<longrightarrow> trim u = u \<and> 1 \<le> chars_count u \<and> chars_count u \<le> 100 \<and> \<not> has_control u
       \<and> list_all (\<lambda>c. c \<notin> {CHR '','', CHR '';'', CHR ''/''}) u"
    by (rule github_entry_shape)
  have ne: "org \<noteq> []" using org(1) by auto
  have pl: "\<forall>c \<in> set org. plain_char c \<and> c \<noteq> CHR ''/'' \<and> c \<noteq> CHR '':''"
    using org(4) github_char_plain by (auto simp: list_all_iff)
  have torg: "trim org = org" using pl ne by (intro trim_id) auto
  have tg: "trim g = g"
  proof (cases t)
    case None
    then show ?thesis using g torg by auto
  next
    case (Some v)
    then have gv: "g = (org @ ''/'') @ v" using g by auto
    have "trim_end v = v" using u[rule_format, OF Some] trim_end_trim by metis
    then have "trim_end g = g" unfolding gv by (rule trim_end_append) (auto simp: plain_char_def code_def)
    moreover have "plain_char (hd g)" using pl ne by (auto simp: gv)
    ultimately show ?thesis using trim_start_hd_plain by auto
  qed
  have np: "strip_prefix GITHUB_PREFIX g = None"
  proof (rule ccontr)
    assume "strip_prefix GITHUB_PREFIX g \<noteq> None"
    then obtain r where r: "g = ''github'' @ CHR '':'' # r"
      by (auto simp: strip_prefix_iff GITHUB_PREFIX_def)
    let ?P = "\<lambda>c. c \<noteq> CHR ''/'' \<and> c \<noteq> CHR '':''"
    have all: "\<forall>c \<in> set org. ?P c" using pl by blast
    have "takeWhile ?P (org @ w) = org @ takeWhile ?P w" for w using all by (simp add: takeWhile_append2)
    from this[of "[]"] this[of "CHR ''/'' # _"] have tw: "takeWhile ?P org = org" "\<And>u. takeWhile ?P (org @ CHR ''/'' # u) = org"
      using all by (simp_all add: takeWhile_append2)
    have "g = org \<or> (\<exists>u. g = org @ CHR ''/'' # u)" using g by auto
    then have "takeWhile ?P g = org" using tw by metis
    moreover have "takeWhile ?P g = ''github''" unfolding r by simp
    ultimately have o6: "org = ''github''" by simp
    have "g ! 6 = CHR '':''" "length g > 6" unfolding r by simp_all
    moreover have "g = org \<or> (\<exists>u. g = org @ CHR ''/'' # u)" using g by auto
    ultimately show False unfolding o6 by (elim disjE exE) simp_all
  qed
  show "github_entry g = Some g"
  proof (cases t)
    case None
    then have "split_once ''/'' g = None" using g pl split_once_char_None by auto
    then show ?thesis using org g None unfolding github_entry_def Let_def tg np option.case
      by (auto simp: list_all_iff)
  next
    case (Some v)
    then have gv: "g = org @ CHR ''/'' # v" using g by auto
    then have "split_once ''/'' g = Some (org, v)" using split_once_char_append pl by metis
    then show ?thesis using org gv u[rule_format, OF Some] torg unfolding github_entry_def Let_def tg np option.case
      by (auto simp: list_all_iff)
  qed
qed

interpretation bypass: normalizer bypass_path
  by unfold_locales (rule bypass_path_again)

interpretation github: normalizer github_entry
  by unfold_locales (rule github_entry_again)

subsection \<open>Normalising a rule twice\<close>

text \<open>An address or domain whose leading \<open>@\<close> is not followed by white space.\<close>

definition tidy_entry :: "string \<Rightarrow> bool" where
  "tidy_entry s \<longleftrightarrow> (let t = lower (trim_start_char (CHR ''@'') (trim s)) in trim t = t)"

definition tidy_rule :: "access_rule \<Rightarrow> bool" where
  "tidy_rule r \<longleftrightarrow> list_all tidy_entry (ar_emails r) \<and> list_all tidy_entry (ar_email_domains r)"

lemma lower_trim_char_hd: "lower (trim_start_char (CHR ''@'') s) = [] \<or> hd (lower (trim_start_char (CHR ''@'') s)) \<noteq> CHR ''@''"
proof (cases "trim_start_char (CHR ''@'') s")
  case (Cons c r)
  then have "c \<noteq> CHR ''@''" using trim_start_char_hd[of "CHR ''@''" s] by simp
  moreover have "lower_char c = CHR ''@'' \<Longrightarrow> c = CHR ''@''"
  proof -
    assume l: "lower_char c = CHR ''@''"
    show "c = CHR ''@''"
    proof (cases "is_upper c")
      case True
      then have "code (lower_char c) = code c + 32" unfolding lower_char_def is_upper_def by (simp add: code_char_of)
      with l True show ?thesis by (simp add: is_upper_def code_def)
    qed (use l in \<open>simp add: lower_char_def\<close>)
  qed
  ultimately show ?thesis using Cons by (auto simp: lower_def)
qed simp

lemma clean_again: "list_all tidy_entry xs \<Longrightarrow> clean (clean xs) = clean xs"
proof -
  let ?f = "\<lambda>s. lower (trim_start_char (CHR ''@'') (trim s))"
  let ?F = "filter (\<lambda>s. s \<noteq> []) (map ?f xs)"
  assume t: "list_all tidy_entry xs"
  have fixed: "?f y = y" if y: "y \<in> set (clean xs)" for y
  proof -
    from y obtain x where x: "x \<in> set xs" "y = ?f x" by (auto simp: clean_def)
    then have "trim y = y" using t by (auto simp: tidy_entry_def Let_def list_all_iff)
    moreover have "trim_start_char (CHR ''@'') y = y"
      using lower_trim_char_hd[of "trim x"] by (intro trim_char_id(1)) (simp add: x)
    ultimately show ?thesis by (simp add: x)
  qed
  have "map ?f (clean xs) = clean xs" by (rule map_idI) (rule fixed)
  moreover have "filter (\<lambda>s. s \<noteq> []) (clean xs) = clean xs" by (auto simp: clean_def filter_id_conv)
  ultimately have "clean (clean xs) = dedup (sort (clean xs))" by (simp add: clean_def[of "clean xs"])
  also have "\<dots> = clean xs" by (simp add: clean_def dedup_sort_idem)
  finally show ?thesis .
qed

lemma normal_github_again: "normal_github gs = Inr out \<Longrightarrow> normal_github out = Inr out"
proof -
  assume "normal_github gs = Inr out"
  then obtain c where c: "collect_new (\<lambda>raw. ok_or (AccessGithub raw) (github_entry raw)) (filter (\<lambda>g. trim g \<noteq> []) gs) = Inr c"
    and out: "out = sort c" by (auto simp: normal_github_def res_simps)
  have "trim g \<noteq> []" if "g \<in> set out" for g
  proof
    assume "trim g = []"
    moreover have "github_entry g = Some g" using github.collected[OF c] that out by simp
    moreover have "trim [] = []" by (rule trim_id) simp
    moreover have "strip_prefix GITHUB_PREFIX [] = None" by (simp add: GITHUB_PREFIX_def strip_prefix_def starts_with_def)
    ultimately show False by (simp add: github_entry_def)
  qed
  then have "filter (\<lambda>g. trim g \<noteq> []) out = out" by (simp add: filter_id_conv)
  moreover have "collect_new (\<lambda>raw. ok_or (AccessGithub raw) (github_entry raw)) out = Inr out"
    using github.collect_again[OF c] out by simp
  ultimately show ?thesis by (simp add: normal_github_def out)
qed

lemma normal_bypass_again: "normal_bypass bs = Inr out \<Longrightarrow> normal_bypass out = Inr out"
proof -
  assume "normal_bypass bs = Inr out"
  then obtain c where c: "collect_new (\<lambda>raw. ok_or (AccessBypassPath raw) (bypass_path raw)) bs = Inr c"
    and out: "out = sort c" "length c \<le> MAX_BYPASS" by (auto simp: normal_bypass_def res_simps)
  have "collect_new (\<lambda>raw. ok_or (AccessBypassPath raw) (bypass_path raw)) out = Inr out"
    using bypass.collect_again[OF c] out by simp
  then show ?thesis using out by (simp add: normal_bypass_def fail_if_def)
qed

lemma normal_sign_in_again: "normal_sign_in s g = Inr t \<Longrightarrow> normal_sign_in t g = Inr t"
  by (auto simp: normal_sign_in_def split: if_splits)

lemma normalized_again:
  assumes "tidy_rule r" and n: "normalized X r = Inr r'"
  shows "normalized X r' = Inr r'"
proof -
  from n obtain github s bypass where
    g: "normal_github (ar_github r) = Inr github" and s: "normal_sign_in (ar_sign_in r) github = Inr s"
    and b: "normal_bypass (ar_bypass r) = Inr bypass"
    and ne: "\<not> (clean (ar_emails r) = [] \<and> clean (ar_email_domains r) = [] \<and> github = [])"
    and e: "find (\<lambda>e. \<not> valid_email X e) (clean (ar_emails r)) = None"
    and d: "find (\<lambda>d. \<not> valid_domain X d) (clean (ar_email_domains r)) = None"
    and r': "r' = \<lparr>ar_emails = clean (ar_emails r), ar_email_domains = clean (ar_email_domains r),
       ar_github = github, ar_sign_in = s, ar_bypass = bypass\<rparr>"
    unfolding normalized_def Let_def by (auto simp: res_simps split: option.splits)
  have c: "clean (clean (ar_emails r)) = clean (ar_emails r)" "clean (clean (ar_email_domains r)) = clean (ar_email_domains r)"
    using assms(1) clean_again by (simp_all add: tidy_rule_def)
  show ?thesis
    unfolding r' normalized_def Let_def access_rule.simps c normal_github_again[OF g]
      normal_sign_in_again[OF s] normal_bypass_again[OF b] ebind_simps e d option.case
    using ne by (simp add: fail_if_def)
qed

text \<open>Without the paths that skip it, a normal rule is normal.\<close>

lemma normalized_people_only:
  assumes "normalized X r = Inr r"
  shows "normalized X (people_only r) = Inr (people_only r)"
proof -
  have b: "normal_bypass [] = Inr []" by (simp add: normal_bypass_def collect_new_def fail_if_def)
  show ?thesis
    using assms unfolding normalized_def Let_def people_only_def
    by (cases r) (auto simp: res_simps b split: option.splits)
qed

subsection \<open>The rule an application expresses\<close>

lemma sign_in_of_policy_name [simp]: "sign_in_of (policy_name s) = Some s"
  by (cases s) (simp_all add: sign_in_of_def policy_name_def PEOPLE_POLICY_def middle_dot_def)

lemma add_includes_append:
  "add_includes (xs @ ys) r = Option.bind (add_includes xs r) (add_includes ys)"
  by (induction xs arbitrary: r) (simp_all split: Option.bind_split)

lemma add_includes_emails:
  "add_includes (map email_rule es) r = Some (r\<lparr>ar_emails := ar_emails r @ es\<rparr>)"
  by (induction es arbitrary: r) (auto simp: add_include_def)

lemma add_includes_domains:
  "add_includes (map email_domain_rule ds) r = Some (r\<lparr>ar_email_domains := ar_email_domains r @ ds\<rparr>)"
  by (induction ds arbitrary: r) (auto simp: add_include_def)

lemma add_include_github:
  "add_include (github_include i g) r = Some (r\<lparr>ar_github := ar_github r @ [g]\<rparr>)"
  by (auto simp: add_include_def github_include_def dest: split_once_SomeD split: option.split)

lemma add_includes_github:
  "add_includes (map (github_include i) gs) r = Some (r\<lparr>ar_github := ar_github r @ gs\<rparr>)"
  by (induction gs arbitrary: r) (auto simp: add_include_github)

lemma not_machines_allow [simp]: "\<not> is_machines (inline_policy n ''allow'' i p)"
  by (simp add: is_machines_def inline_policy_def)

lemma from_new_app_definition:
  assumes "normalized X r = Inr r"
  shows "from_new X (app_definition d r m) = Some (people_only r)"
proof -
  have "default_rule\<lparr>ar_sign_in := ar_sign_in r, ar_emails := ar_emails r,
      ar_email_domains := ar_email_domains r, ar_github := ar_github r\<rparr> = people_only r"
    by (simp add: default_rule_def people_only_def)
  then show ?thesis
    using normalized_people_only[OF assms]
    by (simp add: from_new_def from_policies_def app_definition_def teitunnel_app_def Let_def
        add_includes_append add_includes_emails add_includes_domains add_includes_github default_rule_def)
       (simp add: inline_policy_def add_includes_append add_includes_emails add_includes_domains
        add_includes_github)
qed

subsection \<open>Machines\<close>

abbreviation unnumbered :: "access_policy \<Rightarrow> access_policy" where
  "unnumbered p \<equiv> p\<lparr>pol_precedence := None\<rparr>"

lemma unnumbered_set [simp]: "unnumbered (p\<lparr>pol_precedence := n\<rparr>) = unnumbered p"
  by simp

lemma is_machines_number [simp]: "is_machines (p\<lparr>pol_precedence := n\<rparr>) = is_machines p"
  by (simp add: is_machines_def)

lemma renumber_policies:
  "map unnumbered (app_policies (renumber app)) = map unnumbered (app_policies app)"
proof -
  have "map unnumbered (app_policies (renumber app)) = map unnumbered (map fst (enum1 (app_policies app)))"
    by (simp add: renumber_def case_prod_unfold del: map_fst_enum1)
  then show ?thesis by simp
qed

lemma filter_unnumbered:
  "filter (\<lambda>p. Q (is_machines p)) (map unnumbered ps) = map unnumbered (filter (\<lambda>p. Q (is_machines p)) ps)"
  by (induction ps) auto

lemma from_policies_unnumbered: "from_policies X (map unnumbered ps) = from_policies X ps"
  unfolding from_policies_def filter_unnumbered[of Not]
  by (auto split: list.splits simp: map_eq_Cons_conv)

lemma service_tokens_unnumbered:
  "service_tokens_of (app\<lparr>app_policies := map unnumbered (app_policies app)\<rparr>) = service_tokens_of app"
  unfolding service_tokens_of_def using filter_unnumbered[of "\<lambda>b. b" "app_policies app"]
  by (simp add: o_def)

lemma from_new_renumber [simp]: "from_new X (renumber app) = from_new X app"
  unfolding from_new_def by (metis from_policies_unnumbered renumber_policies)

lemma renumber_update: "renumber app = app\<lparr>app_policies := app_policies (renumber app)\<rparr>"
  by (simp add: renumber_def)

lemma service_tokens_renumber [simp]: "service_tokens_of (renumber app) = service_tokens_of app"
proof -
  have "service_tokens_of (renumber app)
      = service_tokens_of (app\<lparr>app_policies := map unnumbered (app_policies (renumber app))\<rparr>)"
    using service_tokens_unnumbered[of "renumber app"] by (metis renumber_update new_access_app.update_convs(6) new_access_app.surjective)
  then show ?thesis unfolding renumber_policies service_tokens_unnumbered .
qed

lemma service_tokens_policies: "service_tokens_of app =
    concat (map (\<lambda>p. List.map_filter rule_service_token (pol_include p)) (filter is_machines (app_policies app)))"
  by (rule service_tokens_of_def)

lemma machines_add: "is_machines p \<Longrightarrow> is_machines (p\<lparr>pol_include := pol_include p @ [service_token_rule tid]\<rparr>)"
  by (simp add: is_machines_def)

lemma machines_token [simp]: "is_machines (inline_policy MACHINES_POLICY ''non_identity'' [service_token_rule tid] None)"
  by (simp add: is_machines_def inline_policy_def)

lemma add_token_people:
  "add_token (service_token_rule tid) ps = Some qs \<Longrightarrow>
     filter (\<lambda>p. \<not> is_machines p) qs = filter (\<lambda>p. \<not> is_machines p) ps"
  by (induction ps arbitrary: qs) (auto split: if_splits simp: machines_add)

lemma set_map_filter: "set (List.map_filter f xs) = {y. \<exists>x \<in> set xs. f x = Some y}"
  by (force simp: map_filter_def image_iff)

definition policy_tokens :: "access_policy list \<Rightarrow> string set" where
  "policy_tokens ps = {t. \<exists>p \<in> set ps. is_machines p \<and> (\<exists>r \<in> set (pol_include p). rule_service_token r = Some t)}"

lemma set_service_tokens: "set (service_tokens_of app) = policy_tokens (app_policies app)"
  by (auto simp: service_tokens_of_def policy_tokens_def set_map_filter)

lemma policy_tokens_Cons:
  "policy_tokens (p # ps) =
     (if is_machines p then {t. \<exists>r \<in> set (pol_include p). rule_service_token r = Some t} else {}) \<union> policy_tokens ps"
  by (auto simp: policy_tokens_def)

lemma policy_tokens_Nil [simp]: "policy_tokens [] = {}"
  by (simp add: policy_tokens_def)

lemma add_token_tokens:
  "add_token (service_token_rule tid) ps = Some qs \<Longrightarrow> policy_tokens qs = insert tid (policy_tokens ps)"
proof (induction ps arbitrary: qs)
  case (Cons p ps)
  let ?r = "service_token_rule tid"
  have r: "rule_service_token ?r = Some tid" by simp
  consider (found) "is_machines p" "?r \<in> set (pol_include p)" | (add) "is_machines p" "?r \<notin> set (pol_include p)"
    | (next_one) "\<not> is_machines p" by blast
  then show ?case
  proof cases
    case found
    then have "tid \<in> policy_tokens (p # ps)" using r unfolding policy_tokens_def by fastforce
    then show ?thesis using Cons.prems found by (simp add: insert_absorb)
  next
    case add
    then show ?thesis using Cons.prems machines_add[OF add(1), of tid] by (auto simp: policy_tokens_Cons)
  next
    case next_one
    then show ?thesis using Cons by (auto simp: policy_tokens_Cons)
  qed
qed simp

lemma with_service_token_tokens:
  "set (service_tokens_of (with_service_token app tid)) = insert tid (set (service_tokens_of app))"
  by (auto simp: with_service_token_def Let_def set_service_tokens add_token_tokens policy_tokens_Cons
      split: option.splits) (auto simp: inline_policy_def)

lemma with_service_token_people [simp]: "from_new X (with_service_token app tid) = from_new X app"
proof (cases "add_token (service_token_rule tid) (app_policies app)")
  case None
  then show ?thesis by (simp add: with_service_token_def Let_def from_new_def[of X "app\<lparr>app_policies := _\<rparr>"]
      from_new_def[of X app] from_policies_def)
next
  case (Some qs)
  then show ?thesis using add_token_people[OF Some]
    by (simp add: with_service_token_def Let_def) (simp add: from_new_def from_policies_def)
qed

text \<open>Rules in the form Cloudflare returns them name a token and nothing else.\<close>

definition canonical_tokens :: "new_access_app \<Rightarrow> bool" where
  "canonical_tokens app \<longleftrightarrow> list_all (\<lambda>p. list_all (\<lambda>r. case rule_service_token r of
      Some t \<Rightarrow> r = service_token_rule t | None \<Rightarrow> True) (pol_include p)) (app_policies app)"

definition drop_token :: "string \<Rightarrow> access_policy \<Rightarrow> access_policy" where
  "drop_token tid p = (if is_machines p
     then p\<lparr>pol_include := filter (\<lambda>r. r \<noteq> service_token_rule tid) (pol_include p)\<rparr> else p)"

definition drop_tokens :: "string \<Rightarrow> access_policy list \<Rightarrow> access_policy list" where
  "drop_tokens tid ps =
     filter (\<lambda>p. \<not> (pol_decision p = ''non_identity'' \<and> pol_include p = [])) (map (drop_token tid) ps)"

lemma without_service_token_eq:
  "without_service_token app tid = renumber (app\<lparr>app_policies := drop_tokens tid (app_policies app)\<rparr>)"
  by (simp add: without_service_token_def drop_tokens_def drop_token_def[abs_def] Let_def)

lemma drop_token_machines:
  "is_machines p \<Longrightarrow> is_machines (drop_token tid p) \<or> (pol_decision (drop_token tid p) = ''non_identity'' \<and> pol_include (drop_token tid p) = [])"
  by (auto simp: drop_token_def is_machines_def list_all_iff)

lemma drop_tokens_people:
  "\<forall>p \<in> set ps. \<not> is_machines p \<longrightarrow> pol_decision p \<noteq> ''non_identity'' \<Longrightarrow>
     filter (\<lambda>p. \<not> is_machines p) (drop_tokens tid ps) = filter (\<lambda>p. \<not> is_machines p) ps"
proof (induction ps)
  case (Cons p ps)
  show ?case
  proof (cases "is_machines p")
    case True
    then show ?thesis using Cons drop_token_machines[OF True, of tid] by (auto simp: drop_tokens_def)
  next
    case False
    then show ?thesis using Cons by (auto simp: drop_tokens_def drop_token_def)
  qed
qed (simp add: drop_tokens_def)

lemma without_service_token_people:
  assumes "from_new X app = Some r"
  shows "from_new X (without_service_token app tid) = Some r"
proof -
  have "\<forall>p \<in> set (app_policies app). \<not> is_machines p \<longrightarrow> pol_decision p \<noteq> ''non_identity''"
  proof (intro ballI impI)
    fix p assume p: "p \<in> set (app_policies app)" "\<not> is_machines p"
    obtain q where q: "filter (\<lambda>p. \<not> is_machines p) (app_policies app) = [q]" "pol_decision q = ''allow''"
      using assms by (auto simp: from_new_def from_policies_def split: list.splits if_splits)
    have "p \<in> set (filter (\<lambda>p. \<not> is_machines p) (app_policies app))" using p by simp
    then show "pol_decision p \<noteq> ''non_identity''" using q by simp
  qed
  from drop_tokens_people[OF this, of tid] assms show ?thesis
    by (simp add: without_service_token_eq) (simp add: from_new_def from_policies_def)
qed

lemma drop_tokens_tokens:
  assumes "list_all (\<lambda>p. list_all (\<lambda>r. case rule_service_token r of
      Some t \<Rightarrow> r = service_token_rule t | None \<Rightarrow> True) (pol_include p)) ps"
  shows "policy_tokens (drop_tokens tid ps) = policy_tokens ps - {tid}"
  using assms
proof (induction ps)
  case (Cons p ps)
  show ?case
  proof (cases "is_machines p")
    case False
    then show ?thesis using Cons
      by (auto simp: drop_tokens_def drop_token_def policy_tokens_Cons)
  next
    case True
    have c: "\<And>r t. r \<in> set (pol_include p) \<Longrightarrow> rule_service_token r = Some t \<Longrightarrow> r = service_token_rule t"
      using Cons.prems by (fastforce simp: list_all_iff split: option.splits)
    have keep: "{t. \<exists>r \<in> set (filter (\<lambda>r. r \<noteq> service_token_rule tid) (pol_include p)). rule_service_token r = Some t}
        = {t. \<exists>r \<in> set (pol_include p). rule_service_token r = Some t} - {tid}"
      using c rule_readers(20) by fastforce
    have IH: "policy_tokens (drop_tokens tid ps) = policy_tokens ps - {tid}" using Cons by simp
    let ?q = "drop_token tid p"
    have inc: "pol_include ?q = filter (\<lambda>r. r \<noteq> service_token_rule tid) (pol_include p)"
      using True by (simp add: drop_token_def)
    consider "is_machines ?q" | "\<not> is_machines ?q" "pol_decision ?q = ''non_identity''" "pol_include ?q = []"
      using drop_token_machines[OF True, of tid] by blast
    then show ?thesis
    proof cases
      case 1
      then have "drop_tokens tid (p # ps) = ?q # drop_tokens tid ps"
        by (auto simp: drop_tokens_def is_machines_def)
      then show ?thesis using 1 True IH keep by (auto simp: policy_tokens_Cons inc)
    next
      case 2
      then have "drop_tokens tid (p # ps) = drop_tokens tid ps" by (simp add: drop_tokens_def)
      moreover have "{t. \<exists>r \<in> set (pol_include p). rule_service_token r = Some t} - {tid} = {}"
        unfolding keep[symmetric] inc[symmetric] 2(3) by simp
      ultimately show ?thesis using True IH by (auto simp: policy_tokens_Cons)
    qed
  qed
qed (simp add: drop_tokens_def policy_tokens_def)

lemma without_service_token_tokens:
  "canonical_tokens app \<Longrightarrow>
     set (service_tokens_of (without_service_token app tid)) = set (service_tokens_of app) - {tid}"
  by (simp add: without_service_token_eq set_service_tokens canonical_tokens_def drop_tokens_tokens)

lemma keep_machines_laws:
  "from_new X (keep_machines to from) = from_new X to"
  "service_tokens_of (keep_machines to from) = service_tokens_of from"
  by (simp_all add: keep_machines_def) (simp_all add: from_new_def from_policies_def service_tokens_of_def)

subsection \<open>Paths that skip the login\<close>

lemma bypass_definition_laws:
  "is_bypass (bypass_definition d)" "from_new X (bypass_definition d) = None"
  "\<not> is_bypass (app_definition d r m)"
  by (simp_all add: is_bypass_def bypass_definition_def app_definition_def teitunnel_app_def Let_def
      inline_policy_def from_new_def from_policies_def is_machines_def)

lemma domain_host_access:
  assumes "access_domain h path = Inr d" and "CHR ''/'' \<notin> set h"
  shows "domain_host d = h"
proof (cases path)
  case None
  then show ?thesis using assms split_once_char_None[of "CHR ''/''" h] by (simp add: access_domain_def domain_host_def)
next
  case (Some raw)
  then obtain prefix where "starts_with ''/'' prefix" "d = h @ prefix"
    using assms by (auto simp: access_domain_def Let_def split: if_splits)
  then obtain r where "d = h @ CHR ''/'' # r" by (auto simp: starts_with_iff)
  then show ?thesis using split_once_char_append[OF assms(2)] by (simp add: domain_host_def)
qed

text \<open>Typed entries in ASCII never panic.\<close>

lemma from_allow_ascii:
  assumes "\<forall>e \<in> set allow. \<forall>c \<in> set e. code c < 128"
  shows "from_allow allow bypass \<noteq> None"
proof -
  have "allow_entries es r \<noteq> None" if "\<forall>e \<in> set es. \<forall>c \<in> set e. code c < 128" for es r
    using that
  proof (induction es arbitrary: r)
    case (Cons e es)
    have "\<forall>c \<in> set (trim e). code c < 128" using Cons.prems set_trim[of e] by auto
    then have "length (trim e) > n \<Longrightarrow> char_boundary (trim e) n" for n 
      by (force simp: char_boundary_def dest: nth_mem)
    then have "allow_entry (trim e) r \<noteq> None" by (simp add: allow_entry_def Let_def)
    then obtain r' where "allow_entry (trim e) r = Some r'" by blast
    with Cons show ?case by simp
  qed simp
  with assms show ?thesis by (simp add: from_allow_def)
qed

end
