(* ===== verification/Plan_Builder.thy ===== *)
theory Plan_Builder
  imports Plan_Spec Access_Laws
begin

text \<open>
  Every operation of the builder keeps the contract of \<open>Plan_Spec\<close>: it appends permitted steps
  of the classes it is about. The rules have the form ``if the builder grew up to here, it grows
  over this operation too'', so that the rules for a whole change compose by \<open>intro\<close>.
\<close>

named_theorems grow "operations of the builder that keep the contract"

abbreviation grew :: "externals \<Rightarrow> snapshot \<Rightarrow> step_class set \<Rightarrow> builder \<Rightarrow> builder \<Rightarrow> bool" where
  "grew X s K \<equiv> grows (allowed X s K)"

lemmas [grow] = allowed.warn allowed.confirm allowed.warns

lemma push_grew [grow]:
  "grew X s K a b \<Longrightarrow> class_of st \<in> K \<Longrightarrow> permitted X s (b_steps b) (b_confirm b) st \<Longrightarrow> grew X s K a (push st b)"
  by (rule allowed.push) (simp_all add: allowed_def)

lemma push_each_grew:
  assumes "grew X s K a b" and "\<And>st before. st \<in> set sts \<Longrightarrow> class_of st \<in> K \<and> permitted X s before (b_confirm b) st"
  shows "grew X s K a (push_all sts b)"
  by (rule allowed.push_each[OF assms(1)]) (use assms(2) in \<open>simp add: allowed_def\<close>)

lemma fold_grew:
  assumes "\<And>x b'. x \<in> set xs \<Longrightarrow> grew X s K b b' \<Longrightarrow> grew X s K b' (f x b')" and "grew X s K a b"
  shows "grew X s K a (fold f xs b)"
  using assms(2,1) by (rule allowed.foldI)

subsection \<open>Names\<close>

lemma eq_ic_length: "eq_ic a b \<Longrightarrow> length a = length b"
  by (metis eq_ic_def length_lower)

lemma numbered_name_inj:
  assumes "eq_ic (numbered_name base m) (numbered_name base n)" shows "m = n"
proof -
  have d: "lower (show_nat k) = show_nat k" for k
    using list_all_show_nat[of k] unfolding lower_def list_all_iff
    by (intro map_idI) (auto simp: lower_char_def is_upper_def is_digit_def)
  have "lower (show_nat m) = lower (show_nat n)"
    using assms by (simp add: numbered_name_def eq_ic_def lower_def)
  then have "digits_value (show_nat m) = digits_value (show_nat n)" by (simp add: d)
  then show ?thesis by (simp add: digits_value_show_nat)
qed

text \<open>The candidates are different names, and there is one more of them than there are names
  taken: one of them is free.\<close>

lemma candidate_free: "\<exists>n \<in> set [2..<length taken + 3]. name_free taken (numbered_name base n)"
proof (rule ccontr)
  assume no: "\<not> ?thesis"
  let ?N = "set [2..<length taken + 3]"
  have "\<forall>n \<in> ?N. \<exists>t \<in> set taken. eq_ic t (numbered_name base n)"
    using no by (auto simp: name_free_def list_ex_iff)
  then obtain f where f: "\<And>n. n \<in> ?N \<Longrightarrow> f n \<in> set taken \<and> eq_ic (f n) (numbered_name base n)"
    by metis
  have "inj_on f ?N"
  proof (rule inj_onI)
    fix m n assume mn: "m \<in> ?N" "n \<in> ?N" "f m = f n"
    then have "eq_ic (numbered_name base m) (numbered_name base n)"
      using f[OF mn(1)] f[OF mn(2)] by (metis eq_ic_sym eq_ic_trans)
    then show "m = n" by (rule numbered_name_inj)
  qed
  moreover have "f ` ?N \<subseteq> set taken" using f by blast
  ultimately have "card ?N \<le> card (set taken)" by (metis card_inj_on_le List.finite_set)
  moreover have "card ?N = length taken + 1" by simp
  ultimately show False using card_length[of taken] by linarith
qed

lemma unique_name_free: "name_free taken (unique_name base taken)"
proof (cases "name_free taken base")
  case False
  have "find (name_free taken) (map (numbered_name base) [2..<length taken + 3]) \<noteq> None"
    using candidate_free[of taken base] by (auto simp: find_None_iff)
  with False show ?thesis by (auto simp: unique_name_def dest: find_SomeD)
qed (simp add: unique_name_def)

subsection \<open>Tunnel and configuration\<close>

lemma ensure_tunnel_grew:
  assumes "ensure_tunnel s b = (t, b')" and "grew X s K a b" and "TunnelClass \<in> K"
  shows "grew X s K a b' \<and> tunnel_known s (b_steps b') t"
proof (cases "sn_tunnel s")
  case None
  with assms show ?thesis
    by (auto simp: ensure_tunnel_def tunnel_known_def machine_ref_def is_create_tunnel_def
        unique_name_free intro!: push_grew)
next
  case (Some u)
  with assms show ?thesis by (auto simp: ensure_tunnel_def tunnel_known_def machine_ref_def)
qed

lemma own_tunnel_known: "sn_tunnel s = Some t \<Longrightarrow> tunnel_known s before (Existing (tun_id t))"
  by (simp add: tunnel_known_def machine_ref_def)

lemma put_config_grew [grow]:
  "grew X s K a b \<Longrightarrow> ConfigClass \<in> K \<Longrightarrow> tunnel_known s (b_steps b) t \<Longrightarrow> grew X s K a (put_config s t desired b)"
  by (auto simp: put_config_def Let_def current_ingress_def intro!: push_grew split: option.splits)

lemma verify_route_grew [grow]: "grew X s K a b \<Longrightarrow> VerifyClass \<in> K \<Longrightarrow> grew X s K a (verify_route r b)"
  by (auto simp: verify_route_def intro!: push_grew)

lemma remote_origin_grew [grow]: "grew X s K a b \<Longrightarrow> grew X s K a (remote_origin_warning r b)"
  by (auto simp: remote_origin_warning_def intro: allowed.warn)

subsection \<open>Load balancing\<close>

lemma ensure_monitor_grew:
  assumes "ensure_monitor st h b = (m, b')" and "grew X s K a b" and "BalanceClass \<in> K"
    and "sn_balance s = Some st" and "bal_owned st"
  shows "grew X s K a b' \<and> grew X s K b b' \<and> monitor_known st (b_steps b') m"
  using assms
  by (auto simp: ensure_monitor_def monitor_known_def balance_known_def intro!: push_grew allowed.refl
      split: option.splits)

lemma sync_pool_grew:
  assumes "sync_pool s h eps b = (p, b')" and "grew X s K a b" and "BalanceClass \<in> K"
    and "\<And>st. sn_balance s = Some st \<Longrightarrow> bal_owned st" and "endpoints_known (b_steps b) eps"
  shows "grew X s K a b'
    \<and> (\<forall>st q. sn_balance s = Some st \<longrightarrow> p = Some q \<longrightarrow> pool_known st (b_steps b') q)"
proof (cases "sn_balance s")
  case None
  with assms show ?thesis by (simp add: sync_pool_def)
next
  case (Some st)
  obtain m c where m: "ensure_monitor st h b = (m, c)" by force
  have c: "grew X s K a c" "grew X s K b c" "monitor_known st (b_steps c) m"
    using ensure_monitor_grew[OF m assms(2,3) Some assms(4)[OF Some]] by blast+
  have e: "endpoints_known (b_steps c) eps" by (rule endpoints_known_grows[OF assms(5) c(2)])
  have o: "bal_owned st" by (rule assms(4)[OF Some])
  show ?thesis
  proof (cases "bal_pool st")
    case None
    then have "p = Some LbCreated" "b' = push (CreateLbPool h m eps) c"
      using assms(1) Some m by (auto simp: sync_pool_def)
    then show ?thesis using Some None c e assms(3) \<open>bal_owned st\<close>
      by (auto simp: pool_known_def balance_known_def intro!: push_grew)
  next
    fix q assume q: "bal_pool st = Some q"
    then have "p = Some (LbExisting (pool_id q))" and
      "b' = c \<or> b' = push (UpdateLbPool h (pool_id q) m eps q) c"
      using assms(1) Some m by (auto simp: sync_pool_def split: if_splits)
    then show ?thesis using Some q c e assms(3) \<open>bal_owned st\<close>
      by (auto simp: pool_known_def balance_known_def intro!: push_grew)
  qed
qed

lemma balanced_owned: "balanced s \<Longrightarrow> sn_balance s = Some st \<Longrightarrow> bal_owned st"
  by (simp add: balanced_def bal_active_def)

lemma unbalance_grew [grow]:
  assumes "grew X s K a b" and "BalanceClass \<in> K" shows "grew X s K a (unbalance s b)"
  using assms
  by (auto simp: unbalance_def bal_active_def balance_known_def intro!: push_each_grew split: option.splits)

lemma endpoints_known_endpoints:
  "case own of Some t \<Rightarrow> tunnel_known s before t | None \<Rightarrow> True \<Longrightarrow> endpoints_known before (endpoints s own)"
  by (auto simp: endpoints_known_def endpoints_def Let_def tunnel_known_def split: option.splits)

subsection \<open>Reservations and DNS\<close>

lemma holder_cong: "eq_ic a b \<Longrightarrow> holder s a = holder s b"
  unfolding holder_def eq_ic_def by simp

lemma held_cong: "eq_ic a b \<Longrightarrow> held s a = held s b"
  by (simp add: held_def holder_cong)

lemma take_over_grew [grow]: "grew X s K a b \<Longrightarrow> grew X s K a (take_over s h b)"
  by (auto simp: take_over_def Let_def intro!: allowed.warn allowed.confirm split: option.splits)

lemma take_over_simps [simp]:
  "b_steps (take_over s h b) = b_steps b" "b_confirm (take_over s h b) \<longleftrightarrow> b_confirm b \<or> held s h"
  by (auto simp: take_over_def Let_def held_def split: option.splits)

lemma address_recordD: "r \<in> set (address_records s h) \<Longrightarrow>
    r \<in> set (sn_records s) \<and> eq_ic (rec_name (obs_record r)) h \<and> is_address_kind (rec_kind (obs_record r))"
  by (auto simp: address_records_def records_named_def)

lemma flag_foreign_grew [grow]: "grew X s K a b \<Longrightarrow> grew X s K a (flag_foreign r b)"
  by (auto simp: flag_foreign_def intro!: allowed.warn allowed.confirm)

lemma flag_foreign_simps [simp]:
  "b_steps (flag_foreign r b) = b_steps b" "b_confirm (flag_foreign r b) \<longleftrightarrow> b_confirm b \<or> \<not> obs_owned r"
  by (auto simp: flag_foreign_def)

lemma restore_grew [grow]:
  "grew X s K a b \<Longrightarrow> LeaseClass \<in> K \<Longrightarrow> r \<in> set (sn_records s) \<Longrightarrow> obs_owned r \<Longrightarrow> grew X s K a (restore s r b)"
  by (auto simp: restore_def may_reserve_def intro!: push_grew split: option.splits)

lemma remove_extra_grew:
  "grew X s K a b \<Longrightarrow> RecordClass \<in> K \<Longrightarrow> r \<in> set (sn_records s) \<Longrightarrow> grew X s K a (remove_extra z r b)"
  by (auto simp: remove_extra_def may_delete_def intro!: push_grew flag_foreign_grew)

lemma ensure_dns_grew:
  assumes "ensure_dns s h t rid b = Inr b'" and "grew X s K a b" and K: "RecordClass \<in> K"
    and t: "tunnel_known s (b_steps b) t"
  shows "grew X s K a b'"
proof -
  obtain zone where z: "find_zone s h = Inr zone" using assms(1) by (auto simp: ensure_dns_def res_simps)
  let ?b = "take_over s h b"
  have b: "grew X s K a ?b" using assms(2) by (rule take_over_grew)
  show ?thesis
  proof (cases "already_ours (address_records s h) t")
    case True
    then show ?thesis using assms(1) b z by (simp add: ensure_dns_def Let_def)
  next
    case False
    show ?thesis
    proof (cases "address_records s h")
      case Nil
      then have "b' = push (CreateRecord zone h t rid) ?b"
        using assms(1) z False by (simp add: ensure_dns_def Let_def)
      then show ?thesis using b K t z Nil by (auto intro!: push_grew)
    next
      case (Cons r extra)
      let ?c = "push (UpdateRecord zone (rec_id (obs_record r)) h t rid (obs_record r)) (flag_foreign r ?b)"
      have b': "b' = fold (remove_extra zone) extra ?c"
        using assms(1) z False Cons by (simp add: ensure_dns_def Let_def)
      have "grew X s K a ?c"
        using b K t z Cons by (auto simp: may_replace_def intro!: push_grew flag_foreign_grew)
      moreover have "x \<in> set (sn_records s)" if "x \<in> set extra" for x
        using address_recordD[of x s h] that Cons by simp
      ultimately show ?thesis unfolding b' using K
        by (intro fold_grew) (auto intro: remove_extra_grew allowed.refl)
    qed
  qed
qed

lemma release_dns_grew [grow]:
  assumes "grew X s K a b" and "RecordClass \<in> K" and "LeaseClass \<in> K"
  shows "grew X s K a (release_dns s h tid b)"
  unfolding release_dns_def
proof (rule fold_grew[OF _ assms(1)])
  fix r c assume "r \<in> set (filter (\<lambda>r. eq_ic (rec_content (obs_record r)) (tunnel_target tid)) (records_named s h))"
  then have "r \<in> set (sn_records s)" by (simp add: records_named_def)
  then show "grew X s K c (release_record s h r c)"
    using assms(2,3) by (auto simp: release_record_def may_delete_def
        intro!: restore_grew push_grew allowed.warn allowed.refl)
qed

lemma serve_grew:
  assumes "serve s h t rid b = Inr b'" and "grew X s K a b" and "RecordClass \<in> K" and "BalanceClass \<in> K"
    and "tunnel_known s (b_steps b) t"
  shows "grew X s K a b'"
proof (cases "balanced s")
  case True
  obtain p c where p: "sync_pool s h (endpoints s (Some t)) b = (p, c)" by force
  have "grew X s K a c"
    using sync_pool_grew[OF p assms(2,4)] balanced_owned[OF True] assms(5)
    by (simp add: endpoints_known_endpoints)
  with assms(1) True p show ?thesis by (simp add: serve_def)
next
  case False
  with assms show ?thesis by (auto simp: serve_def intro: ensure_dns_grew)
qed

subsection \<open>Logins\<close>

lemma find_appD: "find_app s d = Some a \<Longrightarrow> a \<in> set (access_apps s) \<and> eq_ic (oa_domain a) d"
  by (auto simp: find_app_def app_at_def access_apps_def bind_eq_Some_conv dest: find_SomeD)

lemma own_appI: "find_app s d = Some a \<Longrightarrow> oa_owned a \<Longrightarrow> own_app s (oa_id a) (oa_definition a)"
  by (auto simp: own_app_def dest: find_appD)

lemma close_bypass_grew [grow]: "grew X s K a b \<Longrightarrow> LoginClass \<in> K \<Longrightarrow> grew X s K a (close_bypass s at b)"
  by (auto simp: close_bypass_def intro!: push_grew own_appI split: option.splits)

lemma close_bypasses_grew [grow]: "grew X s K a b \<Longrightarrow> LoginClass \<in> K \<Longrightarrow> grew X s K a (close_bypasses s d b)"
  unfolding close_bypasses_def by (rule fold_grew) (auto intro: close_bypass_grew allowed.refl)

lemma unprotect_grew [grow]: "grew X s K a b \<Longrightarrow> LoginClass \<in> K \<Longrightarrow> grew X s K a (unprotect s d b)"
  by (auto simp: unprotect_def Let_def intro!: push_grew close_bypasses_grew own_appI split: option.splits)

lemma drop_login_grew [grow]: "grew X s K a b \<Longrightarrow> LoginClass \<in> K \<Longrightarrow> grew X s K a (drop_login s d b)"
  by (auto simp: drop_login_def intro!: push_grew close_bypasses_grew unprotect_grew own_appI split: option.splits)

lemma bypass_grew:
  assumes "bypass s d paths b = Inr b'" and "grew X s K a b" and K: "LoginClass \<in> K"
  shows "grew X s K a b'"
proof -
  obtain c where c: "efold (open_bypass s d) (filter (\<lambda>p. p \<notin> set (current_bypasses s d)) paths) b = Inr c"
    and b': "b' = fold (\<lambda>p. close_bypass s (d @ p)) (filter (\<lambda>p. p \<notin> set paths) (current_bypasses s d)) c"
    using assms(1) by (auto simp: bypass_def Let_def res_simps)
  have "grew X s K a c"
    using c assms(2)
  proof (rule allowed.efoldI)
    fix p u v assume "open_bypass s d p u = Inr v"
    then have "v = push (CreateAccessApp (bypass_definition (d @ p))) u" "find_app s (d @ p) = None"
      by (auto simp: open_bypass_def Let_def split: if_splits)
    then show "grew X s K u v" using K
      by (auto simp: bypass_definition_def teitunnel_app_def intro!: push_grew allowed.refl)
  qed
  then show ?thesis unfolding b' by (rule fold_grew[rotated]) (auto intro: close_bypass_grew allowed.refl K)
qed

lemma create_login_grew:
  assumes "create_login s d r m b = Inr b'" and "grew X s K a b" and K: "LoginClass \<in> K" and "find_app s d = None"
  shows "grew X s K a b'"
proof -
  let ?c = "if m = None \<and> login_methods s = Some [] \<and> AddLoginMethod \<notin> set (b_steps b)
    then push AddLoginMethod b else b"
  have z: "\<not> zero_trust_off s" and b': "b' = push (CreateAccessApp (app_definition d r m)) ?c"
    using assms(1) by (auto simp: create_login_def Let_def split: if_splits)
  have "grew X s K a ?c" using assms(2) K z by (auto intro!: push_grew)
  then show ?thesis unfolding b'
    by (rule push_grew) (use assms(4) K in \<open>simp_all add: app_definition_def teitunnel_app_def Let_def\<close>)
qed

lemma protect_grew:
  assumes "protect s d r b = Inr b'" and "grew X s K a b" and K: "LoginClass \<in> K"
  shows "grew X s K a b'"
proof -
  obtain m c where c: "(case find_app s d of
             Some a \<Rightarrow>
               if \<not> oa_owned a
               then (if oa_rule a \<noteq> Some (people_only r) then Inl (AccessAppExists d) else Inr b)
               else (let wanted = keep_machines (app_definition d r m) (oa_definition a)
                     in if oa_rule a \<noteq> Some (people_only r) \<or> app_name (oa_definition a) \<noteq> app_name wanted
                           \<or> stale_method a wanted m
                        then Inr (push (UpdateAccessApp (oa_id a) wanted (oa_definition a)) b) else Inr b)
           | None \<Rightarrow> create_login s d r m b) = Inr c"
    and b': "bypass s d (ar_bypass r) c = Inr b'"
    using assms(1) by (auto simp: protect_def Let_def res_simps)
  have "grew X s K a c"
  proof (cases "find_app s d")
    case None
    with c show ?thesis using create_login_grew assms(2) K by simp
  next
    case (Some y)
    with c show ?thesis using assms(2) K own_appI[OF Some]
      by (auto simp: Let_def intro!: push_grew split: if_splits)
  qed
  with b' show ?thesis using bypass_grew K by blast
qed

lemma protect_route_grew:
  "protect_route s r b = Inr b' \<Longrightarrow> grew X s K a b \<Longrightarrow> LoginClass \<in> K \<Longrightarrow> grew X s K a b'"
  by (auto simp: protect_route_def res_simps intro: protect_grew split: option.splits)

end
