(* ===== verification/Plan_Parts.thy ===== *)
theory Plan_Parts
  imports Plan_Builder
begin

text \<open>
  The contract of \<open>Plan_Spec\<close> for edge rules, service tokens, Workers in front of a route,
  reservations and Snapshots.
\<close>

lemma find_zone_known: "find_zone s h = Inr z \<Longrightarrow> \<exists>y \<in> set (sn_zones s). zone_id y = z"
  unfolding find_zone_def zone_in_def by (auto dest!: max_by_key_Some)

subsection \<open>Edge rules\<close>

text \<open>Every step in a set of changes is a change of Teitunnel's own rules in this zone.\<close>

definition edge_ok :: "externals \<Rightarrow> snapshot \<Rightarrow> step \<Rightarrow> bool" where
  "edge_ok X s st \<longleftrightarrow> class_of st = EdgeClass \<and> (\<forall>before c. permitted X s before c st)"

definition changes_ok :: "externals \<Rightarrow> snapshot \<Rightarrow> changes \<Rightarrow> bool" where
  "changes_ok X s c \<longleftrightarrow> (\<forall>st \<in> set (ch_creates c) \<union> set (ch_updates c) \<union> snd ` set (ch_deletes c). edge_ok X s st)"

text \<open>The rule was observed among Teitunnel's in the phase of its kind, at this position.\<close>

definition observed_at :: "edge_state \<Rightarrow> rule_kind \<Rightarrow> nat \<Rightarrow> observed_rule \<Rightarrow> bool" where
  "observed_at es kind i r \<longleftrightarrow> (\<exists>rs. ruleset_in es (phase kind) = Some rs
     \<and> 1 \<le> i \<and> i \<le> length (rs_rules rs) \<and> rs_rules rs ! (i - 1) = r \<and> or_owned r)"

lemma observed_at_own:
  assumes "edge_in s z = Some es" and "observed_at es kind i r"
  shows "own_rule s z kind (or_default (ruleset_id es kind)) (or_id r) (or_rule r)"
    and "own_rule_at s z kind (or_id r) (or_rule r) i"
proof -
  obtain rs where rs: "ruleset_in es (phase kind) = Some rs" "1 \<le> i" "i \<le> length (rs_rules rs)"
      "rs_rules rs ! (i - 1) = r" "or_owned r" using assms(2) by (auto simp: observed_at_def)
  then have "r \<in> set (rs_rules rs)" using nth_mem[of "i - 1" "rs_rules rs"] by force
  with rs assms(1) show "own_rule s z kind (or_default (ruleset_id es kind)) (or_id r) (or_rule r)"
    by (auto simp: own_rule_def ruleset_id_def)
  from rs assms(1) show "own_rule_at s z kind (or_id r) (or_rule r) i"
    by (auto simp: own_rule_at_def)
qed

lemma owned_rule_observed: "owned_rule es (phase kind) m = Some (i, r) \<Longrightarrow> observed_at es kind i r"
  by (auto simp: owned_rule_def observed_at_def bind_eq_Some_conv dest!: find_SomeD set_enum1)

lemma rate_limits_observed:
  assumes "(i, r, spec, hosts) \<in> set (rate_limits es)" shows "observed_at es KindRateLimit i r"
proof -
  obtain rs where rs: "ruleset_in es PHASE_RATE_LIMIT = Some rs"
    using assms by (cases "ruleset_in es PHASE_RATE_LIMIT") (auto simp: rate_limits_def)
  then have r: "(r, i) \<in> set (enum1 (rs_rules rs))" "or_owned r"
    using assms by (auto simp: rate_limits_def set_map_filter split: if_splits)
  then show ?thesis using rs r(2) set_enum1[OF r(1)] by (auto simp: observed_at_def)
qed

lemma ch_create_ok:
  "edge_in s (es_zone_id es) = Some es \<Longrightarrow> changes_ok X s c \<Longrightarrow> changes_ok X s (ch_create es kind hosts rule c)"
  by (auto simp: changes_ok_def ch_create_def edge_ok_def)

lemma ch_update_ok:
  "edge_in s (es_zone_id es) = Some es \<Longrightarrow> changes_ok X s c \<Longrightarrow> observed_at es kind i r
   \<Longrightarrow> changes_ok X s (ch_update es kind hosts r rule c)"
  using observed_at_own by (auto simp: changes_ok_def ch_update_def edge_ok_def)

lemma ch_delete_ok:
  "edge_in s (es_zone_id es) = Some es \<Longrightarrow> changes_ok X s c \<Longrightarrow> observed_at es kind i r
   \<Longrightarrow> changes_ok X s (ch_delete es kind hosts i r c)"
  using observed_at_own by (auto simp: changes_ok_def ch_delete_def edge_ok_def)

lemma rule_change_ok:
  "edge_in s (es_zone_id es) = Some es \<Longrightarrow> changes_ok X s c \<Longrightarrow> changes_ok X s (rule_change X es h desired kind c)"
  by (auto simp: rule_change_def dest!: owned_rule_observed
      intro: ch_create_ok ch_update_ok ch_delete_ok split: option.splits)

lemma leave_limit_ok:
  assumes "leave_limit es h current c = (rest, c')" and "changes_ok X s c"
    and "\<And>g. current = Some g \<Longrightarrow> g \<in> set (rate_limits es)" and es: "edge_in s (es_zone_id es) = Some es"
  shows "changes_ok X s c'"
proof (cases current)
  case None
  with assms show ?thesis by (simp add: leave_limit_def)
next
  case (Some g)
  obtain i r spec hosts where g: "g = (i, r, spec, hosts)" by (cases g)
  have "observed_at es KindRateLimit i r" using assms(3)[OF Some] g rate_limits_observed by blast
  then show ?thesis using assms(1,2) Some g
    by (auto simp: leave_limit_def Let_def intro: ch_update_ok[OF es] ch_delete_ok[OF es] split: if_splits)
qed

lemma join_limit_ok:
  assumes "join_limit es h current rest spec c = Inr c'" and "changes_ok X s c"
    and es: "edge_in s (es_zone_id es) = Some es"
  shows "changes_ok X s c'"
proof -
  let ?P = "\<lambda>g. group_spec g = spec \<and> Some (or_id (group_rule g)) \<noteq> map_option (\<lambda>g. or_id (group_rule g)) current"
  show ?thesis
  proof (cases "find ?P (rate_limits es)")
    case None
    with assms show ?thesis
      by (auto simp: join_limit_def Let_def intro: ch_create_ok[OF es] split: if_splits option.splits)
  next
    case (Some g)
    obtain i r spec' hosts where g: "g = (i, r, spec', hosts)" by (cases g)
    have "observed_at es KindRateLimit i r"
      using Some g by (intro rate_limits_observed) (auto dest!: find_SomeD)
    then show ?thesis using assms(1,2) Some g
      by (auto simp: join_limit_def Let_def intro: ch_update_ok[OF es])
  qed
qed

lemma rate_limit_changes_ok:
  assumes "rate_limit_changes es h wanted c = Inr c'" and "changes_ok X s c"
    and es: "edge_in s (es_zone_id es) = Some es"
  shows "changes_ok X s c'"
proof -
  let ?current = "find (\<lambda>g. h \<in> set (group_hosts g)) (rate_limits es)"
  obtain rest d where d: "leave_limit es h ?current c = (rest, d)" by force
  have "changes_ok X s d" by (rule leave_limit_ok[OF d assms(2) _ es]) (auto dest: find_SomeD)
  then show ?thesis using assms d join_limit_ok[OF _ _ es]
    by (auto simp: rate_limit_changes_def Let_def res_simps split: if_splits option.splits)
qed

lemma protection_changes_ok:
  assumes "protection_changes X es h p = Inr c" and es: "edge_in s (es_zone_id es) = Some es"
  shows "changes_ok X s c"
proof -
  have "changes_ok X s (fold (rule_change X es h (hostname_rules X h p)) (changed_kinds es) no_changes)"
    by (rule fold_invariant_on) (simp add: changes_ok_def no_changes_def, rule rule_change_ok[OF es])
  with assms show ?thesis unfolding protection_changes_def by (blast intro: rate_limit_changes_ok)
qed

lemma ordered_steps_ok: "changes_ok X s c \<Longrightarrow> st \<in> set (ordered_steps c) \<Longrightarrow> edge_ok X s st"
  by (auto simp: changes_ok_def ordered_steps_def)

lemma check_quota_grew: "check_quota es c q b = Inr b' \<Longrightarrow> grew X s K a b \<Longrightarrow> grew X s K a b'"
  by (auto simp: check_quota_def Let_def intro: allowed.warn split: if_splits)

lemma edge_protect_grew:
  assumes "edge_protect X s h p b = Inr b'" and "grew X s K a b" and K: "EdgeClass \<in> K"
  shows "grew X s K a b'"
proof -
  obtain z es c d where z: "edge_in s z = Some es" and c: "protection_changes X es h p = Inr c"
    and d: "efold (check_quota es c) ALL_QUOTAS b = Inr d" and b': "b' = push_all (ordered_steps c) d"
    using assms(1) by (auto simp: edge_protect_def res_simps)
  have "es_zone_id es = z" using z by (auto simp: edge_in_def dest: find_SomeD)
  with z have "changes_ok X s c" by (intro protection_changes_ok[OF c]) simp
  moreover have "grew X s K a d"
    using d assms(2) by (rule allowed.efoldI) (auto intro: check_quota_grew allowed.refl)
  ultimately show ?thesis unfolding b' using K
    by (intro push_each_grew) (auto dest!: ordered_steps_ok simp: edge_ok_def)
qed

subsection \<open>Service tokens\<close>

lemma own_tokenD: "own_token s i = Inr t \<Longrightarrow> t \<in> set (tokens s) \<and> tok_owned t \<and> tok_id t = i"
  by (auto simp: own_token_def res_simps dest: find_SomeD)

lemma token_app_grew:
  assumes "token_app s d b = Inr (app, b')" and "grew X s K a b"
  shows "grew X s K a b' \<and> b_steps b' = b_steps b
    \<and> (case app of Some (i, d) \<Rightarrow> own_app s i d | None \<Rightarrow> find_app s d = None \<and> \<not> zero_trust_off s)"
  using assms by (auto simp: token_app_def intro: own_appI allowed.warn split: option.splits if_splits)

lemma create_token_grew:
  assumes "create_token s h text b = Inr b'" and "grew X s K a b" and K: "TokenClass \<in> K"
  shows "grew X s K a b'"
proof -
  let ?name = "service_token_name h (trim text)"
  obtain app d where n: "\<not> length (tokens s) \<ge> MAX_SERVICE_TOKENS" "\<not> list_ex (\<lambda>t. eq_ic (tok_name t) ?name) (tokens s)"
    and d: "token_app s h b = Inr (app, d)"
    and b': "b' = push (AllowServiceToken h app TokCreated) (push (CreateServiceToken h ?name) d)"
    using assms(1) by (auto simp: create_token_def Let_def res_simps)
  note d' = token_app_grew[OF d assms(2)]
  then have "grew X s K a (push (CreateServiceToken h ?name) d)"
    using n K by (auto simp: list_ex_iff list_all_iff intro!: push_grew)
  then show ?thesis unfolding b'
    by (rule push_grew) (use d' K in auto)
qed

lemma revoke_token_grew:
  assumes "revoke_token s h i b = Inr b'" and "grew X s K a b" and K: "TokenClass \<in> K" "LoginClass \<in> K"
  shows "grew X s K a b'"
proof -
  let ?c = "\<lambda>t. case find_app s h of
           Some a \<Rightarrow>
             if oa_owned a \<and> tok_id t \<in> set (service_tokens_of (oa_definition a))
             then (let without = without_service_token (oa_definition a) (tok_id t)
                   in if app_policies without = []
                      then push (DeleteAccessApp (oa_id a) (oa_definition a)) b
                      else push (UpdateAccessApp (oa_id a) without (oa_definition a)) b)
             else b
         | None \<Rightarrow> b"
  obtain t where t: "own_token s i = Inr t" and b': "b' = push (DeleteServiceToken t) (?c t)"
    using assms(1) by (auto simp: revoke_token_def res_simps)
  have "grew X s K a (?c t)"
    using assms(2) K by (auto simp: Let_def intro!: push_grew own_appI split: option.splits)
  then show ?thesis unfolding b' by (rule push_grew) (use K own_tokenD[OF t] in auto)
qed

lemma rotate_token_grew:
  "rotate_token s i b = Inr b' \<Longrightarrow> grew X s K a b \<Longrightarrow> TokenClass \<in> K \<Longrightarrow> grew X s K a b'"
  by (auto simp: rotate_token_def res_simps dest: own_tokenD intro!: push_grew)

subsection \<open>Workers in front of a route\<close>

lemma database_grew:
  assumes "database s b = (d, b')" and "grew X s K a b" and "DatabaseClass \<in> K"
  shows "grew X s K a b' \<and> database_known s (b_steps b') d"
  using assms
  by (auto simp: database_def database_known_def list_ex_iff intro!: push_grew split: option.splits if_splits)

lemma front_put_grew:
  assumes "front_put X s h config db secret b = Inr b'" and "grew X s K a b" and K: "FrontClass \<in> K"
    and db: "case db of Some d \<Rightarrow> database_known s (b_steps b) d | None \<Rightarrow> True"
  shows "grew X s K a b'"
proof -
  obtain z fs where z: "find_zone s h = Inr z" "list_ex (\<lambda>r. rec_proxied (obs_record r)) (address_records s h)"
    and fs: "front_of s h = Some fs"
    using assms(1) by (auto simp: front_put_def front_routed_def res_simps split: if_splits)
  define existing where "existing = front_find fs (config_kind config) (config_path config)"
  define script where "script = (case existing of Some f \<Rightarrow> of_script f
    | None \<Rightarrow> script_for X (config_kind config) h (config_path config))"
  define routed where "routed = (case existing of Some f \<Rightarrow> of_route f \<noteq> None | None \<Rightarrow> False)"
  define same where "same = ((case existing of Some f \<Rightarrow> of_exists f \<and> of_config f = config | None \<Rightarrow> False) \<and> secret = None)"
  define put where "put = (if same then b else push (PutFrontWorker h z script config (deployed fs config) db secret) b)"
  have pre: "deployed fs config = (case existing of Some f \<Rightarrow> if of_exists f then Some (of_config f) else None | None \<Rightarrow> None)"
    by (simp add: deployed_def existing_def)
  have "front_put X s h config db secret b =
    ebind (case (routed, foreign_on fs (pattern_for h config)) of
            (False, Some foreign) \<Rightarrow> Inl (WorkerRouteTaken (pattern_for h config)
               (case wr_script foreign of Some w \<Rightarrow> w | None \<Rightarrow> []))
          | _ \<Rightarrow> Inr ()) (\<lambda>_.
      Inr (if \<not> routed then push (CreateWorkerRoute h z (pattern_for h config) script
        (config_kind config) (config_path config)) (warn (WorkerRequests (pattern_for h config)) put) else put))"
    using z fs by (simp add: front_put_def front_routed_def Let_def put_def same_def pre existing_def
      script_def routed_def)
  then have r: "routed \<or> foreign_on fs (pattern_for h config) = None"
    and b': "b' = (if routed then put else push (CreateWorkerRoute h z (pattern_for h config) script
        (config_kind config) (config_path config)) (warn (WorkerRequests (pattern_for h config)) put))"
    using assms(1) by (cases routed; cases "foreign_on fs (pattern_for h config)"; simp)+
  have put: "grew X s K a put"
    using assms(2) z fs K db by (auto simp: put_def front_known_def intro!: push_grew)
  have known: "list_ex (puts_worker script) (b_steps put) \<or> (\<exists>f \<in> set (fs_fronts fs). of_exists f \<and> of_script f = script)"
  proof (cases same)
    case True
    then obtain f where f: "existing = Some f" "of_exists f"
      by (auto simp: same_def split: option.splits)
    then have "f \<in> set (fs_fronts fs)" by (auto simp: existing_def front_find_def dest: find_SomeD)
    with f show ?thesis by (auto simp: script_def)
  qed (simp add: put_def)
  show ?thesis
  proof (cases routed)
    case True
    with b' put show ?thesis by simp
  next
    case False
    with r known fs have "permitted X s (b_steps put) c (CreateWorkerRoute h z (pattern_for h config) script
        (config_kind config) (config_path config))" for c by (simp add: front_known_def)
    with False b' put K show ?thesis by (auto intro!: push_grew allowed.warn)
  qed
qed

lemma front_remove_grew:
  assumes "front_remove s h kind path b = (found, b')" and "grew X s K a b" and K: "FrontClass \<in> K"
  shows "grew X s K a b'"
proof (cases "Option.bind (front_of s h) (\<lambda>fs. map_option (Pair fs) (front_find fs kind path))")
  case None
  with assms show ?thesis by (simp add: front_remove_def)
next
  case (Some q)
  then obtain fs f where q: "q = (fs, f)" and fs: "front_of s h = Some fs" and "front_find fs kind path = Some f"
    by (auto simp: bind_eq_Some_conv)
  then have f: "f \<in> set (fs_fronts fs)" by (auto simp: front_find_def dest: find_SomeD)
  let ?c = "case of_route f of
                 Some route \<Rightarrow> push (DeleteWorkerRoute h (fs_zone_id fs) route kind path) b | None \<Rightarrow> b"
  have b': "b' = push (DeleteFrontWorker h (fs_zone_id fs) (of_script f) (of_config f) (existing_database s)) ?c"
    using assms(1) Some q by (simp add: front_remove_def)
  have "grew X s K a ?c"
    using assms(2) K fs f by (auto simp: front_known_def intro!: push_grew split: option.splits)
  moreover have "case of_route f of Some route \<Rightarrow> list_ex (deletes_route route) (b_steps ?c) | None \<Rightarrow> True"
    by (simp split: option.splits)
  ultimately show ?thesis unfolding b' using K fs f
    by (intro push_grew) (auto simp: front_known_def)
qed

lemma front_remove_all_grew [grow]:
  assumes "grew X s K a b" and K: "FrontClass \<in> K" shows "grew X s K a (front_remove_all s h b)"
proof (cases "front_of s h")
  case (Some fs)
  have "grew X s K a (fold (\<lambda>f b. snd (front_remove s h (config_kind (of_config f)) (config_path (of_config f)) b)) (fs_fronts fs) b)"
    by (rule fold_grew[OF _ assms(1)]) (metis K allowed.refl front_remove_grew prod.collapse)
  with Some show ?thesis by (simp add: front_remove_all_def)
qed (use assms in \<open>simp add: front_remove_all_def\<close>)

lemma front_offline_grew:
  "front_offline X s h page b = Inr b' \<Longrightarrow> grew X s K a b \<Longrightarrow> FrontClass \<in> K \<Longrightarrow> grew X s K a b'"
  by (auto simp: front_offline_def res_simps intro: front_put_grew front_remove_grew
      split: option.splits prod.splits if_splits)

lemma front_inbox_grew:
  assumes "front_inbox X s h text settings secret b = Inr b'" and "grew X s K a b"
    and K: "FrontClass \<in> K" "DatabaseClass \<in> K"
  shows "grew X s K a b'"
proof (cases settings)
  case None
  obtain path where path: "clean_inbox_path text = Inr path" using assms(1) by (auto simp: front_inbox_def res_simps)
  obtain found c where c: "front_remove s h FrontInbox path b = (found, c)" by force
  with assms(1) None path have "c = b'" by (simp add: front_inbox_def split: if_splits)
  with c show ?thesis using front_remove_grew assms(2) K(1) by blast
next
  case (Some given)
  obtain d c where d: "database s b = (d, c)" by force
  obtain path set where p: "front_put X s h (InboxConfig path set) (Some d) secret c = Inr b'"
    using assms(1) Some d by (auto simp: front_inbox_def res_simps)
  show ?thesis
    using front_put_grew[OF p _ K(1)] database_grew[OF d assms(2) K(2)] by simp
qed

subsection \<open>Reservations\<close>

lemma owned_recordsD: "(r, w) \<in> set (owned_records s h) \<Longrightarrow>
    r \<in> set (sn_records s) \<and> eq_ic (rec_name (obs_record r)) h \<and> w = record_ownership r"
  by (auto simp: owned_records_def dest: address_recordD)

lemma delete_found_grew:
  assumes "grew X s K a b" and "RecordClass \<in> K" and "\<forall>(r, w) \<in> set (owned_records s h). w \<noteq> None"
    and "held s h \<longrightarrow> b_confirm b"
  shows "grew X s K a (delete_found (owned_records s h) b)"
  unfolding delete_found_def
proof (rule push_each_grew[OF assms(1)])
  fix st before assume "st \<in> set (map (\<lambda>(r, _). DeleteRecord (obs_zone_id r) (obs_record r)) (owned_records s h))"
  then obtain r w where rw: "(r, w) \<in> set (owned_records s h)" and st: "st = DeleteRecord (obs_zone_id r) (obs_record r)"
    by auto
  note r = owned_recordsD[OF rw]
  have "record_ownership r \<noteq> None" using assms(3) rw r by auto
  then have "may_delete (b_confirm b) s (obs_record r)"
    unfolding may_delete_def using r assms(4) held_cong[of "rec_name (obs_record r)" h s] by blast
  then show "class_of st \<in> K \<and> permitted X s before (b_confirm b) st" using assms(2) st by simp
qed

lemma keeps_recordD: "keeps_record now found = Some (r, w) \<Longrightarrow> found = [(r, Some w)]"
  by (auto simp: keeps_record_def split: list.splits option.splits if_splits)

lemma reserve_grew:
  assumes "reserve s h til b = Inr b'" and b: "grew X s K a b" and K: "RecordClass \<in> K" "LeaseClass \<in> K"
  shows "grew X s K a b'"
proof -
  let ?f = "owned_records s h"
  obtain zone where zone: "find_zone s h = Inr zone" and own: "\<forall>(r, w) \<in> set ?f. w \<noteq> None"
    using assms(1) by (fastforce simp: reserve_def res_simps Let_def list_ex_iff)
  let ?create = "CreateReservation zone h til"
  have push: "grew X s K a (push ?create c)" if "grew X s K a c" "held s h \<longrightarrow> b_confirm c" for c
    using that K by (auto simp: may_reserve_def intro!: push_grew)
  show ?thesis
  proof (cases "held s h")
    case True
    then have "b' = push ?create (delete_found ?f (take_over s h b))"
      using assms(1) zone own by (auto simp: reserve_def Let_def res_simps held_def)
    moreover have "grew X s K a (delete_found ?f (take_over s h b))"
      using b K own by (intro delete_found_grew take_over_grew) auto
    ultimately show ?thesis using push by (simp add: delete_found_def)
  next
    case False
    then have "b' = push ?create b \<or> b' = push ?create (delete_found ?f b) \<or> b' = b
      \<or> (\<exists>r w. keeps_record (sn_now s) ?f = Some (r, w) \<and> b' = push (SetLease (obs_zone_id r) (obs_record r) True til) b)"
      using assms(1) zone own by (auto simp: reserve_def Let_def res_simps held_def split: if_splits option.splits)
    then consider "b' = push ?create b" | "b' = push ?create (delete_found ?f b)" | "b' = b"
      | r w where "keeps_record (sn_now s) ?f = Some (r, w)" "b' = push (SetLease (obs_zone_id r) (obs_record r) True til) b"
      by blast
    then show ?thesis
    proof cases
      case 2
      then show ?thesis using push[of "delete_found ?f b"] delete_found_grew[OF b K(1) own] False by simp
    next
      case (4 r w)
      have "(r, Some w) \<in> set ?f" using keeps_recordD[OF 4(1)] by simp
      note r = owned_recordsD[OF this]
      then have "\<not> held s (rec_name (obs_record r))" using False held_cong by blast
      with r have "may_lease c s (obs_zone_id r) (obs_record r)" for c
        unfolding may_lease_def by (metis option.distinct(1))
      with b K show ?thesis unfolding 4(2) by (auto intro!: push_grew)
    qed (use b False push in auto)
  qed
qed

lemma leased_recordsD: "(r, w) \<in> set (leased_records s h) \<Longrightarrow>
    r \<in> set (sn_records s) \<and> eq_ic (rec_name (obs_record r)) h \<and> record_ownership r = Some w"
  by (auto simp: leased_records_def set_map_filter dest!: owned_recordsD)

lemma release_grew:
  assumes "release s h b = Inr b'" and b: "grew X s K a b" and K: "RecordClass \<in> K" "LeaseClass \<in> K"
  shows "grew X s K a b'"
proof -
  have b': "b' = push_all (map release_step (leased_records s h)) (take_over s h b)"
    using assms(1) by (auto simp: release_def res_simps Let_def)
  show ?thesis unfolding b'
  proof (rule push_each_grew[OF take_over_grew[OF b]])
    fix st before assume "st \<in> set (map release_step (leased_records s h))"
    then obtain r w where rw: "(r, w) \<in> set (leased_records s h)" and st: "st = release_step (r, w)" by auto
    note r = leased_recordsD[OF rw]
    have c: "held s (rec_name (obs_record r)) \<longrightarrow> b_confirm (take_over s h b)" using r held_cong by auto
    with r have "may_lease (b_confirm (take_over s h b)) s (obs_zone_id r) (obs_record r)"
      "may_delete (b_confirm (take_over s h b)) s (obs_record r)"
      unfolding may_lease_def may_delete_def by (metis option.distinct(1))+
    then show "class_of st \<in> K \<and> permitted X s before (b_confirm (take_over s h b)) st"
      using K by (auto simp: st release_step_def)
  qed
qed

subsection \<open>Snapshots\<close>

lemma site_of_known: "site_of s site = Inr st \<Longrightarrow> sn_site s = Some st \<and> st_script st = ss_script site"
  by (auto simp: site_of_def site_at_def split: option.splits if_splits)

lemma site_at_known: "site_at s site = Some st \<Longrightarrow> sn_site s = Some st \<and> st_script st = ss_script site"
  by (auto simp: site_at_def split: option.splits if_splits)

lemma delete_foreign_grew:
  "grew X s K a b \<Longrightarrow> RecordClass \<in> K \<Longrightarrow> r \<in> set (sn_records s) \<Longrightarrow> grew X s K a (delete_foreign r b)"
  by (auto simp: delete_foreign_def may_delete_def intro!: push_grew allowed.warn allowed.confirm)

lemma serve_domain_grew:
  assumes "serve_domain s site st h b = Inr b'" and b: "grew X s K a b"
    and K: "RecordClass \<in> K" "AddressClass \<in> K" and st: "sn_site s = Some st" "st_script st = ss_script site"
  shows "grew X s K a b'"
proof -
  obtain zone where zone: "find_zone s h = Inr zone"
    using assms(1) by (auto simp: serve_domain_def res_simps)
  show ?thesis
  proof (cases "list_ex (\<lambda>d. eq_ic (wd_hostname d) h) (st_domains st)")
    case True
    then show ?thesis using assms(1) zone b by (simp add: serve_domain_def)
  next
    case False
    let ?old = "filter is_placeholder (address_records s h)"
      and ?rest = "filter (\<lambda>r. \<not> is_placeholder r) (address_records s h)"
    let ?b = "if ?old \<noteq> [] then take_over s h b else b"
    let ?c = "push_all (map (\<lambda>r. DeleteRecord (obs_zone_id r) (obs_record r)) ?old) ?b"
    have ex: "\<not> list_ex (\<lambda>r. rule_hostname r = Some h) (routes s)"
      "\<not> list_ex (\<lambda>r. eq_ic (else_hostname r) h) (sn_elsewhere s)" "st_hostname_taken_by st = None"
      "\<not> list_ex obs_owned ?rest"
      and b': "b' = push (AttachSnapshotDomain zone h (ss_script site)) (fold delete_foreign ?rest ?c)"
      using assms(1) zone False
      by (auto simp: serve_domain_def res_simps Let_def partition_filter_conv o_def split: option.splits)
    have grewb: "grew X s K a ?b" using b by (auto intro: take_over_grew)
    have c: "grew X s K a ?c"
    proof (rule push_each_grew[OF grewb])
      fix d before assume "d \<in> set (map (\<lambda>r. DeleteRecord (obs_zone_id r) (obs_record r)) ?old)"
      then obtain r where r: "r \<in> set (address_records s h)" "is_placeholder r"
          and d: "d = DeleteRecord (obs_zone_id r) (obs_record r)" by auto
      then have ne: "?old \<noteq> []" by (auto simp: filter_empty_conv)
      note rr = address_recordD[OF r(1)]
      have "record_ownership r \<noteq> None" using r(2) by (auto simp: is_placeholder_def split: option.splits)
      moreover have "held s (rec_name (obs_record r)) \<longrightarrow> b_confirm ?b" using rr held_cong ne by auto
      ultimately have "may_delete (b_confirm ?b) s (obs_record r)" unfolding may_delete_def using rr by blast
      then show "class_of d \<in> K \<and> permitted X s before (b_confirm ?b) d" using K d by simp
    qed
    have f: "grew X s K a (fold delete_foreign ?rest ?c)"
      by (rule fold_grew[OF _ c]) (use K address_recordD in \<open>auto intro: delete_foreign_grew allowed.refl\<close>)
    have "free_for_site s h st"
      using ex by (auto simp: free_for_site_def routes_hostname_def list_ex_iff list_all_iff)
    then show ?thesis unfolding b' using f K st zone
      by (auto simp: site_known_def intro!: push_grew)
  qed
qed

lemma serve_site_grew:
  assumes "serve_site s site st b = Inr b'" and "grew X s K a b"
    and K: "RecordClass \<in> K" "AddressClass \<in> K" and st: "sn_site s = Some st" "st_script st = ss_script site"
  shows "grew X s K a b'"
proof (cases "ss_address site")
  case (AtDomain h)
  with assms show ?thesis by (auto simp: serve_site_def intro: serve_domain_grew)
next
  case WorkersDev
  with assms(1) obtain d where "st_subdomain st = Some d" and
    b': "b' = (if \<not> st_workers_dev st
            then push (EnableWorkersDev (ss_script site) (workers_dev_address (ss_script site) d)) b else b)"
    by (auto simp: serve_site_def serve_workers_dev_def res_simps)
  then show ?thesis unfolding b' using assms(2) K st by (auto simp: site_known_def intro!: push_grew)
qed

lemma protect_site_grew:
  "protect_site s site b = Inr b' \<Longrightarrow> grew X s K a b \<Longrightarrow> LoginClass \<in> K \<Longrightarrow> grew X s K a b'"
  by (auto simp: protect_site_def intro: protect_grew split: option.splits)

lemma with_database_grew:
  assumes "with_database s settings b = (settings', b')" and "grew X s K a b" and "DatabaseClass \<in> K"
  shows "grew X s K a b' \<and> comments_known s (b_steps b') settings'"
proof (cases "set_comments settings")
  case None
  with assms show ?thesis by (simp add: with_database_def comments_known_def)
next
  case (Some cm)
  obtain d c where d: "database s b = (d, c)" by force
  with assms Some database_grew[OF d assms(2,3)] show ?thesis
    by (auto simp: with_database_def comments_known_def)
qed

lemma comments_known_append: "comments_known s before settings \<Longrightarrow> comments_known s (before @ sts) settings"
  by (auto simp: comments_known_def database_known_def split: option.splits database_ref.splits)

lemma publish_grew:
  assumes "publish s site settings content b = Inr b'" and b: "grew X s K a b"
    and K: "{FilesClass, WorkerClass, LoginClass, RecordClass, AddressClass, DatabaseClass} \<subseteq> K"
  shows "grew X s K a b'"
proof -
  obtain settings' c where c: "with_database s settings b = (settings', c)" by force
  obtain st d where st: "site_of s site = Inr st" and ex: "\<not> st_exists st"
    and d: "protect_site s site (push (CreateSnapshotWorker (ss_id site) (ss_script site) settings')
        (push (UploadSnapshotFiles (ss_script site) content (length (sc_files content)) (content_bytes content)) c)) = Inr d"
    and b': "serve_site s site st d = Inr b'"
    using assms(1) c by (auto simp: publish_def res_simps Let_def)
  note st' = site_of_known[OF st]
  have c': "grew X s K a c" "comments_known s (b_steps c) settings'"
    using with_database_grew[OF c b] K by auto
  have u: "grew X s K a (push (UploadSnapshotFiles (ss_script site) content (length (sc_files content)) (content_bytes content)) c)"
    using c' K st' by (intro push_grew) (auto simp: site_known_def)
  have w: "grew X s K a (push (CreateSnapshotWorker (ss_id site) (ss_script site) settings')
        (push (UploadSnapshotFiles (ss_script site) content (length (sc_files content)) (content_bytes content)) c))"
    using K st' ex c'(2) by (intro push_grew[OF u]) (auto simp: site_known_def comments_known_append)
  have "grew X s K a d" using protect_site_grew[OF d w] K by auto
  then show ?thesis using serve_site_grew[OF b'] K st' by blast
qed

lemma update_grew:
  assumes "update s site settings content previous b = Inr b'" and b: "grew X s K a b"
    and K: "{FilesClass, WorkerClass, LoginClass, RecordClass, AddressClass, DatabaseClass} \<subseteq> K"
  shows "grew X s K a b'"
proof -
  obtain files bytes' where files: "changes_from content previous = (files, bytes')" by force
  obtain st p where st: "site_of s site = Inr st" and ex: "st_exists st"
    and p: "protect_site s site b = Inr p" using assms(1) by (auto simp: update_def res_simps)
  obtain settings' c where c: "with_database s settings p = (settings', c)" by force
  obtain d where d: "serve_site s site st (push (PublishSnapshotVersion (ss_id site) (ss_script site) settings' (st_active_version st))
        (push (UploadSnapshotFiles (ss_script site) content files bytes') c)) = Inr d"
    and b': "b' = (case (ss_access site, address_hostname (ss_address site)) of
          (None, Some h) \<Rightarrow> unprotect s h d | _ \<Rightarrow> d)"
    using assms(1) st ex p c files by (auto simp: update_def res_simps Let_def)
  note st' = site_of_known[OF st]
  have "grew X s K a p" using protect_site_grew[OF p b] K by auto
  then have c': "grew X s K a c" "comments_known s (b_steps c) settings'"
    using with_database_grew[OF c] K by auto
  have u: "grew X s K a (push (UploadSnapshotFiles (ss_script site) content files bytes') c)"
    using c' K st' by (intro push_grew) (auto simp: site_known_def)
  have w: "grew X s K a (push (PublishSnapshotVersion (ss_id site) (ss_script site) settings' (st_active_version st))
        (push (UploadSnapshotFiles (ss_script site) content files bytes') c))"
    using K st' ex c'(2) by (intro push_grew[OF u]) (auto simp: site_known_def comments_known_append)
  have "grew X s K a d" using serve_site_grew[OF d w] K st' by blast
  then show ?thesis unfolding b' using K by (auto intro!: unprotect_grew split: option.splits)
qed

lemma rollback_grew:
  assumes "rollback s site v n b = Inr b'" and "grew X s K a b" and "WorkerClass \<in> K"
  shows "grew X s K a b'"
proof -
  obtain st where st: "site_of s site = Inr st" "st_exists st"
    and b': "b' = (if st_active_version st \<noteq> Some v
          then push (RollBackSnapshot (ss_id site) (ss_script site) v n (st_active_version st)) b else b)"
    using assms(1) by (auto simp: rollback_def res_simps split: if_splits)
  then show ?thesis unfolding b' using assms(2,3) site_of_known[OF st(1)]
    by (auto simp: site_known_def intro!: push_grew)
qed

lemma delete_site_grew:
  assumes b: "grew X s K a b" and K: "{WorkerClass, LoginClass, AddressClass} \<subseteq> K"
  shows "grew X s K a (delete_site s site b)"
proof (cases "site_at s site")
  case None
  with b show ?thesis by (simp add: delete_site_def)
next
  case (Some st)
  note st = site_at_known[OF Some]
  let ?c = "if st_workers_dev st
      then push (DisableWorkersDev (ss_script site) (workers_dev_address (ss_script site)
             (case st_subdomain st of Some d \<Rightarrow> d | None \<Rightarrow> []))) b else b"
  let ?d = "push_all (map DetachSnapshotDomain (st_domains st)) ?c"
  let ?e = "case address_hostname (ss_address site) of Some h \<Rightarrow> unprotect s h ?d | None \<Rightarrow> ?d"
  have c: "grew X s K a ?c" using b K st by (auto simp: site_known_def intro!: push_grew)
  have d: "grew X s K a ?d" by (rule push_each_grew[OF c]) (use K st in auto)
  have e: "grew X s K a ?e" using d K by (auto intro!: unprotect_grew split: option.splits)
  have "delete_site s site b = (if st_exists st then push (DeleteSnapshotWorker (ss_id site) (ss_script site)) ?e else ?e)"
    using Some by (simp add: delete_site_def Let_def)
  moreover have "permitted X s before c (DeleteSnapshotWorker (ss_id site) (ss_script site))"
    if "st_exists st" for before c using st that by (auto simp: site_known_def)
  ultimately show ?thesis using e K by (simp add: push_grew del: permitted.simps)
qed

end
