(* ===== verification/Plan_Safety.thy ===== *)
theory Plan_Safety
  imports Plan_Parts
begin

text \<open>
  The contract of \<open>Plan_Spec\<close> for every kind of change, and what it gives for whole plans: a
  plan changes only what it may, and its steps are of the classes the change is about.
\<close>

subsection \<open>What goes with a hostname\<close>

lemma push_tokens_grew:
  assumes "grew X s K a b" and "TokenClass \<in> K"
  shows "grew X s K a (push_all (map DeleteServiceToken (filter (\<lambda>t. tok_owned t \<and> P t) (tokens s))) b)"
  by (rule push_each_grew[OF assms(1)]) (use assms(2) in auto)

lemma release_workers_grew:
  "release_workers_and_rules X s h b = Inr b' \<Longrightarrow> grew X s K a b \<Longrightarrow> {FrontClass, EdgeClass} \<subseteq> K \<Longrightarrow> grew X s K a b'"
  by (auto simp: release_workers_and_rules_def Let_def intro: edge_protect_grew front_remove_all_grew split: if_splits)

lemma release_hostname_grew:
  "release_hostname X s h b = Inr b' \<Longrightarrow> grew X s K a b \<Longrightarrow> {FrontClass, EdgeClass, TokenClass} \<subseteq> K \<Longrightarrow> grew X s K a b'"
  by (auto simp: release_hostname_def res_simps intro!: push_tokens_grew intro: release_workers_grew)

subsection \<open>Routes\<close>

lemma own_tunnelD: "own_tunnel s = Inr t \<Longrightarrow> sn_tunnel s = Some t"
  by (simp add: own_tunnel_def)

lemmas route_classes = insert_subset empty_subsetI

lemma add_route_grew:
  assumes "plan_add_route s r b = Inr b'" and b: "grew X s K a b"
    and K: "{TunnelClass, LoginClass, ConfigClass, RecordClass, BalanceClass, VerifyClass} \<subseteq> K"
  shows "grew X s K a b'"
proof -
  have wide: "grew X s UNIV c c'" if "grew X s K c c'" for c c' using that by (rule allowed_widen) simp
  obtain t c where t: "ensure_tunnel s b = (t, c)" by force
  obtain t' c' where t': "ensure_tunnel s (remote_origin_warning r b) = (t', c')" by force
  have c: "grew X s K a c" "tunnel_known s (b_steps c) t" using ensure_tunnel_grew[OF t b] K by auto
  have c': "grew X s K a c'" "tunnel_known s (b_steps c') t'"
    using ensure_tunnel_grew[OF t' remote_origin_grew[OF b]] K by auto
  show ?thesis
  proof (cases "find (\<lambda>x. same_route x (rt_hostname r) (rt_path r)) (routes s)")
    case (Some existing)
    then obtain d e where d: "protect_route s r c = Inr d" and e: "serve s (rt_hostname r) t (rt_id r) d = Inr e"
      and b': "b' = verify_route r e"
      using assms(1) t by (auto simp: plan_add_route_def Let_def res_simps split: if_splits)
    have "grew X s K c d" using protect_route_grew[OF d allowed.refl] K by auto
    then have "tunnel_known s (b_steps d) t" using tunnel_known_grows c(2) by blast
    moreover have "grew X s K a d" using protect_route_grew[OF d c(1)] K by auto
    ultimately have "grew X s K a e" using serve_grew[OF e] K by auto
    then show ?thesis unfolding b' using K by (auto intro: verify_route_grew)
  next
    case None
    then obtain d e where d: "protect_route s r c' = Inr d"
      and e: "serve s (rt_hostname r) t' (rt_id r) (put_config s t' (routes s @ [to_rule r]) d) = Inr e"
      and b': "b' = verify_route r e"
      using assms(1) t' by (auto simp: plan_add_route_def Let_def res_simps)
    let ?p = "put_config s t' (routes s @ [to_rule r]) d"
    have "grew X s K c' d" using protect_route_grew[OF d allowed.refl] K by auto
    then have t: "tunnel_known s (b_steps d) t'" using tunnel_known_grows c'(2) by blast
    have "grew X s K d ?p" using t K by (auto intro: put_config_grew allowed.refl)
    then have t2: "tunnel_known s (b_steps ?p) t'" using tunnel_known_grows t by blast
    have "grew X s K a d" using protect_route_grew[OF d c'(1)] K by auto
    then have "grew X s K a ?p" using t K by (auto intro: put_config_grew)
    then have "grew X s K a e" using serve_grew[OF e] t2 K by auto
    then show ?thesis unfolding b' using K by (auto intro: verify_route_grew)
  qed
qed

lemma update_route_grew:
  assumes "plan_update_route s h path r b = Inr b'" and b: "grew X s K a b"
    and K: "{LoginClass, ConfigClass, RecordClass, LeaseClass, VerifyClass} \<subseteq> K"
  shows "grew X s K a b'"
proof -
  obtain t c d where t: "sn_tunnel s = Some t" and c: "protect_route s r (remote_origin_warning r b) = Inr c"
    and d: "ensure_dns s (rt_hostname r) (Existing (tun_id t)) (rt_id r)
              (put_config s (Existing (tun_id t)) (replace_route (routes s) h path r) c) = Inr d"
    and b': "b' = verify_route r (drop_old_login s h path r
        (if h \<noteq> rt_hostname r \<and> \<not> list_ex (\<lambda>x. rule_hostname x = Some h \<and> \<not> same_route x h path) (routes s)
         then release_dns s h (tun_id t) d else d))"
    using assms(1) by (auto simp: plan_update_route_def res_simps Let_def dest!: own_tunnelD)
  note known = own_tunnel_known[OF t]
  have "grew X s K a c" using protect_route_grew[OF c remote_origin_grew[OF b]] K by auto
  then have "grew X s K a (put_config s (Existing (tun_id t)) (replace_route (routes s) h path r) c)"
    using K by (auto intro: put_config_grew known)
  then have d': "grew X s K a d" using ensure_dns_grew[OF d] K known by auto
  show ?thesis unfolding b' drop_old_login_def Let_def
    using d' K by (auto intro!: grow split: option.splits)
qed

lemma leave_pool_grew:
  assumes "leave_pool s h b = (r, b')" and b: "grew X s K a b" and K: "BalanceClass \<in> K"
  shows "grew X s K a b'"
proof -
  obtain p c where p: "sync_pool s h (endpoints s None) b = (p, c)" by force
  have c: "grew X s K a c" if "balanced s"
    using sync_pool_grew[OF p b K] balanced_owned[OF that] by (simp add: endpoints_known_endpoints)
  show ?thesis using assms(1) b K c p by (auto simp: leave_pool_def Let_def intro: unbalance_grew split: if_splits)
qed

lemma remove_route_grew:
  assumes "plan_remove_route X s h path b = Inr b'" and b: "grew X s K a b"
    and K: "{ConfigClass, RecordClass, LeaseClass, BalanceClass, LoginClass, FrontClass, EdgeClass, TokenClass} \<subseteq> K"
  shows "grew X s K a b'"
proof -
  let ?desired = "filter (\<lambda>r. \<not> same_route r h path) (routes s)"
  obtain t where t: "sn_tunnel s = Some t" using assms(1) by (auto simp: plan_remove_route_def res_simps dest!: own_tunnelD)
  let ?c = "put_config s (Existing (tun_id t)) ?desired (if ?desired = [] then warn TunnelEmpty b else b)"
  have c: "grew X s K a ?c" using b K by (auto intro!: put_config_grew allowed.warn own_tunnel_known[OF t])
  obtain el d where d: "(if routes_hostname ?desired h then (False, ?c)
      else leave_pool s h (release_dns s h (tun_id t) ?c)) = (el, d)" by force
  then have d': "grew X s K a d" using c K leave_pool_grew[OF _ release_dns_grew[OF c]] by (auto split: if_splits)
  let ?e = "case access_domain h path of Inr x \<Rightarrow> unprotect s x d | Inl _ \<Rightarrow> d"
  have e: "grew X s K a ?e" using d' K by (auto intro!: unprotect_grew split: sum.splits)
  have "(if \<not> routes_hostname ?desired h \<and> \<not> el then release_hostname X s h ?e else Inr ?e) = Inr b'"
    using assms(1) t d by (auto simp: plan_remove_route_def own_tunnel_def res_simps Let_def)
  then show ?thesis using e K by (auto intro: release_hostname_grew split: if_splits)
qed

lemma balance_route_grew:
  assumes "plan_balance_route s h b = Inr b'" and b: "grew X s K a b" and K: "BalanceClass \<in> K"
  shows "grew X s K a b'"
proof -
  obtain zone t st where z: "find_zone s h = Inr zone" and t: "sn_tunnel s = Some t"
    and st: "sn_balance s = Some st" "bal_owned st"
    using assms(1) by (auto simp: plan_balance_route_def res_simps dest!: own_tunnelD)
  let ?eps = "endpoints s (Some (Existing (tun_id t)))"
  let ?b = "if length ?eps = 1 then warn (SingleEndpoint h) b else b"
  obtain p c where p: "sync_pool s h ?eps ?b = (p, c)" by force
  have b2: "grew X s K a ?b" using b by (auto intro: allowed.warn)
  have k: "endpoints_known (b_steps ?b) ?eps"
    by (rule endpoints_known_endpoints) (simp add: own_tunnel_known[OF t])
  note c = sync_pool_grew[OF p b2 K _ k]
  have b': "b' = (case (bal_balancer st, p) of (None, Some p) \<Rightarrow> push (CreateLoadBalancer zone h p) c | _ \<Rightarrow> c)"
    using assms(1) z t st p
    by (auto simp: plan_balance_route_def own_tunnel_def res_simps Let_def)
  show ?thesis unfolding b' using c st K z
    by (auto simp: balance_known_def intro!: push_grew split: option.splits)
qed

lemma unbalance_route_grew:
  "plan_unbalance_route s h b = Inr b' \<Longrightarrow> grew X s K a b \<Longrightarrow> BalanceClass \<in> K \<Longrightarrow> grew X s K a b'"
  by (auto simp: plan_unbalance_route_def intro: unbalance_grew split: if_splits)

lemma create_tunnel_grew:
  "plan_create_tunnel s text b = Inr b' \<Longrightarrow> grew X s K a b \<Longrightarrow> TunnelClass \<in> K \<Longrightarrow> grew X s K a b'"
  by (auto simp: plan_create_tunnel_def Let_def res_simps name_free_def intro!: push_grew)

lemma import_routes_grew:
  assumes "plan_import_routes s rs b = Inr b'" and b: "grew X s K a b"
    and K: "{TunnelClass, ConfigClass, RecordClass, VerifyClass} \<subseteq> K"
  shows "grew X s K a b'"
proof -
  obtain desired c where c: "efold (import_route s) rs (routes s, b) = Inr (desired, c)"
    using assms(1) by (auto simp: plan_import_routes_def res_simps)
  have c': "grew X s K a (snd (desired, c))"
  proof (rule efold_invariant[where P = "\<lambda>x. grew X s K a (snd x)", OF c])
    fix r x y assume "import_route s r x = Inr y" and "grew X s K a (snd x)"
    then show "grew X s K a (snd y)"
      by (cases x) (auto simp: import_route_def res_simps intro: remote_origin_grew split: option.splits if_splits)
  qed (simp add: b)
  obtain t d where t: "ensure_tunnel s c = (t, d)" by force
  have d: "grew X s K a d" "tunnel_known s (b_steps d) t"
    using ensure_tunnel_grew[OF t] c' K by auto
  let ?p = "put_config s t desired d"
  have p: "grew X s K a ?p" using d K by (auto intro: put_config_grew)
  have "grew X s K d ?p" using d K by (auto intro: put_config_grew allowed.refl)
  then have known: "tunnel_known s (b_steps ?p) t" using d tunnel_known_grows by blast
  obtain e where e: "efold (\<lambda>r. ensure_dns s (rt_hostname r) t (rt_id r)) (first_per_hostname [] rs) ?p = Inr e"
    and b': "b' = fold verify_route (first_per_hostname [] rs) e"
    using assms(1) c t by (auto simp: plan_import_routes_def res_simps Let_def)
  have "grew X s K a e"
    using e p
  proof (rule allowed.efoldI)
    fix r u v assume u: "grew X s K ?p u" and v: "ensure_dns s (rt_hostname r) t (rt_id r) u = Inr v"
    have "tunnel_known s (b_steps u) t" by (rule tunnel_known_grows[OF known u])
    with K show "grew X s K u v" by (intro ensure_dns_grew[OF v allowed.refl]) simp_all
  qed
  then show ?thesis unfolding b' using K by (auto intro!: fold_grew verify_route_grew allowed.refl)
qed

lemma delete_record_grew:
  assumes "plan_delete_record s zone h i b = Inr b'" and b: "grew X s K a b" and K: "RecordClass \<in> K"
  shows "grew X s K a b'"
proof -
  obtain r where r: "r \<in> set (sn_records s)" and
    b': "b' = push (DeleteRecord zone (obs_record r)) (if \<not> obs_owned r
              then warn (DeletesForeignRecord (rec_name (obs_record r)) (rec_kind (obs_record r)) (rec_content (obs_record r)))
                     (require_confirmation b) else b)"
    using assms(1) by (auto simp: plan_delete_record_def res_simps Let_def dest: find_SomeD)
  show ?thesis unfolding b' using b r K
    by (auto simp: may_delete_def intro!: push_grew allowed.warn allowed.confirm)
qed

lemma clean_up_grew:
  "plan_clean_up X s h b = Inr b' \<Longrightarrow> grew X s K a b \<Longrightarrow> {LoginClass, FrontClass, EdgeClass, TokenClass} \<subseteq> K
   \<Longrightarrow> grew X s K a b'"
  by (auto simp: plan_clean_up_def res_simps intro: release_hostname_grew unprotect_grew)

lemma remove_login_grew:
  "plan_remove_login X s d b = Inr b' \<Longrightarrow> grew X s K a b \<Longrightarrow> LoginClass \<in> K \<Longrightarrow> grew X s K a b'"
  by (auto simp: plan_remove_login_def Let_def res_simps intro: unprotect_grew)

subsection \<open>Private networks\<close>

lemma vnet_routesD: "r \<in> set (vnet_routes s) \<Longrightarrow> \<exists>n. sn_networks s = Some n \<and> r \<in> set (ns_routes n)"
  by (cases "sn_networks s") (auto simp: vnet_routes_def in_default_vnet_def)

lemma private_routesD: "r \<in> set (private_hostname_routes s h) \<Longrightarrow> \<exists>n. sn_networks s = Some n \<and> r \<in> set (ns_hostname_list n)"
  by (cases "sn_networks s") (auto simp: private_hostname_routes_def hostname_routes_def)

lemma add_network_grew:
  assumes "plan_add_network X s net b = Inr b'" and b: "grew X s K a b" and K: "{TunnelClass, NetworkClass} \<subseteq> K"
  shows "grew X s K a b'"
proof (cases "find (\<lambda>r. route_range X r = Some net) (vnet_routes s)")
  case (Some x)
  with assms show ?thesis by (auto simp: plan_add_network_def split: if_splits)
next
  case None
  let ?b = "fold warn (overlap_warnings X s net) (if \<not> is_private X net then warn (PublicNetwork (ipnet_show X net)) (require_confirmation b) else b)"
  obtain t c where t: "ensure_tunnel s ?b = (t, c)" by force
  have "grew X s K a ?b" using b by (auto intro: grow)
  note c = ensure_tunnel_grew[OF t this]
  have "b_confirm (fold warn ws x) = b_confirm x" for ws x by (induction ws arbitrary: x) auto
  then have conf: "is_private X net \<or> b_confirm c" using t
    by (auto simp: ensure_tunnel_def split: option.splits if_splits)
  have b': "b' = push (CreateNetworkRoute net t) c"
    using assms(1) None t by (auto simp: plan_add_network_def Let_def)
  show ?thesis unfolding b' using c conf K None by (auto simp: find_None_iff intro!: push_grew)
qed

lemma remove_network_grew:
  assumes "plan_remove_network X s net b = Inr b'" and b: "grew X s K a b" and K: "NetworkClass \<in> K"
  shows "grew X s K a b'"
proof -
  obtain t where t: "sn_tunnel s = Some t" and b': "b' = push_all (map DeleteNetworkRoute
      (filter (\<lambda>r. net_tunnel_id r = tun_id t \<and> route_range X r = Some net) (vnet_routes s))) b"
    using assms(1) by (auto simp: plan_remove_network_def res_simps Let_def dest!: own_tunnelD)
  show ?thesis unfolding b'
    by (rule push_each_grew[OF b]) (use t K in \<open>auto simp: own_tunnel_id_def dest!: vnet_routesD\<close>)
qed

lemma add_private_hostname_grew:
  assumes "plan_add_private_hostname s h b = Inr b'" and b: "grew X s K a b" and K: "{TunnelClass, NetworkClass} \<subseteq> K"
  shows "grew X s K a b'"
proof (cases "private_hostname_routes s h")
  case (Cons x xs)
  with assms show ?thesis by (auto simp: plan_add_private_hostname_def split: if_splits)
next
  case Nil
  let ?public = "list_ex (\<lambda>z. is_in_zone h (zone_name z)) (sn_zones s)"
  let ?b = "if ?public then warn (PublicHostname h) (require_confirmation b) else b"
  obtain t c where t: "ensure_tunnel s ?b = (t, c)" by force
  have "grew X s K a ?b" using b by (auto intro: grow)
  note c = ensure_tunnel_grew[OF t this]
  have conf: "?public \<longrightarrow> b_confirm c" using t
    by (auto simp: ensure_tunnel_def split: option.splits if_splits)
  have b': "b' = push (CreateHostnameRoute h t) c"
    using assms(1) Nil t by (auto simp: plan_add_private_hostname_def Let_def)
  show ?thesis unfolding b' using c conf K Nil by (auto intro!: push_grew)
qed

lemma remove_private_hostname_grew:
  assumes "plan_remove_private_hostname s h b = Inr b'" and b: "grew X s K a b" and K: "NetworkClass \<in> K"
  shows "grew X s K a b'"
proof -
  obtain t where t: "sn_tunnel s = Some t" and b': "b' = push_all (map DeleteHostnameRoute
      (filter (\<lambda>r. hr_tunnel_id r = tun_id t) (private_hostname_routes s h))) b"
    using assms(1) by (auto simp: plan_remove_private_hostname_def res_simps Let_def dest!: own_tunnelD)
  show ?thesis unfolding b'
    by (rule push_each_grew[OF b]) (use t K in \<open>auto simp: own_tunnel_id_def dest!: private_routesD\<close>)
qed

lemma restore_config_grew:
  "plan_restore_config s ingress b = Inr b' \<Longrightarrow> grew X s K a b \<Longrightarrow> ConfigClass \<in> K \<Longrightarrow> grew X s K a b'"
  by (auto simp: plan_restore_config_def res_simps dest!: own_tunnelD intro!: put_config_grew own_tunnel_known)

subsection \<open>The tunnel\<close>

lemma push_networks_grew:
  assumes "grew X s K a b" and "NetworkClass \<in> K" and "sn_tunnel s = Some t"
  shows "grew X s K a (push_all (map DeleteHostnameRoute
                  (case sn_networks s of Some n \<Rightarrow> hostnames_of_tunnel n (tun_id t) | None \<Rightarrow> []))
           (push_all (map DeleteNetworkRoute
                  (case sn_networks s of Some n \<Rightarrow> of_tunnel n (tun_id t) | None \<Rightarrow> [])) b))"
proof -
  have "grew X s K a (push_all (map DeleteNetworkRoute
                  (case sn_networks s of Some n \<Rightarrow> of_tunnel n (tun_id t) | None \<Rightarrow> [])) b)"
    by (rule push_each_grew[OF assms(1)])
      (cases "sn_networks s"; use assms(2,3) in \<open>auto simp: own_tunnel_id_def of_tunnel_def\<close>)
  then show ?thesis
    by (rule push_each_grew)
      (cases "sn_networks s"; use assms(2,3) in \<open>auto simp: own_tunnel_id_def hostnames_of_tunnel_def\<close>)
qed

text \<open>The removal of a tunnel, taken apart.\<close>

lemma remove_tunnelE:
  assumes "plan_remove_tunnel X s b = Inr b'"
  obtains t d where "sn_tunnel s = Some t"
    and "efold (release_resolving X s (tun_id t)) (routed_hostnames s) (fold (\<lambda>h. release_dns s h (tun_id t)) (routed_hostnames s)
      (if routes s \<noteq> [] then put_config s (Existing (tun_id t)) [] b else b)) = Inr d"
    and "b' = push (DeleteTunnel (tun_id t)) (push (StopConnector (tun_id t)) (push_all (map DeleteHostnameRoute
                  (case sn_networks s of Some n \<Rightarrow> hostnames_of_tunnel n (tun_id t) | None \<Rightarrow> []))
           (push_all (map DeleteNetworkRoute
                  (case sn_networks s of Some n \<Rightarrow> of_tunnel n (tun_id t) | None \<Rightarrow> []))
             (push_all (map DeleteServiceToken (doomed_tokens s (routed_hostnames s)))
               (fold (unprotect s) (owned_domains s) d)))))"
proof -
  obtain t where "sn_tunnel s = Some t" using assms by (auto simp: plan_remove_tunnel_def res_simps dest!: own_tunnelD)
  with assms that show ?thesis by (auto simp: plan_remove_tunnel_def own_tunnel_def res_simps Let_def)
qed

lemma remove_tunnel_grew:
  assumes "plan_remove_tunnel X s b = Inr b'" and b: "grew X s K a b"
    and K: "{ConfigClass, RecordClass, LeaseClass, FrontClass, EdgeClass, LoginClass, TokenClass, NetworkClass, StopClass} \<subseteq> K"
  shows "grew X s K a b'"
proof -
  let ?names = "routed_hostnames s"
  obtain t d where t: "sn_tunnel s = Some t"
    and d: "efold (release_resolving X s (tun_id t)) ?names (fold (\<lambda>h. release_dns s h (tun_id t)) ?names
      (if routes s \<noteq> [] then put_config s (Existing (tun_id t)) [] b else b)) = Inr d"
    and b': "b' = push (DeleteTunnel (tun_id t)) (push (StopConnector (tun_id t)) (push_all (map DeleteHostnameRoute
                  (case sn_networks s of Some n \<Rightarrow> hostnames_of_tunnel n (tun_id t) | None \<Rightarrow> []))
           (push_all (map DeleteNetworkRoute
                  (case sn_networks s of Some n \<Rightarrow> of_tunnel n (tun_id t) | None \<Rightarrow> []))
             (push_all (map DeleteServiceToken (doomed_tokens s ?names)) (fold (unprotect s) (owned_domains s) d)))))"
    using assms(1) by (rule remove_tunnelE)
  let ?c = "fold (\<lambda>h. release_dns s h (tun_id t)) ?names
      (if routes s \<noteq> [] then put_config s (Existing (tun_id t)) [] b else b)"
  have c: "grew X s K a ?c"
    using b K by (auto intro!: fold_grew release_dns_grew put_config_grew allowed.refl own_tunnel_known[OF t])
  have d': "grew X s K a d"
    using d c
  proof (rule allowed.efoldI)
    fix h u v assume "release_resolving X s (tun_id t) h u = Inr v"
    then show "grew X s K u v" using K
      by (auto simp: release_resolving_def intro: release_workers_grew allowed.refl split: sum.splits if_splits)
  qed
  have e: "grew X s K a (fold (unprotect s) (owned_domains s) d)"
    using d' K by (auto intro!: fold_grew unprotect_grew allowed.refl)
  have f: "grew X s K a (push_all (map DeleteServiceToken (doomed_tokens s ?names)) (fold (unprotect s) (owned_domains s) d))"
    unfolding doomed_tokens_def using e K by (auto intro: push_tokens_grew)
  show ?thesis unfolding b'
    using push_networks_grew[OF f _ t] K t
    by (intro push_grew) (auto simp: own_tunnel_id_def)
qed

subsection \<open>Every change\<close>

text \<open>What a change may touch in the account.\<close>

fun classes_of :: "intent \<Rightarrow> step_class set" where
  "classes_of (AddRoute _) = {TunnelClass, LoginClass, ConfigClass, RecordClass, BalanceClass, VerifyClass}"
| "classes_of (UpdateRoute _ _ _) = {LoginClass, ConfigClass, RecordClass, LeaseClass, VerifyClass}"
| "classes_of (RemoveRoute _ _) =
     {ConfigClass, RecordClass, LeaseClass, BalanceClass, LoginClass, FrontClass, EdgeClass, TokenClass}"
| "classes_of RemoveTunnel =
     {ConfigClass, RecordClass, LeaseClass, FrontClass, EdgeClass, LoginClass, TokenClass, NetworkClass, StopClass}"
| "classes_of (intent.CreateTunnel _) = {TunnelClass}"
| "classes_of (BalanceRoute _) = {BalanceClass}"
| "classes_of (UnbalanceRoute _) = {BalanceClass}"
| "classes_of (ImportRoutes _) = {TunnelClass, ConfigClass, RecordClass, VerifyClass}"
| "classes_of (intent.DeleteRecord _ _ _) = {RecordClass}"
| "classes_of (AddNetwork _) = {TunnelClass, NetworkClass}"
| "classes_of (RemoveNetwork _) = {NetworkClass}"
| "classes_of (AddPrivateHostname _) = {TunnelClass, NetworkClass}"
| "classes_of (RemovePrivateHostname _) = {NetworkClass}"
| "classes_of (RemoveLogin _) = {LoginClass}"
| "classes_of (CleanUpHostname _) = {LoginClass, FrontClass, EdgeClass, TokenClass}"
| "classes_of (RestoreConfig _) = {ConfigClass}"
| "classes_of (PublishSnapshot _ _ _) = {FilesClass, WorkerClass, LoginClass, RecordClass, AddressClass, DatabaseClass}"
| "classes_of (UpdateSnapshot _ _ _ _) = {FilesClass, WorkerClass, LoginClass, RecordClass, AddressClass, DatabaseClass}"
| "classes_of (RollbackSnapshot _ _ _) = {WorkerClass}"
| "classes_of (DeleteSnapshot _) = {WorkerClass, LoginClass, AddressClass}"
| "classes_of (Reserve _ _) = {RecordClass, LeaseClass}"
| "classes_of (Release _) = {RecordClass, LeaseClass}"
| "classes_of (ProtectHostname _ _) = {EdgeClass}"
| "classes_of (intent.CreateServiceToken _ _) = {TokenClass}"
| "classes_of (RevokeServiceToken _ _) = {TokenClass, LoginClass}"
| "classes_of (intent.RotateServiceToken _ _) = {TokenClass}"
| "classes_of (SetOfflinePage _ _) = {FrontClass}"
| "classes_of (SetInbox _ _ _ _) = {FrontClass, DatabaseClass}"

lemmas arms_grew = add_route_grew update_route_grew remove_route_grew remove_tunnel_grew create_tunnel_grew
  balance_route_grew unbalance_route_grew import_routes_grew delete_record_grew add_network_grew
  remove_network_grew add_private_hostname_grew remove_private_hostname_grew remove_login_grew
  clean_up_grew restore_config_grew publish_grew update_grew rollback_grew reserve_grew
  release_grew edge_protect_grew create_token_grew revoke_token_grew rotate_token_grew
  front_offline_grew front_inbox_grew

lemma plan_steps_grew:
  assumes "plan_steps X s i b = Inr b'"
  shows "grew X s (classes_of i) b b'"
  using assms by (cases i) (auto elim!: arms_grew[OF _ allowed.refl] intro!: delete_site_grew allowed.refl)

lemma planD:
  assumes "plan X J i s = Inr p"
  obtains b where "plan_steps X s i new_builder = Inr b" and "pl_steps p = b_steps b \<or> pl_steps p = []"
    and "pl_requires_confirmation p = b_confirm b" and "pl_warnings p = b_warnings b"
    and "pl_steps p = (if list_ex is_mutation (b_steps b) then b_steps b else [])"
  using assms by (auto simp: plan_def res_simps finish_def Let_def split: if_splits)

text \<open>Each step of a plan is permitted after the steps before it.\<close>

lemma plan_permitted:
  assumes "plan X J i s = Inr p" and "n < length (pl_steps p)"
  shows "permitted X s (take n (pl_steps p)) (pl_requires_confirmation p) (pl_steps p ! n)
    \<and> class_of (pl_steps p ! n) \<in> classes_of i"
proof -
  obtain b where b: "plan_steps X s i new_builder = Inr b" "pl_steps p = b_steps b \<or> pl_steps p = []"
    "pl_requires_confirmation p = b_confirm b" using planD[OF assms(1)] by blast
  have "pl_steps p = b_steps b" using b(2) assms(2) by auto
  with allowed.all_steps[OF plan_steps_grew[OF b(1)], of n] assms(2) b(3) show ?thesis
    by (simp add: allowed_def)
qed

lemma plan_step_permitted:
  assumes "plan X J i s = Inr p" and "st \<in> set (pl_steps p)"
  shows "\<exists>before. permitted X s before (pl_requires_confirmation p) st"
  using plan_permitted[OF assms(1)] assms(2) by (metis in_set_conv_nth)

end
