(* ===== verification/Plan_Order.thy ===== *)
theory Plan_Order
  imports Plan_Safety
begin

text \<open>
  The order of the steps of a plan. \<open>stage\<close> gives each class of steps its place in a kind of
  change (where the source promises one); the steps of a plan are in order of their stages, so a
  plan that stops halfway has done the safe part first: a login is in place before anything
  answers at its address, a database before the Worker that uses it, the tunnel goes last.
\<close>

fun stage :: "intent \<Rightarrow> step_class \<Rightarrow> nat" where
  "stage (AddRoute _) k = (case k of TunnelClass \<Rightarrow> 0 | LoginClass \<Rightarrow> 1 | ConfigClass \<Rightarrow> 2
     | VerifyClass \<Rightarrow> 4 | _ \<Rightarrow> 3)"
| "stage (ImportRoutes _) k = (case k of TunnelClass \<Rightarrow> 0 | ConfigClass \<Rightarrow> 1 | VerifyClass \<Rightarrow> 3 | _ \<Rightarrow> 2)"
| "stage (RemoveRoute _ _) k = (case k of ConfigClass \<Rightarrow> 0 | RecordClass \<Rightarrow> 1 | LeaseClass \<Rightarrow> 1
     | BalanceClass \<Rightarrow> 2 | LoginClass \<Rightarrow> 3 | FrontClass \<Rightarrow> 4 | EdgeClass \<Rightarrow> 5 | _ \<Rightarrow> 6)"
| "stage RemoveTunnel k = (case k of ConfigClass \<Rightarrow> 0 | RecordClass \<Rightarrow> 1 | LeaseClass \<Rightarrow> 1
     | FrontClass \<Rightarrow> 2 | EdgeClass \<Rightarrow> 2 | LoginClass \<Rightarrow> 3 | TokenClass \<Rightarrow> 4 | NetworkClass \<Rightarrow> 5 | _ \<Rightarrow> 6)"
| "stage (AddNetwork _) k = (if k = TunnelClass then 0 else 1)"
| "stage (AddPrivateHostname _) k = (if k = TunnelClass then 0 else 1)"
| "stage (CleanUpHostname _) k = (case k of LoginClass \<Rightarrow> 0 | FrontClass \<Rightarrow> 1 | EdgeClass \<Rightarrow> 2 | _ \<Rightarrow> 3)"
| "stage (PublishSnapshot _ _ _) k = (case k of DatabaseClass \<Rightarrow> 0 | FilesClass \<Rightarrow> 1 | WorkerClass \<Rightarrow> 2
     | LoginClass \<Rightarrow> 3 | _ \<Rightarrow> 4)"
| "stage (DeleteSnapshot _) k = (case k of AddressClass \<Rightarrow> 0 | LoginClass \<Rightarrow> 1 | _ \<Rightarrow> 2)"
| "stage (RevokeServiceToken _ _) k = (if k = LoginClass then 0 else 1)"
| "stage (SetInbox _ _ _ _) k = (if k = DatabaseClass then 0 else 1)"
| "stage _ k = 0"

subsection \<open>Stages reached so far\<close>

definition staged :: "(step_class \<Rightarrow> nat) \<Rightarrow> nat \<Rightarrow> builder \<Rightarrow> bool" where
  "staged rank n b \<longleftrightarrow> sorted (map (rank \<circ> class_of) (b_steps b)) \<and> (\<forall>st \<in> set (b_steps b). rank (class_of st) \<le> n)"

lemma staged_new [simp]: "staged rank n new_builder"
  by (simp add: staged_def)

lemma staged_eq: "b_steps b = b_steps b' \<Longrightarrow> staged rank n b \<Longrightarrow> staged rank n b'"
  by (simp add: staged_def)

lemma staged_wider: "staged rank m b \<Longrightarrow> m \<le> n \<Longrightarrow> staged rank n b"
  by (auto simp: staged_def)

lemma sorted_const: "\<forall>x \<in> set xs. f x = c \<Longrightarrow> sorted (map f xs)"
  by (induction xs) auto

lemma staged_grew:
  assumes "staged rank m b" and "grew X s K b b'" and "\<forall>k \<in> K. rank k = n" and "m \<le> n"
  shows "staged rank n b'"
proof -
  obtain sts where sts: "b_steps b' = b_steps b @ sts" "all_ok (allowed X s K) (b_steps b) (b_confirm b') sts"
    using assms(2) by (auto simp: grows_def)
  then have "\<forall>st \<in> set sts. rank (class_of st) = n"
    using assms(3) by (auto simp: allowed_def dest!: all_okD)
  moreover from this have "sorted (map (rank \<circ> class_of) sts)"
    by (intro sorted_const[of _ _ n]) simp
  ultimately show ?thesis using assms(1,4) sts(1) by (fastforce simp: staged_def sorted_append)
qed

lemma staged_constant: "(\<And>k. stage i k = 0) \<Longrightarrow> sorted (map (stage i \<circ> class_of) sts)"
  by (induction sts) auto

lemma staged_sorted: "staged rank n b \<Longrightarrow> sorted (map (rank \<circ> class_of) (b_steps b))"
  by (simp add: staged_def)

lemma ensure_tunnel_step: "ensure_tunnel s b = (t, b') \<Longrightarrow> grew X s {TunnelClass} b b' \<and> tunnel_known s (b_steps b') t"
  by (rule ensure_tunnel_grew[OF _ allowed.refl]) simp_all

lemma front_remove_all_step: "grew X s {FrontClass} b (front_remove_all s h b)"
  by (rule front_remove_all_grew[OF allowed.refl]) simp

lemma unprotect_step: "grew X s {LoginClass} b (unprotect s d b)"
  by (rule unprotect_grew[OF allowed.refl]) simp

subsection \<open>Routes\<close>

lemma add_routeE:
  assumes "plan_add_route s r b = Inr b'"
  obtains b0 t c d e f where "b0 = b \<or> b0 = remote_origin_warning r b"
    and "ensure_tunnel s b0 = (t, c)" and "protect_route s r c = Inr d"
    and "f = d \<or> f = put_config s t (routes s @ [to_rule r]) d"
    and "serve s (rt_hostname r) t (rt_id r) f = Inr e" and "b' = verify_route r e"
proof (cases "find (\<lambda>x. same_route x (rt_hostname r) (rt_path r)) (routes s)")
  case None
  obtain t c where t: "ensure_tunnel s (remote_origin_warning r b) = (t, c)" by force
  then obtain d e where "protect_route s r c = Inr d"
    and "serve s (rt_hostname r) t (rt_id r) (put_config s t (routes s @ [to_rule r]) d) = Inr e"
    and "b' = verify_route r e"
    using None assms by (auto simp: plan_add_route_def Let_def res_simps)
  with t show ?thesis by (intro that[OF disjI2[OF refl] _ _ disjI2[OF refl]])
next
  case (Some x)
  obtain t c where t: "ensure_tunnel s b = (t, c)" by force
  then obtain d e where "protect_route s r c = Inr d" and "serve s (rt_hostname r) t (rt_id r) d = Inr e"
    and "b' = verify_route r e"
    using Some assms by (auto simp: plan_add_route_def Let_def res_simps split: if_splits)
  with t show ?thesis by (intro that[OF disjI1[OF refl] _ _ disjI1[OF refl]])
qed

lemma add_route_staged:
  assumes "plan_add_route s r new_builder = Inr b'"
  shows "staged (stage (AddRoute r)) 4 b'"
proof -
  let ?rank = "stage (AddRoute r)"
  have *: "staged ?rank 4 b'"
    if t: "ensure_tunnel s b = (t, c)" and b: "b_steps b = []" and d: "protect_route s r c = Inr d"
      and f: "f = d \<or> f = put_config s t (routes s @ [to_rule r]) d"
      and e: "serve s (rt_hostname r) t (rt_id r) f = Inr e" and b': "b' = verify_route r e" for b t c d e f
  proof -
    obtain X :: externals where "X = X" by blast
    have b0: "staged ?rank 0 b" using b by (simp add: staged_def)
    have c: "staged ?rank 0 c" "tunnel_known s (b_steps c) t"
      using ensure_tunnel_step[OF t, of X] staged_grew[OF b0, of X s "{TunnelClass}" c 0] by simp_all
    have d1: "grew X s {LoginClass} c d" using protect_route_grew[OF d allowed.refl] by simp
    have d2: "staged ?rank 1 d" by (rule staged_grew[OF c(1) d1]) auto
    have d3: "tunnel_known s (b_steps d) t" by (rule tunnel_known_grows[OF c(2) d1])
    have f1: "grew X s {ConfigClass} d f" using f d3 by (auto intro: put_config_grew allowed.refl)
    have f2: "staged ?rank 2 f" by (rule staged_grew[OF d2 f1]) auto
    have f3: "tunnel_known s (b_steps f) t" by (rule tunnel_known_grows[OF d3 f1])
    have "grew X s {RecordClass, BalanceClass} f e" using serve_grew[OF e allowed.refl _ _ f3] by simp
    then have e2: "staged ?rank 3 e" by (rule staged_grew[OF f2]) auto
    have "grew X s {VerifyClass} e b'" unfolding b' by (intro verify_route_grew allowed.refl) simp
    then show ?thesis by (rule staged_grew[OF e2]) auto
  qed
  obtain b t c d e f where "b = new_builder \<or> b = remote_origin_warning r new_builder"
    and x: "ensure_tunnel s b = (t, c)" "protect_route s r c = Inr d"
      "f = d \<or> f = put_config s t (routes s @ [to_rule r]) d"
      "serve s (rt_hostname r) t (rt_id r) f = Inr e" "b' = verify_route r e"
    using assms by (rule add_routeE)
  then have "b_steps b = []" by (auto simp: remote_origin_warning_def)
  with x show ?thesis by (intro *)
qed

lemma import_routes_staged:
  assumes "plan_import_routes s rs new_builder = Inr b'"
  shows "staged (stage (ImportRoutes rs)) 3 b'"
proof -
  let ?rank = "stage (ImportRoutes rs)"
  obtain desired c where c: "efold (import_route s) rs (routes s, new_builder) = Inr (desired, c)"
    using assms by (auto simp: plan_import_routes_def res_simps)
  have "b_steps (snd (desired, c)) = []"
  proof (rule efold_invariant[where P = "\<lambda>x. b_steps (snd x) = []", OF c])
    fix r x y assume "import_route s r x = Inr y" and "b_steps (snd x) = []"
    then show "b_steps (snd y) = []"
      by (cases x) (auto simp: import_route_def res_simps remote_origin_warning_def split: option.splits if_splits)
  qed simp
  then have c0: "staged ?rank 0 c" by (simp add: staged_def)
  obtain t d where t: "ensure_tunnel s c = (t, d)" by force
  let ?p = "put_config s t desired d"
  obtain e where e: "efold (\<lambda>r. ensure_dns s (rt_hostname r) t (rt_id r)) (first_per_hostname [] rs) ?p = Inr e"
    and b': "b' = fold verify_route (first_per_hostname [] rs) e"
    using assms c t by (auto simp: plan_import_routes_def res_simps Let_def)
  obtain X :: externals where "X = X" by blast
  have d: "staged ?rank 0 d" "tunnel_known s (b_steps d) t"
    using ensure_tunnel_step[OF t, of X] staged_grew[OF c0, of X s "{TunnelClass}" d 0] by simp_all
  have p: "grew X s {ConfigClass} d ?p" using d by (auto intro: put_config_grew allowed.refl)
  have p2: "staged ?rank 1 ?p" by (rule staged_grew[OF d(1) p]) auto
  have known: "tunnel_known s (b_steps ?p) t" by (rule tunnel_known_grows[OF d(2) p])
  have "grew X s {RecordClass} ?p e"
    using e allowed.refl
  proof (rule allowed.efoldI)
    fix r u v assume u: "grew X s {RecordClass} ?p u" and v: "ensure_dns s (rt_hostname r) t (rt_id r) u = Inr v"
    have "tunnel_known s (b_steps u) t" by (rule tunnel_known_grows[OF known u])
    then show "grew X s {RecordClass} u v" by (intro ensure_dns_grew[OF v allowed.refl]) simp_all
  qed
  then have e2: "staged ?rank 2 e" by (rule staged_grew[OF p2]) auto
  have "grew X s {VerifyClass} e b'" unfolding b' by (intro fold_grew verify_route_grew allowed.refl) simp
  then show ?thesis by (rule staged_grew[OF e2]) auto
qed

lemma release_workers_staged:
  assumes "release_workers_and_rules X s h b = Inr b'" and "staged rank m b" and "rank FrontClass = n"
    and "rank EdgeClass = k" and "m \<le> n" and "n \<le> k"
  shows "staged rank k b'"
proof -
  let ?f = "front_remove_all s h b"
  have f: "staged rank n ?f" by (rule staged_grew[OF assms(2) front_remove_all_step]) (use assms in auto)
  show ?thesis
  proof (cases "b' = ?f")
    case True
    with f assms(6) show ?thesis using staged_wider by blast
  next
    case False
    then have "edge_protect X s h protection_default ?f = Inr b'"
      using assms(1) by (auto simp: release_workers_and_rules_def Let_def split: if_splits)
    then have "grew X s {EdgeClass} ?f b'" by (rule edge_protect_grew) (auto intro: allowed.refl)
    then show ?thesis by (rule staged_grew[OF f]) (use assms in auto)
  qed
qed

lemma release_hostname_staged:
  assumes "release_hostname X s h b = Inr b'" and "staged rank m b" and "rank FrontClass = n"
    and "rank EdgeClass = k" and "rank TokenClass = l" and "m \<le> n" and "n \<le> k" and "k \<le> l"
  shows "staged rank l b'"
proof -
  obtain c where c: "release_workers_and_rules X s h b = Inr c"
    and b': "b' = push_all (map DeleteServiceToken (filter (\<lambda>t. tok_owned t \<and> tok_made_for t = Some h) (tokens s))) c"
    using assms(1) by (auto simp: release_hostname_def res_simps)
  have "grew X s {TokenClass} c b'" unfolding b' by (intro push_tokens_grew allowed.refl) simp
  then show ?thesis
    by (rule staged_grew[OF release_workers_staged[OF c assms(2,3,4,6,7)]]) (use assms in auto)
qed

lemma leave_pool_step: "leave_pool s h b = (r, b') \<Longrightarrow> grew X s {BalanceClass} b b'"
  by (rule leave_pool_grew[OF _ allowed.refl]) simp_all

lemma remove_route_staged:
  assumes "plan_remove_route X s h path new_builder = Inr b'"
  shows "staged (stage (RemoveRoute h path)) 6 b'"
proof -
  let ?rank = "stage (RemoveRoute h path)"
  let ?desired = "filter (\<lambda>r. \<not> same_route r h path) (routes s)"
  obtain t where t: "sn_tunnel s = Some t" using assms by (auto simp: plan_remove_route_def res_simps dest!: own_tunnelD)
  let ?b = "if ?desired = [] then warn TunnelEmpty new_builder else new_builder"
  let ?c = "put_config s (Existing (tun_id t)) ?desired ?b"
  have b0: "staged ?rank 0 ?b" by (simp add: staged_def)
  have c0: "grew X s {ConfigClass} ?b ?c" by (intro put_config_grew own_tunnel_known[OF t] allowed.refl) simp
  have c: "staged ?rank 0 ?c" by (rule staged_grew[OF b0 c0]) auto
  let ?r = "release_dns s h (tun_id t) ?c"
  have r0: "grew X s {RecordClass, LeaseClass} ?c ?r" by (intro release_dns_grew allowed.refl) simp_all
  have r: "staged ?rank 1 ?r" by (rule staged_grew[OF c r0]) auto
  obtain el d where d: "(if routes_hostname ?desired h then (False, ?c) else leave_pool s h ?r) = (el, d)" by force
  have d': "staged ?rank 2 d"
  proof (cases "routes_hostname ?desired h")
    case True
    with d c show ?thesis by (auto intro: staged_wider)
  next
    case False
    with d have "grew X s {BalanceClass} ?r d" by (intro leave_pool_step) simp
    then show ?thesis by (rule staged_grew[OF r]) auto
  qed
  let ?e = "case access_domain h path of Inr x \<Rightarrow> unprotect s x d | Inl _ \<Rightarrow> d"
  have "grew X s {LoginClass} d ?e" by (auto intro: unprotect_step allowed.refl split: sum.splits)
  then have e: "staged ?rank 3 ?e" by (rule staged_grew[OF d']) auto
  have b': "(if \<not> routes_hostname ?desired h \<and> \<not> el then release_hostname X s h ?e else Inr ?e) = Inr b'"
    using assms t d by (auto simp: plan_remove_route_def own_tunnel_def res_simps Let_def)
  show ?thesis
  proof (cases "\<not> routes_hostname ?desired h \<and> \<not> el")
    case True
    with b' have "release_hostname X s h ?e = Inr b'" by simp
    then show ?thesis by (rule release_hostname_staged[OF _ e]) auto
  next
    case False
    with b' have "?e = b'" by auto
    with e show ?thesis by (auto intro: staged_wider)
  qed
qed

lemma clean_up_staged:
  assumes "plan_clean_up X s h new_builder = Inr b'" shows "staged (stage (CleanUpHostname h)) 3 b'"
proof -
  have "release_hostname X s h (unprotect s h new_builder) = Inr b'"
    using assms by (auto simp: plan_clean_up_def res_simps)
  moreover have "staged (stage (CleanUpHostname h)) 0 (unprotect s h new_builder)"
    by (rule staged_grew[OF staged_new unprotect_step]) auto
  ultimately show ?thesis by (rule release_hostname_staged) auto
qed

subsection \<open>The tunnel\<close>

lemma remove_tunnel_staged:
  assumes "plan_remove_tunnel X s new_builder = Inr b'" shows "staged (stage RemoveTunnel) 6 b'"
proof -
  let ?rank = "stage RemoveTunnel"
  let ?names = "routed_hostnames s"
  obtain t d where t: "sn_tunnel s = Some t"
    and d: "efold (release_resolving X s (tun_id t)) ?names (fold (\<lambda>h. release_dns s h (tun_id t)) ?names
      (if routes s \<noteq> [] then put_config s (Existing (tun_id t)) [] new_builder else new_builder)) = Inr d"
    and b': "b' = push (DeleteTunnel (tun_id t)) (push (StopConnector (tun_id t)) (push_all (map DeleteHostnameRoute
                  (case sn_networks s of Some n \<Rightarrow> hostnames_of_tunnel n (tun_id t) | None \<Rightarrow> []))
           (push_all (map DeleteNetworkRoute
                  (case sn_networks s of Some n \<Rightarrow> of_tunnel n (tun_id t) | None \<Rightarrow> []))
             (push_all (map DeleteServiceToken (doomed_tokens s ?names)) (fold (unprotect s) (owned_domains s) d)))))"
    using assms by (rule remove_tunnelE)
  let ?p = "if routes s \<noteq> [] then put_config s (Existing (tun_id t)) [] new_builder else new_builder"
  let ?c = "fold (\<lambda>h. release_dns s h (tun_id t)) ?names ?p"
  have p0: "grew X s {ConfigClass} new_builder ?p"
    by (auto intro: put_config_grew own_tunnel_known[OF t] allowed.refl)
  have p: "staged ?rank 0 ?p" by (rule staged_grew[OF staged_new[of _ 0] p0]) auto
  have c0: "grew X s {RecordClass, LeaseClass} ?p ?c" by (intro fold_grew release_dns_grew allowed.refl) simp_all
  have c: "staged ?rank 1 ?c" by (rule staged_grew[OF p c0]) auto
  have "grew X s {FrontClass, EdgeClass} ?c d"
    using d allowed.refl
  proof (rule allowed.efoldI)
    fix h u v assume "release_resolving X s (tun_id t) h u = Inr v"
    then show "grew X s {FrontClass, EdgeClass} u v"
      by (auto simp: release_resolving_def intro: release_workers_grew allowed.refl split: sum.splits if_splits)
  qed
  then have d': "staged ?rank 2 d" by (rule staged_grew[OF c]) auto
  let ?e = "fold (unprotect s) (owned_domains s) d"
  have e0: "grew X s {LoginClass} d ?e" by (intro fold_grew unprotect_grew allowed.refl) simp
  have e: "staged ?rank 3 ?e" by (rule staged_grew[OF d' e0]) auto
  let ?f = "push_all (map DeleteServiceToken (doomed_tokens s ?names)) ?e"
  have f0: "grew X s {TokenClass} ?e ?f"
    unfolding doomed_tokens_def by (intro push_tokens_grew allowed.refl) simp
  have f: "staged ?rank 4 ?f" by (rule staged_grew[OF e f0]) auto
  let ?g = "push_all (map DeleteHostnameRoute
                  (case sn_networks s of Some n \<Rightarrow> hostnames_of_tunnel n (tun_id t) | None \<Rightarrow> []))
           (push_all (map DeleteNetworkRoute
                  (case sn_networks s of Some n \<Rightarrow> of_tunnel n (tun_id t) | None \<Rightarrow> [])) ?f)"
  have g0: "grew X s {NetworkClass} ?f ?g" by (rule push_networks_grew[OF allowed.refl _ t]) simp
  have g: "staged ?rank 5 ?g" by (rule staged_grew[OF f g0]) auto
  have "grew X s {StopClass} ?g b'" unfolding b'
    by (intro push_grew allowed.refl) (use t in \<open>auto simp: own_tunnel_id_def\<close>)
  then show ?thesis by (rule staged_grew[OF g]) auto
qed

subsection \<open>Snapshots, networks, tokens, inboxes\<close>

lemma publish_staged:
  assumes "publish s site settings content new_builder = Inr b'"
  shows "staged (stage (PublishSnapshot site settings content)) 4 b'"
proof -
  let ?rank = "stage (PublishSnapshot site settings content)"
  obtain X :: externals where "X = X" by blast
  obtain settings' c where c: "with_database s settings new_builder = (settings', c)" by force
  let ?u = "push (UploadSnapshotFiles (ss_script site) content (length (sc_files content)) (content_bytes content)) c"
  let ?w = "push (CreateSnapshotWorker (ss_id site) (ss_script site) settings') ?u"
  obtain st d where st: "site_of s site = Inr st" and ex: "\<not> st_exists st"
    and d: "protect_site s site ?w = Inr d" and b': "serve_site s site st d = Inr b'"
    using assms c by (auto simp: publish_def res_simps Let_def)
  note st' = site_of_known[OF st]
  have c0: "grew X s {DatabaseClass} new_builder c" "comments_known s (b_steps c) settings'"
    using with_database_grew[OF c allowed.refl] by auto
  have c2: "staged ?rank 0 c" by (rule staged_grew[OF staged_new[of _ 0] c0(1)]) auto
  have u0: "grew X s {FilesClass} c ?u" using st' by (intro push_grew allowed.refl) (auto simp: site_known_def)
  have u: "staged ?rank 1 ?u" by (rule staged_grew[OF c2 u0]) auto
  have w0: "grew X s {WorkerClass} ?u ?w"
    using st' ex c0(2) by (intro push_grew allowed.refl) (auto simp: site_known_def comments_known_append)
  have w: "staged ?rank 2 ?w" by (rule staged_grew[OF u w0]) auto
  have "grew X s {LoginClass} ?w d" by (rule protect_site_grew[OF d allowed.refl]) simp
  then have d2: "staged ?rank 3 d" by (rule staged_grew[OF w]) auto
  have "grew X s {RecordClass, AddressClass} d b'"
    using st' by (intro serve_site_grew[OF b' allowed.refl]) auto
  then show ?thesis by (rule staged_grew[OF d2]) auto
qed

lemma delete_site_staged: "staged (stage (DeleteSnapshot site)) 2 (delete_site s site new_builder)"
proof (cases "site_at s site")
  case None
  then show ?thesis by (simp add: delete_site_def)
next
  case (Some st)
  note st = site_at_known[OF Some]
  obtain X :: externals where "X = X" by blast
  let ?rank = "stage (DeleteSnapshot site)"
  let ?c = "if st_workers_dev st
      then push (DisableWorkersDev (ss_script site) (workers_dev_address (ss_script site)
             (case st_subdomain st of Some d \<Rightarrow> d | None \<Rightarrow> []))) new_builder else new_builder"
  let ?d = "push_all (map DetachSnapshotDomain (st_domains st)) ?c"
  let ?e = "case address_hostname (ss_address site) of Some h \<Rightarrow> unprotect s h ?d | None \<Rightarrow> ?d"
  have "list_all (\<lambda>x. class_of x = AddressClass) (b_steps ?d)"
    by (auto simp: list_all_iff)
  then have r: "\<forall>x \<in> set (b_steps ?d). ?rank (class_of x) = 0" by (simp add: list_all_iff)
  then have "sorted (map (?rank \<circ> class_of) (b_steps ?d))" by (intro sorted_const[of _ _ 0]) simp
  with r have d: "staged ?rank 0 ?d" by (simp add: staged_def del: builder_simps)
  have "grew X s {LoginClass} ?d ?e" by (auto intro: unprotect_step allowed.refl split: option.splits)
  then have e: "staged ?rank 1 ?e" by (rule staged_grew[OF d]) auto
  have b': "delete_site s site new_builder = (if st_exists st then push (DeleteSnapshotWorker (ss_id site) (ss_script site)) ?e else ?e)"
    using Some by (simp add: delete_site_def Let_def)
  have "grew X s {WorkerClass} ?e (delete_site s site new_builder)"
  proof (cases "st_exists st")
    case True
    with st have "permitted X s before c (DeleteSnapshotWorker (ss_id site) (ss_script site))" for before c
      by (auto simp: site_known_def)
    with True b' show ?thesis by (simp add: push_grew allowed.refl)
  next
    case False
    with b' show ?thesis by (simp add: allowed.refl)
  qed
  then show ?thesis by (rule staged_grew[OF e]) auto
qed

lemma add_network_staged:
  assumes "plan_add_network X s net new_builder = Inr b'" shows "staged (stage (AddNetwork net)) 1 b'"
proof (cases "find (\<lambda>r. route_range X r = Some net) (vnet_routes s)")
  case (Some x)
  with assms show ?thesis by (auto simp: plan_add_network_def split: if_splits)
next
  case None
  let ?b = "fold warn (overlap_warnings X s net)
    (if \<not> is_private X net then warn (PublicNetwork (ipnet_show X net)) (require_confirmation new_builder) else new_builder)"
  have w: "b_steps (fold warn ws x) = b_steps x" for ws x by (induction ws arbitrary: x) auto
  have b: "b_steps ?b = []" by (simp add: w)
  obtain t c where t: "ensure_tunnel s ?b = (t, c)" by force
  have "b' = push (CreateNetworkRoute net t) c"
    using assms None t by (auto simp: plan_add_network_def Let_def)
  then show ?thesis using t b by (auto simp: staged_def ensure_tunnel_def split: option.splits)
qed

lemma add_private_hostname_staged:
  assumes "plan_add_private_hostname s h new_builder = Inr b'"
  shows "staged (stage (AddPrivateHostname h)) 1 b'"
proof (cases "private_hostname_routes s h")
  case (Cons x xs)
  with assms show ?thesis by (auto simp: plan_add_private_hostname_def split: if_splits)
next
  case Nil
  let ?b = "if list_ex (\<lambda>z. is_in_zone h (zone_name z)) (sn_zones s)
    then warn (PublicHostname h) (require_confirmation new_builder) else new_builder"
  have b: "b_steps ?b = []" by simp
  obtain t c where t: "ensure_tunnel s ?b = (t, c)" by force
  have "b' = push (CreateHostnameRoute h t) c"
    using assms Nil t by (auto simp: plan_add_private_hostname_def Let_def)
  then show ?thesis using t b by (auto simp: staged_def ensure_tunnel_def split: option.splits)
qed

lemma revoke_token_staged:
  assumes "revoke_token s h i new_builder = Inr b'" shows "staged (stage (RevokeServiceToken h i)) 1 b'"
proof -
  obtain t c where "b' = push (DeleteServiceToken t) c" and "list_all (\<lambda>x. class_of x = LoginClass) (b_steps c)"
    using assms by (auto simp: revoke_token_def res_simps Let_def split: option.splits if_splits)
  then show ?thesis by (auto simp: staged_def sorted_append list_all_iff intro!: sorted_const[of _ _ 0])
qed

lemma inbox_staged:
  assumes "front_inbox X s h text settings secret new_builder = Inr b'"
  shows "staged (stage (SetInbox h text settings secret)) 1 b'"
proof (cases settings)
  case None
  obtain path where path: "clean_inbox_path text = Inr path" using assms by (auto simp: front_inbox_def res_simps)
  obtain found c where c: "front_remove s h FrontInbox path new_builder = (found, c)" by force
  have "c = b'" using assms None path c by (simp add: front_inbox_def split: if_splits)
  then have "grew X s {FrontClass} new_builder b'" using front_remove_grew[OF c allowed.refl] by simp
  then show ?thesis by (rule staged_grew[OF staged_new[of _ 0]]) auto
next
  case (Some given)
  obtain d c where d: "database s new_builder = (d, c)" by force
  obtain path set where p: "front_put X s h (InboxConfig path set) (Some d) secret c = Inr b'"
    using assms Some d by (auto simp: front_inbox_def res_simps)
  have c: "grew X s {DatabaseClass} new_builder c" "database_known s (b_steps c) d"
    using database_grew[OF d allowed.refl] by auto
  have c2: "staged (stage (SetInbox h text settings secret)) 0 c" by (rule staged_grew[OF staged_new[of _ 0] c(1)]) auto
  have "grew X s {FrontClass} c b'" by (rule front_put_grew[OF p allowed.refl]) (use c in simp_all)
  then show ?thesis by (rule staged_grew[OF c2]) auto
qed

subsection \<open>Every change\<close>

lemmas arms_staged = add_route_staged import_routes_staged remove_route_staged remove_tunnel_staged
  clean_up_staged publish_staged add_network_staged add_private_hostname_staged revoke_token_staged
  inbox_staged

lemma plan_steps_staged:
  assumes "plan_steps X s i new_builder = Inr b"
  shows "sorted (map (stage i \<circ> class_of) (b_steps b))"
  using assms
  by (cases i) (auto dest!: arms_staged[THEN staged_sorted]
    intro: staged_sorted[OF delete_site_staged] staged_constant)


end
