(* ===== verification/Plan_Effects.thy ===== *)
theory Plan_Effects
  imports Plan_Order
begin

text \<open>
  What a plan achieves. \<open>routes_wanted\<close> says, for each kind of change, which rules the tunnel is
  to route afterwards; the configuration a plan writes (or leaves) routes exactly those. What a
  removal leaves behind is stated too: nothing of the route's records, logins, Workers, tokens
  and private networks.
\<close>

subsection \<open>The configuration after a plan\<close>

fun put_of :: "step \<Rightarrow> ingress_rule list option" where
  "put_of (PutConfig _ ingress _ _) = Some ingress"
| "put_of _ = None"

definition puts :: "step list \<Rightarrow> ingress_rule list list" where
  "puts sts = List.map_filter put_of sts"

definition ingress_after :: "snapshot \<Rightarrow> step list \<Rightarrow> ingress_rule list" where
  "ingress_after s sts = (case puts sts of [] \<Rightarrow> current_ingress s | xs \<Rightarrow> last xs)"

text \<open>The route list an import leaves: each route that is not there yet is added.\<close>

definition import_wanted :: "route_spec \<Rightarrow> ingress_rule list \<Rightarrow> ingress_rule list" where
  "import_wanted r rules = (if has_route_at rules (rt_hostname r) (rt_path r) then rules else rules @ [to_rule r])"

fun routes_wanted :: "snapshot \<Rightarrow> intent \<Rightarrow> ingress_rule list" where
  "routes_wanted s (AddRoute r) = import_wanted r (routes s)"
| "routes_wanted s (ImportRoutes rs) = fold import_wanted rs (routes s)"
| "routes_wanted s (UpdateRoute h path r) = replace_route (routes s) h path r"
| "routes_wanted s (RemoveRoute h path) = filter (\<lambda>r. \<not> same_route r h path) (routes s)"
| "routes_wanted s RemoveTunnel = []"
| "routes_wanted s (RestoreConfig ingress) = routed ingress"
| "routes_wanted s _ = routes s"

lemma routes_routed: "routes s = routed (current_ingress s)"
  by (simp add: routes_def current_ingress_def routed_def split: option.splits)

lemma puts_append [simp]: "puts (xs @ ys) = puts xs @ puts ys"
  by (simp add: puts_def map_filter_def)

lemma puts_Nil [simp]: "puts [] = []"
  by (simp add: puts_def map_filter_def)

lemma put_of_class: "put_of st \<noteq> None \<longleftrightarrow> class_of st = ConfigClass"
  by (cases st) auto

lemma puts_other: "\<forall>st \<in> set sts. class_of st \<noteq> ConfigClass \<Longrightarrow> puts sts = []"
proof (induction sts)
  case (Cons st sts)
  then show ?case using put_of_class[of st] by (simp add: puts_def map_filter_def)
qed simp

lemma puts_grew:
  assumes "grew X s K b b'" and "ConfigClass \<notin> K"
  shows "puts (b_steps b') = puts (b_steps b)"
proof -
  obtain sts where "b_steps b' = b_steps b @ sts" and "all_ok (allowed X s K) (b_steps b) (b_confirm b') sts"
    using assms(1) by (auto simp: grows_def)
  moreover from this have "puts sts = []"
    using assms(2) by (intro puts_other) (auto simp: allowed_def dest!: all_okD)
  ultimately show ?thesis by simp
qed

lemma puts_put_config:
  "puts (b_steps (put_config s t desired b)) =
     puts (b_steps b) @ (if sort_ingress desired \<noteq> current_ingress s then [sort_ingress desired] else [])"
  by (auto simp: put_config_def Let_def current_ingress_def puts_def map_filter_def split: option.splits)

text \<open>The builder's configuration: none written yet, or this one.\<close>

definition config_is :: "snapshot \<Rightarrow> ingress_rule list \<Rightarrow> builder \<Rightarrow> bool" where
  "config_is s ingress b \<longleftrightarrow> ingress_after s (b_steps b) = ingress"

lemma config_put: "puts (b_steps b) = [] \<Longrightarrow> config_is s (sort_ingress desired) (put_config s t desired b)"
  by (simp add: config_is_def ingress_after_def puts_put_config)

lemma config_grew: "config_is s d b \<Longrightarrow> grew X s K b b' \<Longrightarrow> ConfigClass \<notin> K \<Longrightarrow> config_is s d b'"
  by (simp add: config_is_def ingress_after_def puts_grew)

lemma config_routes: "config_is s (sort_ingress desired) b \<Longrightarrow> mset (routed (ingress_after s (b_steps b))) = mset (routed desired)"
  by (simp add: config_is_def)

lemma config_same: "grew X s K new_builder b \<Longrightarrow> ConfigClass \<notin> K \<Longrightarrow> mset (routed (ingress_after s (b_steps b))) = mset (routes s)"
  by (simp add: ingress_after_def puts_grew routes_routed)

lemma to_rule_simps [simp]: "rule_hostname (to_rule r) = Some (rt_hostname r)" "rule_path (to_rule r) = rt_path r"
  "rule_service (to_rule r) = rt_origin r" "rule_origin_request (to_rule r) = rt_options r"
  by (simp_all add: to_rule_def)

lemma routed_routes [simp]: "routed (routes s) = routes s"
  by (simp add: routes_routed)

lemma routed_id: "\<forall>r \<in> set rs. rule_hostname r \<noteq> None \<Longrightarrow> routed rs = rs"
  by (simp add: routed_def filter_id_conv)

lemma routes_hostnames: "r \<in> set (routes s) \<Longrightarrow> rule_hostname r \<noteq> None"
  by (simp add: routes_routed)

subsection \<open>Each change\<close>

lemma add_route_routes:
  assumes "plan_add_route s r new_builder = Inr b'"
  shows "mset (routed (ingress_after s (b_steps b'))) = mset (routes_wanted s (AddRoute r))"
proof -
  obtain X :: externals where "X = X" by blast
  have after: "mset (routed (ingress_after s (b_steps b'))) = mset (routed d)"
    if "config_is s (sort_ingress d) f" and "serve s (rt_hostname r) t (rt_id r) f = Inr e"
      and "b' = verify_route r e" and "tunnel_known s (b_steps f) t" for d f t e
  proof -
    have "grew X s {RecordClass, BalanceClass} f e" using serve_grew[OF that(2) allowed.refl _ _ that(4)] by simp
    with that(1) have "config_is s (sort_ingress d) e" by (rule config_grew) simp
    moreover have "grew X s {VerifyClass} e b'" unfolding that(3) by (intro verify_route_grew allowed.refl) simp
    ultimately have "config_is s (sort_ingress d) b'" by (rule config_grew) simp
    then show ?thesis by (rule config_routes)
  qed
  show ?thesis
  proof (cases "find (\<lambda>x. same_route x (rt_hostname r) (rt_path r)) (routes s)")
    case None
    obtain t c where t: "ensure_tunnel s (remote_origin_warning r new_builder) = (t, c)" by force
    let ?b = "remote_origin_warning r new_builder"
    obtain d e where d: "protect_route s r c = Inr d"
      and e: "serve s (rt_hostname r) t (rt_id r) (put_config s t (routes s @ [to_rule r]) d) = Inr e"
      and b': "b' = verify_route r e"
      using None assms t by (auto simp: plan_add_route_def Let_def res_simps)
    note c = ensure_tunnel_step[OF t, of X]
    have d1: "grew X s {LoginClass} c d" using protect_route_grew[OF d allowed.refl] by simp
    have "puts (b_steps ?b) = []" by (simp add: remote_origin_warning_def)
    then have "puts (b_steps d) = []" using puts_grew c d1 by fastforce
    then have p: "config_is s (sort_ingress (routes s @ [to_rule r])) (put_config s t (routes s @ [to_rule r]) d)"
      by (rule config_put)
    have k: "tunnel_known s (b_steps d) t" using c d1 tunnel_known_grows by blast
    have "tunnel_known s (b_steps (put_config s t (routes s @ [to_rule r]) d)) t"
      by (rule tunnel_known_grows[OF k put_config_grew[OF allowed.refl[of X s UNIV]]]) (use k in simp_all)
    from after[OF p e b' this] have "mset (routed (ingress_after s (b_steps b'))) = mset (routed (routes s @ [to_rule r]))" .
    moreover have "routed (routes s @ [to_rule r]) = routes s @ [to_rule r]" by (intro routed_id) (auto dest: routes_hostnames)
    moreover have "\<not> has_route_at (routes s) (rt_hostname r) (rt_path r)"
      using None by (auto simp: has_route_at_def list_ex_iff find_None_iff)
    ultimately show ?thesis by (simp add: import_wanted_def)
  next
    case (Some x)
    have "grew X s {TunnelClass, LoginClass, RecordClass, BalanceClass, VerifyClass} new_builder b'"
    proof -
      obtain t c where t: "ensure_tunnel s new_builder = (t, c)" by force
      obtain d e where d: "protect_route s r c = Inr d" and e: "serve s (rt_hostname r) t (rt_id r) d = Inr e"
        and b': "b' = verify_route r e"
        using Some assms t by (auto simp: plan_add_route_def Let_def res_simps split: if_splits)
      let ?K = "{TunnelClass, LoginClass, RecordClass, BalanceClass, VerifyClass}"
      have c: "grew X s ?K new_builder c" "tunnel_known s (b_steps c) t"
        using ensure_tunnel_grew[OF t allowed.refl] by auto
      have d1: "grew X s ?K c d" using protect_route_grew[OF d allowed.refl] by simp
      have "grew X s ?K d e" using serve_grew[OF e allowed.refl _ _ tunnel_known_grows[OF c(2) d1]] by simp
      then have "grew X s ?K new_builder e" using c(1) d1 allowed.trans by blast
      then show ?thesis unfolding b' by (intro verify_route_grew) simp_all
    qed
    then have "mset (routed (ingress_after s (b_steps b'))) = mset (routes s)" by (rule config_same) simp
    moreover have "has_route_at (routes s) (rt_hostname r) (rt_path r)"
      using Some by (auto simp: has_route_at_def list_ex_iff dest: find_SomeD)
    ultimately show ?thesis by (simp add: import_wanted_def)
  qed
qed

lemma import_desired:
  assumes "efold (import_route s) rs (rules, b) = Inr (desired, c)"
  shows "desired = fold import_wanted rs rules \<and> puts (b_steps c) = puts (b_steps b)"
  using assms
proof (induction rs arbitrary: rules b)
  case (Cons r rs)
  obtain rules' b' where 1: "import_route s r (rules, b) = Inr (rules', b')"
    and 2: "efold (import_route s) rs (rules', b') = Inr (desired, c)"
    using Cons.prems by (auto simp: res_simps)
  have "rules' = import_wanted r rules \<and> b_steps b' = b_steps b"
    using 1 by (auto simp: import_route_def res_simps import_wanted_def has_route_at_def list_ex_iff
        find_None_iff remote_origin_warning_def dest: find_SomeD split: option.splits if_splits)
  with Cons.IH[OF 2] show ?case by simp
qed simp

lemma import_wanted_hostnames:
  "\<forall>r \<in> set rules. rule_hostname r \<noteq> None \<Longrightarrow> \<forall>r \<in> set (fold import_wanted rs rules). rule_hostname r \<noteq> None"
proof (induction rs arbitrary: rules)
  case (Cons r rs)
  have "\<forall>x \<in> set (import_wanted r rules). rule_hostname x \<noteq> None"
    using Cons.prems by (auto simp: import_wanted_def)
  then show ?case using Cons.IH by simp
qed simp

lemma import_routes_routes:
  assumes "plan_import_routes s rs new_builder = Inr b'"
  shows "mset (routed (ingress_after s (b_steps b'))) = mset (routes_wanted s (ImportRoutes rs))"
proof -
  obtain X :: externals where "X = X" by blast
  let ?K = "{RecordClass, VerifyClass}"
  obtain desired c where c: "efold (import_route s) rs (routes s, new_builder) = Inr (desired, c)"
    using assms by (auto simp: plan_import_routes_def res_simps)
  note des = import_desired[OF c]
  obtain t d where t: "ensure_tunnel s c = (t, d)" by force
  let ?p = "put_config s t desired d"
  obtain e where e: "efold (\<lambda>r. ensure_dns s (rt_hostname r) t (rt_id r)) (first_per_hostname [] rs) ?p = Inr e"
    and b': "b' = fold verify_route (first_per_hostname [] rs) e"
    using assms c t by (auto simp: plan_import_routes_def res_simps Let_def)
  note d = ensure_tunnel_step[OF t, of X]
  have "puts (b_steps d) = []" using puts_grew[of X s "{TunnelClass}" c d] d des by simp
  then have p: "config_is s (sort_ingress desired) ?p" by (rule config_put)
  have known: "tunnel_known s (b_steps ?p) t"
    by (rule tunnel_known_grows[of s d, OF _ put_config_grew[OF allowed.refl[of X s UNIV]]]) (use d in simp_all)
  have "grew X s ?K ?p e"
    using e allowed.refl
  proof (rule allowed.efoldI)
    fix r u v assume u: "grew X s ?K ?p u" and v: "ensure_dns s (rt_hostname r) t (rt_id r) u = Inr v"
    have "tunnel_known s (b_steps u) t" by (rule tunnel_known_grows[OF known u])
    then show "grew X s ?K u v" by (intro ensure_dns_grew[OF v allowed.refl]) simp_all
  qed
  then have "grew X s ?K ?p b'" unfolding b' by (intro fold_grew verify_route_grew allowed.refl) simp_all
  with p have "config_is s (sort_ingress desired) b'" by (rule config_grew) simp
  then have "mset (routed (ingress_after s (b_steps b'))) = mset (routed desired)" by (rule config_routes)
  moreover have "routed desired = desired"
    using des import_wanted_hostnames[of "routes s" rs] routes_hostnames by (intro routed_id) simp
  ultimately show ?thesis using des by simp
qed

lemma update_route_routes:
  assumes "plan_update_route s h path r new_builder = Inr b'"
  shows "mset (routed (ingress_after s (b_steps b'))) = mset (routes_wanted s (UpdateRoute h path r))"
proof -
  obtain X :: externals where "X = X" by blast
  let ?K = "{LoginClass, RecordClass, LeaseClass, VerifyClass}"
  obtain t c d where t: "sn_tunnel s = Some t" and c: "protect_route s r (remote_origin_warning r new_builder) = Inr c"
    and d: "ensure_dns s (rt_hostname r) (Existing (tun_id t)) (rt_id r)
              (put_config s (Existing (tun_id t)) (replace_route (routes s) h path r) c) = Inr d"
    and b': "b' = verify_route r (drop_old_login s h path r
        (if h \<noteq> rt_hostname r \<and> \<not> list_ex (\<lambda>x. rule_hostname x = Some h \<and> \<not> same_route x h path) (routes s)
         then release_dns s h (tun_id t) d else d))"
    using assms by (auto simp: plan_update_route_def res_simps Let_def dest!: own_tunnelD)
  let ?d = "replace_route (routes s) h path r"
  have "grew X s ?K (remote_origin_warning r new_builder) c" using protect_route_grew[OF c allowed.refl] by simp
  then have "puts (b_steps c) = []" by (auto simp: remote_origin_warning_def dest!: puts_grew)
  then have "config_is s (sort_ingress ?d) (put_config s (Existing (tun_id t)) ?d c)" by (rule config_put)
  moreover have d': "grew X s ?K (put_config s (Existing (tun_id t)) ?d c) d"
    using ensure_dns_grew[OF d allowed.refl] own_tunnel_known[OF t] by simp
  have "grew X s ?K (put_config s (Existing (tun_id t)) ?d c) b'"
    unfolding b' drop_old_login_def Let_def using d' by (auto intro!: grow split: option.splits)
  ultimately have "config_is s (sort_ingress ?d) b'" by (rule config_grew) simp
  then have "mset (routed (ingress_after s (b_steps b'))) = mset (routed ?d)" by (rule config_routes)
  moreover have "routed ?d = ?d" by (intro routed_id) (auto simp: replace_route_def dest: routes_hostnames)
  ultimately show ?thesis by simp
qed

lemma remove_route_routes:
  assumes "plan_remove_route X s h path new_builder = Inr b'"
  shows "mset (routed (ingress_after s (b_steps b'))) = mset (routes_wanted s (RemoveRoute h path))"
proof -
  let ?K = "{RecordClass, LeaseClass, BalanceClass, LoginClass, FrontClass, EdgeClass, TokenClass}"
  let ?desired = "filter (\<lambda>r. \<not> same_route r h path) (routes s)"
  obtain t where t: "sn_tunnel s = Some t" using assms by (auto simp: plan_remove_route_def res_simps dest!: own_tunnelD)
  let ?c = "put_config s (Existing (tun_id t)) ?desired (if ?desired = [] then warn TunnelEmpty new_builder else new_builder)"
  obtain el d where d: "(if routes_hostname ?desired h then (False, ?c)
      else leave_pool s h (release_dns s h (tun_id t) ?c)) = (el, d)" by force
  have c: "config_is s (sort_ingress ?desired) ?c" by (rule config_put) simp
  have d': "grew X s ?K ?c d"
  proof (cases "routes_hostname ?desired h")
    case True
    with d show ?thesis by (auto intro: allowed.refl)
  next
    case False
    with d have l: "leave_pool s h (release_dns s h (tun_id t) ?c) = (el, d)" by simp
    show ?thesis by (rule leave_pool_grew[OF l release_dns_grew[OF allowed.refl]]) simp_all
  qed
  let ?e = "case access_domain h path of Inr x \<Rightarrow> unprotect s x d | Inl _ \<Rightarrow> d"
  have e: "grew X s ?K ?c ?e" using d' by (auto intro!: unprotect_grew split: sum.splits)
  have "(if \<not> routes_hostname ?desired h \<and> \<not> el then release_hostname X s h ?e else Inr ?e) = Inr b'"
    using assms t d by (auto simp: plan_remove_route_def own_tunnel_def res_simps Let_def)
  then have "grew X s ?K ?c b'" using e by (auto intro: release_hostname_grew split: if_splits)
  with c have "config_is s (sort_ingress ?desired) b'" by (rule config_grew) simp
  then have "mset (routed (ingress_after s (b_steps b'))) = mset (routed ?desired)" by (rule config_routes)
  moreover have "routed ?desired = ?desired" by (intro routed_id) (auto dest: routes_hostnames)
  ultimately show ?thesis by simp
qed

lemma restore_config_routes:
  "plan_restore_config s ingress new_builder = Inr b' \<Longrightarrow>
     mset (routed (ingress_after s (b_steps b'))) = mset (routes_wanted s (RestoreConfig ingress))"
  using config_routes[OF config_put[of new_builder s "routed ingress"]]
  by (auto simp: plan_restore_config_def res_simps routed_def dest!: own_tunnelD)

lemma remove_tunnel_tail:
  assumes "plan_remove_tunnel X s new_builder = Inr b'"
  shows "\<exists>t p. sn_tunnel s = Some t
    \<and> p = (if routes s \<noteq> [] then put_config s (Existing (tun_id t)) [] new_builder else new_builder)
    \<and> grew X s {RecordClass, LeaseClass, FrontClass, EdgeClass, LoginClass, TokenClass, NetworkClass, StopClass} p b'"
proof -
  let ?K = "{RecordClass, LeaseClass, FrontClass, EdgeClass, LoginClass, TokenClass, NetworkClass, StopClass}"
  let ?names = "routed_hostnames s"
  obtain t d where t: "sn_tunnel s = Some t"
    and d: "efold (release_resolving X s (tun_id t)) ?names (fold (\<lambda>h. release_dns s h (tun_id t)) ?names
      (if routes s \<noteq> [] then put_config s (Existing (tun_id t)) [] new_builder else new_builder)) = Inr d"
    and b': "b' = push (DeleteTunnel (tun_id t)) (push (StopConnector (tun_id t)) (push_all (map DeleteHostnameRoute
                  (case sn_networks s of Some n \<Rightarrow> hostnames_of_tunnel n (tun_id t) | None \<Rightarrow> []))
           (push_all (map DeleteNetworkRoute
                  (case sn_networks s of Some n \<Rightarrow> of_tunnel n (tun_id t) | None \<Rightarrow> []))
             (push_all (map DeleteServiceToken (doomed_tokens s ?names)) (fold (unprotect s) (owned_domains s) d)))))"
    using assms by (rule remove_tunnelE)
  let ?p = "if routes s \<noteq> [] then put_config s (Existing (tun_id t)) [] new_builder else new_builder"
  let ?c = "fold (\<lambda>h. release_dns s h (tun_id t)) ?names ?p"
  have c: "grew X s ?K ?p ?c" by (intro fold_grew release_dns_grew allowed.refl) simp_all
  have d': "grew X s ?K ?p d"
    using d c
  proof (rule allowed.efoldI)
    fix h u v assume "release_resolving X s (tun_id t) h u = Inr v"
    then show "grew X s ?K u v"
      by (auto simp: release_resolving_def intro: release_workers_grew allowed.refl split: sum.splits if_splits)
  qed
  have e: "grew X s ?K ?p (fold (unprotect s) (owned_domains s) d)"
    using d' by (intro fold_grew unprotect_grew allowed.refl) simp_all
  have f: "grew X s ?K ?p (push_all (map DeleteServiceToken (doomed_tokens s ?names)) (fold (unprotect s) (owned_domains s) d))"
    unfolding doomed_tokens_def using e by (intro push_tokens_grew) simp_all
  have "grew X s ?K ?p b'" unfolding b'
    using push_networks_grew[OF f _ t] t by (intro push_grew) (auto simp: own_tunnel_id_def)
  with t show ?thesis by blast
qed

lemma remove_tunnel_routes:
  assumes "plan_remove_tunnel X s new_builder = Inr b'"
  shows "mset (routed (ingress_after s (b_steps b'))) = mset (routes_wanted s RemoveTunnel)"
proof -
  let ?K = "{RecordClass, LeaseClass, FrontClass, EdgeClass, LoginClass, TokenClass, NetworkClass, StopClass}"
  obtain t p where t: "sn_tunnel s = Some t"
    and p: "p = (if routes s \<noteq> [] then put_config s (Existing (tun_id t)) [] new_builder else new_builder)"
    and g: "grew X s ?K p b'"
    using remove_tunnel_tail[OF assms] by blast
  show ?thesis
  proof (cases "routes s = []")
    case True
    with p g have "mset (routed (ingress_after s (b_steps b'))) = mset (routes s)" by (intro config_same) auto
    with True show ?thesis by simp
  next
    case False
    with p have "config_is s (sort_ingress []) p" by (auto intro: config_put)
    then have "config_is s (sort_ingress []) b'" using g by (rule config_grew) simp
    from config_routes[OF this] show ?thesis by (simp add: routed_def)
  qed
qed

lemma plan_steps_routes:
  assumes "plan_steps X s i new_builder = Inr b"
  shows "mset (routed (ingress_after s (b_steps b))) = mset (routes_wanted s i)"
proof (cases "ConfigClass \<in> classes_of i")
  case True
  with assms show ?thesis
    by (cases i) (auto dest: add_route_routes import_routes_routes update_route_routes remove_route_routes
        remove_tunnel_routes restore_config_routes)
next
  case False
  have "mset (routed (ingress_after s (b_steps b))) = mset (routes s)"
    by (rule config_same[OF plan_steps_grew[OF assms] False])
  with False show ?thesis by (cases i) auto
qed

lemma puts_finish: "(if list_ex is_mutation sts then sts else []) = sts' \<Longrightarrow> puts sts' = puts sts"
proof (cases "list_ex is_mutation sts")
  case False
  have "class_of st \<noteq> ConfigClass" if "st \<in> set sts" for st
    using False that by (cases st) (auto simp: list_ex_iff)
  then have "puts sts = []" by (intro puts_other) blast
  then show "(if list_ex is_mutation sts then sts else []) = sts' \<Longrightarrow> puts sts' = puts sts" using False by auto
qed simp

text \<open>C4: The configuration a plan leaves the tunnel with routes exactly the rules the change
  asks for: the new route added, replaced or removed, every other route kept, and nothing for a
  tunnel that goes; a change that is not about routes leaves them alone.\<close>

theorem plan_routes:
  assumes "plan X J i s = Inr p"
  shows "mset (routed (ingress_after s (pl_steps p))) = mset (routes_wanted s i)"
proof -
  obtain b where b: "plan_steps X s i new_builder = Inr b"
    and "pl_steps p = (if list_ex is_mutation (b_steps b) then b_steps b else [])"
    using planD[OF assms] by blast
  then have "puts (pl_steps p) = puts (b_steps b)" using puts_finish by metis
  with plan_steps_routes[OF b] show ?thesis by (simp add: ingress_after_def)
qed

subsection \<open>What a removal leaves\<close>

lemma grows_set: "grows ok b b' \<Longrightarrow> st \<in> set (b_steps b) \<Longrightarrow> st \<in> set (b_steps b')"
  by (auto simp: grows_def)

lemma fold_reaches:
  assumes "x \<in> set xs" and "\<And>b. Q (f x b)" and "\<And>y b. Q b \<Longrightarrow> Q (f y b)"
  shows "Q (fold f xs b)"
  using assms(1)
proof (induction xs arbitrary: b)
  case (Cons y ys)
  have keep: "Q b \<Longrightarrow> Q (fold f ys b)" for b by (rule fold_invariant_on) (auto intro: assms(3))
  show ?case using Cons keep assms(2) by (cases "x = y") auto
qed simp

lemma restore_kept: "set (b_steps b) \<subseteq> set (b_steps (restore s r b))"
  by (auto simp: restore_def split: option.splits)

lemma release_record_kept: "set (b_steps b) \<subseteq> set (b_steps (release_record s h r b))"
  using restore_kept[of "push (DeleteRecord (obs_zone_id r) (obs_record r)) b" s r]
  by (auto simp: release_record_def)

lemma release_dns_kept: "set (b_steps b) \<subseteq> set (b_steps (release_dns s h tid b))"
  unfolding release_dns_def
  by (rule fold_invariant_on) (use release_record_kept in blast)+

lemma release_dns_deletes:
  assumes "r \<in> set (records_named s h)" and "obs_owned r" and "eq_ic (rec_content (obs_record r)) (tunnel_target tid)"
  shows "DeleteRecord (obs_zone_id r) (obs_record r) \<in> set (b_steps (release_dns s h tid b))"
  unfolding release_dns_def
proof (rule fold_reaches[where x = r])
  show "DeleteRecord (obs_zone_id r) (obs_record r) \<in> set (b_steps (release_record s h r b))" for b
    using restore_kept[of "push (DeleteRecord (obs_zone_id r) (obs_record r)) b" s r] assms(2)
    by (simp add: release_record_def)
  show "DeleteRecord (obs_zone_id r) (obs_record r) \<in> set (b_steps (release_record s h y b))"
    if "DeleteRecord (obs_zone_id r) (obs_record r) \<in> set (b_steps b)" for y b
    using that release_record_kept by blast
qed (use assms in simp)

lemma unprotect_kept: "set (b_steps b) \<subseteq> set (b_steps (unprotect s d b))"
proof -
  obtain X :: externals where "X = X" by blast
  show ?thesis using unprotect_step[of X s b d] grows_set by blast
qed

lemma unprotect_deletes:
  "find_app s d = Some a \<Longrightarrow> oa_owned a \<Longrightarrow>
     DeleteAccessApp (oa_id a) (oa_definition a) \<in> set (b_steps (unprotect s d b))"
  by (simp add: unprotect_def Let_def)

text \<open>C5: Removing the tunnel ends with stopping the connector and deleting the tunnel, and before
  that deletes every record this machine owns that points a routed hostname at it, every login of
  ours, every service token made for a routed hostname, and every private network and private
  hostname that goes through it.\<close>

theorem remove_tunnel_complete:
  assumes "plan X J RemoveTunnel s = Inr p" and "sn_tunnel s = Some t"
  shows "\<exists>sts. pl_steps p = sts @ [StopConnector (tun_id t), DeleteTunnel (tun_id t)]
    \<and> (\<forall>h \<in> set (routed_hostnames s). \<forall>r \<in> set (records_named s h).
          obs_owned r \<and> eq_ic (rec_content (obs_record r)) (tunnel_target (tun_id t))
            \<longrightarrow> DeleteRecord (obs_zone_id r) (obs_record r) \<in> set sts)
    \<and> (\<forall>d \<in> set (owned_domains s). \<forall>a. find_app s d = Some a \<and> oa_owned a
            \<longrightarrow> DeleteAccessApp (oa_id a) (oa_definition a) \<in> set sts)
    \<and> DeleteServiceToken ` set (doomed_tokens s (routed_hostnames s)) \<subseteq> set sts
    \<and> (\<forall>n. sn_networks s = Some n \<longrightarrow> DeleteNetworkRoute ` set (of_tunnel n (tun_id t)) \<subseteq> set sts
            \<and> DeleteHostnameRoute ` set (hostnames_of_tunnel n (tun_id t)) \<subseteq> set sts)"
proof -
  let ?names = "routed_hostnames s"
  obtain b where b: "plan_steps X s RemoveTunnel new_builder = Inr b"
    and p: "pl_steps p = (if list_ex is_mutation (b_steps b) then b_steps b else [])"
    using planD[OF assms(1)] by blast
  obtain d where d: "efold (release_resolving X s (tun_id t)) ?names (fold (\<lambda>h. release_dns s h (tun_id t)) ?names
      (if routes s \<noteq> [] then put_config s (Existing (tun_id t)) [] new_builder else new_builder)) = Inr d"
    and b': "b = push (DeleteTunnel (tun_id t)) (push (StopConnector (tun_id t)) (push_all (map DeleteHostnameRoute
                  (case sn_networks s of Some n \<Rightarrow> hostnames_of_tunnel n (tun_id t) | None \<Rightarrow> []))
           (push_all (map DeleteNetworkRoute
                  (case sn_networks s of Some n \<Rightarrow> of_tunnel n (tun_id t) | None \<Rightarrow> []))
             (push_all (map DeleteServiceToken (doomed_tokens s ?names)) (fold (unprotect s) (owned_domains s) d)))))"
  proof -
    have "plan_remove_tunnel X s new_builder = Inr b" using b by simp
    then show ?thesis by (rule remove_tunnelE) (rule that, use assms(2) in \<open>simp_all only: option.inject\<close>)
  qed
  define c where "c = fold (\<lambda>h. release_dns s h (tun_id t)) ?names
      (if routes s \<noteq> [] then put_config s (Existing (tun_id t)) [] new_builder else new_builder)"
  define e where "e = fold (unprotect s) (owned_domains s) d"
  have "set (b_steps c) \<subseteq> set (b_steps d)"
  proof (rule efold_invariant[OF d[folded c_def], where P = "\<lambda>x. set (b_steps c) \<subseteq> set (b_steps x)"])
    fix h u v assume "release_resolving X s (tun_id t) h u = Inr v" and u: "set (b_steps c) \<subseteq> set (b_steps u)"
    then have "grew X s UNIV u v"
      by (auto simp: release_resolving_def intro: release_workers_grew allowed.refl split: sum.splits if_splits)
    with u show "set (b_steps c) \<subseteq> set (b_steps v)" using grows_set by blast
  qed simp
  moreover have "set (b_steps d) \<subseteq> set (b_steps e)"
    unfolding e_def by (rule fold_invariant_on) (use unprotect_kept in blast)+
  ultimately have ce: "set (b_steps c) \<subseteq> set (b_steps e)" by blast
  have rec: "DeleteRecord (obs_zone_id r) (obs_record r) \<in> set (b_steps e)"
    if "h \<in> set ?names" "r \<in> set (records_named s h)" "obs_owned r"
      "eq_ic (rec_content (obs_record r)) (tunnel_target (tun_id t))" for h r
  proof -
    have "DeleteRecord (obs_zone_id r) (obs_record r) \<in> set (b_steps c)"
      unfolding c_def by (rule fold_reaches[OF that(1)]) (use release_dns_deletes[OF that(2-)] release_dns_kept in blast)+
    with ce show ?thesis by blast
  qed
  have app: "DeleteAccessApp (oa_id a) (oa_definition a) \<in> set (b_steps e)"
    if "x \<in> set (owned_domains s)" "find_app s x = Some a" "oa_owned a" for x a
    unfolding e_def by (rule fold_reaches[OF that(1)]) (use unprotect_deletes[OF that(2,3)] unprotect_kept in blast)+
  have "pl_steps p = b_steps b" using p b' by simp
  with b' have "pl_steps p = (b_steps e @ map DeleteServiceToken (doomed_tokens s ?names)
      @ map DeleteNetworkRoute (case sn_networks s of Some n \<Rightarrow> of_tunnel n (tun_id t) | None \<Rightarrow> [])
      @ map DeleteHostnameRoute (case sn_networks s of Some n \<Rightarrow> hostnames_of_tunnel n (tun_id t) | None \<Rightarrow> []))
      @ [StopConnector (tun_id t), DeleteTunnel (tun_id t)]" by (simp add: e_def)
  moreover have "set (b_steps e) \<subseteq> set (b_steps e @ sts)" for sts by simp
  ultimately show ?thesis using rec app by (intro exI conjI) (assumption | force)+
qed

end
