(* ===== verification/Samples.thy ===== *)
theory Samples
  imports Plan_Effects
begin

text \<open>
  A small account on which the properties of plans are instantiated: a tunnel with two routes,
  records of this machine, of another one and of nobody we know, a login, an edge rule, a
  service token, an offline page, a private network and a published Snapshot. The external
  functions are concrete stand-ins.
\<close>

definition sample_X :: externals where
  "sample_X = \<lparr>idna_to_ascii = Some, regex_new = (\<lambda>_. Inr ()), ipnet_from_str = (\<lambda>_. Some (Net4 10 8)),
     ipnet_trunc = id, ipnet_contains = (\<lambda>a b. a = b), ipnet_show = (\<lambda>_. ''10.0.0.0/8''), sha256 = id\<rparr>"

definition sample_J :: "snapshot \<Rightarrow> string" where
  "sample_J s = sn_account_id s"

definition app_host :: hostname where "app_host = ''app.x.io''"
definition web_host :: hostname where "web_host = ''web.x.io''"
definition new_host :: hostname where "new_host = ''new.x.io''"
definition held_host :: hostname where "held_host = ''held.x.io''"

definition sample_rule :: "hostname \<Rightarrow> ingress_rule" where
  "sample_rule h = \<lparr>rule_hostname = Some h, rule_path = None, rule_service = ''http://localhost:80'',
     rule_origin_request = [], rule_extra = []\<rparr>"

definition sample_tunnel :: observed_tunnel where
  "sample_tunnel = \<lparr>tun_id = ''t1'', tun_name = ''box'', tun_config_version = 3,
     tun_ingress = [sample_rule app_host, sample_rule web_host, catch_all]\<rparr>"

definition sample_record :: "string \<Rightarrow> hostname \<Rightarrow> string \<Rightarrow> string option \<Rightarrow> bool \<Rightarrow> observed_record" where
  "sample_record i h content comment owned = \<lparr>obs_zone_id = ''z1'',
     obs_record = \<lparr>rec_id = i, rec_name = h, rec_kind = ''CNAME'', rec_content = content, rec_proxied = True,
       rec_comment = comment, rec_ttl = 1\<rparr>, obs_owned = owned\<rparr>"

definition sample_login :: observed_app where
  "sample_login = \<lparr>oa_id = ''a1'', oa_domain = app_host, oa_owned = True, oa_rule = None,
     oa_definition = machine_only_definition app_host\<rparr>"

definition sample_limit :: rate_limit_spec where
  "sample_limit = \<lparr>spec_requests = 5, spec_period = 10, spec_action = LimitBlock\<rparr>"

definition sample_protection :: edge_protection where
  "sample_protection = protection_default\<lparr>ep_bots := BotBlock, ep_rate_limit := Some sample_limit\<rparr>"

definition sample_challenge :: observed_rule where
  "sample_challenge = \<lparr>or_id = ''r1'', or_rule =
     snd (hostname_rule sample_X app_host KindChallenge ''managed_challenge'' None None), or_owned = True\<rparr>"

definition sample_edge :: edge_state where
  "sample_edge = \<lparr>es_zone_id = ''z1'', es_zone = ''x.io'', es_plan = PlanPro,
     es_rulesets = [\<lparr>rs_phase = PHASE_CUSTOM, rs_id = Some ''s1'', rs_rules = [sample_challenge]\<rparr>],
     es_cache_readable = True\<rparr>"

definition sample_token :: service_token where
  "sample_token = \<lparr>tok_id = ''k1'', tok_name = ''key'', tok_client_id = ''c1'', tok_expires_at = None,
     tok_owned = True, tok_made_for = Some app_host\<rparr>"

definition sample_page :: offline_page where
  "sample_page = \<lparr>off_title = ''Down'', off_message = ''Back soon'', off_when_app_down = True\<rparr>"

definition sample_front :: front_state where
  "sample_front = \<lparr>fs_hostname = app_host, fs_zone_id = ''z1'',
     fs_fronts = [\<lparr>of_config = OfflineConfig sample_page, of_script = ''tt-offline'', of_exists = True,
       of_route = Some \<lparr>wr_id = ''w1'', wr_pattern = ''app.x.io/*'', wr_script = Some ''tt-offline'', wr_fail_open = None\<rparr>\<rparr>],
     fs_foreign = []\<rparr>"

definition sample_network :: network_route where
  "sample_network = \<lparr>net_id = ''n1'', net_network = ''10.0.0.0/8'', net_tunnel_id = ''t1'', net_tunnel_name = None,
     net_vnet = None, net_comment = []\<rparr>"

definition sample_site :: site_spec where
  "sample_site = \<lparr>ss_id = ''i1'', ss_name = ''site'', ss_script = ''site-1'', ss_address = AtDomain new_host, ss_access = None\<rparr>"

definition sample_settings :: site_settings where
  "sample_settings = \<lparr>set_spa = False, set_password = PasswordOff, set_overlay = None,
     set_comments = Some \<lparr>cm_database = DbCreated, cm_identity = False\<rparr>\<rparr>"

definition sample_content :: site_content where
  "sample_content = \<lparr>sc_root = None, sc_files = [], sc_headers = None, sc_redirects = None\<rparr>"

definition sample_hold :: hold where
  "sample_hold = \<lparr>hold_hostname = held_host, hold_owner = Some ''other'', hold_until = None, hold_kind = Reservation\<rparr>"

definition sample :: snapshot where
  "sample = \<lparr>sn_account_id = ''acc'', sn_machine_name = ''box'', sn_zones = [\<lparr>zone_id = ''z1'', zone_name = ''x.io''\<rparr>],
     sn_tunnel = Some sample_tunnel, sn_tunnel_names = [''box''], sn_elsewhere = [],
     sn_records = [sample_record ''d1'' app_host ''t1.cfargotunnel.com'' None True,
       sample_record ''d2'' web_host ''old.example'' None False,
       sample_record ''d3'' held_host ''100::'' (Some ''teitunnel:lease;by=other'') False],
     sn_access = Some \<lparr>as_organization = Some True, as_login_methods = Some [], as_apps = [sample_login]\<rparr>,
     sn_networks = Some \<lparr>ns_default_vnet = None, ns_routes = [sample_network], ns_hostnames = None\<rparr>,
     sn_balance = None,
     sn_site = Some \<lparr>st_script = ''site-1'', st_exists = False, st_active_version = None, st_workers_dev = False,
       st_subdomain = None, st_domains = [], st_hostname_taken_by = None\<rparr>,
     sn_held = [sample_hold], sn_owner = ''me'', sn_now = 0, sn_edge = [sample_edge],
     sn_service_tokens = Some [sample_token], sn_database = Some \<lparr>db_id = None\<rparr>, sn_front = [sample_front]\<rparr>"

definition sample_route :: "hostname \<Rightarrow> route_spec" where
  "sample_route h = \<lparr>rt_id = ''abc'', rt_hostname = h, rt_path = None, rt_origin = ''http://localhost:80'',
     rt_options = [], rt_access = Some (default_rule\<lparr>ar_emails := [''a@b.c'']\<rparr>)\<rparr>"

definition bare_sample :: snapshot where
  "bare_sample = sample\<lparr>sn_edge := [], sn_front := []\<rparr>"

text \<open>The plan of a change to a sample account.\<close>

definition sample_plan :: "snapshot \<Rightarrow> intent \<Rightarrow> plan" where
  "sample_plan s i = (case plan sample_X sample_J i s of Inr p \<Rightarrow> p
     | Inl _ \<Rightarrow> finish sample_X sample_J s new_builder)"

definition plans :: "snapshot \<Rightarrow> intent \<Rightarrow> bool" where
  "plans s i \<longleftrightarrow> (case plan sample_X sample_J i s of Inr _ \<Rightarrow> True | Inl _ \<Rightarrow> False)"

lemma plans_sample: "plans s i \<Longrightarrow> plan sample_X sample_J i s = Inr (sample_plan s i)"
  by (auto simp: plans_def sample_plan_def split: sum.splits)

end
