(* ===== verification/Plan_Properties.thy ===== *)
theory Plan_Properties
  imports Samples
begin

text \<open>
  What every plan keeps, as properties of \<open>plan\<close>: what it may change of the account, when it
  asks for a confirmation, and that its references can be resolved.
\<close>

lemma list_ex_take:
  assumes "n < length xs" shows "list_ex P (take n xs) \<longleftrightarrow> (\<exists>m < n. P (xs ! m))"
proof -
  have "set (take n xs) = (!) xs ` {..<n}" using assms by (simp add: nth_image[symmetric] lessThan_atLeast0)
  then show ?thesis by (auto simp: list_ex_iff)
qed

subsection \<open>DNS records\<close>

text \<open>
  C2: A plan overwrites a DNS record only if the record was observed as an address record of the
  hostname; if Teitunnel does not own it, or somebody else holds the hostname, the plan asks for
  a confirmation.
\<close>

theorem plan_updates_own_records:
  assumes "plan X J i s = Inr p" and "UpdateRecord z rid h t route prev \<in> set (pl_steps p)"
  shows "\<exists>x \<in> set (address_records s h). obs_record x = prev \<and> rid = rec_id prev
    \<and> (\<not> obs_owned x \<or> held s h \<longrightarrow> pl_requires_confirmation p)"
  using plan_step_permitted[OF assms] by (auto simp: may_replace_def)

lemma plan_updates_own_records_witness:
  "pl_requires_confirmation (sample_plan sample (AddRoute (sample_route web_host)))"
proof -
  let ?i = "AddRoute (sample_route web_host)" and ?r = "sample_record ''d2'' web_host ''old.example'' None False"
  have p: "plan sample_X sample_J ?i sample = Inr (sample_plan sample ?i)" by (rule plans_sample) code_simp
  have m: "UpdateRecord ''z1'' ''d2'' web_host (Existing ''t1'') ''abc'' (obs_record ?r)
      \<in> set (pl_steps (sample_plan sample ?i))" by code_simp
  have "\<forall>x \<in> set (address_records sample web_host). \<not> obs_owned x" by code_simp
  with plan_updates_own_records[OF p m] show ?thesis by blast
qed

text \<open>
  C1: A plan deletes a DNS record only if it was observed and the plan asks for a confirmation,
  or it is this machine's, or it carries a Teitunnel comment and nobody else holds its name.
\<close>

theorem plan_deletes_own_records:
  assumes "plan X J i s = Inr p" and "DeleteRecord z r \<in> set (pl_steps p)"
  shows "\<exists>x \<in> set (sn_records s). obs_record x = r \<and> (pl_requires_confirmation p \<or> obs_owned x
    \<or> (record_ownership x \<noteq> None \<and> \<not> held s (rec_name r)))"
  using plan_step_permitted[OF assms] by (auto simp: may_delete_def)

lemma plan_deletes_own_records_witness:
  "pl_requires_confirmation (sample_plan sample (intent.DeleteRecord ''z1'' web_host ''d2''))"
proof -
  let ?i = "intent.DeleteRecord ''z1'' web_host ''d2''" and ?r = "sample_record ''d2'' web_host ''old.example'' None False"
  have p: "plan sample_X sample_J ?i sample = Inr (sample_plan sample ?i)" by (rule plans_sample) code_simp
  have m: "DeleteRecord ''z1'' (obs_record ?r) \<in> set (pl_steps (sample_plan sample ?i))" by code_simp
  have "x = ?r" if "x \<in> set (sn_records sample)" "obs_record x = obs_record ?r" for x
    using that by (auto simp: sample_def sample_record_def)
  then have x: "\<not> obs_owned x \<and> record_ownership x = None"
    if "x \<in> set (sn_records sample)" "obs_record x = obs_record ?r" for x
  proof -
    have "x = ?r" by (rule \<open>\<And>x. x \<in> set (sn_records sample) \<Longrightarrow> obs_record x = obs_record ?r \<Longrightarrow> x = ?r\<close>) (fact that)+
    then show ?thesis by (simp add: sample_record_def record_ownership_def)
  qed
  from plan_deletes_own_records[OF p m] obtain y where y: "y \<in> set (sn_records sample)" "obs_record y = obs_record ?r"
    "pl_requires_confirmation (sample_plan sample ?i) \<or> obs_owned y
      \<or> (record_ownership y \<noteq> None \<and> \<not> held sample (rec_name (obs_record ?r)))" by (elim bexE conjE) (rule that)
  then show ?thesis using x[OF y(1,2)] by (elim disjE conjE) simp_all
qed



subsection \<open>Logins and service tokens\<close>



text \<open>
  C10: A plan deletes or rotates only service tokens Teitunnel owns, creates one only while the
  account has room for it and no token has its name, and lets a new token into an application
  only after the step that creates it, and only into an application Teitunnel owns.
\<close>

theorem plan_service_tokens:
  assumes "plan X J i s = Inr p" and "n < length (pl_steps p)"
  shows "(\<forall>t. pl_steps p ! n = DeleteServiceToken t \<or> pl_steps p ! n = RotateServiceToken t \<longrightarrow>
        t \<in> set (tokens s) \<and> tok_owned t)
    \<and> (\<forall>h name. pl_steps p ! n = CreateServiceToken h name \<longrightarrow>
        length (tokens s) < MAX_SERVICE_TOKENS \<and> (\<forall>t \<in> set (tokens s). \<not> eq_ic (tok_name t) name))
    \<and> (\<forall>h app tok. pl_steps p ! n = AllowServiceToken h app tok \<longrightarrow>
        tok = TokCreated \<and> (\<exists>m < n. is_create_token (pl_steps p ! m))
        \<and> (\<forall>a d. app = Some (a, d) \<longrightarrow> own_app s a d))"
  using plan_permitted[OF assms] by (auto simp: list_all_iff list_ex_take[OF assms(2)])

lemma plan_service_tokens_witness:
  "\<exists>m < 1. is_create_token (pl_steps (sample_plan sample (intent.CreateServiceToken app_host ''ci'')) ! m)"
proof -
  let ?i = "intent.CreateServiceToken app_host ''ci''"
  have p: "plan sample_X sample_J ?i sample = Inr (sample_plan sample ?i)" by (rule plans_sample) code_simp
  have n: "1 < length (pl_steps (sample_plan sample ?i))" by code_simp
  have "pl_steps (sample_plan sample ?i) ! 1 = AllowServiceToken app_host
      (Some (''a1'', machine_only_definition app_host)) TokCreated" by code_simp
  with plan_service_tokens[OF p n] show ?thesis by (metis (no_types))
qed

subsection \<open>The tunnel and its configuration\<close>

text \<open>
  C8: A plan writes a configuration only to this machine's tunnel, guarded by the version that was
  observed and with the observed rules to go back to; the rules are in the order of
  \<open>sort_ingress\<close>, end with the one catch-all, and differ from the current ones.
\<close>

theorem plan_configuration:
  assumes "plan X J i s = Inr p" and "PutConfig t desired v prev \<in> set (pl_steps p)"
  shows "t = machine_ref s \<and> v = map_option tun_config_version (sn_tunnel s) \<and> prev = current_ingress s
    \<and> desired \<noteq> prev \<and> sort_ingress desired = desired
    \<and> last desired = catch_all \<and> filter (\<lambda>r. rule_hostname r = None) desired = [catch_all]"
proof -
  have "t = machine_ref s \<and> v = map_option tun_config_version (sn_tunnel s) \<and> prev = current_ingress s
    \<and> sort_ingress desired = desired \<and> desired \<noteq> prev"
    using plan_step_permitted[OF assms] by (auto simp: tunnel_known_def)
  then show ?thesis using sort_ingress_catch_all[of desired] by auto
qed

lemma plan_configuration_witness:
  "last [sample_rule app_host, sample_rule web_host, sample_rule new_host, catch_all] = catch_all"
proof -
  let ?i = "AddRoute (sample_route new_host)"
  have p: "plan sample_X sample_J ?i sample = Inr (sample_plan sample ?i)" by (rule plans_sample) code_simp
  have "PutConfig (Existing ''t1'') [sample_rule app_host, sample_rule web_host, sample_rule new_host, catch_all]
      (Some 3) (tun_ingress sample_tunnel) \<in> set (pl_steps (sample_plan sample ?i))" by code_simp
  from plan_configuration[OF p this] show ?thesis by blast
qed


definition fresh :: snapshot where
  "fresh = sample\<lparr>sn_tunnel := None, sn_networks := None\<rparr>"


subsection \<open>Edge rules\<close>

text \<open>
  C11: A plan changes and deletes only edge rules that were observed in the ruleset of their phase
  as Teitunnel's own, with the rule they hold now to go back to; a deletion names the position the
  rule has.
\<close>

theorem plan_edge_rules:
  assumes "plan X J i s = Inr p" and "st \<in> set (pl_steps p)"
  shows "(\<forall>z rs rid kind hosts rule prev. st = UpdateEdgeRule z rs rid kind hosts rule prev \<longrightarrow>
        own_rule s z kind rs rid prev)
    \<and> (\<forall>z ph rs rid kind hosts prev n. st = DeleteEdgeRule z ph rs rid kind hosts prev n \<longrightarrow>
        ph = phase kind \<and> own_rule s z kind rs rid prev \<and> own_rule_at s z kind rid prev n)"
  using plan_step_permitted[OF assms] by auto

lemma plan_edge_rules_witness:
  "own_rule_at sample ''z1'' KindChallenge ''r1'' (or_rule sample_challenge) 1"
proof -
  let ?i = "ProtectHostname app_host sample_protection"
  have p: "plan sample_X sample_J ?i sample = Inr (sample_plan sample ?i)" by (rule plans_sample) code_simp
  have "DeleteEdgeRule ''z1'' PHASE_CUSTOM ''s1'' ''r1'' KindChallenge [app_host] (or_rule sample_challenge) 1
      \<in> set (pl_steps (sample_plan sample ?i))" by code_simp
  from plan_edge_rules[OF p this] show ?thesis by blast
qed

subsection \<open>Workers in front of a route\<close>

text \<open>
  C12: A Worker route is created only where no foreign route has the pattern, and only for a Worker
  that is deployed or put by an earlier step; a Worker goes only after its route; a database is
  created only once, only if the account has none.
\<close>

theorem plan_front_workers:
  assumes "plan X J i s = Inr p" and "n < length (pl_steps p)"
  shows "(\<forall>h z pattern script kind path. pl_steps p ! n = CreateWorkerRoute h z pattern script kind path \<longrightarrow>
        front_known s h (\<lambda>fs. foreign_on fs pattern = None
          \<and> ((\<exists>m < n. puts_worker script (pl_steps p ! m)) \<or> (\<exists>f \<in> set (fs_fronts fs). of_exists f \<and> of_script f = script))))
    \<and> (\<forall>h z script config db. pl_steps p ! n = DeleteFrontWorker h z script config db \<longrightarrow>
        front_known s h (\<lambda>fs. \<exists>f \<in> set (fs_fronts fs). of_script f = script \<and> of_config f = config
          \<and> (\<forall>route. of_route f = Some route \<longrightarrow> (\<exists>m < n. deletes_route route (pl_steps p ! m)))))
    \<and> (\<forall>name. pl_steps p ! n = CreateDatabase name \<longrightarrow> existing_database s = None
        \<and> (\<forall>m < n. \<not> is_create_database (pl_steps p ! m)))"
proof -
  have all: "(case r of Some x \<Rightarrow> P x | None \<Rightarrow> True) \<longleftrightarrow> (\<forall>x. r = Some x \<longrightarrow> P x)" for r :: "worker_route option" and P
    by (cases r) auto
  show ?thesis using plan_permitted[OF assms]
    by (auto simp: list_ex_take[OF assms(2)] front_known_def all) blast
qed

lemma plan_front_workers_witness:
  "\<exists>m < 1. deletes_route (the (of_route (hd (fs_fronts sample_front))))
     (pl_steps (sample_plan sample (SetOfflinePage app_host None)) ! m)"
proof -
  let ?i = "SetOfflinePage app_host None"
  let ?f = "hd (fs_fronts sample_front)"
  have p: "plan sample_X sample_J ?i sample = Inr (sample_plan sample ?i)" by (rule plans_sample) code_simp
  have n: "1 < length (pl_steps (sample_plan sample ?i))" by code_simp
  have "pl_steps (sample_plan sample ?i) ! 1 =
      DeleteFrontWorker app_host ''z1'' ''tt-offline'' (OfflineConfig sample_page) None" by code_simp
  with plan_front_workers[OF p n] have "front_known sample app_host (\<lambda>fs. \<exists>f \<in> set (fs_fronts fs).
      of_script f = ''tt-offline'' \<and> of_config f = OfflineConfig sample_page
      \<and> (\<forall>route. of_route f = Some route \<longrightarrow> (\<exists>m < 1. deletes_route route (pl_steps (sample_plan sample ?i) ! m))))"
    by blast
  moreover have "front_of sample app_host = Some sample_front" by code_simp
  ultimately show ?thesis by (simp add: front_known_def sample_front_def)
qed

subsection \<open>Private networks\<close>

text \<open>
  C13: A plan deletes only network and hostname routes of this machine's tunnel, creates a network
  route only where the default virtual network has none for the range, and asks for a
  confirmation before it routes a public range or a hostname of a zone of the account.
\<close>

theorem plan_networks:
  assumes "plan X J i s = Inr p" and "st \<in> set (pl_steps p)"
  shows "(\<forall>r. st = DeleteNetworkRoute r \<longrightarrow> own_tunnel_id s (net_tunnel_id r))
    \<and> (\<forall>r. st = DeleteHostnameRoute r \<longrightarrow> own_tunnel_id s (hr_tunnel_id r))
    \<and> (\<forall>net t. st = CreateNetworkRoute net t \<longrightarrow> t = machine_ref s
        \<and> (\<forall>r \<in> set (vnet_routes s). route_range X r \<noteq> Some net) \<and> (is_private X net \<or> pl_requires_confirmation p))
    \<and> (\<forall>h t. st = CreateHostnameRoute h t \<longrightarrow> t = machine_ref s \<and> private_hostname_routes s h = []
        \<and> (pl_requires_confirmation p \<or> \<not> list_ex (\<lambda>z. is_in_zone h (zone_name z)) (sn_zones s)))"
  using plan_step_permitted[OF assms] by (auto simp: tunnel_known_def)

lemma plan_networks_witness: "own_tunnel_id sample (net_tunnel_id sample_network)"
proof -
  let ?i = "RemoveNetwork (Net4 10 8)"
  have p: "plan sample_X sample_J ?i sample = Inr (sample_plan sample ?i)" by (rule plans_sample) code_simp
  have "DeleteNetworkRoute sample_network \<in> set (pl_steps (sample_plan sample ?i))" by code_simp
  from plan_networks[OF p this] show ?thesis by blast
qed

subsection \<open>Snapshots\<close>

text \<open>
  C14: A Snapshot is attached to a hostname only where no route of any tunnel and no other Worker
  answers and no record of this machine is in the way but a reservation; its Worker is created only
  if it does not exist, updated only against the version that was active, and its comments refer
  to a database that exists or is created by an earlier step.
\<close>

theorem plan_snapshots:
  assumes "plan X J i s = Inr p" and "n < length (pl_steps p)"
  shows "(\<forall>z h script. pl_steps p ! n = AttachSnapshotDomain z h script \<longrightarrow>
        find_zone s h = Inr z \<and> site_known s script (free_for_site s h))
    \<and> (\<forall>j script settings. pl_steps p ! n = CreateSnapshotWorker j script settings \<longrightarrow>
        site_known s script (\<lambda>st. \<not> st_exists st) \<and> comments_known s (take n (pl_steps p)) settings)
    \<and> (\<forall>j script settings v. pl_steps p ! n = PublishSnapshotVersion j script settings v \<longrightarrow>
        site_known s script (\<lambda>st. st_exists st \<and> v = st_active_version st)
        \<and> comments_known s (take n (pl_steps p)) settings)
    \<and> (\<forall>j script. pl_steps p ! n = DeleteSnapshotWorker j script \<longrightarrow> site_known s script st_exists)"
  using plan_permitted[OF assms] by auto

lemma plan_snapshots_witness: "site_known sample ''site-1'' (free_for_site sample new_host)"
proof -
  let ?i = "PublishSnapshot sample_site sample_settings sample_content"
  have p: "plan sample_X sample_J ?i sample = Inr (sample_plan sample ?i)" by (rule plans_sample) code_simp
  have n: "3 < length (pl_steps (sample_plan sample ?i))" by code_simp
  have "pl_steps (sample_plan sample ?i) ! 3 = AttachSnapshotDomain ''z1'' new_host ''site-1''" by code_simp
  with plan_snapshots[OF p n] show ?thesis by blast
qed

subsection \<open>Load balancing\<close>


definition balancing :: snapshot where
  "balancing = sample\<lparr>sn_balance := Some \<lparr>bal_hostname = app_host, bal_zone_id = ''z1'', bal_balancer = None,
     bal_pool = None, bal_monitor = None, bal_serving = []\<rparr>\<rparr>"


subsection \<open>Whole plans\<close>

text \<open>
  C16: A plan touches only the parts of the account its kind of change is about.
\<close>

theorem plan_frame:
  assumes "plan X J i s = Inr p"
  shows "class_of ` set (pl_steps p) \<subseteq> classes_of i"
  using plan_permitted[OF assms] by (auto simp: in_set_conv_nth)

lemma plan_frame_witness: "class_of ` set (pl_steps (sample_plan sample (Reserve held_host None))) \<subseteq> {RecordClass, LeaseClass}"
proof -
  have "plan sample_X sample_J (Reserve held_host None) sample = Inr (sample_plan sample (Reserve held_host None))"
    by (rule plans_sample) code_simp
  from plan_frame[OF this] show ?thesis by simp
qed

lemma plan_finished: "plan X J i s = Inr p \<Longrightarrow> \<exists>b. p = finish X J s b"
  by (auto simp: plan_def res_simps)

text \<open>
  A plan counts as empty exactly if it has no step at all: a change with nothing to write in
  Cloudflare is not planned as a list of checks.
\<close>

theorem plan_empty_iff:
  assumes "plan X J i s = Inr p"
  shows "plan_is_empty p \<longleftrightarrow> pl_steps p = []"
proof -
  obtain c where c: "p = finish X J s c" using plan_finished[OF assms] by blast
  then have b: "pl_steps p = (if list_ex is_mutation (b_steps c) then b_steps c else [])"
    by (simp add: finish_def Let_def)
  have none: "list_all (\<lambda>x. \<not> P x) xs \<longleftrightarrow> \<not> list_ex P xs" for P and xs :: "step list"
    by (induction xs) auto
  show ?thesis
    by (cases "list_ex is_mutation (b_steps c)"; cases "b_steps c") (simp_all add: b plan_is_empty_def none)
qed

lemma plan_empty_iff_witness: "\<not> plan_is_empty (sample_plan sample (Reserve held_host None))"
proof -
  let ?i = "Reserve held_host None"
  have p: "plan sample_X sample_J ?i sample = Inr (sample_plan sample ?i)" by (rule plans_sample) code_simp
  have "0 < length (pl_steps (sample_plan sample ?i))" by code_simp
  then show ?thesis by (simp add: plan_empty_iff[OF p])
qed

subsection \<open>The order and the effect of a plan, on the sample account\<close>


lemma plan_routes_witness:
  "mset (routed (ingress_after bare_sample (pl_steps (sample_plan bare_sample (AddRoute (sample_route new_host))))))
     = mset (routes_wanted bare_sample (AddRoute (sample_route new_host)))"
proof -
  have "plan sample_X sample_J (AddRoute (sample_route new_host)) bare_sample
      = Inr (sample_plan bare_sample (AddRoute (sample_route new_host)))"
    by (rule plans_sample) code_simp
  then show ?thesis by (rule plan_routes)
qed

definition local_sample :: snapshot where
  "local_sample = bare_sample\<lparr>sn_networks := None\<rparr>"

lemma remove_tunnel_complete_witness:
  "\<exists>sts. pl_steps (sample_plan local_sample RemoveTunnel) = sts @ [StopConnector (tun_id sample_tunnel), DeleteTunnel (tun_id sample_tunnel)]"
proof -
  have p: "plan sample_X sample_J RemoveTunnel local_sample = Inr (sample_plan local_sample RemoveTunnel)"
    by (rule plans_sample) code_simp
  have t: "sn_tunnel local_sample = Some sample_tunnel" by (simp add: local_sample_def bare_sample_def sample_def)
  from remove_tunnel_complete[OF p t] show ?thesis by (elim exE conjE) (rule exI)
qed

end
