(* ===== verification/Btree_Map.thy ===== *)
theory Btree_Map
  imports Prelude
begin

text \<open>
  A \<open>BTreeMap\<close> and a database table with a primary key: entries sorted by key, each key once.
  \<open>sorted_map\<close> is the invariant; every operation keeps it, and reading is \<open>map_of\<close>.
\<close>

type_synonym ('k, 'v) bmap = "('k \<times> 'v) list"

fun bm_insert :: "'k::linorder \<Rightarrow> 'v \<Rightarrow> ('k, 'v) bmap \<Rightarrow> ('k, 'v) bmap" where
  "bm_insert k v [] = [(k, v)]"
| "bm_insert k v ((a, b) # m) =
     (if k < a then (k, v) # (a, b) # m else if k = a then (k, v) # m else (a, b) # bm_insert k v m)"

definition bm_remove :: "'k \<Rightarrow> ('k, 'v) bmap \<Rightarrow> ('k, 'v) bmap" where
  "bm_remove k m = filter (\<lambda>p. fst p \<noteq> k) m"

definition bm_values :: "('k, 'v) bmap \<Rightarrow> 'v list" where
  "bm_values m = map snd m"

text \<open>Changing the value of every entry, as an \<open>UPDATE\<close> does.\<close>

definition bm_map :: "('k \<Rightarrow> 'v \<Rightarrow> 'v) \<Rightarrow> ('k, 'v) bmap \<Rightarrow> ('k, 'v) bmap" where
  "bm_map f m = map (\<lambda>(k, v). (k, f k v)) m"

definition bm_filter :: "('k \<Rightarrow> 'v \<Rightarrow> bool) \<Rightarrow> ('k, 'v) bmap \<Rightarrow> ('k, 'v) bmap" where
  "bm_filter P m = filter (\<lambda>(k, v). P k v) m"

definition sorted_map :: "('k::linorder, 'v) bmap \<Rightarrow> bool" where
  "sorted_map m \<longleftrightarrow> sorted_wrt (<) (map fst m)"

named_theorems bm_simps "reading the maps after an operation"

lemma map_of_bm_insert [simp, bm_simps]: "map_of (bm_insert k v m) = (map_of m)(k \<mapsto> v)"
  by (induction k v m rule: bm_insert.induct) (auto simp: fun_eq_iff)

lemma map_of_bm_remove [simp, bm_simps]: "map_of (bm_remove k m) = (map_of m)(k := None)"
  by (induction m) (auto simp: bm_remove_def fun_eq_iff)

lemma map_of_bm_map [simp, bm_simps]: "map_of (bm_map f m) k = map_option (f k) (map_of m k)"
  by (induction m) (auto simp: bm_map_def)

lemma fst_bm_insert [simp]: "fst ` set (bm_insert k v m) = insert k (fst ` set m)"
  by (induction k v m rule: bm_insert.induct) auto

lemma sorted_map_Nil [simp]: "sorted_map []"
  by (simp add: sorted_map_def)

lemma sorted_map_Cons [simp]: "sorted_map ((k, v) # m) \<longleftrightarrow> (\<forall>x \<in> fst ` set m. k < x) \<and> sorted_map m"
  by (auto simp: sorted_map_def)

lemma sorted_bm_insert [simp]: "sorted_map m \<Longrightarrow> sorted_map (bm_insert k v m)"
  by (induction k v m rule: bm_insert.induct) (auto simp: less_le)

lemma sorted_bm_filter [simp]: "sorted_map m \<Longrightarrow> sorted_map (bm_filter P m)"
  by (induction m) (auto simp: bm_filter_def)

lemma sorted_bm_remove [simp]: "sorted_map m \<Longrightarrow> sorted_map (bm_remove k m)"
  by (induction m) (auto simp: bm_remove_def)

lemma sorted_bm_map [simp]: "sorted_map m \<Longrightarrow> sorted_map (bm_map f m)"
  by (simp add: sorted_map_def bm_map_def o_def case_prod_beta)

lemma sorted_map_distinct: "sorted_map m \<Longrightarrow> distinct (map fst m)"
  by (induction m) force+

lemma bm_map_of_iff: "sorted_map m \<Longrightarrow> (k, v) \<in> set m \<longleftrightarrow> map_of m k = Some v"
  using sorted_map_distinct map_of_eq_Some_iff by fastforce

lemma in_bm_values: "sorted_map m \<Longrightarrow> v \<in> set (bm_values m) \<longleftrightarrow> (\<exists>k. map_of m k = Some v)"
  by (force simp: bm_values_def bm_map_of_iff[symmetric])

lemma map_of_bm_filter: "sorted_map m \<Longrightarrow> map_of (bm_filter P m) k
    = (case map_of m k of Some v \<Rightarrow> if P k v then Some v else None | None \<Rightarrow> None)"
proof (induction m)
  case (Cons p m)
  obtain a v where p: "p = (a, v)" by fastforce
  have "map_of (bm_filter P m) a = None"
    using Cons.prems p by (force simp: map_of_eq_None_iff bm_filter_def)
  with Cons p show ?case by (auto simp: bm_filter_def)
qed (simp add: bm_filter_def)

text \<open>Two maps that read the same are the same.\<close>

lemma bm_eqI:
  assumes "sorted_map m" and "sorted_map n" and "map_of m = map_of n"
  shows "m = n"
proof -
  have rebuild: "map (\<lambda>k. (k, the (map_of l k))) (map fst l) = l" if "sorted_map l" for l :: "('a, 'b) bmap"
    unfolding map_map by (rule map_idI) (use that in \<open>auto simp: bm_map_of_iff\<close>)
  have "fst ` set m = fst ` set n" using assms(3) by (metis dom_map_of_conv_image_fst)
  then have "map fst m = map fst n"
    using assms(1,2) by (intro strict_sorted_equal) (simp_all add: sorted_map_def)
  then show ?thesis using rebuild[OF assms(1)] rebuild[OF assms(2)] assms(3) by metis
qed

lemma bm_remove_insert:
  assumes "sorted_map m" and "map_of m k = None"
  shows "bm_remove k (bm_insert k v m) = m"
  by (rule bm_eqI) (use assms in \<open>auto simp: fun_eq_iff\<close>)

lemma bm_insert_remove:
  assumes "sorted_map m" and "map_of m k = Some v"
  shows "bm_insert k v (bm_remove k m) = m"
  by (rule bm_eqI) (use assms in \<open>auto simp: fun_eq_iff\<close>)

lemma bm_insert_insert:
  assumes "sorted_map m" and "map_of m k = Some u"
  shows "bm_insert k u (bm_insert k v m) = m"
  by (rule bm_eqI) (use assms in \<open>auto simp: fun_eq_iff\<close>)

text \<open>The values after an insertion, as a multiset.\<close>

lemma mset_bm_insert:
  "map_of m k = None \<Longrightarrow> mset (bm_insert k v m) = add_mset (k, v) (mset m)"
  by (induction k v m rule: bm_insert.induct) (auto split: if_splits)

lemma mset_bm_remove:
  assumes "sorted_map m" and "map_of m k = Some v"
  shows "mset m = add_mset (k, v) (mset (bm_remove k m))"
proof -
  have "map_of (bm_remove k m) k = None" by simp
  from mset_bm_insert[OF this, of v] show ?thesis by (simp add: bm_insert_remove[OF assms])
qed

lemma set_bm_insert: "set (bm_insert k v m) \<subseteq> insert (k, v) (set m)"
  by (induction k v m rule: bm_insert.induct) auto

lemma set_bm_remove: "set (bm_remove k m) \<subseteq> set m"
  by (auto simp: bm_remove_def)

lemma set_bm_filter: "set (bm_filter P m) = {(k, v) \<in> set m. P k v}"
  by (auto simp: bm_filter_def)

end
