(* ===== verification/Cloud.thy ===== *)
theory Cloud
  imports Engine_Types
begin

text \<open>
  The ports the engine talks through (\<open>engine/cloud.rs\<close>): the operations on Cloudflare it calls,
  the connector of this machine, and the data they exchange. A call is a function of the world
  \<open>'w\<close> to its answer and the world after it, so the engine's theorems hold for any service behind
  the ports; the in-memory Cloudflare of \<open>engine/fake.rs\<close> is one of them. Secrets are the strings
  they hide.
\<close>

subsection \<open>Errors (\<open>cf-api/src/error.rs\<close>) and texts (\<open>text.rs\<close>)\<close>

datatype cf_error = CfApi nat "(nat \<times> string) list" | CfDecode string | CfNetwork string
  \<comment> \<open>status, and code and message of each error\<close>

fun cf_codes :: "cf_error \<Rightarrow> nat list" where
  "cf_codes (CfApi _ errors) = map fst errors"
| "cf_codes _ = []"

fun cf_status :: "cf_error \<Rightarrow> nat option" where
  "cf_status (CfApi status _) = Some status"
| "cf_status _ = None"

definition first_message :: "(nat \<times> string) list \<Rightarrow> nat \<Rightarrow> string" where
  "first_message errors status = (case errors of
      [] \<Rightarrow> ''HTTP '' @ show_nat status
    | (c, m) # _ \<Rightarrow> m @ '' (code '' @ show_nat c @ '')'')"

fun cf_detail :: "cf_error \<Rightarrow> string" where
  "cf_detail (CfApi status errors) = first_message errors status"
| "cf_detail (CfDecode e) = e"
| "cf_detail (CfNetwork m) = m"

fun is_not_enabled :: "cf_error \<Rightarrow> bool" where
  "is_not_enabled (CfApi _ errors) \<longleftrightarrow> list_ex (\<lambda>e. starts_with ''access.api.error.not_enabled'' (snd e)) errors"
| "is_not_enabled _ \<longleftrightarrow> False"

definition is_auth :: "cf_error \<Rightarrow> bool" where
  "is_auth e \<longleftrightarrow> \<not> is_not_enabled e
     \<and> (cf_status e = Some 401 \<or> cf_status e = Some 403 \<or> 10000 \<in> set (cf_codes e))"

text \<open>A \<open>Text\<close> is the key of a message and its arguments; the functions \<open>msg::\<dots>\<close> that make one
  are generated by the build, one for each key.\<close>

datatype message = Msg string "string list"

fun cf_text :: "cf_error \<Rightarrow> message" where
  "cf_text (CfApi status errors) = Msg (if is_auth (CfApi status errors) then ''error.cloudflare.permission''
     else ''error.cloudflare.api'') [cf_detail (CfApi status errors)]"
| "cf_text (CfDecode _) = Msg ''error.cloudflare.decode'' []"
| "cf_text (CfNetwork m) = Msg ''error.cloudflare.network'' [m]"

subsection \<open>The data of the calls\<close>

record new_dns_record =
  new_name :: string
  new_kind :: string
  new_content :: string
  new_proxied :: bool
  new_ttl :: nat
  new_comment :: "string option"

definition record_to_new :: "dns_record \<Rightarrow> new_dns_record" where
  "record_to_new r = \<lparr>new_name = rec_name r, new_kind = rec_kind r, new_content = rec_content r,
     new_proxied = rec_proxied r, new_ttl = rec_ttl r, new_comment = rec_comment r\<rparr>"

text \<open>A new record with the id Cloudflare gives it.\<close>

definition record_of_new :: "string \<Rightarrow> new_dns_record \<Rightarrow> dns_record" where
  "record_of_new i n = \<lparr>rec_id = i, rec_name = new_name n, rec_kind = new_kind n, rec_content = new_content n,
     rec_proxied = new_proxied n, rec_comment = new_comment n, rec_ttl = new_ttl n\<rparr>"

definition MAX_DNS_BATCH :: nat where
  "MAX_DNS_BATCH = 200"

record versioned_config =
  vc_version :: nat
  vc_config :: "tunnel_config option"

text \<open>A rule with its id; \<open>Rule::to_new\<close> is \<open>zr_rule\<close>.\<close>

record zone_rule =
  zr_id :: string
  zr_rule :: new_rule

record issued_service_token =
  ist_token_id :: string
  ist_name :: string
  ist_client_id :: string
  ist_expires_at :: "string option"
  ist_client_secret :: string

record worker_module =
  wm_name :: string
  wm_content :: string

text \<open>The version that answers most requests; the percentages are floats, ordered by \<open>total_cmp\<close>.\<close>

type_synonym deployment = "(string \<times> 64 word) list"

definition total_key :: "64 word \<Rightarrow> int" where
  "total_key w = sint (if sint w < 0 then xor w (drop_bit 1 (- 1)) else w)"

definition main_version :: "deployment \<Rightarrow> string option" where
  "main_version d = map_option fst (max_by_key (total_key \<circ> snd) d)"

record upload_session =
  us_jwt :: string
  us_buckets :: "string list list"

record asset_file =
  af_hash :: string
  af_content_type :: string
  af_content :: string

subsection \<open>The ports\<close>

text \<open>Where the engine reads only the id of what a call created, the answer is the id.\<close>

type_synonym ('w, 'a) service = "'w \<Rightarrow> (cf_error + 'a) \<times> 'w"

record 'w tunnel_port =
  api_create_tunnel :: "string \<Rightarrow> string \<Rightarrow> ('w, string) service"
  api_delete_tunnel :: "string \<Rightarrow> string \<Rightarrow> ('w, unit) service"
  api_tunnel_config :: "string \<Rightarrow> string \<Rightarrow> ('w, versioned_config) service"
  api_put_tunnel_config :: "string \<Rightarrow> string \<Rightarrow> tunnel_config \<Rightarrow> ('w, versioned_config) service"
  api_tunnel_token :: "string \<Rightarrow> string \<Rightarrow> ('w, string) service"
  api_create_network_route :: "string \<Rightarrow> string \<Rightarrow> string \<Rightarrow> string \<Rightarrow> string option \<Rightarrow> ('w, string) service"
  api_delete_network_route :: "string \<Rightarrow> string \<Rightarrow> ('w, unit) service"
  api_create_hostname_route :: "string \<Rightarrow> string \<Rightarrow> string \<Rightarrow> string \<Rightarrow> ('w, string) service"
  api_delete_hostname_route :: "string \<Rightarrow> string \<Rightarrow> ('w, unit) service"

record 'w dns_port =
  api_create_record :: "string \<Rightarrow> new_dns_record \<Rightarrow> ('w, dns_record) service"
  api_create_records :: "string \<Rightarrow> new_dns_record list \<Rightarrow> ('w, dns_record list) service"
  api_update_record :: "string \<Rightarrow> string \<Rightarrow> new_dns_record \<Rightarrow> ('w, dns_record) service"
  api_replace_record :: "string \<Rightarrow> string \<Rightarrow> new_dns_record \<Rightarrow> ('w, dns_record) service"
  api_delete_record :: "string \<Rightarrow> string \<Rightarrow> ('w, unit) service"

record 'w access_port =
  api_create_access_app :: "string \<Rightarrow> new_access_app \<Rightarrow> ('w, string) service"
  api_update_access_app :: "string \<Rightarrow> string \<Rightarrow> new_access_app \<Rightarrow> ('w, unit) service"
  api_delete_access_app :: "string \<Rightarrow> string \<Rightarrow> ('w, unit) service"
  api_create_one_time_pin :: "string \<Rightarrow> ('w, string) service"
  api_delete_login_method :: "string \<Rightarrow> string \<Rightarrow> ('w, unit) service"
  api_create_service_token :: "string \<Rightarrow> string \<Rightarrow> string \<Rightarrow> ('w, issued_service_token) service"
  api_rotate_service_token :: "string \<Rightarrow> string \<Rightarrow> ('w, issued_service_token) service"
  api_delete_service_token :: "string \<Rightarrow> string \<Rightarrow> ('w, unit) service"

record 'w balance_port =
  api_create_lb_monitor :: "string \<Rightarrow> monitor \<Rightarrow> ('w, string) service"
  api_delete_lb_monitor :: "string \<Rightarrow> string \<Rightarrow> ('w, unit) service"
  api_create_lb_pool :: "string \<Rightarrow> pool \<Rightarrow> ('w, string) service"
  api_update_lb_pool :: "string \<Rightarrow> string \<Rightarrow> pool \<Rightarrow> ('w, unit) service"
  api_delete_lb_pool :: "string \<Rightarrow> string \<Rightarrow> ('w, unit) service"
  api_create_load_balancer :: "string \<Rightarrow> load_balancer \<Rightarrow> ('w, string) service"
  api_delete_load_balancer :: "string \<Rightarrow> string \<Rightarrow> ('w, unit) service"

record 'w worker_port =
  api_create_assets_upload_session :: "string \<Rightarrow> string \<Rightarrow> (string \<times> string \<times> nat) list \<Rightarrow> ('w, upload_session) service"
  api_upload_assets :: "string \<Rightarrow> string \<Rightarrow> asset_file list \<Rightarrow> ('w, string option) service"
  api_put_worker_script :: "string \<Rightarrow> string \<Rightarrow> json \<Rightarrow> worker_module list \<Rightarrow> ('w, unit) service"
  api_upload_worker_version :: "string \<Rightarrow> string \<Rightarrow> json \<Rightarrow> worker_module list \<Rightarrow> ('w, string) service"
  api_deploy_worker_version :: "string \<Rightarrow> string \<Rightarrow> string \<Rightarrow> ('w, unit) service"
  api_worker_deployments :: "string \<Rightarrow> string \<Rightarrow> ('w, deployment list option) service"
  api_set_worker_on_workers_dev :: "string \<Rightarrow> string \<Rightarrow> bool \<Rightarrow> ('w, unit) service"
  api_delete_worker_script :: "string \<Rightarrow> string \<Rightarrow> ('w, unit) service"
  api_attach_worker_domain :: "string \<Rightarrow> string \<Rightarrow> string \<Rightarrow> string \<Rightarrow> ('w, string) service"
  api_detach_worker_domain :: "string \<Rightarrow> string \<Rightarrow> ('w, unit) service"
  api_create_worker_route :: "string \<Rightarrow> string \<Rightarrow> string \<Rightarrow> ('w, string) service"
  api_delete_worker_route :: "string \<Rightarrow> string \<Rightarrow> ('w, unit) service"
  api_create_d1_database :: "string \<Rightarrow> string \<Rightarrow> ('w, string) service"
  api_delete_d1_database :: "string \<Rightarrow> string \<Rightarrow> ('w, unit) service"
  api_d1_query :: "string \<Rightarrow> string \<Rightarrow> (string \<times> json list) list \<Rightarrow> ('w, unit) service"

record 'w edge_port =
  api_create_rule :: "string \<Rightarrow> string \<Rightarrow> string option \<Rightarrow> new_rule \<Rightarrow> nat option \<Rightarrow> ('w, string \<times> string) service"
  api_update_rule :: "string \<Rightarrow> string \<Rightarrow> string \<Rightarrow> new_rule \<Rightarrow> ('w, unit) service"
  api_delete_rule :: "string \<Rightarrow> string \<Rightarrow> string \<Rightarrow> ('w, unit) service"

text \<open>The \<open>CloudApi\<close> trait, in the groups of calls the executor makes.\<close>

record 'w cloud_api =
  tunnel_api :: "'w tunnel_port"
  dns_api :: "'w dns_port"
  access_api :: "'w access_port"
  balance_api :: "'w balance_port"
  worker_api :: "'w worker_port"
  edge_api :: "'w edge_port"

text \<open>The state of a connector process (\<open>runtime/state.rs\<close>): healthy with its connections; crashed
  with the attempt, the milliseconds until the restart and the exit code.\<close>

datatype connector_state =
    ConnStopped
  | ConnStarting
  | ConnConnecting
  | ConnHealthy nat
  | ConnDegraded
  | ConnCrashed nat nat "int option"
  | ConnCrashLoop "int option"
  | ConnStopping

text \<open>The \<open>Connectors\<close> trait; the state is \<open>None\<close> when there is no process.\<close>

record 'w connectors =
  conn_state :: "string \<Rightarrow> 'w \<Rightarrow> connector_state option"
  conn_start :: "string \<Rightarrow> string \<Rightarrow> string \<Rightarrow> 'w \<Rightarrow> (message + unit) \<times> 'w"
  conn_stop :: "string \<Rightarrow> 'w \<Rightarrow> (message + unit) \<times> 'w"
  conn_deleted :: "string \<Rightarrow> 'w \<Rightarrow> 'w"

definition conn_is_running :: "'w connectors \<Rightarrow> string \<Rightarrow> 'w \<Rightarrow> bool" where
  "conn_is_running K tid w = (case conn_state K tid w of
      None \<Rightarrow> False | Some ConnStopped \<Rightarrow> False | Some (ConnCrashLoop _) \<Rightarrow> False | Some _ \<Rightarrow> True)"

end
