(* ===== verification/Worker_Meta.thy ===== *)
theory Worker_Meta
  imports Sites Cloud
begin

text \<open>
  What a Worker is uploaded with (\<open>metadata\<close> of \<open>engine/front.rs\<close> and \<open>engine/sites.rs\<close>): its
  bindings, the files it serves, and the statements that make the tables it uses. The sources of
  the bundled Workers are assets, a parameter, and so is \<open>serde_json\<close>'s text of a value.
\<close>

record bundled =
  json_text :: "json \<Rightarrow> string"
  offline_js :: string
  inbox_js :: string
  site_js :: string
  overlay_js :: string

definition MODULE :: string where
  "MODULE = ''worker.js''"
definition COMPATIBILITY_DATE :: string where
  "COMPATIBILITY_DATE = ''2026-09-01''"

definition jobj :: "(string \<times> json) list \<Rightarrow> json" where
  "jobj kvs = JObj (json_map_of kvs)"

subsection \<open>Workers in front of a route (\<open>engine/front.rs\<close>)\<close>

fun verify_json :: "inbox_verify option \<Rightarrow> json" where
  "verify_json None = JNull"
| "verify_json (Some VerifyGithub) = JStr ''github''"
| "verify_json (Some VerifyStripe) = JStr ''stripe''"
| "verify_json (Some VerifyStandard) = JStr ''standard''"

text \<open>The bindings, the message and whether the Worker keeps the secret it has.\<close>

fun front_bindings ::
    "bundled \<Rightarrow> string \<Rightarrow> front_config \<Rightarrow> string option \<Rightarrow> string option \<Rightarrow> json list \<times> string \<times> bool" where
  "front_bindings B script (OfflineConfig page) database secret =
     ([jobj [(''type'', JStr ''plain_text''), (''name'', JStr ''PAGE''),
        (''text'', JStr (json_text B (jobj [(''title'', JStr (off_title page)),
           (''message'', JStr (off_message page)), (''whenAppDown'', JBool (off_when_app_down page))])))]],
      ''Teitunnel offline page'', False)"
| "front_bindings B script (InboxConfig path settings) database secret =
     (let inbox = jobj [(''type'', JStr ''plain_text''), (''name'', JStr ''INBOX''),
            (''text'', JStr (json_text B (jobj [(''id'', JStr script), (''path'', JStr path),
               (''maxItems'', JInt (int (inb_max_items settings))),
               (''retentionDays'', JInt (int (inb_retention_days settings))),
               (''verify'', verify_json (inb_verify settings))])))];
          db = (case database of None \<Rightarrow> []
            | Some d \<Rightarrow> [jobj [(''type'', JStr ''d1''), (''name'', JStr ''DB''), (''id'', JStr d)]]);
          signing = (case (inb_verify settings, secret) of
              (Some _, Some s) \<Rightarrow> [jobj [(''type'', JStr ''secret_text''), (''name'', JStr ''SIGNING_SECRET''), (''text'', JStr s)]]
            | _ \<Rightarrow> [])
      in (inbox # db @ signing, ''Teitunnel webhook inbox'', inb_verify settings \<noteq> None \<and> secret = None))"

definition front_metadata ::
    "bundled \<Rightarrow> string \<Rightarrow> front_config \<Rightarrow> string option \<Rightarrow> string option \<Rightarrow> json" where
  "front_metadata B script config database secret =
     (case front_bindings B script config database secret of (bindings, message, keep) \<Rightarrow>
      let m = json_map_of [(''main_module'', JStr MODULE), (''compatibility_date'', JStr COMPATIBILITY_DATE),
            (''bindings'', JArr bindings), (''annotations'', jobj [(''workers/message'', JStr message)])]
      in JObj (if keep then json_insert ''keep_bindings'' (JArr [JStr ''secret_text'']) m else m))"

definition front_modules :: "bundled \<Rightarrow> front_kind \<Rightarrow> worker_module list" where
  "front_modules B kind = [\<lparr>wm_name = MODULE,
     wm_content = (case kind of FrontOffline \<Rightarrow> offline_js B | FrontInbox \<Rightarrow> inbox_js B)\<rparr>]"

definition COMMENTS_SCHEMA :: "string list" where
  "COMMENTS_SCHEMA = [
    ''CREATE TABLE IF NOT EXISTS teitunnel_comments (id TEXT PRIMARY KEY, site TEXT NOT NULL, thread TEXT NOT NULL, path TEXT NOT NULL, anchor TEXT, author TEXT NOT NULL, email TEXT, verified INTEGER NOT NULL DEFAULT 0, by_owner INTEGER NOT NULL DEFAULT 0, body TEXT NOT NULL, created_at INTEGER NOT NULL, resolved_at INTEGER, resolved_by TEXT, client TEXT)'',
    ''CREATE INDEX IF NOT EXISTS teitunnel_comments_site ON teitunnel_comments (site, created_at)'',
    ''CREATE INDEX IF NOT EXISTS teitunnel_comments_client ON teitunnel_comments (client, created_at)'']"

definition INBOX_SCHEMA :: "string list" where
  "INBOX_SCHEMA = [
    ''CREATE TABLE IF NOT EXISTS teitunnel_inbox (seq INTEGER PRIMARY KEY AUTOINCREMENT, inbox TEXT NOT NULL, id TEXT NOT NULL UNIQUE, received_at INTEGER NOT NULL, method TEXT NOT NULL, path TEXT NOT NULL, headers TEXT NOT NULL, body TEXT, size INTEGER NOT NULL, delivered_at INTEGER, status INTEGER, attempts INTEGER NOT NULL DEFAULT 0, error TEXT)'',
    ''CREATE INDEX IF NOT EXISTS teitunnel_inbox_pending ON teitunnel_inbox (inbox, delivered_at, seq)'']"

definition create_tables :: "'w cloud_api \<Rightarrow> string \<Rightarrow> string \<Rightarrow> ('w, unit) service" where
  "create_tables api account database =
     api_d1_query (worker_api api) account database (map (\<lambda>sql. (sql, [])) (COMMENTS_SCHEMA @ INBOX_SCHEMA))"

subsection \<open>Snapshots (\<open>engine/sites.rs\<close>)\<close>

definition site_metadata ::
    "site_settings \<Rightarrow> site_content \<Rightarrow> string \<Rightarrow> string \<Rightarrow> string \<Rightarrow> string option \<Rightarrow> json" where
  "site_metadata settings content jwt message script database =
     (let config = json_map_of ([(''html_handling'', JStr ''auto-trailing-slash''),
            (''not_found_handling'', JStr (if set_spa settings then ''single-page-application'' else ''404-page'')),
            (''run_worker_first'', JBool (worker_first settings))]
            @ (case sc_headers content of None \<Rightarrow> [] | Some h \<Rightarrow> [(''_headers'', JStr h)])
            @ (case sc_redirects content of None \<Rightarrow> [] | Some r \<Rightarrow> [(''_redirects'', JStr r)]));
          bindings = jobj [(''type'', JStr ''assets''), (''name'', JStr ''ASSETS'')]
            # (case set_password settings of
                 PasswordSet hash \<Rightarrow> [jobj [(''type'', JStr ''secret_text''), (''name'', JStr ''PASSWORD_HASH''), (''text'', JStr hash)]]
               | _ \<Rightarrow> [])
            @ (case set_overlay settings of None \<Rightarrow> []
               | Some src \<Rightarrow> [jobj [(''type'', JStr ''plain_text''), (''name'', JStr ''OVERLAY_SRC''), (''text'', JStr src)]])
            @ (case (set_comments settings, database) of
                 (Some comments, Some d) \<Rightarrow>
                   [jobj [(''type'', JStr ''d1''), (''name'', JStr ''DB''), (''id'', JStr d)],
                    jobj [(''type'', JStr ''plain_text''), (''name'', JStr ''COMMENTS_SITE''), (''text'', JStr script)]]
                   @ (if cm_identity comments
                      then [jobj [(''type'', JStr ''plain_text''), (''name'', JStr ''ACCESS_IDENTITY''), (''text'', JStr ''1'')]]
                      else [])
               | _ \<Rightarrow> []);
          m = json_map_of [(''main_module'', JStr MODULE), (''compatibility_date'', JStr COMPATIBILITY_DATE),
            (''assets'', jobj [(''jwt'', JStr jwt), (''config'', JObj config)]),
            (''bindings'', JArr bindings), (''annotations'', jobj [(''workers/message'', JStr message)])]
      in JObj (if set_password settings = PasswordKeep
               then json_insert ''keep_bindings'' (JArr [JStr ''secret_text'']) m else m))"

text \<open>The overlay is appended to the Worker's source as a JSON string.\<close>

definition site_modules :: "bundled \<Rightarrow> worker_module list" where
  "site_modules B = [\<lparr>wm_name = MODULE,
     wm_content = site_js B @ newline # ''const OVERLAY_JS = '' @ json_text B (JStr (overlay_js B)) @ '';'' @ [newline]\<rparr>]"

text \<open>The manifest: hash and size by path, sorted, the last of a path.\<close>

fun manifest_insert :: "string \<Rightarrow> string \<times> nat \<Rightarrow> (string \<times> string \<times> nat) list \<Rightarrow> (string \<times> string \<times> nat) list" where
  "manifest_insert k v [] = [(k, v)]"
| "manifest_insert k v ((a, b) # m) =
     (if k < a then (k, v) # (a, b) # m else if k = a then (k, v) # m else (a, b) # manifest_insert k v m)"

definition manifest :: "site_content \<Rightarrow> (string \<times> string \<times> nat) list" where
  "manifest c = fold (\<lambda>f. manifest_insert (sf_path f) (sf_hash f, sf_size f)) (sc_files c) []"

end
