(* ===== verification/Exec_Types.thy ===== *)
theory Exec_Types
  imports Worker_Meta
begin

text \<open>
  What the executor (\<open>engine/executor.rs\<close>) keeps while it applies a plan: the state of every step,
  how each completed step is reversed, what the run created, and the writes to the local index.
  A run is a state \<open>exec\<close> over the world; an action answers a message (its failure) or a value,
  and the state after it.
\<close>

subsection \<open>Progress and outcomes\<close>

record transfer =
  tr_files :: nat
  tr_total_files :: nat
  tr_bytes :: nat
  tr_total_bytes :: nat

datatype step_state =
    Running
  | StepDone
  | Skipped
  | Failed message
  | Undoing
  | Undone
  | UndoFailed message
  | Transferring transfer

type_synonym progress = "nat \<times> step_state"

datatype outcome =
    Applied "string option" "string list" "message option"
      \<comment> \<open>tunnel, hostnames to verify, why the connector did not start\<close>
  | RolledBack nat message
  | PartiallyApplied nat message "message list"
      \<comment> \<open>failed step, why, what was left in place\<close>

fun outcome_label :: "outcome \<Rightarrow> string" where
  "outcome_label (Applied _ _ _) = ''applied''"
| "outcome_label (RolledBack _ _) = ''rolledBack''"
| "outcome_label (PartiallyApplied _ _ _) = ''partiallyApplied''"

subsection \<open>How a completed step is reversed\<close>

datatype undo =
    UndoDeleteTunnel string
  | UndoRestoreConfig string "ingress_rule list"
  | UndoDeleteRecord string string string
      \<comment> \<open>zone, id, name\<close>
  | UndoRestoreRecord string dns_record string bool
      \<comment> \<open>zone, previous, the record's id now, whether it was owned\<close>
  | UndoRecreateRecord string dns_record bool
  | UndoStartConnector string
  | UndoDeleteLoginMethod string
  | UndoDeleteAccessApp string string bool
      \<comment> \<open>id, domain, whether it is a bypass\<close>
  | UndoRestoreAccessApp string new_access_app
  | UndoRecreateAccessApp new_access_app
  | UndoDeleteNetworkRoute string string
  | UndoRecreateNetworkRoute network_route
  | UndoDeleteHostnameRoute string string
  | UndoRecreateHostnameRoute hostname_route
  | UndoDeleteLbMonitor string
  | UndoDeleteLbPool string
  | UndoRestoreLbPool string pool
  | UndoDeleteLoadBalancer string string string
  | UndoRecreateLoadBalancer string load_balancer
  | UndoRecreateLbPool pool
  | UndoRecreateLbMonitor monitor
  | UndoDeleteSnapshotWorker string string
  | UndoRedeploySnapshot string string string "string option"
      \<comment> \<open>Snapshot, Worker, the version to go back to, the version it replaces when new\<close>
  | UndoSetWorkersDev string bool
  | UndoDetachSnapshotDomain string string
  | UndoReattachSnapshotDomain worker_domain
  | UndoRecreateSnapshotWorker string
  | UndoDeleteEdgeRule string string string string
      \<comment> \<open>zone, ruleset, id, hostnames\<close>
  | UndoRestoreEdgeRule string string string new_rule string
  | UndoRecreateEdgeRule string string string new_rule nat string
      \<comment> \<open>zone, phase, ruleset, rule, position, hostnames\<close>
  | UndoDeleteServiceToken string string
  | UndoRestoreServiceToken string
  | UndoDeleteDatabase string
  | UndoDeleteFrontWorker string string front_config
  | UndoRestoreFrontWorker string string string front_config "string option"
      \<comment> \<open>hostname, zone, Worker, the settings it had, its database\<close>
  | UndoDeleteWorkerRoute string string string string front_kind string
      \<comment> \<open>zone, id, pattern, hostname, kind, path\<close>
  | UndoRecreateWorkerRoute string worker_route string front_kind string

text \<open>What is left in place when the step cannot be reversed.\<close>

fun leftover :: "undo \<Rightarrow> message" where
  "leftover (UndoDeleteTunnel i) = Msg ''apply.leftover.delete_tunnel'' [i]"
| "leftover (UndoRestoreConfig _ _) = Msg ''apply.leftover.restore_config'' []"
| "leftover (UndoDeleteRecord _ _ name) = Msg ''apply.leftover.delete_record'' [name]"
| "leftover (UndoRestoreRecord _ r _ _) = Msg ''apply.leftover.restore_record'' [rec_name r, rec_kind r, rec_content r]"
| "leftover (UndoRecreateRecord _ r _) = Msg ''apply.leftover.recreate_record'' [rec_name r, rec_kind r, rec_content r]"
| "leftover (UndoStartConnector _) = Msg ''apply.leftover.start_connector'' []"
| "leftover (UndoDeleteLoginMethod _) = Msg ''apply.leftover.delete_login_method'' []"
| "leftover (UndoDeleteAccessApp _ domain skips) = Msg (if skips then ''apply.leftover.delete_access_bypass''
     else ''apply.leftover.delete_access_app'') [domain]"
| "leftover (UndoRestoreAccessApp _ previous) = Msg ''apply.leftover.restore_access_app'' [app_domain previous]"
| "leftover (UndoRecreateAccessApp previous) = Msg (if is_bypass previous then ''apply.leftover.recreate_access_bypass''
     else ''apply.leftover.recreate_access_app'') [app_domain previous]"
| "leftover (UndoDeleteNetworkRoute _ network) = Msg ''apply.leftover.delete_network_route'' [network]"
| "leftover (UndoRecreateNetworkRoute r) = Msg ''apply.leftover.recreate_network_route'' [net_network r]"
| "leftover (UndoDeleteHostnameRoute _ hostname) = Msg ''apply.leftover.delete_hostname_route'' [hostname]"
| "leftover (UndoRecreateHostnameRoute r) = Msg ''apply.leftover.recreate_hostname_route'' [hr_hostname r]"
| "leftover (UndoDeleteLbMonitor _) = Msg ''apply.leftover.delete_lb_monitor'' []"
| "leftover (UndoDeleteLbPool _) = Msg ''apply.leftover.delete_lb_pool'' []"
| "leftover (UndoRestoreLbPool _ _) = Msg ''apply.leftover.restore_lb_pool'' []"
| "leftover (UndoDeleteLoadBalancer _ _ hostname) = Msg ''apply.leftover.delete_load_balancer'' [hostname]"
| "leftover (UndoRecreateLoadBalancer _ b) = Msg ''apply.leftover.recreate_load_balancer'' [lb_name b]"
| "leftover (UndoRecreateLbPool p) = Msg ''apply.leftover.recreate_lb_pool'' [pool_name p]"
| "leftover (UndoRecreateLbMonitor _) = Msg ''apply.leftover.recreate_lb_monitor'' []"
| "leftover (UndoDeleteSnapshotWorker _ script) = Msg ''snapshot.leftover.delete_worker'' [script]"
| "leftover (UndoRedeploySnapshot _ script _ _) = Msg ''snapshot.leftover.redeploy'' [script]"
| "leftover (UndoSetWorkersDev script enabled) = Msg (if enabled then ''snapshot.leftover.workers_dev_off''
     else ''snapshot.leftover.workers_dev_on'') [script]"
| "leftover (UndoDetachSnapshotDomain _ hostname) = Msg ''snapshot.leftover.detach_domain'' [hostname]"
| "leftover (UndoReattachSnapshotDomain d) = Msg ''snapshot.leftover.reattach_domain'' [wd_hostname d]"
| "leftover (UndoRecreateSnapshotWorker script) = Msg ''snapshot.leftover.recreate_worker'' [script]"
| "leftover (UndoDeleteEdgeRule _ _ _ hostnames) = Msg ''protection.leftover.delete_rule'' [hostnames]"
| "leftover (UndoRestoreEdgeRule _ _ _ _ hostnames) = Msg ''protection.leftover.restore_rule'' [hostnames]"
| "leftover (UndoRecreateEdgeRule _ _ _ _ _ hostnames) = Msg ''protection.leftover.recreate_rule'' [hostnames]"
| "leftover (UndoDeleteServiceToken _ name) = Msg ''protection.leftover.delete_token'' [name]"
| "leftover (UndoRestoreServiceToken name) = Msg ''protection.leftover.restore_token'' [name]"
| "leftover (UndoDeleteDatabase i) = Msg ''front.leftover.delete_database'' [i]"
| "leftover (UndoDeleteFrontWorker _ script _) = Msg ''front.leftover.delete_worker'' [script]"
| "leftover (UndoRestoreFrontWorker _ _ script _ _) = Msg ''front.leftover.restore_worker'' [script]"
| "leftover (UndoDeleteWorkerRoute _ _ pattern _ _ _) = Msg ''front.leftover.delete_route'' [pattern]"
| "leftover (UndoRecreateWorkerRoute _ route _ _ _) = Msg ''front.leftover.recreate_route'' [wr_pattern route]"

subsection \<open>The local index\<close>

record edge_rule_row =
  er_rule_id :: string
  er_zone_id :: string
  er_phase :: string
  er_hostname :: "string option"
  er_kind :: string

record service_token_row =
  sr_token_id :: string
  sr_hostname :: string
  sr_name :: string
  sr_client_id :: string
  sr_expires_at :: "string option"

text \<open>The writes to the local index (\<open>engine/local*.rs\<close>). One that fails is logged and ignored
  (\<open>warn_local\<close>), so a write is a function of the world.\<close>

datatype local_op =
    SetMachineTunnel string string string
  | AddTunnelRow string string string
  | ReplaceTunnelRow string string
  | ForgetTunnel string
  | SetApplied string nat "ingress_rule list"
  | OwnRecord string string string string string
      \<comment> \<open>account, zone, record, hostname, route\<close>
  | DisownRecord string
  | OwnAccessApp string string string
  | DisownAccessApp string
  | SetBalanced string string bool
  | RecordSiteVersion string string site_content bool bool
  | SetSiteLive string string
  | DropSiteVersion string string
  | OwnEdgeRule string edge_rule_row
  | DisownEdgeRule string
  | OwnServiceToken string service_token_row
  | DisownServiceToken string
  | SetCloudDatabase string "(string \<times> string) option"
  | SaveFront string string string string front_config
      \<comment> \<open>account, hostname, zone, Worker, settings\<close>
  | SetFrontRoute string string front_kind string "string option"
  | ForgetFront string string front_kind string

subsection \<open>A run\<close>

text \<open>What a tunnel the run creates is to this machine.\<close>

datatype slot = SlotDefault | SlotAdditional | SlotReplaces string

text \<open>What does not change during a run. Of the files under the folder of a Snapshot only their
  reading is a parameter, as are the keychain and the base64 encoding.\<close>

record 'w env =
  env_api :: "'w cloud_api"
  env_connectors :: "'w connectors"
  env_local :: "local_op \<Rightarrow> 'w \<Rightarrow> 'w"
  env_site_versions :: "string \<Rightarrow> 'w \<Rightarrow> string list option"
  env_secret :: "(string \<Rightarrow> inbox_verify \<Rightarrow> 'w \<Rightarrow> string option) option"
  env_read :: "string \<Rightarrow> string \<Rightarrow> 'w \<Rightarrow> message + string"
  env_base64 :: "string \<Rightarrow> string"
  env_bundled :: bundled
  env_externals :: externals
  env_snapshot :: snapshot
  env_account :: string
  env_slot :: slot

record 'w exec =
  ex_world :: 'w
  ex_progress :: "progress list"
  ex_created :: "string option"
  ex_created_monitor :: "string option"
  ex_created_pool :: "string option"
  ex_renamed :: "string \<rightharpoonup> string"
  ex_done :: "(nat \<times> undo) list"
  ex_covered :: "nat list"
  ex_uploaded :: "(string \<times> site_content) option"
  ex_created_token :: "string option"
  ex_created_rulesets :: "string \<times> string \<rightharpoonup> string"
  ex_issued :: "issued_service_token list"
  ex_created_database :: "string option"

definition new_run :: "'w \<Rightarrow> 'w exec" where
  "new_run w = \<lparr>ex_world = w, ex_progress = [], ex_created = None, ex_created_monitor = None,
     ex_created_pool = None, ex_renamed = Map.empty, ex_done = [], ex_covered = [], ex_uploaded = None,
     ex_created_token = None, ex_created_rulesets = Map.empty, ex_issued = [], ex_created_database = None\<rparr>"

subsection \<open>Actions\<close>

named_theorems act_simps "running the actions of the executor"

type_synonym ('w, 'a) act = "'w exec \<Rightarrow> (message + 'a) \<times> 'w exec"

definition aret :: "'a \<Rightarrow> ('w, 'a) act" where
  "aret x = (\<lambda>e. (Inr x, e))"

definition aof :: "message + 'a \<Rightarrow> ('w, 'a) act" where
  "aof r = (\<lambda>e. (r, e))"

definition abind :: "('w, 'a) act \<Rightarrow> ('a \<Rightarrow> ('w, 'b) act) \<Rightarrow> ('w, 'b) act" where
  "abind m f = (\<lambda>e. case m e of (Inl msg, e') \<Rightarrow> (Inl msg, e') | (Inr x, e') \<Rightarrow> f x e')"

definition aupdate :: "('w exec \<Rightarrow> 'w exec) \<Rightarrow> ('w, unit) act" where
  "aupdate f = (\<lambda>e. (Inr (), f e))"

definition aget :: "('w exec \<Rightarrow> 'a) \<Rightarrow> ('w, 'a) act" where
  "aget f = (\<lambda>e. (Inr (f e), e))"

text \<open>A call to Cloudflare, with its error as a text.\<close>

definition call :: "('w, 'a) service \<Rightarrow> ('w, 'a) act" where
  "call f = (\<lambda>e. case f (ex_world e) of (r, w) \<Rightarrow> (map_err cf_text r, e\<lparr>ex_world := w\<rparr>))"

definition note_local :: "'w env \<Rightarrow> local_op \<Rightarrow> ('w, unit) act" where
  "note_local E op = aupdate (\<lambda>e. e\<lparr>ex_world := env_local E op (ex_world e)\<rparr>)"

definition report :: "nat \<Rightarrow> step_state \<Rightarrow> 'w exec \<Rightarrow> 'w exec" where
  "report n s e = e\<lparr>ex_progress := ex_progress e @ [(n, s)]\<rparr>"

lemma act_run [act_simps]:
  "aret x e = (Inr x, e)" "aof r e = (r, e)" "aupdate f e = (Inr (), f e)" "aget g e = (Inr (g e), e)"
  by (simp_all add: aret_def aof_def aupdate_def aget_def)

lemma abind_Inr [act_simps]:
  "abind m f e = (Inr y, e'') \<longleftrightarrow> (\<exists>x e'. m e = (Inr x, e') \<and> f x e' = (Inr y, e''))"
  by (auto simp: abind_def split: prod.splits sum.splits)

lemma abind_Inl [act_simps]:
  "abind m f e = (Inl msg, e'') \<longleftrightarrow> m e = (Inl msg, e'') \<or> (\<exists>x e'. m e = (Inr x, e') \<and> f x e' = (Inl msg, e''))"
  by (auto simp: abind_def split: prod.splits sum.splits)

end
