(* ===== verification/Executor.thy ===== *)
theory Executor
  imports Exec_Types
begin

text \<open>
  The steps of a run (\<open>engine/executor.rs\<close>): what each step calls, what it records in the local
  index and how it is reversed. One definition per step; \<open>exec_step\<close> chooses between them.
\<close>

subsection \<open>What steps refer to\<close>

definition NETWORK_COMMENT :: string where
  "NETWORK_COMMENT = ''Added by Teitunnel''"
definition SERVICE_TOKEN_DURATION :: string where
  "SERVICE_TOKEN_DURATION = ''8760h''"

definition route_id_from :: "string option \<Rightarrow> string" where
  "route_id_from comment = (case Option.bind comment ownership_parse of
      None \<Rightarrow> [] | Some w \<Rightarrow> (case own_marker w of Route rid \<Rightarrow> rid | _ \<Rightarrow> []))"

definition tunnel_cname :: "string \<Rightarrow> string \<Rightarrow> string \<Rightarrow> new_dns_record" where
  "tunnel_cname hostname tunnel_id comment =
     \<lparr>new_name = hostname, new_kind = ''CNAME'', new_content = tunnel_target tunnel_id, new_proxied = True,
      new_ttl = 1, new_comment = Some comment\<rparr>"

fun resolve :: "tunnel_ref \<Rightarrow> ('w, string) act" where
  "resolve (Existing i) = aret i"
| "resolve Created = (\<lambda>e. (ok_or (Msg ''apply.tunnel_not_created'' []) (ex_created e), e))"

fun resolve_lb :: "lb_ref \<Rightarrow> string option \<Rightarrow> message + string" where
  "resolve_lb (LbExisting i) _ = Inr i"
| "resolve_lb LbCreated created = ok_or (Msg ''apply.lb_not_created'' []) created"

fun resolve_token :: "token_ref \<Rightarrow> ('w, string) act" where
  "resolve_token (TokExisting i) = aret i"
| "resolve_token TokCreated = (\<lambda>e. (ok_or (Msg ''protection.error.token_not_created'' []) (ex_created_token e), e))"

fun resolve_database :: "database_ref \<Rightarrow> ('w, string) act" where
  "resolve_database (DbExisting i) = aret i"
| "resolve_database DbCreated = (\<lambda>e. (ok_or (Msg ''front.error.no_database'' []) (ex_created_database e), e))"

fun resolve_opt_database :: "database_ref option \<Rightarrow> ('w, string option) act" where
  "resolve_opt_database None = aret None"
| "resolve_opt_database (Some d) = abind (resolve_database d) (\<lambda>i. aret (Some i))"

definition site_database :: "site_settings \<Rightarrow> ('w, string option) act" where
  "site_database settings = resolve_opt_database (map_option cm_database (set_comments settings))"

text \<open>The origins of a pool, with their tunnels resolved in order.\<close>

fun pool_origins_for :: "string \<Rightarrow> pool_endpoint list \<Rightarrow> ('w, lb_origin list) act" where
  "pool_origins_for hostname [] = aret []"
| "pool_origins_for hostname (ep # eps) =
     abind (resolve (ep_tunnel ep)) (\<lambda>tid.
     abind (pool_origins_for hostname eps) (\<lambda>os.
     aret (origin_for hostname tid (ep_name ep) # os)))"

definition pool_for :: "string \<Rightarrow> lb_ref \<Rightarrow> pool_endpoint list \<Rightarrow> ('w, pool) act" where
  "pool_for hostname mref eps =
     abind (pool_origins_for hostname eps) (\<lambda>os.
     abind (\<lambda>e. (resolve_lb mref (ex_created_monitor e), e)) (\<lambda>m.
     aret \<lparr>pool_id = [], pool_name = lb_pool_name hostname, pool_description = lb_marker hostname,
       pool_enabled = True, pool_monitor = Some m, pool_origins = os\<rparr>))"

definition comment_for :: "'w env \<Rightarrow> string \<Rightarrow> string option \<Rightarrow> string" where
  "comment_for E route previous =
     route_comment route (sn_owner (env_snapshot E)) previous (sn_now (env_snapshot E))"

definition was_owned :: "'w env \<Rightarrow> string \<Rightarrow> bool" where
  "was_owned E record_id \<longleftrightarrow>
     list_ex (\<lambda>r. rec_id (obs_record r) = record_id \<and> obs_owned r) (sn_records (env_snapshot E))"

definition empty_config :: tunnel_config where
  "empty_config = \<lparr>cfg_ingress = [], cfg_origin_request = [], cfg_extra = []\<rparr>"

text \<open>Writing the rules of a tunnel, every other setting kept; refused when the configuration is not
  the version that was reviewed.\<close>

definition put_ingress :: "'w env \<Rightarrow> string \<Rightarrow> ingress_rule list \<Rightarrow> nat option \<Rightarrow> ('w, unit) act" where
  "put_ingress E tunnel ingress expected =
     abind (call (api_tunnel_config (tunnel_api (env_api E)) (env_account E) tunnel)) (\<lambda>current.
     abind (aof (fail_if (case expected of Some v \<Rightarrow> vc_version current \<noteq> v | None \<Rightarrow> False)
        (Msg ''apply.config_changed'' []))) (\<lambda>_.
     let config = (case vc_config current of Some c \<Rightarrow> c | None \<Rightarrow> empty_config) in
     abind (call (api_put_tunnel_config (tunnel_api (env_api E)) (env_account E) tunnel
        (config\<lparr>cfg_ingress := ingress\<rparr>))) (\<lambda>written.
     note_local E (SetApplied tunnel (vc_version written) ingress))))"

definition ensure_connector :: "'w env \<Rightarrow> string \<Rightarrow> ('w, unit) act" where
  "ensure_connector E tunnel_id =
     abind (aget (\<lambda>e. conn_is_running (env_connectors E) tunnel_id (ex_world e))) (\<lambda>running.
     if running then aret ()
     else abind (call (api_tunnel_token (tunnel_api (env_api E)) (env_account E) tunnel_id)) (\<lambda>token.
       (\<lambda>e. case conn_start (env_connectors E) (env_account E) tunnel_id token (ex_world e) of
          (r, w) \<Rightarrow> (r, e\<lparr>ex_world := w\<rparr>))))"

text \<open>Uploading a Worker in front of a route, and recording it.\<close>

definition put_front ::
    "'w env \<Rightarrow> string \<Rightarrow> string \<Rightarrow> string \<Rightarrow> front_config \<Rightarrow> string option \<Rightarrow> string option \<Rightarrow> ('w, unit) act" where
  "put_front E hostname zid script config database secret =
     abind (call (api_put_worker_script (worker_api (env_api E)) (env_account E) script
        (front_metadata (env_bundled E) script config database secret)
        (front_modules (env_bundled E) (config_kind config)))) (\<lambda>_.
     note_local E (SaveFront (env_account E) hostname zid script config))"

text \<open>\<open>hostnames.join(", ")\<close>.\<close>

fun join_names :: "string list \<Rightarrow> string" where
  "join_names [] = []"
| "join_names [h] = h"
| "join_names (h # hs) = h @ '', '' @ join_names hs"

text \<open>\<open>serde_json::to_value\<close> of a kind of rule.\<close>

fun rule_kind_name :: "rule_kind \<Rightarrow> string" where
  "rule_kind_name KindBlock = ''block''"
| "rule_kind_name KindChallenge = ''challenge''"
| "rule_kind_name KindRateLimit = ''rateLimit''"
| "rule_kind_name KindRequestHeaders = ''requestHeaders''"
| "rule_kind_name KindResponseHeaders = ''responseHeaders''"
| "rule_kind_name KindBypassCache = ''bypassCache''"

subsection \<open>Tunnels and records\<close>

definition exec_create_tunnel :: "'w env \<Rightarrow> string \<Rightarrow> ('w, undo option) act" where
  "exec_create_tunnel E name =
     abind (call (api_create_tunnel (tunnel_api (env_api E)) (env_account E) name)) (\<lambda>tid.
     abind (note_local E (case env_slot E of
         SlotDefault \<Rightarrow> SetMachineTunnel (env_account E) tid name
       | SlotAdditional \<Rightarrow> AddTunnelRow (env_account E) tid name
       | SlotReplaces old \<Rightarrow> ReplaceTunnelRow old tid)) (\<lambda>_.
     abind (aupdate (\<lambda>e. e\<lparr>ex_created := Some tid\<rparr>)) (\<lambda>_.
     aret (Some (UndoDeleteTunnel tid)))))"

definition exec_put_config ::
    "'w env \<Rightarrow> tunnel_ref \<Rightarrow> ingress_rule list \<Rightarrow> nat option \<Rightarrow> ingress_rule list \<Rightarrow> ('w, undo option) act" where
  "exec_put_config E tunnel ingress expected previous =
     abind (resolve tunnel) (\<lambda>tid.
     abind (put_ingress E tid ingress expected) (\<lambda>_.
     aret (if previous \<noteq> [] then Some (UndoRestoreConfig tid previous) else None)))"

definition exec_create_record ::
    "'w env \<Rightarrow> string \<Rightarrow> string \<Rightarrow> tunnel_ref \<Rightarrow> string \<Rightarrow> ('w, undo option) act" where
  "exec_create_record E zid hostname tunnel route =
     abind (resolve tunnel) (\<lambda>target.
     abind (call (api_create_record (dns_api (env_api E)) zid
        (tunnel_cname hostname target (comment_for E route None)))) (\<lambda>r.
     abind (note_local E (OwnRecord (env_account E) zid (rec_id r) hostname route)) (\<lambda>_.
     aret (Some (UndoDeleteRecord zid (rec_id r) hostname)))))"

text \<open>A record of another kind is replaced, since a record does not change its kind in place.\<close>

definition exec_update_record ::
    "'w env \<Rightarrow> string \<Rightarrow> string \<Rightarrow> string \<Rightarrow> tunnel_ref \<Rightarrow> string \<Rightarrow> dns_record \<Rightarrow> ('w, undo option) act" where
  "exec_update_record E zid record_id hostname tunnel route previous =
     abind (resolve tunnel) (\<lambda>target.
     let cname = tunnel_cname hostname target (comment_for E route (rec_comment previous)) in
     abind (if rec_kind previous = new_kind cname
            then call (api_update_record (dns_api (env_api E)) zid record_id cname)
            else abind (call (api_replace_record (dns_api (env_api E)) zid record_id cname)) (\<lambda>replaced.
                 abind (note_local E (DisownRecord record_id)) (\<lambda>_. aret replaced))) (\<lambda>current.
     abind (note_local E (OwnRecord (env_account E) zid (rec_id current) hostname route)) (\<lambda>_.
     aret (Some (UndoRestoreRecord zid previous (rec_id current) (was_owned E record_id))))))"

definition exec_delete_record :: "'w env \<Rightarrow> string \<Rightarrow> dns_record \<Rightarrow> ('w, undo option) act" where
  "exec_delete_record E zid r =
     abind (call (api_delete_record (dns_api (env_api E)) zid (rec_id r))) (\<lambda>_.
     abind (note_local E (DisownRecord (rec_id r))) (\<lambda>_.
     aret (Some (UndoRecreateRecord zid r (was_owned E (rec_id r))))))"

definition exec_create_reservation :: "'w env \<Rightarrow> string \<Rightarrow> string \<Rightarrow> nat option \<Rightarrow> ('w, undo option) act" where
  "exec_create_reservation E zid hostname til =
     abind (call (api_create_record (dns_api (env_api E)) zid
        \<lparr>new_name = hostname, new_kind = LEASE_KIND, new_content = LEASE_ADDRESS, new_proxied = True, new_ttl = 1,
         new_comment = Some (render (ownership_lease (sn_owner (env_snapshot E)) til))\<rparr>)) (\<lambda>r.
     aret (Some (UndoDeleteRecord zid (rec_id r) hostname)))"

text \<open>The comment of a record whose lease is taken (\<open>on\<close>) or given up.\<close>

definition lease_comment :: "string \<Rightarrow> string option \<Rightarrow> bool \<Rightarrow> nat option \<Rightarrow> ownership" where
  "lease_comment owner comment on til =
     (let w = (case Option.bind comment ownership_parse of Some w \<Rightarrow> w
            | None \<Rightarrow> \<lparr>own_marker = Lease, own_owner = None, own_lease = True, own_until = None\<rparr>)
      in w\<lparr>own_owner := (case own_owner w of None \<Rightarrow> Some owner | Some o' \<Rightarrow> Some o'),
           own_lease := on \<or> own_marker w = Lease,
           own_until := (if on then til else None)\<rparr>)"

definition exec_set_lease :: "'w env \<Rightarrow> string \<Rightarrow> dns_record \<Rightarrow> bool \<Rightarrow> nat option \<Rightarrow> ('w, undo option) act" where
  "exec_set_lease E zid r on til =
     abind (call (api_update_record (dns_api (env_api E)) zid (rec_id r)
        ((record_to_new r)\<lparr>new_comment :=
           Some (render (lease_comment (sn_owner (env_snapshot E)) (rec_comment r) on til))\<rparr>))) (\<lambda>_.
     aret (Some (UndoRestoreRecord zid r (rec_id r) (was_owned E (rec_id r)))))"

definition exec_stop_connector :: "'w env \<Rightarrow> string \<Rightarrow> ('w, undo option) act" where
  "exec_stop_connector E tunnel_id =
     abind (\<lambda>e. case conn_stop (env_connectors E) tunnel_id (ex_world e) of (r, w) \<Rightarrow> (r, e\<lparr>ex_world := w\<rparr>)) (\<lambda>_.
     aret (Some (UndoStartConnector tunnel_id)))"

text \<open>Deleting a tunnel in Cloudflare and forgetting it here.\<close>

definition remove_tunnel :: "'w env \<Rightarrow> string \<Rightarrow> ('w, unit) act" where
  "remove_tunnel E tunnel_id =
     abind (call (api_delete_tunnel (tunnel_api (env_api E)) (env_account E) tunnel_id)) (\<lambda>_.
     abind (note_local E (ForgetTunnel tunnel_id)) (\<lambda>_.
     aupdate (\<lambda>e. e\<lparr>ex_world := conn_deleted (env_connectors E) tunnel_id (ex_world e)\<rparr>)))"

definition exec_delete_tunnel :: "'w env \<Rightarrow> string \<Rightarrow> ('w, undo option) act" where
  "exec_delete_tunnel E tunnel_id = abind (remove_tunnel E tunnel_id) (\<lambda>_. aret None)"

subsection \<open>Logins and service tokens\<close>

definition exec_add_login_method :: "'w env \<Rightarrow> ('w, undo option) act" where
  "exec_add_login_method E =
     abind (call (api_create_one_time_pin (access_api (env_api E)) (env_account E))) (\<lambda>i.
     aret (Some (UndoDeleteLoginMethod i)))"

definition exec_create_access_app :: "'w env \<Rightarrow> new_access_app \<Rightarrow> ('w, undo option) act" where
  "exec_create_access_app E app =
     abind (call (api_create_access_app (access_api (env_api E)) (env_account E) app)) (\<lambda>i.
     abind (note_local E (OwnAccessApp (env_account E) i (app_domain app))) (\<lambda>_.
     aret (Some (UndoDeleteAccessApp i (app_domain app) (is_bypass app)))))"

definition exec_update_access_app ::
    "'w env \<Rightarrow> string \<Rightarrow> new_access_app \<Rightarrow> new_access_app \<Rightarrow> ('w, undo option) act" where
  "exec_update_access_app E i app previous =
     abind (call (api_update_access_app (access_api (env_api E)) (env_account E) i app)) (\<lambda>_.
     abind (note_local E (OwnAccessApp (env_account E) i (app_domain app))) (\<lambda>_.
     aret (Some (UndoRestoreAccessApp i previous))))"

definition exec_delete_access_app :: "'w env \<Rightarrow> string \<Rightarrow> new_access_app \<Rightarrow> ('w, undo option) act" where
  "exec_delete_access_app E i previous =
     abind (call (api_delete_access_app (access_api (env_api E)) (env_account E) i)) (\<lambda>_.
     abind (note_local E (DisownAccessApp i)) (\<lambda>_.
     aret (Some (UndoRecreateAccessApp previous))))"

definition exec_create_service_token :: "'w env \<Rightarrow> string \<Rightarrow> string \<Rightarrow> ('w, undo option) act" where
  "exec_create_service_token E hostname name =
     abind (call (api_create_service_token (access_api (env_api E)) (env_account E) name SERVICE_TOKEN_DURATION)) (\<lambda>t.
     abind (note_local E (OwnServiceToken (env_account E) \<lparr>sr_token_id = ist_token_id t, sr_hostname = hostname,
        sr_name = ist_name t, sr_client_id = ist_client_id t, sr_expires_at = ist_expires_at t\<rparr>)) (\<lambda>_.
     abind (aupdate (\<lambda>e. e\<lparr>ex_created_token := Some (ist_token_id t), ex_issued := ex_issued e @ [t]\<rparr>)) (\<lambda>_.
     aret (Some (UndoDeleteServiceToken (ist_token_id t) (ist_name t))))))"

text \<open>Letting a token in: into the application there is, or into a new one for machines only.\<close>

definition exec_allow_service_token ::
    "'w env \<Rightarrow> string \<Rightarrow> (string \<times> new_access_app) option \<Rightarrow> token_ref \<Rightarrow> ('w, undo option) act" where
  "exec_allow_service_token E domain app token =
     abind (resolve_token token) (\<lambda>tok. case app of
        Some (i, previous) \<Rightarrow>
          abind (call (api_update_access_app (access_api (env_api E)) (env_account E) i
             (with_service_token previous tok))) (\<lambda>_.
          aret (Some (UndoRestoreAccessApp i previous)))
      | None \<Rightarrow>
          abind (call (api_create_access_app (access_api (env_api E)) (env_account E)
             (with_service_token (machine_only_definition domain) tok))) (\<lambda>i.
          abind (note_local E (OwnAccessApp (env_account E) i domain)) (\<lambda>_.
          aret (Some (UndoDeleteAccessApp i domain False)))))"

definition exec_delete_service_token :: "'w env \<Rightarrow> service_token \<Rightarrow> ('w, undo option) act" where
  "exec_delete_service_token E t =
     abind (call (api_delete_service_token (access_api (env_api E)) (env_account E) (tok_id t))) (\<lambda>_.
     abind (note_local E (DisownServiceToken (tok_id t))) (\<lambda>_.
     aret (Some (UndoRestoreServiceToken (tok_name t)))))"

definition exec_rotate_service_token :: "'w env \<Rightarrow> service_token \<Rightarrow> ('w, undo option) act" where
  "exec_rotate_service_token E t =
     abind (call (api_rotate_service_token (access_api (env_api E)) (env_account E) (tok_id t))) (\<lambda>issued.
     abind (aupdate (\<lambda>e. e\<lparr>ex_issued := ex_issued e @ [issued]\<rparr>)) (\<lambda>_.
     aret (Some (UndoRestoreServiceToken (tok_name t)))))"

subsection \<open>Private networks\<close>

definition exec_create_network_route :: "'w env \<Rightarrow> ip_net \<Rightarrow> tunnel_ref \<Rightarrow> ('w, undo option) act" where
  "exec_create_network_route E net tunnel =
     abind (resolve tunnel) (\<lambda>target.
     let network = ipnet_show (env_externals E) net in
     abind (call (api_create_network_route (tunnel_api (env_api E)) (env_account E) network target NETWORK_COMMENT None)) (\<lambda>i.
     aret (Some (UndoDeleteNetworkRoute i network))))"

definition exec_delete_network_route :: "'w env \<Rightarrow> network_route \<Rightarrow> ('w, undo option) act" where
  "exec_delete_network_route E r =
     abind (call (api_delete_network_route (tunnel_api (env_api E)) (env_account E) (net_id r))) (\<lambda>_.
     aret (Some (UndoRecreateNetworkRoute r)))"

definition exec_create_hostname_route :: "'w env \<Rightarrow> hostname \<Rightarrow> tunnel_ref \<Rightarrow> ('w, undo option) act" where
  "exec_create_hostname_route E hostname tunnel =
     abind (resolve tunnel) (\<lambda>target.
     abind (call (api_create_hostname_route (tunnel_api (env_api E)) (env_account E) hostname target NETWORK_COMMENT)) (\<lambda>i.
     aret (Some (UndoDeleteHostnameRoute i hostname))))"

definition exec_delete_hostname_route :: "'w env \<Rightarrow> hostname_route \<Rightarrow> ('w, undo option) act" where
  "exec_delete_hostname_route E r =
     abind (call (api_delete_hostname_route (tunnel_api (env_api E)) (env_account E) (hr_id r))) (\<lambda>_.
     aret (Some (UndoRecreateHostnameRoute r)))"

subsection \<open>Load balancing\<close>

definition exec_create_lb_monitor :: "'w env \<Rightarrow> string \<Rightarrow> ('w, undo option) act" where
  "exec_create_lb_monitor E hostname =
     abind (call (api_create_lb_monitor (balance_api (env_api E)) (env_account E) (monitor_for hostname))) (\<lambda>i.
     abind (aupdate (\<lambda>e. e\<lparr>ex_created_monitor := Some i\<rparr>)) (\<lambda>_.
     aret (Some (UndoDeleteLbMonitor i))))"

definition exec_create_lb_pool :: "'w env \<Rightarrow> string \<Rightarrow> lb_ref \<Rightarrow> pool_endpoint list \<Rightarrow> ('w, undo option) act" where
  "exec_create_lb_pool E hostname mref eps =
     abind (pool_for hostname mref eps) (\<lambda>p.
     abind (call (api_create_lb_pool (balance_api (env_api E)) (env_account E) p)) (\<lambda>i.
     abind (aupdate (\<lambda>e. e\<lparr>ex_created_pool := Some i\<rparr>)) (\<lambda>_.
     aret (Some (UndoDeleteLbPool i)))))"

definition exec_update_lb_pool ::
    "'w env \<Rightarrow> string \<Rightarrow> string \<Rightarrow> lb_ref \<Rightarrow> pool_endpoint list \<Rightarrow> pool \<Rightarrow> ('w, undo option) act" where
  "exec_update_lb_pool E hostname i mref eps previous =
     abind (pool_for hostname mref eps) (\<lambda>p.
     abind (call (api_update_lb_pool (balance_api (env_api E)) (env_account E) i p)) (\<lambda>_.
     aret (Some (UndoRestoreLbPool i previous))))"

definition exec_create_load_balancer :: "'w env \<Rightarrow> string \<Rightarrow> string \<Rightarrow> lb_ref \<Rightarrow> ('w, undo option) act" where
  "exec_create_load_balancer E zid hostname pref =
     abind (\<lambda>e. (resolve_lb pref (ex_created_pool e), e)) (\<lambda>p.
     abind (call (api_create_load_balancer (balance_api (env_api E)) zid
        \<lparr>lb_id = [], lb_name = hostname, lb_description = lb_marker hostname, lb_default_pools = [p],
         lb_fallback_pool = p, lb_proxied = True\<rparr>)) (\<lambda>i.
     abind (note_local E (SetBalanced (env_account E) hostname True)) (\<lambda>_.
     aret (Some (UndoDeleteLoadBalancer zid i hostname)))))"

definition exec_delete_load_balancer :: "'w env \<Rightarrow> string \<Rightarrow> load_balancer \<Rightarrow> ('w, undo option) act" where
  "exec_delete_load_balancer E zid b =
     abind (call (api_delete_load_balancer (balance_api (env_api E)) zid (lb_id b))) (\<lambda>_.
     abind (note_local E (SetBalanced (env_account E) (lb_name b) False)) (\<lambda>_.
     aret (Some (UndoRecreateLoadBalancer zid b))))"

definition exec_delete_lb_pool :: "'w env \<Rightarrow> pool \<Rightarrow> ('w, undo option) act" where
  "exec_delete_lb_pool E p =
     abind (call (api_delete_lb_pool (balance_api (env_api E)) (env_account E) (pool_id p))) (\<lambda>_.
     aret (Some (UndoRecreateLbPool p)))"

definition exec_delete_lb_monitor :: "'w env \<Rightarrow> monitor \<Rightarrow> ('w, undo option) act" where
  "exec_delete_lb_monitor E m =
     abind (call (api_delete_lb_monitor (balance_api (env_api E)) (env_account E) (mon_id m))) (\<lambda>_.
     aret (Some (UndoRecreateLbMonitor m)))"

subsection \<open>Snapshots\<close>

text \<open>The hash a file is stored under, and the files of a version by it.\<close>

definition path_extension :: "string \<Rightarrow> string" where
  "path_extension path =
     (let name = rev (takeWhile (\<lambda>c. c \<noteq> CHR ''/'') (rev path));
          ext = rev (takeWhile (\<lambda>c. c \<noteq> CHR ''.'') (rev name))
      in if name = ''..'' \<or> length name \<le> Suc (length ext) then [] else ext)"

definition content_hash :: "'w env \<Rightarrow> string \<Rightarrow> string \<Rightarrow> string" where
  "content_hash E content path =
     concat (map hex_byte (take 16 (sha256 (env_externals E) (env_base64 E content @ path_extension path))))"

definition MAX_FILE_SIZE :: nat where
  "MAX_FILE_SIZE = 25 * 1024 * 1024"
definition BUCKET_FILES :: nat where
  "BUCKET_FILES = 50"

fun chunks :: "nat \<Rightarrow> 'a list \<Rightarrow> 'a list list" where
  "chunks n [] = []"
| "chunks n (x # xs) = take (Suc (n - 1)) (x # xs) # chunks n (drop (n - 1) xs)"

definition file_of_hash :: "site_content \<Rightarrow> string \<Rightarrow> site_file option" where
  "file_of_hash c h = find (\<lambda>f. sf_hash f = h) (rev (sc_files c))"

text \<open>The files of one request, read again and checked against what was reviewed.\<close>

fun read_chunk :: "'w env \<Rightarrow> site_content \<Rightarrow> string \<Rightarrow> string list \<Rightarrow> ('w, asset_file list) act" where
  "read_chunk E content root [] = aret []"
| "read_chunk E content root (h # hs) =
     abind (aof (ok_or (Msg ''snapshot.error.unknown_hash'' [h]) (file_of_hash content h))) (\<lambda>f.
     abind (\<lambda>e. (env_read E root (sf_path f) (ex_world e), e)) (\<lambda>bytes.
     abind (aof (fail_if (length bytes > MAX_FILE_SIZE) (Msg ''snapshot.error.too_large'' [sf_path f]))) (\<lambda>_.
     abind (aof (fail_if (content_hash E bytes (sf_path f) \<noteq> sf_hash f) (Msg ''snapshot.error.changed'' [sf_path f]))) (\<lambda>_.
     abind (read_chunk E content root hs) (\<lambda>fs.
     aret (\<lparr>af_hash = sf_hash f, af_content_type = sf_content_type f, af_content = bytes\<rparr> # fs))))))"

text \<open>Uploading request after request; the completion token is the last one answered.\<close>

fun upload_chunks ::
    "'w env \<Rightarrow> nat \<Rightarrow> site_content \<Rightarrow> string \<Rightarrow> string \<Rightarrow> transfer \<Rightarrow> string option \<Rightarrow> string list list
      \<Rightarrow> ('w, string option) act" where
  "upload_chunks E n content root jwt t completion [] = aret completion"
| "upload_chunks E n content root jwt t completion (chunk # rest) =
     abind (read_chunk E content root chunk) (\<lambda>files.
     abind (call (api_upload_assets (worker_api (env_api E)) (env_account E) jwt files)) (\<lambda>answer.
     let t' = t\<lparr>tr_files := tr_files t + length files,
                tr_bytes := tr_bytes t + sum_list (map (length \<circ> af_content) files)\<rparr> in
     abind (aupdate (report n (Transferring t'))) (\<lambda>_.
     upload_chunks E n content root jwt t' (if answer = None then completion else answer) rest)))"

definition upload :: "'w env \<Rightarrow> nat \<Rightarrow> string \<Rightarrow> site_content \<Rightarrow> ('w, string) act" where
  "upload E n script content =
     abind (call (api_create_assets_upload_session (worker_api (env_api E)) (env_account E) script (manifest content))) (\<lambda>s.
     if us_buckets s = [] then aret (us_jwt s)
     else abind (aof (ok_or (Msg ''snapshot.error.files_missing'' []) (sc_root content))) (\<lambda>root.
       let wanted = List.map_filter (file_of_hash content) (concat (us_buckets s));
           t = \<lparr>tr_files = 0, tr_total_files = length wanted, tr_bytes = 0, tr_total_bytes = sum_list (map sf_size wanted)\<rparr> in
       abind (aupdate (report n (Transferring t))) (\<lambda>_.
       abind (upload_chunks E n content root (us_jwt s) t None (concat (map (chunks BUCKET_FILES) (us_buckets s)))) (\<lambda>answer.
       aof (ok_or (Msg ''snapshot.error.not_confirmed'' []) answer)))))"

definition exec_upload :: "'w env \<Rightarrow> nat \<Rightarrow> string \<Rightarrow> site_content \<Rightarrow> ('w, undo option) act" where
  "exec_upload E n script content =
     abind (upload E n script content) (\<lambda>jwt.
     abind (aupdate (\<lambda>e. e\<lparr>ex_uploaded := Some (jwt, content)\<rparr>)) (\<lambda>_. aret None))"

definition site_upload_metadata :: "string \<Rightarrow> site_settings \<Rightarrow> ('w, json \<times> site_content) act" where
  "site_upload_metadata script settings =
     abind (\<lambda>e. (ok_or (Msg ''snapshot.error.not_uploaded'' []) (ex_uploaded e), e)) (\<lambda>(jwt, content).
     abind (site_database settings) (\<lambda>database.
     aret (site_metadata settings content jwt ''Teitunnel Snapshot'' script database, content)))"

text \<open>The version a new Worker got is read back, to remember it; nothing fails without it.\<close>

definition exec_create_snapshot_worker :: "'w env \<Rightarrow> string \<Rightarrow> string \<Rightarrow> site_settings \<Rightarrow> ('w, undo option) act" where
  "exec_create_snapshot_worker E snap script settings =
     abind (site_upload_metadata script settings) (\<lambda>(metadata, content).
     abind (call (api_put_worker_script (worker_api (env_api E)) (env_account E) script metadata (site_modules (env_bundled E)))) (\<lambda>_.
     abind (\<lambda>e. case api_worker_deployments (worker_api (env_api E)) (env_account E) script (ex_world e) of
        (r, w) \<Rightarrow> (Inr (case r of Inr (Some (d # _)) \<Rightarrow> main_version d | _ \<Rightarrow> None), e\<lparr>ex_world := w\<rparr>)) (\<lambda>version.
     abind (case version of None \<Rightarrow> aret ()
        | Some v \<Rightarrow> note_local E (RecordSiteVersion snap v content (set_spa settings) (set_password settings \<noteq> PasswordOff))) (\<lambda>_.
     aret (Some (UndoDeleteSnapshotWorker snap script))))))"

definition exec_publish_snapshot_version ::
    "'w env \<Rightarrow> string \<Rightarrow> string \<Rightarrow> site_settings \<Rightarrow> string option \<Rightarrow> ('w, undo option) act" where
  "exec_publish_snapshot_version E snap script settings previous =
     abind (site_upload_metadata script settings) (\<lambda>(metadata, content).
     abind (call (api_upload_worker_version (worker_api (env_api E)) (env_account E) script metadata (site_modules (env_bundled E)))) (\<lambda>v.
     abind (call (api_deploy_worker_version (worker_api (env_api E)) (env_account E) script v)) (\<lambda>_.
     abind (note_local E (RecordSiteVersion snap v content (set_spa settings) (set_password settings \<noteq> PasswordOff))) (\<lambda>_.
     aret (map_option (\<lambda>p. UndoRedeploySnapshot snap script p (Some v)) previous)))))"

definition exec_roll_back_snapshot :: "'w env \<Rightarrow> string \<Rightarrow> string \<Rightarrow> string \<Rightarrow> string option \<Rightarrow> ('w, undo option) act" where
  "exec_roll_back_snapshot E snap script v previous =
     abind (call (api_deploy_worker_version (worker_api (env_api E)) (env_account E) script v)) (\<lambda>_.
     abind (note_local E (SetSiteLive snap v)) (\<lambda>_.
     aret (map_option (\<lambda>p. UndoRedeploySnapshot snap script p None) previous)))"

definition exec_set_workers_dev :: "'w env \<Rightarrow> string \<Rightarrow> bool \<Rightarrow> ('w, undo option) act" where
  "exec_set_workers_dev E script enabled =
     abind (call (api_set_worker_on_workers_dev (worker_api (env_api E)) (env_account E) script enabled)) (\<lambda>_.
     aret (Some (UndoSetWorkersDev script (\<not> enabled))))"

definition exec_attach_snapshot_domain :: "'w env \<Rightarrow> string \<Rightarrow> string \<Rightarrow> string \<Rightarrow> ('w, undo option) act" where
  "exec_attach_snapshot_domain E zid hostname script =
     abind (call (api_attach_worker_domain (worker_api (env_api E)) (env_account E) hostname zid script)) (\<lambda>i.
     aret (Some (UndoDetachSnapshotDomain i hostname)))"

definition exec_detach_snapshot_domain :: "'w env \<Rightarrow> worker_domain \<Rightarrow> ('w, undo option) act" where
  "exec_detach_snapshot_domain E d =
     abind (call (api_detach_worker_domain (worker_api (env_api E)) (env_account E) (wd_id d))) (\<lambda>_.
     aret (Some (UndoReattachSnapshotDomain d)))"

definition exec_delete_snapshot_worker :: "'w env \<Rightarrow> string \<Rightarrow> ('w, undo option) act" where
  "exec_delete_snapshot_worker E script =
     abind (call (api_delete_worker_script (worker_api (env_api E)) (env_account E) script)) (\<lambda>_.
     aret (Some (UndoRecreateSnapshotWorker script)))"

subsection \<open>Edge rules, Workers in front of a route\<close>

text \<open>A rule goes into the ruleset that was observed, or the one the run created for the phase.\<close>

definition exec_create_edge_rule ::
    "'w env \<Rightarrow> string \<Rightarrow> string \<Rightarrow> string option \<Rightarrow> rule_kind \<Rightarrow> string list \<Rightarrow> new_rule \<Rightarrow> ('w, undo option) act" where
  "exec_create_edge_rule E zid ph ruleset_id kind hostnames r =
     abind (aget (\<lambda>e. case ruleset_id of Some i \<Rightarrow> Some i | None \<Rightarrow> ex_created_rulesets e (zid, ph))) (\<lambda>known.
     abind (call (api_create_rule (edge_api (env_api E)) zid ph known r None)) (\<lambda>(ruleset, rid).
     abind (aupdate (\<lambda>e. e\<lparr>ex_created_rulesets := (ex_created_rulesets e)((zid, ph) \<mapsto> ruleset)\<rparr>)) (\<lambda>_.
     abind (note_local E (OwnEdgeRule (env_account E) \<lparr>er_rule_id = rid, er_zone_id = zid, er_phase = ph,
        er_hostname = (if kind \<noteq> KindRateLimit then Some (join_names hostnames) else None),
        er_kind = rule_kind_name kind\<rparr>)) (\<lambda>_.
     aret (Some (UndoDeleteEdgeRule zid ruleset rid (join_names hostnames)))))))"

definition exec_update_edge_rule ::
    "'w env \<Rightarrow> string \<Rightarrow> string \<Rightarrow> string \<Rightarrow> string list \<Rightarrow> new_rule \<Rightarrow> new_rule \<Rightarrow> ('w, undo option) act" where
  "exec_update_edge_rule E zid ruleset rid hostnames r previous =
     abind (call (api_update_rule (edge_api (env_api E)) zid ruleset rid r)) (\<lambda>_.
     aret (Some (UndoRestoreEdgeRule zid ruleset rid previous (join_names hostnames))))"

definition exec_delete_edge_rule ::
    "'w env \<Rightarrow> string \<Rightarrow> string \<Rightarrow> string \<Rightarrow> string \<Rightarrow> string list \<Rightarrow> new_rule \<Rightarrow> nat \<Rightarrow> ('w, undo option) act" where
  "exec_delete_edge_rule E zid ph ruleset rid hostnames previous position =
     abind (call (api_delete_rule (edge_api (env_api E)) zid ruleset rid)) (\<lambda>_.
     abind (note_local E (DisownEdgeRule rid)) (\<lambda>_.
     aret (Some (UndoRecreateEdgeRule zid ph ruleset previous position (join_names hostnames)))))"

text \<open>The tables are made with the database; without them the new database goes again.\<close>

definition exec_create_database :: "'w env \<Rightarrow> string \<Rightarrow> ('w, undo option) act" where
  "exec_create_database E name =
     abind (call (api_create_d1_database (worker_api (env_api E)) (env_account E) name)) (\<lambda>i.
     abind (\<lambda>e. case create_tables (env_api E) (env_account E) i (ex_world e) of
          (Inr _, w) \<Rightarrow> (Inr (), e\<lparr>ex_world := w, ex_created_database := Some i\<rparr>)
        | (Inl err, w) \<Rightarrow> (case api_delete_d1_database (worker_api (env_api E)) (env_account E) i w of
             (_, w') \<Rightarrow> (Inl (cf_text err), e\<lparr>ex_world := w', ex_created_database := None\<rparr>))) (\<lambda>_.
     abind (note_local E (SetCloudDatabase (env_account E) (Some (i, name)))) (\<lambda>_.
     aret (Some (UndoDeleteDatabase i)))))"

definition exec_put_front_worker ::
    "'w env \<Rightarrow> string \<Rightarrow> string \<Rightarrow> string \<Rightarrow> front_config \<Rightarrow> front_config option \<Rightarrow> database_ref option
      \<Rightarrow> string option \<Rightarrow> ('w, undo option) act" where
  "exec_put_front_worker E hostname zid script config previous dref secret =
     abind (resolve_opt_database dref) (\<lambda>database.
     abind (put_front E hostname zid script config database secret) (\<lambda>_.
     aret (Some (case previous of
        Some p \<Rightarrow> UndoRestoreFrontWorker hostname zid script p database
      | None \<Rightarrow> UndoDeleteFrontWorker hostname script config))))"

definition exec_create_worker_route ::
    "'w env \<Rightarrow> string \<Rightarrow> string \<Rightarrow> string \<Rightarrow> string \<Rightarrow> front_kind \<Rightarrow> string \<Rightarrow> ('w, undo option) act" where
  "exec_create_worker_route E hostname zid pattern script kind path =
     abind (call (api_create_worker_route (worker_api (env_api E)) zid pattern script)) (\<lambda>i.
     abind (note_local E (SetFrontRoute (env_account E) hostname kind path (Some i))) (\<lambda>_.
     aret (Some (UndoDeleteWorkerRoute zid i pattern hostname kind path))))"

definition exec_delete_worker_route ::
    "'w env \<Rightarrow> string \<Rightarrow> string \<Rightarrow> worker_route \<Rightarrow> front_kind \<Rightarrow> string \<Rightarrow> ('w, undo option) act" where
  "exec_delete_worker_route E hostname zid r kind path =
     abind (call (api_delete_worker_route (worker_api (env_api E)) zid (wr_id r))) (\<lambda>_.
     abind (note_local E (SetFrontRoute (env_account E) hostname kind path None)) (\<lambda>_.
     aret (Some (UndoRecreateWorkerRoute zid r hostname kind path))))"

definition exec_delete_front_worker ::
    "'w env \<Rightarrow> string \<Rightarrow> string \<Rightarrow> string \<Rightarrow> front_config \<Rightarrow> string option \<Rightarrow> ('w, undo option) act" where
  "exec_delete_front_worker E hostname zid script previous database =
     abind (call (api_delete_worker_script (worker_api (env_api E)) (env_account E) script)) (\<lambda>_.
     abind (note_local E (ForgetFront (env_account E) hostname (config_kind previous) (config_path previous))) (\<lambda>_.
     aret (Some (UndoRestoreFrontWorker hostname zid script previous database))))"

subsection \<open>One step\<close>

text \<open>The position \<open>n\<close> in the plan only tells whose progress an upload reports.\<close>

fun exec_step :: "'w env \<Rightarrow> nat \<Rightarrow> step \<Rightarrow> ('w, undo option) act" where
  "exec_step E n (CreateTunnel name) = exec_create_tunnel E name"
| "exec_step E n (PutConfig t ingress v previous) = exec_put_config E t ingress v previous"
| "exec_step E n (CreateRecord z h t route) = exec_create_record E z h t route"
| "exec_step E n (UpdateRecord z rid h t route previous) = exec_update_record E z rid h t route previous"
| "exec_step E n (DeleteRecord z r) = exec_delete_record E z r"
| "exec_step E n (StopConnector tid) = exec_stop_connector E tid"
| "exec_step E n (DeleteTunnel tid) = exec_delete_tunnel E tid"
| "exec_step E n AddLoginMethod = exec_add_login_method E"
| "exec_step E n (CreateAccessApp app) = exec_create_access_app E app"
| "exec_step E n (UpdateAccessApp i app previous) = exec_update_access_app E i app previous"
| "exec_step E n (DeleteAccessApp i previous) = exec_delete_access_app E i previous"
| "exec_step E n (CreateNetworkRoute net t) = exec_create_network_route E net t"
| "exec_step E n (DeleteNetworkRoute r) = exec_delete_network_route E r"
| "exec_step E n (CreateHostnameRoute h t) = exec_create_hostname_route E h t"
| "exec_step E n (DeleteHostnameRoute r) = exec_delete_hostname_route E r"
| "exec_step E n (CreateLbMonitor h) = exec_create_lb_monitor E h"
| "exec_step E n (CreateLbPool h m eps) = exec_create_lb_pool E h m eps"
| "exec_step E n (UpdateLbPool h i m eps previous) = exec_update_lb_pool E h i m eps previous"
| "exec_step E n (CreateLoadBalancer z h p) = exec_create_load_balancer E z h p"
| "exec_step E n (DeleteLoadBalancer z b) = exec_delete_load_balancer E z b"
| "exec_step E n (DeleteLbPool p) = exec_delete_lb_pool E p"
| "exec_step E n (DeleteLbMonitor m) = exec_delete_lb_monitor E m"
| "exec_step E n (Verify h) = aret None"
| "exec_step E n (UploadSnapshotFiles script content _ _) = exec_upload E n script content"
| "exec_step E n (CreateSnapshotWorker snap script settings) = exec_create_snapshot_worker E snap script settings"
| "exec_step E n (PublishSnapshotVersion snap script settings previous) =
     exec_publish_snapshot_version E snap script settings previous"
| "exec_step E n (RollBackSnapshot snap script v _ previous) = exec_roll_back_snapshot E snap script v previous"
| "exec_step E n (EnableWorkersDev script _) = exec_set_workers_dev E script True"
| "exec_step E n (DisableWorkersDev script _) = exec_set_workers_dev E script False"
| "exec_step E n (AttachSnapshotDomain z h script) = exec_attach_snapshot_domain E z h script"
| "exec_step E n (DetachSnapshotDomain d) = exec_detach_snapshot_domain E d"
| "exec_step E n (DeleteSnapshotWorker snap script) = exec_delete_snapshot_worker E script"
| "exec_step E n (CreateReservation z h til) = exec_create_reservation E z h til"
| "exec_step E n (SetLease z r on til) = exec_set_lease E z r on til"
| "exec_step E n (CreateEdgeRule z ph rs kind hosts r) = exec_create_edge_rule E z ph rs kind hosts r"
| "exec_step E n (UpdateEdgeRule z rs rid kind hosts r previous) = exec_update_edge_rule E z rs rid hosts r previous"
| "exec_step E n (DeleteEdgeRule z ph rs rid kind hosts previous position) =
     exec_delete_edge_rule E z ph rs rid hosts previous position"
| "exec_step E n (CreateServiceToken h name) = exec_create_service_token E h name"
| "exec_step E n (AllowServiceToken d app token) = exec_allow_service_token E d app token"
| "exec_step E n (DeleteServiceToken t) = exec_delete_service_token E t"
| "exec_step E n (RotateServiceToken t) = exec_rotate_service_token E t"
| "exec_step E n (CreateDatabase name) = exec_create_database E name"
| "exec_step E n (PutFrontWorker h z script config previous database secret) =
     exec_put_front_worker E h z script config previous database secret"
| "exec_step E n (CreateWorkerRoute h z pattern script kind path) =
     exec_create_worker_route E h z pattern script kind path"
| "exec_step E n (DeleteWorkerRoute h z r kind path) = exec_delete_worker_route E h z r kind path"
| "exec_step E n (DeleteFrontWorker h z script previous database) =
     exec_delete_front_worker E h z script previous database"

end
