(* ===== verification/Fake_Cloud.thy ===== *)
theory Fake_Cloud
  imports Btree_Map Executor
begin

text \<open>
  The Cloudflare of the test suite (\<open>engine/fake.rs\<close>): an account in memory that answers the
  engine's calls and refuses what Cloudflare refuses, with failures on demand. It is the concrete
  world the theorems on runs are instantiated with. The SQL of a D1 database is SQLite's, a
  parameter; a counter is a \<open>nat\<close>.
\<close>

subsection \<open>The account\<close>

record fake_tunnel =
  ft_name :: string
  ft_version :: nat
  ft_config :: "tunnel_config option"

record identity_provider =
  idp_id :: string
  idp_name :: string
  idp_kind :: string

record cf_network_route =
  cn_id :: string
  cn_network :: string
  cn_tunnel_id :: string
  cn_tunnel_name :: "string option"
  cn_vnet :: "string option"
  cn_comment :: string

record cf_hostname_route =
  ch_id :: string
  ch_hostname :: string
  ch_tunnel_id :: string
  ch_tunnel_name :: "string option"
  ch_comment :: "string option"

record cf_service_token =
  cs_id :: string
  cs_name :: string
  cs_client_id :: string
  cs_expires_at :: "string option"

record fake_version =
  fv_id :: string
  fv_metadata :: json
  fv_assets :: "(string, string) bmap"

record fake_worker =
  fw_versions :: "fake_version list"
  fw_active :: string
  fw_workers_dev :: bool

definition worker_live :: "fake_worker \<Rightarrow> fake_version option" where
  "worker_live w = find (\<lambda>v. fv_id v = fw_active w) (fw_versions w)"

text \<open>SQLite behind D1: a new database, and running statements in one transaction; an error leaves
  the database as it was.\<close>

record 'd sqlite =
  sql_new :: 'd
  sql_run :: "(string \<times> json list) list \<Rightarrow> 'd \<Rightarrow> string + 'd"

record 'd cloud_state =
  cl_zones :: "zone_ref list"
  cl_tunnels :: "(string, fake_tunnel) bmap"
  cl_records :: "(string, dns_record list) bmap"
  cl_access_org :: bool
  cl_login_methods :: "identity_provider list"
  cl_access_apps :: "(string, new_access_app) bmap"
  cl_access_forbidden :: bool
  cl_network_routes :: "(string, cf_network_route) bmap"
  cl_default_vnet :: "string option"
  cl_networks_forbidden :: bool
  cl_hostname_routes :: "(string, cf_hostname_route) bmap"
  cl_load_balancing :: bool
  cl_lb_monitors :: "(string, monitor) bmap"
  cl_lb_pools :: "(string, pool) bmap"
  cl_load_balancers :: "(string, string \<times> load_balancer) bmap"
  cl_workers :: "(string, fake_worker) bmap"
  cl_worker_domains :: "(string, worker_domain) bmap"
  cl_workers_subdomain :: "string option"
  cl_assets :: "string list"
  cl_asset_tokens :: "(string, bool \<times> (string, string) bmap) bmap"
  cl_zone_plans :: "(string, string) bmap"
  cl_rulesets :: "(string \<times> string, string \<times> zone_rule list) bmap"
  cl_rulesets_forbidden :: bool
  cl_cache_rules_forbidden :: bool
  cl_service_tokens :: "(string, cf_service_token) bmap"
  cl_service_tokens_forbidden :: bool
  cl_d1 :: "(string, string \<times> 'd) bmap"
  cl_d1_forbidden :: bool
  cl_worker_routes :: "(string, string \<times> worker_route) bmap"

text \<open>Failures on demand: mutations are numbered from 0; \<open>fk_fail_once\<close> makes one fail,
  \<open>fk_fail_from\<close> that one and every later one.\<close>

record 'd fake_cloud =
  fk_state :: "'d cloud_state"
  fk_ids :: nat
  fk_mutations :: nat
  fk_fail_once :: "nat option"
  fk_fail_from :: "nat option"

definition new_fake :: "'d cloud_state \<Rightarrow> 'd fake_cloud" where
  "new_fake s = \<lparr>fk_state = s, fk_ids = 0, fk_mutations = 0, fk_fail_once = None, fk_fail_from = None\<rparr>"

subsection \<open>Refusals\<close>

definition injected :: cf_error where
  "injected = CfApi 500 [(1000, ''injected failure'')]"
definition forbidden :: cf_error where
  "forbidden = CfApi 403 [(10000, ''Authentication error'')]"
definition conflict :: cf_error where
  "conflict = CfApi 409 [(1002, ''still referenced'')]"
definition not_found :: cf_error where
  "not_found = CfApi 404 [(1003, ''not found'')]"

subsection \<open>Calls\<close>

text \<open>A mutation is counted and may fail on demand; then it reaches the account.\<close>

definition mutate :: "('d fake_cloud, unit) service" where
  "mutate k = (let n = fk_mutations k in
     (if fk_fail_once k = Some n \<or> (case fk_fail_from k of None \<Rightarrow> False | Some f \<Rightarrow> f \<le> n)
      then Inl injected else Inr (), k\<lparr>fk_mutations := Suc n\<rparr>))"

definition mutating :: "('d fake_cloud, 'a) service \<Rightarrow> ('d fake_cloud, 'a) service" where
  "mutating f k = (case mutate k of (Inl e, k') \<Rightarrow> (Inl e, k') | (Inr _, k') \<Rightarrow> f k')"

definition on_account :: "('d cloud_state, 'a) service \<Rightarrow> ('d fake_cloud, 'a) service" where
  "on_account f k = (case f (fk_state k) of (r, s) \<Rightarrow> (r, k\<lparr>fk_state := s\<rparr>))"

definition numbered :: "string \<Rightarrow> nat \<Rightarrow> string" where
  "numbered prefix n = prefix @ CHR ''-'' # show_nat n"

definition with_id :: "string \<Rightarrow> (string \<Rightarrow> ('d fake_cloud, 'a) service) \<Rightarrow> ('d fake_cloud, 'a) service" where
  "with_id prefix f k = f (numbered prefix (fk_ids k)) (k\<lparr>fk_ids := Suc (fk_ids k)\<rparr>)"

text \<open>The ids of several objects made by one call.\<close>

definition with_ids :: "string \<Rightarrow> nat \<Rightarrow> (string list \<Rightarrow> ('d fake_cloud, 'a) service) \<Rightarrow> ('d fake_cloud, 'a) service" where
  "with_ids prefix m f k = f (map (numbered prefix) [fk_ids k ..< fk_ids k + m]) (k\<lparr>fk_ids := fk_ids k + m\<rparr>)"

text \<open>The first number whose id is not used yet.\<close>

lemma show_nat_inject: "show_nat m = show_nat n \<longleftrightarrow> m = n"
  by (metis digits_value_show_nat)

lemma numbered_inject [simp]: "numbered p m = numbered p n \<longleftrightarrow> m = n"
  by (simp add: numbered_def show_nat_inject)

function unused_from :: "string \<Rightarrow> string list \<Rightarrow> nat \<Rightarrow> nat" where
  "unused_from prefix used n = (if numbered prefix n \<in> set used then unused_from prefix used (Suc n) else n)"
  by pat_completeness auto
termination
proof (relation "measure (\<lambda>(p, used, n). card {k. n \<le> k \<and> numbered p k \<in> set used})")
  fix p and used :: "string list" and n
  assume used: "numbered p n \<in> set used"
  have fin: "finite {k. n \<le> k \<and> numbered p k \<in> set used}"
    by (rule finite_subset[of _ "numbered p -` set used"]) (auto intro: finite_vimageI simp: inj_on_def)
  have "{k. Suc n \<le> k \<and> numbered p k \<in> set used} \<subset> {k. n \<le> k \<and> numbered p k \<in> set used}"
    using used by (auto simp: psubset_eq set_eq_iff intro!: exI[of _ n])
  with fin show "((p, used, Suc n), (p, used, n)) \<in> measure (\<lambda>(p, used, n). card {k. n \<le> k \<and> numbered p k \<in> set used})"
    by (simp add: psubset_card_mono)
qed simp

declare unused_from.simps [simp del]

definition with_unused :: "string \<Rightarrow> ('d cloud_state \<Rightarrow> string list) \<Rightarrow> (string \<Rightarrow> ('d fake_cloud, 'a) service) \<Rightarrow> ('d fake_cloud, 'a) service" where
  "with_unused prefix used f k =
     (let n = unused_from prefix (used (fk_state k)) (fk_ids k) in f (numbered prefix n) (k\<lparr>fk_ids := Suc n\<rparr>))"

text \<open>A value or a refusal of a table.\<close>

definition found :: "'a option \<Rightarrow> cf_error + 'a" where
  "found v = (case v of None \<Rightarrow> Inl not_found | Some x \<Rightarrow> Inr x)"

definition has_zone :: "string \<Rightarrow> 'd cloud_state \<Rightarrow> bool" where
  "has_zone zone s \<longleftrightarrow> list_ex (\<lambda>z. zone_id z = zone) (cl_zones s)"

definition zone_records :: "string \<Rightarrow> 'd cloud_state \<Rightarrow> dns_record list" where
  "zone_records zone s = (case map_of (cl_records s) zone of None \<Rightarrow> [] | Some rs \<Rightarrow> rs)"

definition with_zone :: "string \<Rightarrow> (dns_record list \<Rightarrow> (cf_error + 'a) \<times> dns_record list) \<Rightarrow> ('d cloud_state, 'a) service" where
  "with_zone zone f s =
     (if \<not> has_zone zone s then (Inl not_found, s)
      else (case f (zone_records zone s) of (r, rs) \<Rightarrow> (r, s\<lparr>cl_records := bm_insert zone rs (cl_records s)\<rparr>)))"

subsection \<open>Tunnels\<close>

definition fake_create_tunnel :: "string \<Rightarrow> string \<Rightarrow> ('d fake_cloud, string) service" where
  "fake_create_tunnel account name = mutating (with_id ''tunnel'' (\<lambda>i. on_account (\<lambda>s.
     (Inr i, s\<lparr>cl_tunnels := bm_insert i \<lparr>ft_name = name, ft_version = 0, ft_config = None\<rparr> (cl_tunnels s)\<rparr>))))"

definition fake_delete_tunnel :: "string \<Rightarrow> string \<Rightarrow> ('d fake_cloud, unit) service" where
  "fake_delete_tunnel account i = mutating (on_account (\<lambda>s.
     (map_sum id (\<lambda>_. ()) (found (map_of (cl_tunnels s) i)), s\<lparr>cl_tunnels := bm_remove i (cl_tunnels s)\<rparr>)))"

definition fake_tunnel_config :: "string \<Rightarrow> string \<Rightarrow> ('d fake_cloud, versioned_config) service" where
  "fake_tunnel_config account i = on_account (\<lambda>s.
     (map_sum id (\<lambda>t. \<lparr>vc_version = ft_version t, vc_config = ft_config t\<rparr>) (found (map_of (cl_tunnels s) i)), s))"

definition fake_put_tunnel_config :: "string \<Rightarrow> string \<Rightarrow> tunnel_config \<Rightarrow> ('d fake_cloud, versioned_config) service" where
  "fake_put_tunnel_config account i config = mutating (on_account (\<lambda>s.
     case map_of (cl_tunnels s) i of
       None \<Rightarrow> (Inl not_found, s)
     | Some t \<Rightarrow> (Inr \<lparr>vc_version = Suc (ft_version t), vc_config = Some config\<rparr>,
         s\<lparr>cl_tunnels := bm_insert i (t\<lparr>ft_version := Suc (ft_version t), ft_config := Some config\<rparr>) (cl_tunnels s)\<rparr>)))"

definition fake_tunnel_token :: "string \<Rightarrow> string \<Rightarrow> ('d fake_cloud, string) service" where
  "fake_tunnel_token account i = on_account (\<lambda>s.
     (map_sum id (\<lambda>_. ''token-for-'' @ i) (found (map_of (cl_tunnels s) i)), s))"

subsection \<open>DNS records\<close>

definition record_clash :: cf_error where
  "record_clash = CfApi 400 [(81053, ''An A, AAAA, or CNAME record with that host already exists.'')]"

definition new_record :: "dns_record list \<Rightarrow> string \<Rightarrow> new_dns_record \<Rightarrow> cf_error + dns_record" where
  "new_record rs i r =
     (if list_ex (\<lambda>o'. eq_ic (rec_name o') (new_name r) \<and> (rec_kind o' = ''CNAME'' \<or> new_kind r = ''CNAME'')) rs
      then Inl record_clash else Inr (record_of_new i r))"

definition fake_create_record :: "string \<Rightarrow> new_dns_record \<Rightarrow> ('d fake_cloud, dns_record) service" where
  "fake_create_record zone r = mutating (with_id ''rec'' (\<lambda>i. on_account (with_zone zone (\<lambda>rs.
     case new_record rs i r of Inl e \<Rightarrow> (Inl e, rs) | Inr c \<Rightarrow> (Inr c, rs @ [c])))))"

text \<open>All of them or none.\<close>

fun new_records :: "dns_record list \<Rightarrow> (string \<times> new_dns_record) list \<Rightarrow> cf_error + dns_record list" where
  "new_records rs [] = Inr []"
| "new_records rs ((i, r) # rest) = ebind (new_record rs i r) (\<lambda>c.
     ebind (new_records (rs @ [c]) rest) (\<lambda>cs. Inr (c # cs)))"

definition fake_create_records :: "string \<Rightarrow> new_dns_record list \<Rightarrow> ('d fake_cloud, dns_record list) service" where
  "fake_create_records zone news = mutating (with_ids ''rec'' (length news) (\<lambda>is. on_account (with_zone zone (\<lambda>rs.
     case new_records rs (zip is news) of Inl e \<Rightarrow> (Inl e, rs) | Inr cs \<Rightarrow> (Inr cs, rs @ cs)))))"

definition type_change :: cf_error where
  "type_change = CfApi 400 [(9000, ''DNS record type cannot be changed.'')]"

text \<open>Replacing the first record with an id.\<close>

definition set_record :: "string \<Rightarrow> dns_record \<Rightarrow> dns_record list \<Rightarrow> dns_record list" where
  "set_record i c rs = (case dropWhile (\<lambda>r. rec_id r \<noteq> i) rs of
      [] \<Rightarrow> rs | _ # later \<Rightarrow> takeWhile (\<lambda>r. rec_id r \<noteq> i) rs @ c # later)"

definition fake_update_record :: "string \<Rightarrow> string \<Rightarrow> new_dns_record \<Rightarrow> ('d fake_cloud, dns_record) service" where
  "fake_update_record zone i n = mutating (on_account (with_zone zone (\<lambda>rs.
     case find (\<lambda>r. rec_id r = i) rs of
       None \<Rightarrow> (Inl not_found, rs)
     | Some r \<Rightarrow>
         if rec_kind r \<noteq> new_kind n then (Inl type_change, rs)
         else (Inr (record_of_new i n), set_record i (record_of_new i n) rs))))"

definition fake_replace_record :: "string \<Rightarrow> string \<Rightarrow> new_dns_record \<Rightarrow> ('d fake_cloud, dns_record) service" where
  "fake_replace_record zone i n = mutating (with_id ''rec'' (\<lambda>new_id. on_account (with_zone zone (\<lambda>rs.
     case find (\<lambda>r. rec_id r = i) rs of
       None \<Rightarrow> (Inl not_found, rs)
     | Some _ \<Rightarrow> (Inr (record_of_new new_id n), set_record i (record_of_new new_id n) rs)))))"

definition fake_delete_record :: "string \<Rightarrow> string \<Rightarrow> ('d fake_cloud, unit) service" where
  "fake_delete_record zone i = mutating (on_account (with_zone zone (\<lambda>rs.
     let kept = filter (\<lambda>r. rec_id r \<noteq> i) rs in
     (if length kept = length rs then Inl not_found else Inr (), kept))))"

subsection \<open>Access\<close>

definition fake_create_access_app :: "string \<Rightarrow> new_access_app \<Rightarrow> ('d fake_cloud, string) service" where
  "fake_create_access_app account app = mutating (\<lambda>k.
     if \<not> cl_access_org (fk_state k) then (Inl (CfApi 400 [(12130, ''access.api.error.not_enabled'')]), k)
     else with_id ''app'' (\<lambda>i. on_account (\<lambda>s. (Inr i, s\<lparr>cl_access_apps := bm_insert i app (cl_access_apps s)\<rparr>))) k)"

definition fake_update_access_app :: "string \<Rightarrow> string \<Rightarrow> new_access_app \<Rightarrow> ('d fake_cloud, unit) service" where
  "fake_update_access_app account i app = mutating (on_account (\<lambda>s.
     case map_of (cl_access_apps s) i of
       None \<Rightarrow> (Inl not_found, s)
     | Some _ \<Rightarrow> (Inr (), s\<lparr>cl_access_apps := bm_insert i app (cl_access_apps s)\<rparr>)))"

definition fake_delete_access_app :: "string \<Rightarrow> string \<Rightarrow> ('d fake_cloud, unit) service" where
  "fake_delete_access_app account i = mutating (on_account (\<lambda>s.
     (map_sum id (\<lambda>_. ()) (found (map_of (cl_access_apps s) i)), s\<lparr>cl_access_apps := bm_remove i (cl_access_apps s)\<rparr>)))"

definition fake_create_one_time_pin :: "string \<Rightarrow> ('d fake_cloud, string) service" where
  "fake_create_one_time_pin account = mutating (with_id ''idp'' (\<lambda>i. on_account (\<lambda>s.
     (Inr i, s\<lparr>cl_login_methods := cl_login_methods s
        @ [\<lparr>idp_id = i, idp_name = ''One-time PIN'', idp_kind = ''onetimepin''\<rparr>]\<rparr>))))"

definition fake_delete_login_method :: "string \<Rightarrow> string \<Rightarrow> ('d fake_cloud, unit) service" where
  "fake_delete_login_method account i = mutating (on_account (\<lambda>s.
     let kept = filter (\<lambda>m. idp_id m \<noteq> i) (cl_login_methods s) in
     (if length kept = length (cl_login_methods s) then Inl not_found else Inr (), s\<lparr>cl_login_methods := kept\<rparr>)))"

definition issued :: "cf_service_token \<Rightarrow> string \<Rightarrow> issued_service_token" where
  "issued t secret = \<lparr>ist_token_id = cs_id t, ist_name = cs_name t, ist_client_id = cs_client_id t,
     ist_expires_at = cs_expires_at t, ist_client_secret = secret\<rparr>"

definition fake_create_service_token :: "string \<Rightarrow> string \<Rightarrow> string \<Rightarrow> ('d fake_cloud, issued_service_token) service" where
  "fake_create_service_token account name duration = mutating (with_unused ''token'' (\<lambda>s. map fst (cl_service_tokens s)) (\<lambda>i.
     on_account (\<lambda>s. let t = \<lparr>cs_id = i, cs_name = name, cs_client_id = i @ ''.access'',
         cs_expires_at = Some ''2027-09-24T00:00:00Z''\<rparr> in
       (Inr (issued t (''secret-for-'' @ i)), s\<lparr>cl_service_tokens := bm_insert i t (cl_service_tokens s)\<rparr>))))"

definition fake_rotate_service_token :: "string \<Rightarrow> string \<Rightarrow> ('d fake_cloud, issued_service_token) service" where
  "fake_rotate_service_token account i = mutating (with_id ''rotation'' (\<lambda>n. on_account (\<lambda>s.
     (map_sum id (\<lambda>t. issued t (''secret-for-'' @ i @ ''-'' @ n)) (found (map_of (cl_service_tokens s) i)), s))))"

definition fake_delete_service_token :: "string \<Rightarrow> string \<Rightarrow> ('d fake_cloud, unit) service" where
  "fake_delete_service_token account i = mutating (on_account (\<lambda>s.
     (Inr (), s\<lparr>cl_service_tokens := bm_remove i (cl_service_tokens s)\<rparr>)))"

subsection \<open>Private networks\<close>

definition route_exists :: cf_error where
  "route_exists = CfApi 409 [(1014, ''route already exists'')]"

definition fake_create_network_route ::
    "string \<Rightarrow> string \<Rightarrow> string \<Rightarrow> string \<Rightarrow> string option \<Rightarrow> ('d fake_cloud, string) service" where
  "fake_create_network_route account network tunnel comment vnet = mutating (with_id ''net'' (\<lambda>i. on_account (\<lambda>s.
     let v = (case vnet of Some v \<Rightarrow> Some v | None \<Rightarrow> cl_default_vnet s) in
     if list_ex (\<lambda>r. cn_network r = network \<and> cn_vnet r = v) (bm_values (cl_network_routes s)) then (Inl route_exists, s)
     else (Inr i, s\<lparr>cl_network_routes := bm_insert i \<lparr>cn_id = i, cn_network = network, cn_tunnel_id = tunnel,
        cn_tunnel_name = None, cn_vnet = v, cn_comment = comment\<rparr> (cl_network_routes s)\<rparr>))))"

definition fake_delete_network_route :: "string \<Rightarrow> string \<Rightarrow> ('d fake_cloud, unit) service" where
  "fake_delete_network_route account i = mutating (on_account (\<lambda>s.
     (map_sum id (\<lambda>_. ()) (found (map_of (cl_network_routes s) i)), s\<lparr>cl_network_routes := bm_remove i (cl_network_routes s)\<rparr>)))"

definition fake_create_hostname_route ::
    "string \<Rightarrow> string \<Rightarrow> string \<Rightarrow> string \<Rightarrow> ('d fake_cloud, string) service" where
  "fake_create_hostname_route account hostname tunnel comment = mutating (with_id ''host'' (\<lambda>i. on_account (\<lambda>s.
     if list_ex (\<lambda>r. eq_ic (ch_hostname r) hostname) (bm_values (cl_hostname_routes s)) then (Inl route_exists, s)
     else (Inr i, s\<lparr>cl_hostname_routes := bm_insert i \<lparr>ch_id = i, ch_hostname = hostname, ch_tunnel_id = tunnel,
        ch_tunnel_name = None, ch_comment = Some comment\<rparr> (cl_hostname_routes s)\<rparr>))))"

definition fake_delete_hostname_route :: "string \<Rightarrow> string \<Rightarrow> ('d fake_cloud, unit) service" where
  "fake_delete_hostname_route account i = mutating (on_account (\<lambda>s.
     (map_sum id (\<lambda>_. ()) (found (map_of (cl_hostname_routes s) i)), s\<lparr>cl_hostname_routes := bm_remove i (cl_hostname_routes s)\<rparr>)))"

subsection \<open>Load balancing\<close>

definition fake_create_lb_monitor :: "string \<Rightarrow> monitor \<Rightarrow> ('d fake_cloud, string) service" where
  "fake_create_lb_monitor account m = mutating (with_id ''mon'' (\<lambda>i. on_account (\<lambda>s.
     (Inr i, s\<lparr>cl_lb_monitors := bm_insert i (m\<lparr>mon_id := i\<rparr>) (cl_lb_monitors s)\<rparr>))))"

text \<open>A monitor a pool uses, and a pool a load balancer uses, cannot be deleted.\<close>

definition fake_delete_lb_monitor :: "string \<Rightarrow> string \<Rightarrow> ('d fake_cloud, unit) service" where
  "fake_delete_lb_monitor account i = mutating (on_account (\<lambda>s.
     if list_ex (\<lambda>p. pool_monitor p = Some i) (bm_values (cl_lb_pools s)) then (Inl conflict, s)
     else (Inr (), s\<lparr>cl_lb_monitors := bm_remove i (cl_lb_monitors s)\<rparr>)))"

definition fake_create_lb_pool :: "string \<Rightarrow> pool \<Rightarrow> ('d fake_cloud, string) service" where
  "fake_create_lb_pool account p = mutating (with_id ''pool'' (\<lambda>i. on_account (\<lambda>s.
     (Inr i, s\<lparr>cl_lb_pools := bm_insert i (p\<lparr>pool_id := i\<rparr>) (cl_lb_pools s)\<rparr>))))"

definition fake_update_lb_pool :: "string \<Rightarrow> string \<Rightarrow> pool \<Rightarrow> ('d fake_cloud, unit) service" where
  "fake_update_lb_pool account i p = mutating (on_account (\<lambda>s.
     case map_of (cl_lb_pools s) i of
       None \<Rightarrow> (Inl not_found, s)
     | Some _ \<Rightarrow> (Inr (), s\<lparr>cl_lb_pools := bm_insert i (p\<lparr>pool_id := i\<rparr>) (cl_lb_pools s)\<rparr>)))"

definition uses_pool :: "string \<Rightarrow> load_balancer \<Rightarrow> bool" where
  "uses_pool i b \<longleftrightarrow> i \<in> set (lb_default_pools b) \<or> lb_fallback_pool b = i"

definition fake_delete_lb_pool :: "string \<Rightarrow> string \<Rightarrow> ('d fake_cloud, unit) service" where
  "fake_delete_lb_pool account i = mutating (on_account (\<lambda>s.
     if list_ex (\<lambda>(_, b). uses_pool i b) (bm_values (cl_load_balancers s)) then (Inl conflict, s)
     else (Inr (), s\<lparr>cl_lb_pools := bm_remove i (cl_lb_pools s)\<rparr>)))"

definition fake_create_load_balancer :: "string \<Rightarrow> load_balancer \<Rightarrow> ('d fake_cloud, string) service" where
  "fake_create_load_balancer zone b = mutating (with_id ''lb'' (\<lambda>i. on_account (\<lambda>s.
     (Inr i, s\<lparr>cl_load_balancers := bm_insert i (zone, b\<lparr>lb_id := i\<rparr>) (cl_load_balancers s)\<rparr>))))"

definition fake_delete_load_balancer :: "string \<Rightarrow> string \<Rightarrow> ('d fake_cloud, unit) service" where
  "fake_delete_load_balancer zone i = mutating (on_account (\<lambda>s.
     (Inr (), s\<lparr>cl_load_balancers := bm_remove i (cl_load_balancers s)\<rparr>)))"

subsection \<open>Zone rules\<close>

definition phase_forbidden :: "string \<Rightarrow> 'd cloud_state \<Rightarrow> bool" where
  "phase_forbidden ph s \<longleftrightarrow> cl_rulesets_forbidden s \<or> cl_cache_rules_forbidden s \<and> ph = PHASE_CACHE"

definition rule_ids :: "'d cloud_state \<Rightarrow> string list" where
  "rule_ids s = concat (map (\<lambda>(_, rules). map zr_id rules) (bm_values (cl_rulesets s)))"

definition no_host_field :: cf_error where
  "no_host_field = CfApi 400 [(20120, ''the field http.host is not available on this plan'')]"

text \<open>The entry point a rule goes to: the one named, or a new one where there is none.\<close>

definition entry_point ::
    "string option \<Rightarrow> string \<Rightarrow> (string \<times> zone_rule list) option \<Rightarrow> cf_error + string \<times> zone_rule list" where
  "entry_point ruleset fresh entry = (case (ruleset, entry) of
       (Some i, Some e) \<Rightarrow> if fst e = i then Inr e else Inl not_found
     | (None, None) \<Rightarrow> Inr (fresh, [])
     | (None, Some _) \<Rightarrow> Inl conflict
     | (Some _, None) \<Rightarrow> Inl not_found)"

definition insert_at :: "nat option \<Rightarrow> 'a \<Rightarrow> 'a list \<Rightarrow> 'a list" where
  "insert_at index x xs =
     (let at = (case index of None \<Rightarrow> length xs | Some i \<Rightarrow> min (i - 1) (length xs)) in take at xs @ x # drop at xs)"

definition fake_create_rule ::
    "string \<Rightarrow> string \<Rightarrow> string option \<Rightarrow> new_rule \<Rightarrow> nat option \<Rightarrow> ('d fake_cloud, string \<times> string) service" where
  "fake_create_rule zone ph ruleset r index = mutating (with_id ''ruleset'' (\<lambda>fresh. with_unused ''rule'' rule_ids (\<lambda>rid. on_account (\<lambda>s.
     if phase_forbidden ph s then (Inl forbidden, s)
     else if ph = PHASE_RATE_LIMIT \<and> (case map_of (cl_zone_plans s) zone of None \<Rightarrow> True | Some plan \<Rightarrow> plan = ''free'')
          \<and> contains_str ''http.host'' (nr_expression r)
     then (Inl no_host_field, s)
     else (case entry_point ruleset fresh (map_of (cl_rulesets s) (zone, ph)) of
         Inl e \<Rightarrow> (Inl e, s)
       | Inr (i, rules) \<Rightarrow> (Inr (i, rid), s\<lparr>cl_rulesets :=
           bm_insert (zone, ph) (i, insert_at index \<lparr>zr_id = rid, zr_rule = r\<rparr> rules) (cl_rulesets s)\<rparr>))))))"

definition zone_ruleset :: "string \<Rightarrow> string \<Rightarrow> 'd cloud_state \<Rightarrow> ((string \<times> string) \<times> string \<times> zone_rule list) option" where
  "zone_ruleset zone i s = find (\<lambda>((z, _), j, _). z = zone \<and> j = i) (cl_rulesets s)"

definition set_rule :: "string \<Rightarrow> new_rule \<Rightarrow> zone_rule list \<Rightarrow> zone_rule list" where
  "set_rule i r rules = (case dropWhile (\<lambda>x. zr_id x \<noteq> i) rules of
      [] \<Rightarrow> rules | x # later \<Rightarrow> takeWhile (\<lambda>x. zr_id x \<noteq> i) rules @ x\<lparr>zr_rule := r\<rparr> # later)"

definition fake_update_rule :: "string \<Rightarrow> string \<Rightarrow> string \<Rightarrow> new_rule \<Rightarrow> ('d fake_cloud, unit) service" where
  "fake_update_rule zone ruleset i r = mutating (on_account (\<lambda>s.
     case zone_ruleset zone ruleset s of
       None \<Rightarrow> (Inl not_found, s)
     | Some (key, j, rules) \<Rightarrow>
         if list_ex (\<lambda>x. zr_id x = i) rules
         then (Inr (), s\<lparr>cl_rulesets := bm_insert key (j, set_rule i r rules) (cl_rulesets s)\<rparr>)
         else (Inl not_found, s)))"

definition fake_delete_rule :: "string \<Rightarrow> string \<Rightarrow> string \<Rightarrow> ('d fake_cloud, unit) service" where
  "fake_delete_rule zone ruleset i = mutating (on_account (\<lambda>s.
     case zone_ruleset zone ruleset s of
       None \<Rightarrow> (Inr (), s)
     | Some (key, j, rules) \<Rightarrow>
         (Inr (), s\<lparr>cl_rulesets := bm_insert key (j, filter (\<lambda>x. zr_id x \<noteq> i) rules) (cl_rulesets s)\<rparr>)))"

subsection \<open>Workers\<close>

definition json_remove :: "string \<Rightarrow> json \<Rightarrow> json" where
  "json_remove key v = (case v of JObj m \<Rightarrow> JObj (filter (\<lambda>(k, _). k \<noteq> key) m) | _ \<Rightarrow> v)"

definition json_set :: "string \<Rightarrow> json \<Rightarrow> json \<Rightarrow> json" where
  "json_set key x v = (case v of JObj m \<Rightarrow> JObj (json_insert key x m) | _ \<Rightarrow> v)"

fun json_items :: "json option \<Rightarrow> json list" where
  "json_items (Some (JArr xs)) = xs"
| "json_items _ = []"

definition invalid_token :: cf_error where
  "invalid_token = CfApi 400 [(10021, ''invalid assets token'')]"

text \<open>A version from a Worker's metadata; the token of its files must be that of a completed upload.\<close>

definition fake_version_of :: "'d cloud_state \<Rightarrow> string \<Rightarrow> json \<Rightarrow> cf_error + fake_version" where
  "fake_version_of s i metadata = (case json_get ''assets'' metadata of
      None \<Rightarrow> Inr \<lparr>fv_id = i, fv_metadata = json_remove ''annotations'' metadata, fv_assets = []\<rparr>
    | Some assets \<Rightarrow>
        (case map_of (cl_asset_tokens s) (case Option.bind (json_get ''jwt'' assets) json_str of None \<Rightarrow> [] | Some j \<Rightarrow> j) of
           Some (True, paths) \<Rightarrow> Inr \<lparr>fv_id = i,
             fv_metadata = json_remove ''annotations'' (json_set ''assets'' (json_remove ''jwt'' assets) metadata), fv_assets = paths\<rparr>
         | _ \<Rightarrow> Inl invalid_token))"

definition fake_create_assets_upload_session ::
    "string \<Rightarrow> string \<Rightarrow> (string \<times> string \<times> nat) list \<Rightarrow> ('d fake_cloud, upload_session) service" where
  "fake_create_assets_upload_session account script files = mutating (with_id ''session'' (\<lambda>jwt. on_account (\<lambda>s.
     let missing = dedup (sort (filter (\<lambda>h. h \<notin> set (cl_assets s)) (map (\<lambda>(_, h, _). h) files))) in
     (Inr \<lparr>us_jwt = jwt, us_buckets = chunks 2 missing\<rparr>, s\<lparr>cl_asset_tokens :=
        bm_insert jwt (missing = [], map (\<lambda>(p, h, _). (p, h)) files) (cl_asset_tokens s)\<rparr>))))"

definition fake_upload_assets :: "string \<Rightarrow> string \<Rightarrow> asset_file list \<Rightarrow> ('d fake_cloud, string option) service" where
  "fake_upload_assets account jwt files = mutating (with_id ''done'' (\<lambda>i. on_account (\<lambda>s.
     case map_of (cl_asset_tokens s) jwt of
       None \<Rightarrow> (Inl forbidden, s)
     | Some (_, paths) \<Rightarrow>
         let s' = s\<lparr>cl_assets := fold List.insort (filter (\<lambda>h. h \<notin> set (cl_assets s)) (remdups (map af_hash files))) (cl_assets s)\<rparr> in
         if list_all (\<lambda>(_, h). h \<in> set (cl_assets s')) paths
         then (Inr (Some i), s'\<lparr>cl_asset_tokens := bm_insert i (True, paths) (cl_asset_tokens s')\<rparr>)
         else (Inr None, s'))))"

definition no_worker :: fake_worker where
  "no_worker = \<lparr>fw_versions = [], fw_active = [], fw_workers_dev = False\<rparr>"

definition fake_put_worker_script :: "string \<Rightarrow> string \<Rightarrow> json \<Rightarrow> worker_module list \<Rightarrow> ('d fake_cloud, unit) service" where
  "fake_put_worker_script account script metadata modules = mutating (with_id ''version'' (\<lambda>i. on_account (\<lambda>s.
     case fake_version_of s i metadata of
       Inl e \<Rightarrow> (Inl e, s)
     | Inr v \<Rightarrow>
         let w = (case map_of (cl_workers s) script of None \<Rightarrow> no_worker | Some w \<Rightarrow> w) in
         (Inr (), s\<lparr>cl_workers := bm_insert script (w\<lparr>fw_active := i, fw_versions := fw_versions w @ [v]\<rparr>) (cl_workers s)\<rparr>))))"

text \<open>The secrets of the live version carry over to one that keeps them.\<close>

definition keep_secrets :: "fake_worker \<Rightarrow> json \<Rightarrow> fake_version \<Rightarrow> fake_version" where
  "keep_secrets w metadata v =
     (case (json_get ''keep_bindings'' metadata, worker_live w) of
        (Some _, Some live) \<Rightarrow>
          let secrets = filter (\<lambda>b. json_get ''type'' b = Some (JStr ''secret_text'')) (json_items (json_get ''bindings'' (fv_metadata live)));
              m = (case json_get ''bindings'' (fv_metadata v) of
                  Some (JArr bs) \<Rightarrow> json_set ''bindings'' (JArr (bs @ secrets)) (fv_metadata v)
                | Some _ \<Rightarrow> fv_metadata v
                | None \<Rightarrow> json_set ''bindings'' JNull (fv_metadata v))
          in v\<lparr>fv_metadata := json_remove ''keep_bindings'' m\<rparr>
      | _ \<Rightarrow> v)"

definition fake_upload_worker_version :: "string \<Rightarrow> string \<Rightarrow> json \<Rightarrow> worker_module list \<Rightarrow> ('d fake_cloud, string) service" where
  "fake_upload_worker_version account script metadata modules = mutating (with_id ''version'' (\<lambda>i. on_account (\<lambda>s.
     case fake_version_of s i metadata of
       Inl e \<Rightarrow> (Inl e, s)
     | Inr v \<Rightarrow> (case map_of (cl_workers s) script of
           None \<Rightarrow> (Inl not_found, s)
         | Some w \<Rightarrow> (Inr i, s\<lparr>cl_workers :=
             bm_insert script (w\<lparr>fw_versions := fw_versions w @ [keep_secrets w metadata v]\<rparr>) (cl_workers s)\<rparr>)))))"

definition fake_deploy_worker_version :: "string \<Rightarrow> string \<Rightarrow> string \<Rightarrow> ('d fake_cloud, unit) service" where
  "fake_deploy_worker_version account script version = mutating (on_account (\<lambda>s.
     case map_of (cl_workers s) script of
       None \<Rightarrow> (Inl not_found, s)
     | Some w \<Rightarrow>
         if list_ex (\<lambda>v. fv_id v = version) (fw_versions w)
         then (Inr (), s\<lparr>cl_workers := bm_insert script (w\<lparr>fw_active := version\<rparr>) (cl_workers s)\<rparr>)
         else (Inl not_found, s)))"

text \<open>One deployment, of all requests (\<open>100.0\<close>).\<close>

definition fake_worker_deployments :: "string \<Rightarrow> string \<Rightarrow> ('d fake_cloud, deployment list option) service" where
  "fake_worker_deployments account script = on_account (\<lambda>s.
     (Inr (map_option (\<lambda>w. [[(fw_active w, 0x4059000000000000)]]) (map_of (cl_workers s) script)), s))"

definition fake_set_worker_on_workers_dev :: "string \<Rightarrow> string \<Rightarrow> bool \<Rightarrow> ('d fake_cloud, unit) service" where
  "fake_set_worker_on_workers_dev account script enabled = mutating (on_account (\<lambda>s.
     case map_of (cl_workers s) script of
       None \<Rightarrow> (Inl not_found, s)
     | Some w \<Rightarrow> (Inr (), s\<lparr>cl_workers := bm_insert script (w\<lparr>fw_workers_dev := enabled\<rparr>) (cl_workers s)\<rparr>)))"

definition fake_delete_worker_script :: "string \<Rightarrow> string \<Rightarrow> ('d fake_cloud, unit) service" where
  "fake_delete_worker_script account script = mutating (on_account (\<lambda>s.
     (Inr (), s\<lparr>cl_workers := bm_remove script (cl_workers s),
        cl_worker_domains := bm_filter (\<lambda>_ d. wd_service d \<noteq> script) (cl_worker_domains s)\<rparr>)))"

definition domain_clash :: "string \<Rightarrow> string \<Rightarrow> string \<Rightarrow> 'd cloud_state \<Rightarrow> bool" where
  "domain_clash hostname zone service s \<longleftrightarrow>
     (case map_of (cl_records s) zone of None \<Rightarrow> False | Some rs \<Rightarrow>
        list_ex (\<lambda>r. eq_ic (rec_name r) hostname \<and> rec_kind r \<in> {''A'', ''AAAA'', ''CNAME''}) rs)
     \<or> list_ex (\<lambda>d. eq_ic (wd_hostname d) hostname \<and> wd_service d \<noteq> service) (bm_values (cl_worker_domains s))"

definition fake_attach_worker_domain :: "string \<Rightarrow> string \<Rightarrow> string \<Rightarrow> string \<Rightarrow> ('d fake_cloud, string) service" where
  "fake_attach_worker_domain account hostname zone service = mutating (with_id ''domain'' (\<lambda>i. on_account (\<lambda>s.
     if domain_clash hostname zone service s \<or> map_of (cl_workers s) service = None then (Inl conflict, s)
     else (case find (\<lambda>z. zone_id z = zone) (cl_zones s) of
         None \<Rightarrow> (Inl not_found, s)
       | Some z \<Rightarrow> (Inr i, s\<lparr>cl_worker_domains := bm_insert i \<lparr>wd_id = i, wd_hostname = hostname, wd_service = service,
            wd_zone_id = zone, wd_zone_name = zone_name z\<rparr> (cl_worker_domains s)\<rparr>)))))"

definition fake_detach_worker_domain :: "string \<Rightarrow> string \<Rightarrow> ('d fake_cloud, unit) service" where
  "fake_detach_worker_domain account i = mutating (on_account (\<lambda>s.
     (Inr (), s\<lparr>cl_worker_domains := bm_remove i (cl_worker_domains s)\<rparr>)))"

definition fake_create_worker_route :: "string \<Rightarrow> string \<Rightarrow> string \<Rightarrow> ('d fake_cloud, string) service" where
  "fake_create_worker_route zone pattern script = mutating (with_id ''wroute'' (\<lambda>i. on_account (\<lambda>s.
     if \<not> has_zone zone s then (Inl not_found, s)
     else if list_ex (\<lambda>(z, r). z = zone \<and> wr_pattern r = pattern) (bm_values (cl_worker_routes s)) then (Inl conflict, s)
     else if map_of (cl_workers s) script = None then (Inl not_found, s)
     else (Inr i, s\<lparr>cl_worker_routes := bm_insert i (zone, \<lparr>wr_id = i, wr_pattern = pattern, wr_script = Some script,
        wr_fail_open = Some True\<rparr>) (cl_worker_routes s)\<rparr>))))"

definition fake_delete_worker_route :: "string \<Rightarrow> string \<Rightarrow> ('d fake_cloud, unit) service" where
  "fake_delete_worker_route zone i = mutating (on_account (\<lambda>s.
     (Inr (), s\<lparr>cl_worker_routes := bm_remove i (cl_worker_routes s)\<rparr>)))"

subsection \<open>D1\<close>

definition fake_create_d1_database :: "'d sqlite \<Rightarrow> string \<Rightarrow> string \<Rightarrow> ('d fake_cloud, string) service" where
  "fake_create_d1_database Q account name = mutating (with_id ''d1'' (\<lambda>i. on_account (\<lambda>s.
     if cl_d1_forbidden s then (Inl forbidden, s)
     else (Inr i, s\<lparr>cl_d1 := bm_insert i (name, sql_new Q) (cl_d1 s)\<rparr>))))"

definition fake_delete_d1_database :: "string \<Rightarrow> string \<Rightarrow> ('d fake_cloud, unit) service" where
  "fake_delete_d1_database account i = mutating (on_account (\<lambda>s. (Inr (), s\<lparr>cl_d1 := bm_remove i (cl_d1 s)\<rparr>)))"

text \<open>Only writes count as mutations.\<close>

definition is_select :: "string \<Rightarrow> bool" where
  "is_select sql \<longleftrightarrow> starts_with ''select'' (lower (trim_start sql))"

definition fake_d1_query :: "'d sqlite \<Rightarrow> string \<Rightarrow> string \<Rightarrow> (string \<times> json list) list \<Rightarrow> ('d fake_cloud, unit) service" where
  "fake_d1_query Q account database statements k =
     (if cl_d1_forbidden (fk_state k) then (Inl forbidden, k)
      else case map_of (cl_d1 (fk_state k)) database of
        None \<Rightarrow> (Inl not_found, k)
      | Some (name, db) \<Rightarrow>
          (if list_all (\<lambda>(sql, _). is_select sql) statements then id else mutating) (on_account (\<lambda>s.
             case sql_run Q statements db of
               Inl e \<Rightarrow> (Inl (CfApi 400 [(7500, e)]), s)
             | Inr db' \<Rightarrow> (Inr (), s\<lparr>cl_d1 := bm_insert database (name, db') (cl_d1 s)\<rparr>))) k)"

end
