(* ===== verification/Local_Index.thy ===== *)
theory Local_Index
  imports Btree_Map Exec_Types
begin

text \<open>
  What the engine remembers locally (\<open>engine/local.rs\<close>, \<open>local_edge.rs\<close>, \<open>local_front.rs\<close>,
  \<open>local_sites.rs\<close>): its tables in SQLite as maps from their primary keys
  (\<open>store/migrations.rs\<close>), with the other constraints of the schema. A write answers \<open>None\<close> when
  a constraint refuses it; the transaction then leaves the tables as they were. Columns that hold
  when a row was written are left out, and JSON columns hold the value they encode.
\<close>

subsection \<open>The tables\<close>

record tunnel_row =
  lt_account :: string
  lt_name :: string
  lt_default :: bool
  lt_applied_version :: "nat option"
  lt_applied_ingress :: "ingress_rule list option"
  lt_metrics_port :: "nat option"
  lt_always_on :: bool

record record_row =
  rr_account :: string
  rr_zone :: string
  rr_hostname :: string
  rr_route :: string

record site_row =
  sw_account :: string
  sw_name :: string
  sw_script :: string
  sw_hostname :: "string option"
  sw_source :: string
  sw_spa :: bool
  sw_password :: bool
  sw_access :: "access_rule option"
  sw_expires_at :: "nat option"
  sw_owner :: string
  sw_live :: "string option"

record version_row =
  vr_version :: string
  vr_files :: nat
  vr_bytes :: nat
  vr_manifest :: "site_file list"
  vr_headers :: "string option"
  vr_redirects :: "string option"
  vr_spa :: bool
  vr_password :: bool

record front_row =
  fr_script :: string
  fr_zone :: string
  fr_route :: "string option"
  fr_config :: front_config

record local_index =
  ix_tunnels :: "(string, tunnel_row) bmap"
  ix_records :: "(string, record_row) bmap"
  ix_apps :: "(string, string \<times> string) bmap"
  ix_balanced :: "(string \<times> string, unit) bmap"
  ix_sites :: "(string, site_row) bmap"
  ix_versions :: "(string \<times> nat, version_row) bmap"
  ix_edge_rules :: "(string, string \<times> edge_rule_row) bmap"
  ix_tokens :: "(string, string \<times> service_token_row) bmap"
  ix_databases :: "(string, string \<times> string) bmap"
  ix_fronts :: "(string \<times> string \<times> string \<times> string, front_row) bmap"

definition empty_index :: local_index where
  "empty_index = \<lparr>ix_tunnels = [], ix_records = [], ix_apps = [], ix_balanced = [], ix_sites = [],
     ix_versions = [], ix_edge_rules = [], ix_tokens = [], ix_databases = [], ix_fronts = []\<rparr>"

text \<open>A \<open>u64\<close> as SQLite stores it.\<close>

definition stored :: "nat \<Rightarrow> nat" where
  "stored n = min n I64_MAX"

text \<open>Changing the row of one key, as an \<open>UPDATE \<dots> WHERE\<close> of the primary key.\<close>

definition bm_at :: "'k \<Rightarrow> ('v \<Rightarrow> 'v) \<Rightarrow> ('k, 'v) bmap \<Rightarrow> ('k, 'v) bmap" where
  "bm_at k f = bm_map (\<lambda>a v. if a = k then f v else v)"

subsection \<open>Tunnels of this machine\<close>

definition is_default_of :: "string \<Rightarrow> tunnel_row \<Rightarrow> bool" where
  "is_default_of account r \<longleftrightarrow> lt_account r = account \<and> lt_default r"

definition tunnel_new :: "string \<Rightarrow> string \<Rightarrow> bool \<Rightarrow> tunnel_row" where
  "tunnel_new account name d = \<lparr>lt_account = account, lt_name = name, lt_default = d, lt_applied_version = None,
     lt_applied_ingress = None, lt_metrics_port = None, lt_always_on = False\<rparr>"

definition local_tunnel :: "local_index \<Rightarrow> string \<Rightarrow> string option \<Rightarrow> (string \<times> tunnel_row) option" where
  "local_tunnel ix account tid = (case tid of
      Some i \<Rightarrow> find (\<lambda>(k, r). k = i \<and> lt_account r = account) (ix_tunnels ix)
    | None \<Rightarrow> find (\<lambda>(k, r). is_default_of account r) (ix_tunnels ix))"

definition machine_tunnel :: "local_index \<Rightarrow> string \<Rightarrow> (string \<times> tunnel_row) option" where
  "machine_tunnel ix account = local_tunnel ix account None"

text \<open>The default first, then by name without case; among equal names by id.\<close>

definition local_tunnels :: "local_index \<Rightarrow> string \<Rightarrow> (string \<times> tunnel_row) list" where
  "local_tunnels ix account = sort_key (\<lambda>(k, r). (\<not> lt_default r, lower (lt_name r)))
     (filter (\<lambda>(k, r). lt_account r = account) (ix_tunnels ix))"

definition applied_ingress :: "local_index \<Rightarrow> string \<Rightarrow> ingress_rule list option" where
  "applied_ingress ix tid = Option.bind (map_of (ix_tunnels ix) tid) lt_applied_ingress"

definition tunnel_routing :: "local_index \<Rightarrow> string \<Rightarrow> string \<Rightarrow> string option" where
  "tunnel_routing ix account hostname = map_option fst
     (find (\<lambda>(k, r). list_ex (\<lambda>rule. rule_hostname rule = Some hostname)
        (case applied_ingress ix k of None \<Rightarrow> [] | Some rules \<Rightarrow> rules)) (local_tunnels ix account))"

definition set_machine_tunnel :: "string \<Rightarrow> string \<Rightarrow> string \<Rightarrow> local_index \<Rightarrow> local_index option" where
  "set_machine_tunnel account tid name ix =
     (let rest = bm_filter (\<lambda>_ r. \<not> is_default_of account r) (ix_tunnels ix) in
      if map_of rest tid \<noteq> None then None
      else Some (ix\<lparr>ix_tunnels := bm_insert tid (tunnel_new account name True) rest\<rparr>))"

definition add_tunnel :: "string \<Rightarrow> string \<Rightarrow> string \<Rightarrow> local_index \<Rightarrow> local_index option" where
  "add_tunnel account tid name ix =
     (if map_of (ix_tunnels ix) tid \<noteq> None then None
      else Some (ix\<lparr>ix_tunnels := bm_insert tid (tunnel_new account name False) (ix_tunnels ix)\<rparr>))"

definition replace_tunnel :: "string \<Rightarrow> string \<Rightarrow> local_index \<Rightarrow> local_index option" where
  "replace_tunnel old new ix =
     (case map_of (ix_tunnels ix) old of
        None \<Rightarrow> Some ix
      | Some r \<Rightarrow>
          let rest = bm_remove old (ix_tunnels ix) in
          if map_of rest new \<noteq> None then None
          else Some (ix\<lparr>ix_tunnels := bm_insert new (r\<lparr>lt_applied_version := None, lt_applied_ingress := None\<rparr>) rest\<rparr>))"

definition forget_tunnel :: "string \<Rightarrow> local_index \<Rightarrow> local_index" where
  "forget_tunnel tid ix = ix\<lparr>ix_tunnels := bm_remove tid (ix_tunnels ix)\<rparr>"

definition set_applied :: "string \<Rightarrow> nat \<Rightarrow> ingress_rule list \<Rightarrow> local_index \<Rightarrow> local_index" where
  "set_applied tid version rules ix = ix\<lparr>ix_tunnels :=
     bm_at tid (\<lambda>r. r\<lparr>lt_applied_version := Some (stored version), lt_applied_ingress := Some rules\<rparr>) (ix_tunnels ix)\<rparr>"

definition set_metrics_port :: "string \<Rightarrow> nat \<Rightarrow> local_index \<Rightarrow> local_index" where
  "set_metrics_port tid port ix = ix\<lparr>ix_tunnels := bm_at tid (\<lambda>r. r\<lparr>lt_metrics_port := Some port\<rparr>) (ix_tunnels ix)\<rparr>"

definition set_always_on :: "string \<Rightarrow> bool \<Rightarrow> local_index \<Rightarrow> local_index" where
  "set_always_on tid on ix = ix\<lparr>ix_tunnels := bm_at tid (\<lambda>r. r\<lparr>lt_always_on := on\<rparr>) (ix_tunnels ix)\<rparr>"

subsection \<open>The ownership indexes\<close>

definition set_balanced :: "string \<Rightarrow> string \<Rightarrow> bool \<Rightarrow> local_index \<Rightarrow> local_index" where
  "set_balanced account hostname on ix = ix\<lparr>ix_balanced :=
     (if on then bm_insert (account, lower hostname) () (ix_balanced ix)
      else bm_remove (account, lower hostname) (ix_balanced ix))\<rparr>"

definition balanced_hosts :: "local_index \<Rightarrow> string \<Rightarrow> string list" where
  "balanced_hosts ix account = map (snd \<circ> fst) (filter (\<lambda>(k, _). fst k = account) (ix_balanced ix))"

definition owned_record_ids :: "local_index \<Rightarrow> string \<Rightarrow> string list" where
  "owned_record_ids ix account = map fst (filter (\<lambda>(_, r). rr_account r = account) (ix_records ix))"

definition own_record :: "string \<Rightarrow> string \<Rightarrow> string \<Rightarrow> string \<Rightarrow> string \<Rightarrow> local_index \<Rightarrow> local_index" where
  "own_record account zone rid hostname route ix = ix\<lparr>ix_records := bm_insert rid
     \<lparr>rr_account = account, rr_zone = zone, rr_hostname = hostname, rr_route = route\<rparr> (ix_records ix)\<rparr>"

definition disown_record :: "string \<Rightarrow> local_index \<Rightarrow> local_index" where
  "disown_record rid ix = ix\<lparr>ix_records := bm_remove rid (ix_records ix)\<rparr>"

definition owned_access_apps :: "local_index \<Rightarrow> string \<Rightarrow> (string \<times> string) list" where
  "owned_access_apps ix account = sort_key snd
     (map (\<lambda>(i, _, d). (i, d)) (filter (\<lambda>(_, a, _). a = account) (ix_apps ix)))"

text \<open>An application that is known already keeps its account.\<close>

definition own_access_app :: "string \<Rightarrow> string \<Rightarrow> string \<Rightarrow> local_index \<Rightarrow> local_index" where
  "own_access_app account i domain ix = ix\<lparr>ix_apps := bm_insert i
     (case map_of (ix_apps ix) i of None \<Rightarrow> account | Some (a, _) \<Rightarrow> a, domain) (ix_apps ix)\<rparr>"

definition disown_access_app :: "string \<Rightarrow> local_index \<Rightarrow> local_index" where
  "disown_access_app i ix = ix\<lparr>ix_apps := bm_remove i (ix_apps ix)\<rparr>"

definition owned_edge_rules :: "local_index \<Rightarrow> string \<Rightarrow> edge_rule_row list" where
  "owned_edge_rules ix account = sort_key (\<lambda>r. (er_zone_id r, er_phase r, er_rule_id r))
     (map (snd \<circ> snd) (filter (\<lambda>(_, a, _). a = account) (ix_edge_rules ix)))"

definition own_edge_rule :: "string \<Rightarrow> edge_rule_row \<Rightarrow> local_index \<Rightarrow> local_index" where
  "own_edge_rule account row ix = ix\<lparr>ix_edge_rules := bm_insert (er_rule_id row)
     (case map_of (ix_edge_rules ix) (er_rule_id row) of
        None \<Rightarrow> (account, row)
      | Some (a, r) \<Rightarrow> (a, r\<lparr>er_hostname := er_hostname row, er_kind := er_kind row\<rparr>)) (ix_edge_rules ix)\<rparr>"

definition disown_edge_rule :: "string \<Rightarrow> local_index \<Rightarrow> local_index" where
  "disown_edge_rule i ix = ix\<lparr>ix_edge_rules := bm_remove i (ix_edge_rules ix)\<rparr>"

definition owned_service_tokens :: "local_index \<Rightarrow> string \<Rightarrow> service_token_row list" where
  "owned_service_tokens ix account = sort_key (\<lambda>r. (sr_hostname r, sr_name r))
     (map (snd \<circ> snd) (filter (\<lambda>(_, a, _). a = account) (ix_tokens ix)))"

definition own_service_token :: "string \<Rightarrow> service_token_row \<Rightarrow> local_index \<Rightarrow> local_index" where
  "own_service_token account row ix = ix\<lparr>ix_tokens := bm_insert (sr_token_id row)
     (case map_of (ix_tokens ix) (sr_token_id row) of
        None \<Rightarrow> (account, row)
      | Some (a, r) \<Rightarrow> (a, r\<lparr>sr_expires_at := sr_expires_at row\<rparr>)) (ix_tokens ix)\<rparr>"

definition disown_service_token :: "string \<Rightarrow> local_index \<Rightarrow> local_index" where
  "disown_service_token i ix = ix\<lparr>ix_tokens := bm_remove i (ix_tokens ix)\<rparr>"

definition cloud_database :: "local_index \<Rightarrow> string \<Rightarrow> string option" where
  "cloud_database ix account = map_option fst (map_of (ix_databases ix) account)"

definition set_cloud_database :: "string \<Rightarrow> (string \<times> string) option \<Rightarrow> local_index \<Rightarrow> local_index" where
  "set_cloud_database account db ix = ix\<lparr>ix_databases := (case db of
      Some d \<Rightarrow> bm_insert account d (ix_databases ix) | None \<Rightarrow> bm_remove account (ix_databases ix))\<rparr>"

subsection \<open>Snapshots\<close>

definition KEPT_VERSIONS :: nat where
  "KEPT_VERSIONS = 10"

text \<open>A Snapshot of a name or a Worker another one of the account has is refused; a known one keeps
  its account, its Worker and its live version.\<close>

definition save_site :: "string \<Rightarrow> site_row \<Rightarrow> local_index \<Rightarrow> local_index option" where
  "save_site i site ix =
     (let row = (case map_of (ix_sites ix) i of
            None \<Rightarrow> site
          | Some old \<Rightarrow> site\<lparr>sw_account := sw_account old, sw_script := sw_script old, sw_live := sw_live old\<rparr>);
          row = row\<lparr>sw_expires_at := Option.bind (sw_expires_at row) (\<lambda>t. if t \<le> I64_MAX then Some t else None)\<rparr>
      in if list_ex (\<lambda>(k, r). k \<noteq> i \<and> sw_account r = sw_account row
              \<and> (sw_name r = sw_name row \<or> sw_script r = sw_script row)) (ix_sites ix)
         then None else Some (ix\<lparr>ix_sites := bm_insert i row (ix_sites ix)\<rparr>))"

definition sites_of :: "local_index \<Rightarrow> string option \<Rightarrow> (string \<times> site_row) list" where
  "sites_of ix account = sort_key (\<lambda>(_, r). lower (sw_name r))
     (filter (\<lambda>(_, r). case account of None \<Rightarrow> True | Some a \<Rightarrow> sw_account r = a) (ix_sites ix))"

definition forget_site :: "string \<Rightarrow> local_index \<Rightarrow> local_index" where
  "forget_site i ix = ix\<lparr>ix_sites := bm_remove i (ix_sites ix),
     ix_versions := bm_filter (\<lambda>k _. fst k \<noteq> i) (ix_versions ix)\<rparr>"

definition versions_of :: "string \<Rightarrow> local_index \<Rightarrow> (nat \<times> version_row) list" where
  "versions_of i ix = map (\<lambda>((_, n), v). (n, v)) (filter (\<lambda>(k, _). fst k = i) (ix_versions ix))"

text \<open>The newest first.\<close>

definition site_versions :: "string \<Rightarrow> local_index \<Rightarrow> (nat \<times> version_row) list" where
  "site_versions i ix = rev (versions_of i ix)"

definition site_version_content :: "string \<Rightarrow> string \<Rightarrow> local_index \<Rightarrow> site_content option" where
  "site_version_content i version ix = map_option
     (\<lambda>(_, v). \<lparr>sc_root = None, sc_files = vr_manifest v, sc_headers = vr_headers v, sc_redirects = vr_redirects v\<rparr>)
     (find (\<lambda>(_, v). vr_version v = version) (versions_of i ix))"

definition next_number :: "string \<Rightarrow> local_index \<Rightarrow> nat" where
  "next_number i ix = Suc (fold max (map fst (versions_of i ix)) 0)"

definition set_live :: "string \<Rightarrow> string \<Rightarrow> bool \<Rightarrow> bool \<Rightarrow> local_index \<Rightarrow> local_index" where
  "set_live i version spa password ix = ix\<lparr>ix_sites := bm_at i (\<lambda>r. r\<lparr>sw_live := Some version, sw_spa := spa,
     sw_password := password\<rparr>) (ix_sites ix)\<rparr>"

definition record_site_version ::
    "string \<Rightarrow> string \<Rightarrow> site_content \<Rightarrow> bool \<Rightarrow> bool \<Rightarrow> local_index \<Rightarrow> (nat \<times> local_index) option" where
  "record_site_version i version content spa password ix =
     (if map_of (ix_sites ix) i = None then None
      else
        let n = next_number i ix;
            row = \<lparr>vr_version = version, vr_files = stored (length (sc_files content)),
              vr_bytes = stored (content_bytes content), vr_manifest = sc_files content, vr_headers = sc_headers content,
              vr_redirects = sc_redirects content, vr_spa = spa, vr_password = password\<rparr>;
            ix1 = ix\<lparr>ix_versions := bm_insert (i, n) row (ix_versions ix)\<rparr>;
            ix2 = set_live i version spa password ix1
        in Some (if n < 2 ^ 32 then n else 0, ix2\<lparr>ix_versions := bm_filter (\<lambda>(k, m) _. \<not> (k = i \<and> m + KEPT_VERSIONS \<le> n)) (ix_versions ix2)\<rparr>))"

definition set_site_live :: "string \<Rightarrow> string \<Rightarrow> local_index \<Rightarrow> local_index" where
  "set_site_live i version ix =
     (let kept = find (\<lambda>(_, v). vr_version v = version) (versions_of i ix) in
      ix\<lparr>ix_sites := bm_at i (\<lambda>r. (case kept of
          None \<Rightarrow> r | Some (_, v) \<Rightarrow> r\<lparr>sw_spa := vr_spa v, sw_password := vr_password v\<rparr>)\<lparr>sw_live := Some version\<rparr>) (ix_sites ix)\<rparr>)"

definition drop_site_version :: "string \<Rightarrow> string \<Rightarrow> local_index \<Rightarrow> local_index" where
  "drop_site_version i version ix = ix\<lparr>
     ix_versions := bm_filter (\<lambda>k v. \<not> (fst k = i \<and> vr_version v = version)) (ix_versions ix),
     ix_sites := bm_at i (\<lambda>r. if sw_live r = Some version then r\<lparr>sw_live := None\<rparr> else r) (ix_sites ix)\<rparr>"

subsection \<open>Workers in front of a route\<close>

definition front_key :: "string \<Rightarrow> string \<Rightarrow> front_kind \<Rightarrow> string \<Rightarrow> string \<times> string \<times> string \<times> string" where
  "front_key account hostname kind path = (account, lower hostname, front_kind_str kind, path)"

definition local_fronts :: "local_index \<Rightarrow> string option \<Rightarrow> string option \<Rightarrow> (string \<times> string \<times> front_row) list" where
  "local_fronts ix account hostname = map (\<lambda>((a, h, _, _), r). (a, h, r))
     (sort_key (\<lambda>((_, h, k, p), _). (h, k, p)) (filter (\<lambda>((a, h, _, _), _).
        (case account of None \<Rightarrow> True | Some x \<Rightarrow> a = x)
        \<and> (case hostname of None \<Rightarrow> True | Some x \<Rightarrow> h = lower x)) (ix_fronts ix)))"

text \<open>A Worker that is known keeps its route.\<close>

definition save_front :: "string \<Rightarrow> string \<Rightarrow> string \<Rightarrow> string \<Rightarrow> front_config \<Rightarrow> local_index \<Rightarrow> local_index" where
  "save_front account hostname zone script config ix =
     (let key = front_key account hostname (config_kind config) (config_path config) in
      ix\<lparr>ix_fronts := bm_insert key \<lparr>fr_script = script, fr_zone = zone,
         fr_route = Option.bind (map_of (ix_fronts ix) key) fr_route, fr_config = config\<rparr> (ix_fronts ix)\<rparr>)"

definition set_front_route :: "string \<Rightarrow> string \<Rightarrow> front_kind \<Rightarrow> string \<Rightarrow> string option \<Rightarrow> local_index \<Rightarrow> local_index" where
  "set_front_route account hostname kind path route ix =
     ix\<lparr>ix_fronts := bm_at (front_key account hostname kind path) (\<lambda>r. r\<lparr>fr_route := route\<rparr>) (ix_fronts ix)\<rparr>"

definition forget_front :: "string \<Rightarrow> string \<Rightarrow> front_kind \<Rightarrow> string \<Rightarrow> local_index \<Rightarrow> local_index" where
  "forget_front account hostname kind path ix =
     ix\<lparr>ix_fronts := bm_remove (front_key account hostname kind path) (ix_fronts ix)\<rparr>"

subsection \<open>The writes of a run\<close>

text \<open>What a run asks for; one that is refused changes nothing (\<open>warn_local\<close>).\<close>

fun local_write :: "local_op \<Rightarrow> local_index \<Rightarrow> local_index option" where
  "local_write (SetMachineTunnel account i name) ix = set_machine_tunnel account i name ix"
| "local_write (AddTunnelRow account i name) ix = add_tunnel account i name ix"
| "local_write (ReplaceTunnelRow old new) ix = replace_tunnel old new ix"
| "local_write (ForgetTunnel i) ix = Some (forget_tunnel i ix)"
| "local_write (SetApplied i version rules) ix = Some (set_applied i version rules ix)"
| "local_write (OwnRecord account zone i hostname route) ix = Some (own_record account zone i hostname route ix)"
| "local_write (DisownRecord i) ix = Some (disown_record i ix)"
| "local_write (OwnAccessApp account i domain) ix = Some (own_access_app account i domain ix)"
| "local_write (DisownAccessApp i) ix = Some (disown_access_app i ix)"
| "local_write (SetBalanced account hostname on) ix = Some (set_balanced account hostname on ix)"
| "local_write (RecordSiteVersion i version content spa password) ix =
     map_option snd (record_site_version i version content spa password ix)"
| "local_write (SetSiteLive i version) ix = Some (set_site_live i version ix)"
| "local_write (DropSiteVersion i version) ix = Some (drop_site_version i version ix)"
| "local_write (OwnEdgeRule account row) ix = Some (own_edge_rule account row ix)"
| "local_write (DisownEdgeRule i) ix = Some (disown_edge_rule i ix)"
| "local_write (OwnServiceToken account row) ix = Some (own_service_token account row ix)"
| "local_write (DisownServiceToken i) ix = Some (disown_service_token i ix)"
| "local_write (SetCloudDatabase account db) ix = Some (set_cloud_database account db ix)"
| "local_write (SaveFront account hostname zone script config) ix = Some (save_front account hostname zone script config ix)"
| "local_write (SetFrontRoute account hostname kind path route) ix = Some (set_front_route account hostname kind path route ix)"
| "local_write (ForgetFront account hostname kind path) ix = Some (forget_front account hostname kind path ix)"

definition local_apply :: "local_op \<Rightarrow> local_index \<Rightarrow> local_index" where
  "local_apply op ix = (case local_write op ix of None \<Rightarrow> ix | Some ix' \<Rightarrow> ix')"

subsection \<open>The invariant\<close>

text \<open>Of an account at most one tunnel is the default.\<close>

definition defaults_ok :: "(string, tunnel_row) bmap \<Rightarrow> bool" where
  "defaults_ok m \<longleftrightarrow> (\<forall>(k, r) \<in> set m. \<forall>(l, s) \<in> set m.
     lt_account r = lt_account s \<and> lt_default r \<and> lt_default s \<longrightarrow> k = l)"

text \<open>Versions are of Snapshots that are remembered, the last ten numbers of each.\<close>

definition versions_ok :: "(string, site_row) bmap \<Rightarrow> (string \<times> nat, version_row) bmap \<Rightarrow> bool" where
  "versions_ok sites vs \<longleftrightarrow> (\<forall>((i, n), _) \<in> set vs. i \<in> fst ` set sites
     \<and> (\<forall>((j, m), _) \<in> set vs. i = j \<longrightarrow> n < m + KEPT_VERSIONS))"

definition index_ok :: "local_index \<Rightarrow> bool" where
  "index_ok ix \<longleftrightarrow> sorted_map (ix_tunnels ix) \<and> sorted_map (ix_records ix) \<and> sorted_map (ix_apps ix)
     \<and> sorted_map (ix_balanced ix) \<and> sorted_map (ix_sites ix) \<and> sorted_map (ix_versions ix)
     \<and> sorted_map (ix_edge_rules ix) \<and> sorted_map (ix_tokens ix) \<and> sorted_map (ix_databases ix)
     \<and> sorted_map (ix_fronts ix) \<and> defaults_ok (ix_tunnels ix) \<and> versions_ok (ix_sites ix) (ix_versions ix)"

lemma index_ok_empty: "index_ok empty_index"
  by (simp add: index_ok_def empty_index_def defaults_ok_def versions_ok_def)

end
