(* ===== verification/Run.thy ===== *)
theory Run
  imports Executor
begin

text \<open>
  A whole run (\<open>engine/executor.rs\<close>): undoing a completed step, creating records in batches,
  running the steps in order, and going back when one fails.
\<close>

subsection \<open>Undoing a step\<close>

definition renamed_id :: "'w exec \<Rightarrow> string \<Rightarrow> string" where
  "renamed_id e i = (case ex_renamed e i of Some j \<Rightarrow> j | None \<Rightarrow> i)"

definition undo_restore_record :: "'w env \<Rightarrow> string \<Rightarrow> dns_record \<Rightarrow> string \<Rightarrow> bool \<Rightarrow> ('w, unit) act" where
  "undo_restore_record E zid previous current owned =
     abind (if current = rec_id previous
            then call (api_update_record (dns_api (env_api E)) zid (rec_id previous) (record_to_new previous))
            else call (api_replace_record (dns_api (env_api E)) zid current (record_to_new previous))) (\<lambda>restored.
     abind (note_local E (DisownRecord current)) (\<lambda>_.
     if owned then note_local E (OwnRecord (env_account E) zid (rec_id restored) (rec_name previous)
        (route_id_from (rec_comment previous)))
     else aret ()))"

definition undo_recreate_record :: "'w env \<Rightarrow> string \<Rightarrow> dns_record \<Rightarrow> bool \<Rightarrow> ('w, unit) act" where
  "undo_recreate_record E zid r owned =
     abind (call (api_create_record (dns_api (env_api E)) zid (record_to_new r))) (\<lambda>created.
     if owned then note_local E (OwnRecord (env_account E) zid (rec_id created) (rec_name r) (route_id_from (rec_comment r)))
     else aret ())"

text \<open>Load balancing comes back in reverse: the monitor, the pool with the monitor's new id, the
  load balancer with the pool's.\<close>

definition undo_recreate_lb_monitor :: "'w env \<Rightarrow> monitor \<Rightarrow> ('w, unit) act" where
  "undo_recreate_lb_monitor E m =
     abind (call (api_create_lb_monitor (balance_api (env_api E)) (env_account E) m)) (\<lambda>i.
     aupdate (\<lambda>e. e\<lparr>ex_renamed := (ex_renamed e)(mon_id m \<mapsto> i)\<rparr>))"

definition undo_recreate_lb_pool :: "'w env \<Rightarrow> pool \<Rightarrow> ('w, unit) act" where
  "undo_recreate_lb_pool E p =
     abind (aget (\<lambda>e. p\<lparr>pool_monitor := map_option (renamed_id e) (pool_monitor p), pool_id := []\<rparr>)) (\<lambda>q.
     abind (call (api_create_lb_pool (balance_api (env_api E)) (env_account E) q)) (\<lambda>i.
     aupdate (\<lambda>e. e\<lparr>ex_renamed := (ex_renamed e)(pool_id p \<mapsto> i)\<rparr>)))"

definition undo_recreate_load_balancer :: "'w env \<Rightarrow> string \<Rightarrow> load_balancer \<Rightarrow> ('w, unit) act" where
  "undo_recreate_load_balancer E zid b =
     abind (aget (\<lambda>e. b\<lparr>lb_id := [], lb_default_pools := map (renamed_id e) (lb_default_pools b),
        lb_fallback_pool := renamed_id e (lb_fallback_pool b)\<rparr>)) (\<lambda>c.
     abind (call (api_create_load_balancer (balance_api (env_api E)) zid c)) (\<lambda>_.
     note_local E (SetBalanced (env_account E) (lb_name c) True)))"

definition undo_delete_snapshot_worker :: "'w env \<Rightarrow> string \<Rightarrow> string \<Rightarrow> ('w, unit) act" where
  "undo_delete_snapshot_worker E snap script =
     abind (call (api_delete_worker_script (worker_api (env_api E)) (env_account E) script)) (\<lambda>_.
     aupdate (\<lambda>e. case env_site_versions E snap (ex_world e) of
        None \<Rightarrow> e
      | Some vs \<Rightarrow> e\<lparr>ex_world := fold (\<lambda>v. env_local E (DropSiteVersion snap v)) vs (ex_world e)\<rparr>))"

definition undo_redeploy_snapshot :: "'w env \<Rightarrow> string \<Rightarrow> string \<Rightarrow> string \<Rightarrow> string option \<Rightarrow> ('w, unit) act" where
  "undo_redeploy_snapshot E snap script v replaced =
     abind (call (api_deploy_worker_version (worker_api (env_api E)) (env_account E) script v)) (\<lambda>_.
     abind (case replaced of None \<Rightarrow> aret () | Some r \<Rightarrow> note_local E (DropSiteVersion snap r)) (\<lambda>_.
     note_local E (SetSiteLive snap v)))"

definition undo_recreate_edge_rule ::
    "'w env \<Rightarrow> string \<Rightarrow> string \<Rightarrow> string \<Rightarrow> new_rule \<Rightarrow> nat \<Rightarrow> ('w, unit) act" where
  "undo_recreate_edge_rule E zid ph ruleset r position =
     abind (call (api_create_rule (edge_api (env_api E)) zid ph (Some ruleset) r (Some position))) (\<lambda>(_, rid).
     note_local E (OwnEdgeRule (env_account E)
       \<lparr>er_rule_id = rid, er_zone_id = zid, er_phase = ph, er_hostname = None, er_kind = []\<rparr>))"

text \<open>A verifying inbox gets the signing secret of the keychain back.\<close>

definition undo_restore_front_worker ::
    "'w env \<Rightarrow> string \<Rightarrow> string \<Rightarrow> string \<Rightarrow> front_config \<Rightarrow> string option \<Rightarrow> ('w, unit) act" where
  "undo_restore_front_worker E hostname zid script config database =
     abind (aget (\<lambda>e. case (config, env_secret E) of
        (InboxConfig _ settings, Some secrets) \<Rightarrow>
          (case inb_verify settings of Some v \<Rightarrow> secrets hostname v (ex_world e) | None \<Rightarrow> None)
      | _ \<Rightarrow> None)) (\<lambda>secret.
     put_front E hostname zid script config database secret)"

fun exec_undo :: "'w env \<Rightarrow> undo \<Rightarrow> ('w, unit) act" where
  "exec_undo E (UndoDeleteTunnel i) = remove_tunnel E i"
| "exec_undo E (UndoRestoreConfig tunnel previous) = put_ingress E tunnel previous None"
| "exec_undo E (UndoDeleteRecord z i _) =
     abind (call (api_delete_record (dns_api (env_api E)) z i)) (\<lambda>_. note_local E (DisownRecord i))"
| "exec_undo E (UndoRestoreRecord z previous current owned) = undo_restore_record E z previous current owned"
| "exec_undo E (UndoRecreateRecord z r owned) = undo_recreate_record E z r owned"
| "exec_undo E (UndoStartConnector i) = ensure_connector E i"
| "exec_undo E (UndoDeleteLoginMethod i) = call (api_delete_login_method (access_api (env_api E)) (env_account E) i)"
| "exec_undo E (UndoDeleteAccessApp i _ _) =
     abind (call (api_delete_access_app (access_api (env_api E)) (env_account E) i)) (\<lambda>_.
     note_local E (DisownAccessApp i))"
| "exec_undo E (UndoRestoreAccessApp i previous) =
     abind (call (api_update_access_app (access_api (env_api E)) (env_account E) i previous)) (\<lambda>_.
     note_local E (OwnAccessApp (env_account E) i (app_domain previous)))"
| "exec_undo E (UndoRecreateAccessApp previous) =
     abind (call (api_create_access_app (access_api (env_api E)) (env_account E) previous)) (\<lambda>i.
     note_local E (OwnAccessApp (env_account E) i (app_domain previous)))"
| "exec_undo E (UndoDeleteNetworkRoute i _) = call (api_delete_network_route (tunnel_api (env_api E)) (env_account E) i)"
| "exec_undo E (UndoRecreateNetworkRoute r) =
     abind (call (api_create_network_route (tunnel_api (env_api E)) (env_account E)
        (net_network r) (net_tunnel_id r) (net_comment r) (net_vnet r))) (\<lambda>_. aret ())"
| "exec_undo E (UndoDeleteHostnameRoute i _) = call (api_delete_hostname_route (tunnel_api (env_api E)) (env_account E) i)"
| "exec_undo E (UndoRecreateHostnameRoute r) =
     abind (call (api_create_hostname_route (tunnel_api (env_api E)) (env_account E)
        (hr_hostname r) (hr_tunnel_id r) (hr_comment r))) (\<lambda>_. aret ())"
| "exec_undo E (UndoDeleteLbMonitor i) = call (api_delete_lb_monitor (balance_api (env_api E)) (env_account E) i)"
| "exec_undo E (UndoDeleteLbPool i) = call (api_delete_lb_pool (balance_api (env_api E)) (env_account E) i)"
| "exec_undo E (UndoRestoreLbPool i previous) = call (api_update_lb_pool (balance_api (env_api E)) (env_account E) i previous)"
| "exec_undo E (UndoDeleteLoadBalancer z i hostname) =
     abind (call (api_delete_load_balancer (balance_api (env_api E)) z i)) (\<lambda>_.
     note_local E (SetBalanced (env_account E) hostname False))"
| "exec_undo E (UndoRecreateLoadBalancer z b) = undo_recreate_load_balancer E z b"
| "exec_undo E (UndoRecreateLbPool p) = undo_recreate_lb_pool E p"
| "exec_undo E (UndoRecreateLbMonitor m) = undo_recreate_lb_monitor E m"
| "exec_undo E (UndoDeleteSnapshotWorker snap script) = undo_delete_snapshot_worker E snap script"
| "exec_undo E (UndoRedeploySnapshot snap script v replaced) = undo_redeploy_snapshot E snap script v replaced"
| "exec_undo E (UndoSetWorkersDev script enabled) =
     call (api_set_worker_on_workers_dev (worker_api (env_api E)) (env_account E) script enabled)"
| "exec_undo E (UndoDetachSnapshotDomain i _) = call (api_detach_worker_domain (worker_api (env_api E)) (env_account E) i)"
| "exec_undo E (UndoReattachSnapshotDomain d) =
     abind (call (api_attach_worker_domain (worker_api (env_api E)) (env_account E)
        (wd_hostname d) (wd_zone_id d) (wd_service d))) (\<lambda>_. aret ())"
| "exec_undo E (UndoRecreateSnapshotWorker script) = aof (Inl (Msg ''snapshot.leftover.recreate_worker'' [script]))"
| "exec_undo E (UndoDeleteEdgeRule z ruleset i _) =
     abind (call (api_delete_rule (edge_api (env_api E)) z ruleset i)) (\<lambda>_. note_local E (DisownEdgeRule i))"
| "exec_undo E (UndoRestoreEdgeRule z ruleset i previous _) = call (api_update_rule (edge_api (env_api E)) z ruleset i previous)"
| "exec_undo E (UndoRecreateEdgeRule z ph ruleset r position _) = undo_recreate_edge_rule E z ph ruleset r position"
| "exec_undo E (UndoDeleteServiceToken i _) =
     abind (call (api_delete_service_token (access_api (env_api E)) (env_account E) i)) (\<lambda>_.
     note_local E (DisownServiceToken i))"
| "exec_undo E (UndoRestoreServiceToken name) = aof (Inl (Msg ''protection.leftover.restore_token'' [name]))"
| "exec_undo E (UndoDeleteDatabase i) =
     abind (call (api_delete_d1_database (worker_api (env_api E)) (env_account E) i)) (\<lambda>_.
     note_local E (SetCloudDatabase (env_account E) None))"
| "exec_undo E (UndoDeleteFrontWorker hostname script config) =
     abind (call (api_delete_worker_script (worker_api (env_api E)) (env_account E) script)) (\<lambda>_.
     note_local E (ForgetFront (env_account E) hostname (config_kind config) (config_path config)))"
| "exec_undo E (UndoRestoreFrontWorker hostname z script config database) =
     undo_restore_front_worker E hostname z script config database"
| "exec_undo E (UndoDeleteWorkerRoute z i _ hostname kind path) =
     abind (call (api_delete_worker_route (worker_api (env_api E)) z i)) (\<lambda>_.
     note_local E (SetFrontRoute (env_account E) hostname kind path None))"
| "exec_undo E (UndoRecreateWorkerRoute z r hostname kind path) =
     abind (call (api_create_worker_route (worker_api (env_api E)) z (wr_pattern r)
        (case wr_script r of Some s \<Rightarrow> s | None \<Rightarrow> []))) (\<lambda>i.
     note_local E (SetFrontRoute (env_account E) hostname kind path (Some i)))"

subsection \<open>Going back\<close>

text \<open>Undoes the given steps in order; answers what was left in place.\<close>

fun undo_steps :: "'w env \<Rightarrow> (nat \<times> undo) list \<Rightarrow> 'w exec \<Rightarrow> message list \<times> 'w exec" where
  "undo_steps E [] e = ([], e)"
| "undo_steps E ((n, u) # us) e =
     (case exec_undo E u (report n Undoing e) of
        (Inr _, e') \<Rightarrow> undo_steps E us (report n Undone e')
      | (Inl msg, e') \<Rightarrow> (case undo_steps E us (report n (UndoFailed msg) e') of
          (left, e'') \<Rightarrow> (leftover u # left, e'')))"

definition roll_back :: "'w env \<Rightarrow> nat \<Rightarrow> message \<Rightarrow> 'w exec \<Rightarrow> outcome \<times> 'w exec" where
  "roll_back E failed error e =
     (case undo_steps E (rev (ex_done e)) (e\<lparr>ex_done := []\<rparr>) of (left, e') \<Rightarrow>
        if left = [] then (RolledBack failed error, fold (\<lambda>n. report n Undone) (ex_covered e') (e'\<lparr>ex_covered := []\<rparr>))
        else (PartiallyApplied failed error (rev left), e'))"

subsection \<open>Records in a row\<close>

record new_record_step =
  nrs_zone :: string
  nrs_hostname :: string
  nrs_tunnel :: tunnel_ref
  nrs_route :: string

fun record_run :: "step list \<Rightarrow> new_record_step list" where
  "record_run (CreateRecord z h t route # sts) =
     \<lparr>nrs_zone = z, nrs_hostname = h, nrs_tunnel = t, nrs_route = route\<rparr> # record_run sts"
| "record_run _ = []"

text \<open>The records of one call; the first that cannot be made fails its step.\<close>

fun batch_records :: "'w env \<Rightarrow> (nat \<times> new_record_step) list \<Rightarrow> 'w exec
    \<Rightarrow> ((nat \<times> message) + new_dns_record list) \<times> 'w exec" where
  "batch_records E [] e = (Inr [], e)"
| "batch_records E ((n, r) # rs) e =
     (case resolve (nrs_tunnel r) e of
        (Inl msg, e') \<Rightarrow> (Inl (n, msg), report n (Failed msg) e')
      | (Inr target, e') \<Rightarrow>
          (case batch_records E rs e' of
             (Inl x, e'') \<Rightarrow> (Inl x, e'')
           | (Inr cs, e'') \<Rightarrow> (Inr (tunnel_cname (nrs_hostname r) target (comment_for E (nrs_route r) None) # cs), e'')))"

definition note_created :: "'w env \<Rightarrow> string \<Rightarrow> nat \<times> new_record_step \<Rightarrow> dns_record \<Rightarrow> 'w exec \<Rightarrow> 'w exec" where
  "note_created E zid nr created e =
     report (fst nr) StepDone
       (e\<lparr>ex_world := env_local E (OwnRecord (env_account E) zid (rec_id created) (nrs_hostname (snd nr)) (nrs_route (snd nr)))
            (ex_world e),
          ex_done := ex_done e @ [(fst nr, UndoDeleteRecord zid (rec_id created) (nrs_hostname (snd nr)))]\<rparr>)"

definition create_batch :: "'w env \<Rightarrow> string \<Rightarrow> (nat \<times> new_record_step) list \<Rightarrow> 'w exec
    \<Rightarrow> ((nat \<times> message) + unit) \<times> 'w exec" where
  "create_batch E zid chunk e =
     (case batch_records E chunk e of
        (Inl x, e') \<Rightarrow> (Inl x, e')
      | (Inr records, e') \<Rightarrow>
          let e1 = fold (\<lambda>nr. report (fst nr) Running) chunk e' in
          (case call (api_create_records (dns_api (env_api E)) zid records) e1 of
             (Inl msg, e2) \<Rightarrow> (Inl (fst (hd chunk), msg), fold (\<lambda>nr. report (fst nr) (Failed msg)) chunk e2)
           | (Inr created, e2) \<Rightarrow> (Inr (), fold (\<lambda>(nr, c). note_created E zid nr c) (zip chunk created) e2)))"

fun create_batches :: "'w env \<Rightarrow> (string \<times> (nat \<times> new_record_step) list) list \<Rightarrow> 'w exec
    \<Rightarrow> ((nat \<times> message) + unit) \<times> 'w exec" where
  "create_batches E [] e = (Inr (), e)"
| "create_batches E ((z, chunk) # rest) e =
     (case create_batch E z chunk e of
        (Inl x, e') \<Rightarrow> (Inl x, e')
      | (Inr _, e') \<Rightarrow> create_batches E rest e')"

text \<open>The zones in the order they first occur.\<close>

definition zones_of :: "new_record_step list \<Rightarrow> string list" where
  "zones_of rs = fold (\<lambda>r zs. if nrs_zone r \<in> set zs then zs else zs @ [nrs_zone r]) rs []"

definition batches :: "nat \<Rightarrow> new_record_step list \<Rightarrow> (string \<times> (nat \<times> new_record_step) list) list" where
  "batches first rs = concat (map (\<lambda>z. map (Pair z) (chunks MAX_DNS_BATCH
     (filter (\<lambda>nr. nrs_zone (snd nr) = z) (enumerate first rs)))) (zones_of rs))"

definition create_records :: "'w env \<Rightarrow> nat \<Rightarrow> new_record_step list \<Rightarrow> 'w exec
    \<Rightarrow> ((nat \<times> message) + unit) \<times> 'w exec" where
  "create_records E first rs = create_batches E (batches first rs)"

subsection \<open>The loop over the steps\<close>

text \<open>One step that is neither a check nor in a row of records: the undo of the step is kept, or
  the step is covered by the undo of another.\<close>

definition run_step :: "'w env \<Rightarrow> nat \<Rightarrow> step \<Rightarrow> 'w exec \<Rightarrow> ((nat \<times> message) + unit) \<times> 'w exec" where
  "run_step E n st e =
     (case exec_step E n st (report n Running e) of
        (Inr (Some u), e') \<Rightarrow> (Inr (), report n StepDone (e'\<lparr>ex_done := ex_done e' @ [(n, u)]\<rparr>))
      | (Inr None, e') \<Rightarrow> (Inr (), report n StepDone (e'\<lparr>ex_covered := ex_covered e' @ [n]\<rparr>))
      | (Inl msg, e') \<Rightarrow> (Inl (n, msg), report n (Failed msg) e'))"

fun verify_host :: "step \<Rightarrow> string option" where
  "verify_host (Verify h) = Some h"
| "verify_host _ = None"

function run_steps :: "'w env \<Rightarrow> nat \<Rightarrow> step list \<Rightarrow> 'w exec \<Rightarrow> ((nat \<times> message) + unit) \<times> 'w exec" where
  "run_steps E n [] e = (Inr (), e)"
| "run_steps E n (st # sts) e =
     (let rs = record_run (st # sts) in
      if length rs > 1 then
        (case create_records E n rs e of
           (Inl x, e') \<Rightarrow> (Inl x, e')
         | (Inr _, e') \<Rightarrow> run_steps E (n + length rs) (drop (length rs) (st # sts)) e')
      else if verify_host st \<noteq> None then run_steps E (Suc n) sts (report n Skipped e)
      else
        (case run_step E n st e of
           (Inl x, e') \<Rightarrow> (Inl x, e')
         | (Inr _, e') \<Rightarrow> run_steps E (Suc n) sts e'))"
  by pat_completeness auto
termination by (relation "measure (\<lambda>(_, _, sts, _). length sts)") auto

fun deletes_tunnel :: "step \<Rightarrow> bool" where
  "deletes_tunnel (DeleteTunnel _) \<longleftrightarrow> True"
| "deletes_tunnel _ \<longleftrightarrow> False"

definition execute :: "'w env \<Rightarrow> plan \<Rightarrow> bool \<Rightarrow> 'w exec \<Rightarrow> outcome \<times> 'w exec" where
  "execute E p serving e =
     (case run_steps E 0 (pl_steps p) e of
        (Inl (failed, msg), e') \<Rightarrow> roll_back E failed msg e'
      | (Inr _, e') \<Rightarrow>
          let tunnel_id = (if list_ex deletes_tunnel (pl_steps p) then None
                else (case ex_created e' of Some i \<Rightarrow> Some i | None \<Rightarrow> map_option tun_id (sn_tunnel (env_snapshot E)))) in
          (case (tunnel_id, serving) of
             (Some i, True) \<Rightarrow> (case ensure_connector E i e' of
                (Inl msg, e'') \<Rightarrow> (Applied tunnel_id (List.map_filter verify_host (pl_steps p)) (Some msg), e'')
              | (Inr _, e'') \<Rightarrow> (Applied tunnel_id (List.map_filter verify_host (pl_steps p)) None, e''))
           | _ \<Rightarrow> (Applied tunnel_id (List.map_filter verify_host (pl_steps p)) None, e')))"

end
