(* ===== verification/Fake_World.thy ===== *)
theory Fake_World
  imports Fake_Cloud Local_Index Run
begin

text \<open>
  The world a run of the engine changes in its tests: the Cloudflare account of
  \<open>engine/fake.rs\<close>, the fake connectors and the local index, and the ports of the executor on
  them. Also what a test compares two accounts by (\<open>CloudState::normalized\<close>).
\<close>

subsection \<open>The ports\<close>

definition fake_api :: "'d sqlite \<Rightarrow> 'd fake_cloud cloud_api" where
  "fake_api Q = \<lparr>
     tunnel_api = \<lparr>
       api_create_tunnel = fake_create_tunnel,
       api_delete_tunnel = fake_delete_tunnel,
       api_tunnel_config = fake_tunnel_config,
       api_put_tunnel_config = fake_put_tunnel_config,
       api_tunnel_token = fake_tunnel_token,
       api_create_network_route = fake_create_network_route,
       api_delete_network_route = fake_delete_network_route,
       api_create_hostname_route = fake_create_hostname_route,
       api_delete_hostname_route = fake_delete_hostname_route\<rparr>,
     dns_api = \<lparr>
       api_create_record = fake_create_record,
       api_create_records = fake_create_records,
       api_update_record = fake_update_record,
       api_replace_record = fake_replace_record,
       api_delete_record = fake_delete_record\<rparr>,
     access_api = \<lparr>
       api_create_access_app = fake_create_access_app,
       api_update_access_app = fake_update_access_app,
       api_delete_access_app = fake_delete_access_app,
       api_create_one_time_pin = fake_create_one_time_pin,
       api_delete_login_method = fake_delete_login_method,
       api_create_service_token = fake_create_service_token,
       api_rotate_service_token = fake_rotate_service_token,
       api_delete_service_token = fake_delete_service_token\<rparr>,
     balance_api = \<lparr>
       api_create_lb_monitor = fake_create_lb_monitor,
       api_delete_lb_monitor = fake_delete_lb_monitor,
       api_create_lb_pool = fake_create_lb_pool,
       api_update_lb_pool = fake_update_lb_pool,
       api_delete_lb_pool = fake_delete_lb_pool,
       api_create_load_balancer = fake_create_load_balancer,
       api_delete_load_balancer = fake_delete_load_balancer\<rparr>,
     worker_api = \<lparr>
       api_create_assets_upload_session = fake_create_assets_upload_session,
       api_upload_assets = fake_upload_assets,
       api_put_worker_script = fake_put_worker_script,
       api_upload_worker_version = fake_upload_worker_version,
       api_deploy_worker_version = fake_deploy_worker_version,
       api_worker_deployments = fake_worker_deployments,
       api_set_worker_on_workers_dev = fake_set_worker_on_workers_dev,
       api_delete_worker_script = fake_delete_worker_script,
       api_attach_worker_domain = fake_attach_worker_domain,
       api_detach_worker_domain = fake_detach_worker_domain,
       api_create_worker_route = fake_create_worker_route,
       api_delete_worker_route = fake_delete_worker_route,
       api_create_d1_database = fake_create_d1_database Q,
       api_delete_d1_database = fake_delete_d1_database,
       api_d1_query = fake_d1_query Q\<rparr>,
     edge_api = \<lparr>
       api_create_rule = fake_create_rule,
       api_update_rule = fake_update_rule,
       api_delete_rule = fake_delete_rule\<rparr>\<rparr>"

subsection \<open>Connectors\<close>

record fake_connectors =
  fc_calls :: "string list"
  fc_running :: "string list"
  fc_fail_stop :: bool

definition fake_conn_state :: "string \<Rightarrow> fake_connectors \<Rightarrow> connector_state option" where
  "fake_conn_state i c = (if i \<in> set (fc_running c) then Some (ConnHealthy 4) else None)"

text \<open>The test fails (here: the start does) when the token is not the tunnel's.\<close>

definition fake_conn_start :: "string \<Rightarrow> string \<Rightarrow> string \<Rightarrow> fake_connectors \<Rightarrow> (message + unit) \<times> fake_connectors" where
  "fake_conn_start account i token c =
     (if token \<noteq> ''token-for-'' @ i then (Inl (Msg ''raw'' [''assertion failed'']), c)
      else (Inr (), c\<lparr>fc_calls := fc_calls c @ [''start '' @ i],
        fc_running := (if i \<in> set (fc_running c) then fc_running c else List.insort i (fc_running c))\<rparr>))"

definition fake_conn_stop :: "string \<Rightarrow> fake_connectors \<Rightarrow> (message + unit) \<times> fake_connectors" where
  "fake_conn_stop i c =
     (if fc_fail_stop c then (Inl (Msg ''raw'' [''injected stop failure'']), c)
      else (Inr (), c\<lparr>fc_calls := fc_calls c @ [''stop '' @ i], fc_running := filter (\<lambda>j. j \<noteq> i) (fc_running c)\<rparr>))"

definition fake_conn_deleted :: "string \<Rightarrow> fake_connectors \<Rightarrow> fake_connectors" where
  "fake_conn_deleted i c = c\<lparr>fc_calls := fc_calls c @ [''deleted '' @ i]\<rparr>"

subsection \<open>The world\<close>

record 'd fake_world =
  fwd_cloud :: "'d fake_cloud"
  fwd_connectors :: fake_connectors
  fwd_local :: local_index

definition in_cloud :: "('d fake_cloud, 'a) service \<Rightarrow> ('d fake_world, 'a) service" where
  "in_cloud f w = (case f (fwd_cloud w) of (r, k) \<Rightarrow> (r, w\<lparr>fwd_cloud := k\<rparr>))"

definition in_connectors :: "(fake_connectors \<Rightarrow> 'r \<times> fake_connectors) \<Rightarrow> 'd fake_world \<Rightarrow> 'r \<times> 'd fake_world" where
  "in_connectors f w = (case f (fwd_connectors w) of (r, c) \<Rightarrow> (r, w\<lparr>fwd_connectors := c\<rparr>))"

text \<open>The ports of one part of the world are ports of the world.\<close>

definition lift_api :: "'d fake_cloud cloud_api \<Rightarrow> 'd fake_world cloud_api" where
  "lift_api A = \<lparr>
     tunnel_api = (let T = tunnel_api A in \<lparr>
       api_create_tunnel = (\<lambda>a n. in_cloud (api_create_tunnel T a n)),
       api_delete_tunnel = (\<lambda>a i. in_cloud (api_delete_tunnel T a i)),
       api_tunnel_config = (\<lambda>a i. in_cloud (api_tunnel_config T a i)),
       api_put_tunnel_config = (\<lambda>a i c. in_cloud (api_put_tunnel_config T a i c)),
       api_tunnel_token = (\<lambda>a i. in_cloud (api_tunnel_token T a i)),
       api_create_network_route = (\<lambda>a n t c v. in_cloud (api_create_network_route T a n t c v)),
       api_delete_network_route = (\<lambda>a i. in_cloud (api_delete_network_route T a i)),
       api_create_hostname_route = (\<lambda>a h t c. in_cloud (api_create_hostname_route T a h t c)),
       api_delete_hostname_route = (\<lambda>a i. in_cloud (api_delete_hostname_route T a i))\<rparr>),
     dns_api = (let D = dns_api A in \<lparr>
       api_create_record = (\<lambda>z r. in_cloud (api_create_record D z r)),
       api_create_records = (\<lambda>z rs. in_cloud (api_create_records D z rs)),
       api_update_record = (\<lambda>z i r. in_cloud (api_update_record D z i r)),
       api_replace_record = (\<lambda>z i r. in_cloud (api_replace_record D z i r)),
       api_delete_record = (\<lambda>z i. in_cloud (api_delete_record D z i))\<rparr>),
     access_api = (let P = access_api A in \<lparr>
       api_create_access_app = (\<lambda>a x. in_cloud (api_create_access_app P a x)),
       api_update_access_app = (\<lambda>a i x. in_cloud (api_update_access_app P a i x)),
       api_delete_access_app = (\<lambda>a i. in_cloud (api_delete_access_app P a i)),
       api_create_one_time_pin = (\<lambda>a. in_cloud (api_create_one_time_pin P a)),
       api_delete_login_method = (\<lambda>a i. in_cloud (api_delete_login_method P a i)),
       api_create_service_token = (\<lambda>a n d. in_cloud (api_create_service_token P a n d)),
       api_rotate_service_token = (\<lambda>a i. in_cloud (api_rotate_service_token P a i)),
       api_delete_service_token = (\<lambda>a i. in_cloud (api_delete_service_token P a i))\<rparr>),
     balance_api = (let B = balance_api A in \<lparr>
       api_create_lb_monitor = (\<lambda>a m. in_cloud (api_create_lb_monitor B a m)),
       api_delete_lb_monitor = (\<lambda>a i. in_cloud (api_delete_lb_monitor B a i)),
       api_create_lb_pool = (\<lambda>a p. in_cloud (api_create_lb_pool B a p)),
       api_update_lb_pool = (\<lambda>a i p. in_cloud (api_update_lb_pool B a i p)),
       api_delete_lb_pool = (\<lambda>a i. in_cloud (api_delete_lb_pool B a i)),
       api_create_load_balancer = (\<lambda>z b. in_cloud (api_create_load_balancer B z b)),
       api_delete_load_balancer = (\<lambda>z i. in_cloud (api_delete_load_balancer B z i))\<rparr>),
     worker_api = (let W = worker_api A in \<lparr>
       api_create_assets_upload_session = (\<lambda>a s m. in_cloud (api_create_assets_upload_session W a s m)),
       api_upload_assets = (\<lambda>a j fs. in_cloud (api_upload_assets W a j fs)),
       api_put_worker_script = (\<lambda>a s m ms. in_cloud (api_put_worker_script W a s m ms)),
       api_upload_worker_version = (\<lambda>a s m ms. in_cloud (api_upload_worker_version W a s m ms)),
       api_deploy_worker_version = (\<lambda>a s v. in_cloud (api_deploy_worker_version W a s v)),
       api_worker_deployments = (\<lambda>a s. in_cloud (api_worker_deployments W a s)),
       api_set_worker_on_workers_dev = (\<lambda>a s b. in_cloud (api_set_worker_on_workers_dev W a s b)),
       api_delete_worker_script = (\<lambda>a s. in_cloud (api_delete_worker_script W a s)),
       api_attach_worker_domain = (\<lambda>a h z s. in_cloud (api_attach_worker_domain W a h z s)),
       api_detach_worker_domain = (\<lambda>a i. in_cloud (api_detach_worker_domain W a i)),
       api_create_worker_route = (\<lambda>z p s. in_cloud (api_create_worker_route W z p s)),
       api_delete_worker_route = (\<lambda>z i. in_cloud (api_delete_worker_route W z i)),
       api_create_d1_database = (\<lambda>a n. in_cloud (api_create_d1_database W a n)),
       api_delete_d1_database = (\<lambda>a i. in_cloud (api_delete_d1_database W a i)),
       api_d1_query = (\<lambda>a d q. in_cloud (api_d1_query W a d q))\<rparr>),
     edge_api = (let G = edge_api A in \<lparr>
       api_create_rule = (\<lambda>z p i r n. in_cloud (api_create_rule G z p i r n)),
       api_update_rule = (\<lambda>z i j r. in_cloud (api_update_rule G z i j r)),
       api_delete_rule = (\<lambda>z i j. in_cloud (api_delete_rule G z i j))\<rparr>)\<rparr>"

definition fake_conns :: "'d fake_world connectors" where
  "fake_conns = \<lparr>
     conn_state = (\<lambda>i w. fake_conn_state i (fwd_connectors w)),
     conn_start = (\<lambda>a i t. in_connectors (fake_conn_start a i t)),
     conn_stop = (\<lambda>i. in_connectors (fake_conn_stop i)),
     conn_deleted = (\<lambda>i w. w\<lparr>fwd_connectors := fake_conn_deleted i (fwd_connectors w)\<rparr>)\<rparr>"

text \<open>What a run is given besides the world: the files, the keychain and the libraries.\<close>

record host =
  ho_read :: "string \<Rightarrow> string \<Rightarrow> message + string"
  ho_secret :: "(string \<Rightarrow> inbox_verify \<Rightarrow> string option) option"
  ho_base64 :: "string \<Rightarrow> string"
  ho_bundled :: bundled
  ho_externals :: externals

definition fake_env :: "'d sqlite \<Rightarrow> host \<Rightarrow> string \<Rightarrow> snapshot \<Rightarrow> slot \<Rightarrow> 'd fake_world env" where
  "fake_env Q H account s sl = \<lparr>
     env_api = lift_api (fake_api Q),
     env_connectors = fake_conns,
     env_local = (\<lambda>op w. w\<lparr>fwd_local := local_apply op (fwd_local w)\<rparr>),
     env_site_versions = (\<lambda>i w. Some (map (vr_version \<circ> snd) (site_versions i (fwd_local w)))),
     env_secret = map_option (\<lambda>f h v _. f h v) (ho_secret H),
     env_read = (\<lambda>root path _. ho_read H root path),
     env_base64 = ho_base64 H,
     env_bundled = ho_bundled H,
     env_externals = ho_externals H,
     env_snapshot = s,
     env_account = account,
     env_slot = sl\<rparr>"

text \<open>The reads of a port of the world, for the automation.\<close>

named_theorems port_simps "the calls of the fake ports"

lemmas port_defs = fake_api_def lift_api_def fake_conns_def fake_env_def

lemma env_fields [port_simps, simp]:
  "env_local (fake_env Q H a s sl) op w = w\<lparr>fwd_local := local_apply op (fwd_local w)\<rparr>"
  "env_account (fake_env Q H a s sl) = a" "env_snapshot (fake_env Q H a s sl) = s"
  "env_slot (fake_env Q H a s sl) = sl" "env_bundled (fake_env Q H a s sl) = ho_bundled H"
  "env_externals (fake_env Q H a s sl) = ho_externals H"
  "env_connectors (fake_env Q H a s sl) = fake_conns" "env_api (fake_env Q H a s sl) = lift_api (fake_api Q)"
  by (simp_all add: fake_env_def)

lemma tunnel_calls [port_simps]:
  "api_create_tunnel (tunnel_api (lift_api (fake_api Q))) a n = in_cloud (fake_create_tunnel a n)"
  "api_delete_tunnel (tunnel_api (lift_api (fake_api Q))) a i = in_cloud (fake_delete_tunnel a i)"
  "api_tunnel_config (tunnel_api (lift_api (fake_api Q))) a i = in_cloud (fake_tunnel_config a i)"
  "api_put_tunnel_config (tunnel_api (lift_api (fake_api Q))) a i c = in_cloud (fake_put_tunnel_config a i c)"
  "api_tunnel_token (tunnel_api (lift_api (fake_api Q))) a i = in_cloud (fake_tunnel_token a i)"
  "api_create_network_route (tunnel_api (lift_api (fake_api Q))) a n t m v = in_cloud (fake_create_network_route a n t m v)"
  "api_delete_network_route (tunnel_api (lift_api (fake_api Q))) a i = in_cloud (fake_delete_network_route a i)"
  "api_create_hostname_route (tunnel_api (lift_api (fake_api Q))) a h t m = in_cloud (fake_create_hostname_route a h t m)"
  "api_delete_hostname_route (tunnel_api (lift_api (fake_api Q))) a i = in_cloud (fake_delete_hostname_route a i)"
  by (simp_all add: fake_api_def lift_api_def Let_def)

lemma dns_calls [port_simps]:
  "api_create_record (dns_api (lift_api (fake_api Q))) z r = in_cloud (fake_create_record z r)"
  "api_create_records (dns_api (lift_api (fake_api Q))) z rs = in_cloud (fake_create_records z rs)"
  "api_update_record (dns_api (lift_api (fake_api Q))) z i r = in_cloud (fake_update_record z i r)"
  "api_replace_record (dns_api (lift_api (fake_api Q))) z i r = in_cloud (fake_replace_record z i r)"
  "api_delete_record (dns_api (lift_api (fake_api Q))) z i = in_cloud (fake_delete_record z i)"
  by (simp_all add: fake_api_def lift_api_def Let_def)

lemma access_calls [port_simps]:
  "api_create_access_app (access_api (lift_api (fake_api Q))) a x = in_cloud (fake_create_access_app a x)"
  "api_update_access_app (access_api (lift_api (fake_api Q))) a i x = in_cloud (fake_update_access_app a i x)"
  "api_delete_access_app (access_api (lift_api (fake_api Q))) a i = in_cloud (fake_delete_access_app a i)"
  "api_create_one_time_pin (access_api (lift_api (fake_api Q))) a = in_cloud (fake_create_one_time_pin a)"
  "api_delete_login_method (access_api (lift_api (fake_api Q))) a i = in_cloud (fake_delete_login_method a i)"
  "api_create_service_token (access_api (lift_api (fake_api Q))) a n d = in_cloud (fake_create_service_token a n d)"
  "api_rotate_service_token (access_api (lift_api (fake_api Q))) a i = in_cloud (fake_rotate_service_token a i)"
  "api_delete_service_token (access_api (lift_api (fake_api Q))) a i = in_cloud (fake_delete_service_token a i)"
  by (simp_all add: fake_api_def lift_api_def Let_def)

lemma balance_calls [port_simps]:
  "api_create_lb_monitor (balance_api (lift_api (fake_api Q))) a m = in_cloud (fake_create_lb_monitor a m)"
  "api_delete_lb_monitor (balance_api (lift_api (fake_api Q))) a i = in_cloud (fake_delete_lb_monitor a i)"
  "api_create_lb_pool (balance_api (lift_api (fake_api Q))) a p = in_cloud (fake_create_lb_pool a p)"
  "api_update_lb_pool (balance_api (lift_api (fake_api Q))) a i p = in_cloud (fake_update_lb_pool a i p)"
  "api_delete_lb_pool (balance_api (lift_api (fake_api Q))) a i = in_cloud (fake_delete_lb_pool a i)"
  "api_create_load_balancer (balance_api (lift_api (fake_api Q))) z b = in_cloud (fake_create_load_balancer z b)"
  "api_delete_load_balancer (balance_api (lift_api (fake_api Q))) z i = in_cloud (fake_delete_load_balancer z i)"
  by (simp_all add: fake_api_def lift_api_def Let_def)

lemma worker_calls [port_simps]:
  "api_create_assets_upload_session (worker_api (lift_api (fake_api Q))) a s f = in_cloud (fake_create_assets_upload_session a s f)"
  "api_upload_assets (worker_api (lift_api (fake_api Q))) a j fs = in_cloud (fake_upload_assets a j fs)"
  "api_put_worker_script (worker_api (lift_api (fake_api Q))) a s m ms = in_cloud (fake_put_worker_script a s m ms)"
  "api_upload_worker_version (worker_api (lift_api (fake_api Q))) a s m ms = in_cloud (fake_upload_worker_version a s m ms)"
  "api_deploy_worker_version (worker_api (lift_api (fake_api Q))) a s v = in_cloud (fake_deploy_worker_version a s v)"
  "api_worker_deployments (worker_api (lift_api (fake_api Q))) a s = in_cloud (fake_worker_deployments a s)"
  "api_set_worker_on_workers_dev (worker_api (lift_api (fake_api Q))) a s on = in_cloud (fake_set_worker_on_workers_dev a s on)"
  "api_delete_worker_script (worker_api (lift_api (fake_api Q))) a s = in_cloud (fake_delete_worker_script a s)"
  "api_attach_worker_domain (worker_api (lift_api (fake_api Q))) a h z s = in_cloud (fake_attach_worker_domain a h z s)"
  "api_detach_worker_domain (worker_api (lift_api (fake_api Q))) a i = in_cloud (fake_detach_worker_domain a i)"
  "api_create_worker_route (worker_api (lift_api (fake_api Q))) z p s = in_cloud (fake_create_worker_route z p s)"
  "api_delete_worker_route (worker_api (lift_api (fake_api Q))) z i = in_cloud (fake_delete_worker_route z i)"
  "api_create_d1_database (worker_api (lift_api (fake_api Q))) a n = in_cloud (fake_create_d1_database Q a n)"
  "api_delete_d1_database (worker_api (lift_api (fake_api Q))) a i = in_cloud (fake_delete_d1_database a i)"
  "api_d1_query (worker_api (lift_api (fake_api Q))) a d q = in_cloud (fake_d1_query Q a d q)"
  by (simp_all add: fake_api_def lift_api_def Let_def)

lemma edge_calls [port_simps]:
  "api_create_rule (edge_api (lift_api (fake_api Q))) z p o' r n = in_cloud (fake_create_rule z p o' r n)"
  "api_update_rule (edge_api (lift_api (fake_api Q))) z i j r = in_cloud (fake_update_rule z i j r)"
  "api_delete_rule (edge_api (lift_api (fake_api Q))) z i j = in_cloud (fake_delete_rule z i j)"
  by (simp_all add: fake_api_def lift_api_def Let_def)

lemma connector_calls [port_simps]:
  "conn_state fake_conns i w = fake_conn_state i (fwd_connectors w)"
  "conn_start fake_conns a i t = in_connectors (fake_conn_start a i t)"
  "conn_stop fake_conns i = in_connectors (fake_conn_stop i)"
  "conn_deleted fake_conns i w = w\<lparr>fwd_connectors := fake_conn_deleted i (fwd_connectors w)\<rparr>"
  by (simp_all add: fake_conns_def)

subsection \<open>Batches\<close>

lemma length_new_records: "new_records rs nrs = Inr cs \<Longrightarrow> length cs = length nrs"
  by (induction rs nrs arbitrary: cs rule: new_records.induct) (auto simp: res_simps)

lemma fake_batch_length: "fake_create_records z nrs k = (Inr cs, k') \<Longrightarrow> length cs = length nrs"
  by (auto simp: fake_create_records_def mutating_def with_ids_def on_account_def with_zone_def
      split: prod.splits sum.splits if_splits dest!: length_new_records)

end
