(* ===== verification/Run_Laws.thy ===== *)
theory Run_Laws
  imports Run
begin

text \<open>
  What the user sees of a run: the progress of every step follows the protocol of its states, no
  step stays done after a roll back, and what could not be undone is what is reported as left over.
\<close>

subsection \<open>The protocol of a step's states\<close>

text \<open>A step is reported as running, then as done or failed; a check is skipped; a step refused
  before it runs fails at once. A done step may be undone, at once when the undo of another step
  covers it.\<close>

inductive moves :: "step_state option \<Rightarrow> step_state \<Rightarrow> bool" where
  "moves None Running"
| "moves None Skipped"
| "moves None (Failed m)"
| "moves (Some Running) (Transferring t)"
| "moves (Some (Transferring t)) (Transferring t')"
| "moves (Some Running) StepDone"
| "moves (Some (Transferring t)) StepDone"
| "moves (Some Running) (Failed m)"
| "moves (Some (Transferring t)) (Failed m)"
| "moves (Some StepDone) Undoing"
| "moves (Some StepDone) Undone"
| "moves (Some Undoing) Undone"
| "moves (Some Undoing) (UndoFailed m)"

code_pred moves .

inductive_simps moves_simps [simp]:
  "moves None s" "moves (Some Running) s" "moves (Some Skipped) s" "moves (Some (Failed m)) s"
  "moves (Some (Transferring t)) s" "moves (Some StepDone) s" "moves (Some Undoing) s"
  "moves (Some Undone) s" "moves (Some (UndoFailed m)) s"

fun legal :: "step_state option \<Rightarrow> step_state list \<Rightarrow> bool" where
  "legal s [] \<longleftrightarrow> True"
| "legal s (t # ts) \<longleftrightarrow> moves s t \<and> legal (Some t) ts"

definition last_state :: "step_state list \<Rightarrow> step_state option" where
  "last_state ts = (if ts = [] then None else Some (last ts))"

lemma last_state_simps [simp]:
  "last_state [] = None" "last_state [t] = Some t" "last_state (ts @ [t]) = Some t" "last_state ts = None \<longleftrightarrow> ts = []"
  by (simp_all add: last_state_def)

lemma legal_append: "legal s (ts @ us) \<longleftrightarrow> legal s ts \<and> legal (if ts = [] then s else last_state ts) us"
  by (induction s ts rule: legal.induct) (auto simp: last_state_def)

lemma legal_snoc: "legal None (ts @ [t]) \<longleftrightarrow> legal None ts \<and> moves (last_state ts) t"
  by (auto simp: legal_append)

text \<open>The states reported of one step.\<close>

definition states :: "nat \<Rightarrow> 'w exec \<Rightarrow> step_state list" where
  "states n e = map snd (filter (\<lambda>p. fst p = n) (ex_progress e))"

lemma states_report [simp]: "states n (report k s e) = (if n = k then states n e @ [s] else states n e)"
  by (simp add: states_def report_def)

lemma report_frame [simp]:
  "ex_done (report k s e) = ex_done e" "ex_covered (report k s e) = ex_covered e"
  "ex_world (report k s e) = ex_world e"
  by (simp_all add: report_def)

subsection \<open>What an action leaves alone\<close>

text \<open>The actions of a step add nothing to what is done or covered, and report only transfers, of
  their own step.\<close>

definition quiet :: "nat \<Rightarrow> ('w, 'a) act \<Rightarrow> bool" where
  "quiet n m \<longleftrightarrow> (\<forall>e. ex_done (snd (m e)) = ex_done e \<and> ex_covered (snd (m e)) = ex_covered e
     \<and> (\<exists>ts. ex_progress (snd (m e)) = ex_progress e @ map (Pair n \<circ> Transferring) ts))"

definition silent :: "('w, 'a) act \<Rightarrow> bool" where
  "silent m \<longleftrightarrow> (\<forall>e. ex_done (snd (m e)) = ex_done e \<and> ex_covered (snd (m e)) = ex_covered e
     \<and> ex_progress (snd (m e)) = ex_progress e)"

named_theorems quiet_intros "actions that are quiet or silent"

lemma silent_quiet: "silent m \<Longrightarrow> quiet n m"
  by (force simp: quiet_def silent_def)

lemma silentI: "(\<And>e. ex_done (snd (m e)) = ex_done e \<and> ex_covered (snd (m e)) = ex_covered e
    \<and> ex_progress (snd (m e)) = ex_progress e) \<Longrightarrow> silent m"
  by (simp add: silent_def)

lemma silent_basic [quiet_intros]:
  "silent (aret x)" "silent (aof r)" "silent (aget g)" "silent (call f)" "silent (note_local E op)"
  by (auto simp: silent_def act_simps call_def note_local_def split: prod.splits)

lemma silent_bind [quiet_intros]:
  assumes "silent m" and "\<And>x. silent (f x)"
  shows "silent (abind m f)"
proof (rule silentI)
  fix e
  show "ex_done (snd (abind m f e)) = ex_done e \<and> ex_covered (snd (abind m f e)) = ex_covered e
      \<and> ex_progress (snd (abind m f e)) = ex_progress e"
  proof (cases "m e")
    case (Pair r e')
    then have "ex_done e' = ex_done e \<and> ex_covered e' = ex_covered e \<and> ex_progress e' = ex_progress e"
      using assms(1) by (metis silent_def snd_conv)
    with Pair assms(2) show ?thesis by (cases r) (auto simp: abind_def silent_def)
  qed
qed

lemma quiet_bind:
  assumes "quiet n m" and "\<And>x. quiet n (f x)"
  shows "quiet n (abind m f)"
  unfolding quiet_def
proof
  fix e
  obtain r e' where m: "m e = (r, e')" by fastforce
  with assms(1) obtain ts where e': "ex_done e' = ex_done e" "ex_covered e' = ex_covered e"
    "ex_progress e' = ex_progress e @ map (Pair n \<circ> Transferring) ts" by (metis quiet_def snd_conv)
  show "ex_done (snd (abind m f e)) = ex_done e \<and> ex_covered (snd (abind m f e)) = ex_covered e
     \<and> (\<exists>ts. ex_progress (snd (abind m f e)) = ex_progress e @ map (Pair n \<circ> Transferring) ts)"
  proof (cases r)
    case (Inl msg)
    with m e' show ?thesis by (auto simp: abind_def)
  next
    case (Inr x)
    from assms(2) obtain us where "ex_done (snd (f x e')) = ex_done e'" "ex_covered (snd (f x e')) = ex_covered e'"
      "ex_progress (snd (f x e')) = ex_progress e' @ map (Pair n \<circ> Transferring) us" by (metis quiet_def)
    with m e' Inr show ?thesis by (auto simp: abind_def intro!: exI[of _ "ts @ us"])
  qed
qed

lemma quiet_report: "quiet n (aupdate (report n (Transferring t)))"
  by (auto simp: quiet_def act_simps report_def intro!: exI[of _ "[t]"])

lemma silent_case [quiet_intros]:
  "(v = None \<Longrightarrow> silent m) \<Longrightarrow> (\<And>x. silent (f x)) \<Longrightarrow> silent (case v of None \<Rightarrow> m | Some x \<Rightarrow> f x)"
  "(\<And>x y. silent (g x y)) \<Longrightarrow> silent (case p of (x, y) \<Rightarrow> g x y)"
  "silent m \<Longrightarrow> silent m' \<Longrightarrow> silent (if c then m else m')"
  by (auto split: option.split prod.split)

lemma silent_raw [quiet_intros]:
  "silent (\<lambda>e. (g e, e))"
  "silent (\<lambda>e. case h (ex_world e) of (r, w) \<Rightarrow> (k r, e\<lparr>ex_world := w\<rparr>))"
  by (auto simp: silent_def split: prod.split)

lemma silent_aupdate [quiet_intros]:
  "silent (aupdate (\<lambda>e. e\<lparr>ex_world := f1 e\<rparr>))" "silent (aupdate (\<lambda>e. e\<lparr>ex_created := f2 e\<rparr>))"
  "silent (aupdate (\<lambda>e. e\<lparr>ex_created_monitor := f3 e\<rparr>))" "silent (aupdate (\<lambda>e. e\<lparr>ex_created_pool := f4 e\<rparr>))"
  "silent (aupdate (\<lambda>e. e\<lparr>ex_renamed := f5 e\<rparr>))" "silent (aupdate (\<lambda>e. e\<lparr>ex_uploaded := f6 e\<rparr>))"
  "silent (aupdate (\<lambda>e. e\<lparr>ex_created_token := f7 e, ex_issued := f8 e\<rparr>))"
  "silent (aupdate (\<lambda>e. e\<lparr>ex_issued := f8 e\<rparr>))"
  "silent (aupdate (\<lambda>e. e\<lparr>ex_created_rulesets := f9 e\<rparr>))"
  by (simp_all add: silent_def act_simps)

lemma silent_resolve [quiet_intros]:
  "silent (resolve t)" "silent (resolve_token k)" "silent (resolve_database d)"
    apply (cases t; simp add: silent_def act_simps)
   apply (cases k; simp add: silent_def act_simps)
  apply (cases d; simp add: silent_def act_simps)
  done

lemma silent_opt_database [quiet_intros]: "silent (resolve_opt_database v)"
  by (cases v) (auto intro!: quiet_intros)

lemma silent_origins [quiet_intros]: "silent (pool_origins_for h eps)"
  by (induction h eps rule: pool_origins_for.induct) (auto intro!: quiet_intros)

lemma silent_parts [quiet_intros]:
  "silent (put_ingress E t ingress v)" "silent (put_front E h z script config database secret)"
  "silent (ensure_connector E i)" "silent (remove_tunnel E i)" "silent (pool_for h m eps)"
  "silent (site_database settings)" "silent (site_upload_metadata script settings)"
  unfolding put_ingress_def put_front_def ensure_connector_def remove_tunnel_def pool_for_def
    site_database_def site_upload_metadata_def Let_def
  by (intro quiet_intros)+

lemma silent_create_database [quiet_intros]: "silent (exec_create_database E name)"
  unfolding exec_create_database_def
  by (intro quiet_intros) (auto simp: silent_def split: prod.split sum.split)

lemma silent_create_worker [quiet_intros]: "silent (exec_create_snapshot_worker E snap script settings)"
  unfolding exec_create_snapshot_worker_def
  by (intro quiet_intros)

lemmas exec_defs =
  exec_create_tunnel_def exec_put_config_def exec_create_record_def exec_update_record_def exec_delete_record_def
  exec_create_reservation_def exec_set_lease_def exec_stop_connector_def exec_delete_tunnel_def
  exec_add_login_method_def exec_create_access_app_def exec_update_access_app_def exec_delete_access_app_def
  exec_create_service_token_def exec_allow_service_token_def exec_delete_service_token_def
  exec_rotate_service_token_def exec_create_network_route_def exec_delete_network_route_def
  exec_create_hostname_route_def exec_delete_hostname_route_def exec_create_lb_monitor_def
  exec_create_lb_pool_def exec_update_lb_pool_def exec_create_load_balancer_def exec_delete_load_balancer_def
  exec_delete_lb_pool_def exec_delete_lb_monitor_def exec_publish_snapshot_version_def
  exec_roll_back_snapshot_def exec_set_workers_dev_def exec_attach_snapshot_domain_def
  exec_detach_snapshot_domain_def exec_delete_snapshot_worker_def exec_create_edge_rule_def
  exec_update_edge_rule_def exec_delete_edge_rule_def exec_put_front_worker_def exec_create_worker_route_def
  exec_delete_worker_route_def exec_delete_front_worker_def

lemmas undo_defs =
  undo_restore_record_def undo_recreate_record_def undo_recreate_lb_monitor_def undo_recreate_lb_pool_def
  undo_recreate_load_balancer_def undo_redeploy_snapshot_def undo_recreate_edge_rule_def undo_restore_front_worker_def

lemma silent_read_chunk [quiet_intros]: "silent (read_chunk E content root hs)"
  by (induction E content root hs rule: read_chunk.induct) (auto intro!: quiet_intros)

lemma quiet_upload_chunks: "quiet n (upload_chunks E n content root jwt t completion cs)"
proof (induction E n content root jwt t completion cs rule: upload_chunks.induct)
  case (2 E n content root jwt t completion chunk rest)
  then show ?case
    by (auto simp: Let_def intro!: quiet_bind quiet_report silent_quiet[OF silent_read_chunk]
        silent_quiet[OF silent_basic(4)])
qed (auto intro!: silent_quiet quiet_intros)

lemma quiet_exec_upload: "quiet n (exec_upload E n script content)"
proof -
  have "quiet n (upload E n script content)"
    unfolding upload_def Let_def
    by (rule quiet_bind, rule silent_quiet, intro quiet_intros)
       (auto intro!: quiet_bind quiet_report quiet_upload_chunks intro: silent_quiet quiet_intros)
  then show ?thesis unfolding exec_upload_def
    by (rule quiet_bind) (rule silent_quiet, intro quiet_intros)
qed

lemma quiet_exec_step: "quiet n (exec_step E n st)"
proof (cases st)
  case (UploadSnapshotFiles script content a b)
  then show ?thesis by (simp add: quiet_exec_upload)
qed (simp_all only: exec_step.simps exec_defs Let_def,
     (intro silent_quiet quiet_intros)+)

lemma silent_exec_undo: "silent (exec_undo E u)"
proof (cases u)
  case (UndoDeleteSnapshotWorker snap script)
  then show ?thesis
    by (auto simp: undo_delete_snapshot_worker_def silent_def act_simps call_def abind_def
        split: prod.splits sum.splits option.splits)
qed (simp_all only: exec_undo.simps undo_defs Let_def, (intro quiet_intros)+)

end
