(* ===== verification/Run_Progress.thy ===== *)
theory Run_Progress
  imports Run_Laws
begin

text \<open>
  The progress of a run, step by step: the positions not reported yet, and those whose undo is
  kept, as an invariant of the loop; what going back adds to the states of each step.
\<close>

subsection \<open>The invariant\<close>

text \<open>Every step went through its states lawfully, those in \<open>U\<close> through none, and exactly one undo
  or cover is kept of a step that is done.\<close>

definition proto :: "nat set \<Rightarrow> 'w exec \<Rightarrow> bool" where
  "proto U e \<longleftrightarrow> (\<forall>k. legal None (states k e)) \<and> (\<forall>k \<in> U. states k e = [])
     \<and> distinct (map fst (ex_done e) @ ex_covered e)
     \<and> (\<forall>k \<in> fst ` set (ex_done e) \<union> set (ex_covered e). last_state (states k e) = Some StepDone)"

lemma proto_new: "proto UNIV (new_run w)"
  by (simp add: proto_def new_run_def states_def)

lemma proto_mono: "proto U e \<Longrightarrow> V \<subseteq> U \<Longrightarrow> proto V e"
  by (auto simp: proto_def)

lemma proto_fresh: "proto U e \<Longrightarrow> n \<in> U \<Longrightarrow> states n e = [] \<and> n \<notin> fst ` set (ex_done e) \<and> n \<notin> set (ex_covered e)"
  unfolding proto_def by (metis UnI1 UnI2 last_state_simps(1) option.distinct(1))

text \<open>A step that was reported lawfully and is not kept.\<close>

lemma proto_extend:
  assumes "proto U e" and "ex_done e' = ex_done e" and "ex_covered e' = ex_covered e"
    and "\<And>k. k \<notin> N \<Longrightarrow> states k e' = states k e" and "\<And>k. k \<in> N \<Longrightarrow> legal None (states k e')"
    and "N \<subseteq> U"
  shows "proto (U - N) e'"
proof -
  have "k \<notin> N" if "k \<in> fst ` set (ex_done e) \<union> set (ex_covered e)" for k
    using that proto_fresh[OF assms(1)] assms(6) by blast
  with assms show ?thesis unfolding proto_def by (metis DiffE)
qed

text \<open>A step that is done and whose undo or cover is kept.\<close>

lemma proto_keep:
  assumes "proto U e" and "states n e \<noteq> []" and "last_state (states n e) = Some StepDone"
    and "n \<notin> fst ` set (ex_done e)" and "n \<notin> set (ex_covered e)"
  shows "proto U (e\<lparr>ex_done := ex_done e @ [(n, u)]\<rparr>)" "proto U (e\<lparr>ex_covered := ex_covered e @ [n]\<rparr>)"
  using assms by (auto simp: proto_def states_def)

lemma states_ignore [simp]:
  "states k (e\<lparr>ex_done := d\<rparr>) = states k e" "states k (e\<lparr>ex_covered := c\<rparr>) = states k e"
  "states k (e\<lparr>ex_world := w\<rparr>) = states k e"
  by (simp_all add: states_def)

lemma report_done_commute:
  "report n s (e\<lparr>ex_done := d\<rparr>) = (report n s e)\<lparr>ex_done := d\<rparr>"
  "report n s (e\<lparr>ex_covered := c\<rparr>) = (report n s e)\<lparr>ex_covered := c\<rparr>"
  by (simp_all add: report_def)

text \<open>A step that is settled was not reached, or is done, skipped or failed; a finished one is done or
  needed no run.\<close>

definition settled :: "step_state option \<Rightarrow> bool" where
  "settled s \<longleftrightarrow> s = None \<or> s = Some StepDone \<or> s = Some Skipped \<or> (\<exists>m. s = Some (Failed m))"

definition finished :: "step_state option \<Rightarrow> bool" where
  "finished s \<longleftrightarrow> s = Some StepDone \<or> s = Some Skipped"

text \<open>The steps whose undo or cover is kept.\<close>

definition kept :: "'w exec \<Rightarrow> nat set" where
  "kept e = fst ` set (ex_done e) \<union> set (ex_covered e)"

text \<open>A part of the run handles the positions \<open>K\<close> out of those not reported yet: it settles them
  and no others, keeps the undo of those that are done, and finishes them all unless it fails at
  one of them.\<close>

definition handled :: "nat set \<Rightarrow> nat set \<Rightarrow> 'w exec \<Rightarrow> ((nat \<times> message) + unit) \<Rightarrow> 'w exec \<Rightarrow> bool" where
  "handled U K e r e' \<longleftrightarrow> proto (U - K) e' \<and> (\<forall>k. k \<notin> K \<longrightarrow> states k e' = states k e)
     \<and> (\<forall>k \<in> K. settled (last_state (states k e')))
     \<and> kept e \<subseteq> kept e' \<and> (\<forall>k \<in> K. last_state (states k e') = Some StepDone \<longrightarrow> k \<in> kept e')
     \<and> (case r of Inl (n, m) \<Rightarrow> n \<in> K \<and> last_state (states n e') = Some (Failed m)
        | Inr _ \<Rightarrow> \<forall>k \<in> K. finished (last_state (states k e')))"

lemma handled_proto: "handled U K e r e' \<Longrightarrow> proto (U - K) e'"
  by (simp add: handled_def)

lemma handled_then:
  assumes "handled U A e (Inr u) e1" and "handled (U - A) B e1 r e'" and "A \<inter> B = {}"
  shows "handled U (A \<union> B) e r e'"
proof -
  have same: "states k e' = states k e1" if "k \<in> A" for k
    using that assms(2,3) by (auto simp: handled_def)
  have "U - A - B = U - (A \<union> B)" by blast
  with same assms show ?thesis by (auto simp: handled_def split: sum.splits)
qed

lemma handled_stop:
  assumes "handled U A e (Inl x) e'" and "A \<inter> B = {}" and "B \<subseteq> U" and "proto U e"
  shows "handled U (A \<union> B) e (Inl x) e'"
proof -
  have "states k e' = []" if "k \<in> B" for k
  proof -
    from that assms(2) have "k \<notin> A" by blast
    then show ?thesis using that assms(1,3,4) by (auto simp: handled_def proto_def)
  qed
  moreover have "proto (U - (A \<union> B)) e'"
    by (rule proto_mono[of "U - A"]) (use assms(1) in \<open>auto simp: handled_def\<close>)
  ultimately show ?thesis using assms(1) by (auto simp: handled_def settled_def)
qed

subsection \<open>One step\<close>

lemma legal_transfers: "legal (Some Running) (map Transferring ts)" "legal (Some (Transferring t)) (map Transferring ts)"
  by (induction ts arbitrary: t) auto

lemma last_transfers: "moves (last_state (Running # map Transferring ts)) StepDone"
    "moves (last_state (Running # map Transferring ts)) (Failed m)"
  by (cases ts rule: rev_cases; simp add: last_state_def)+

lemma exec_step_states:
  assumes "exec_step E n st (report n Running e) = (r, e')"
  obtains ts where "ex_done e' = ex_done e" "ex_covered e' = ex_covered e"
    "states n e' = states n e @ Running # map Transferring ts" "\<And>k. k \<noteq> n \<Longrightarrow> states k e' = states k e"
proof -
  from quiet_exec_step[of n E st] obtain ts where
    t: "ex_done e' = ex_done (report n Running e)" "ex_covered e' = ex_covered (report n Running e)"
    "ex_progress e' = ex_progress (report n Running e) @ map (Pair n \<circ> Transferring) ts"
    using assms by (metis quiet_def snd_conv)
  have own: "map snd (filter (\<lambda>p. fst p = n) (map (Pair n \<circ> Transferring) ts)) = map Transferring ts"
    by (induction ts) auto
  have other: "filter (\<lambda>p. fst p = k) (map (Pair n \<circ> Transferring) ts) = []" if "k \<noteq> n" for k
    using that by (induction ts) auto
  from t own other show ?thesis
    by (intro that[of ts]) (simp_all add: states_def report_def)
qed

lemma run_step_handled:
  assumes "proto U e" and "n \<in> U" and "run_step E n st e = (r, e')"
  shows "handled U {n} e r e'"
proof -
  obtain r1 e1 where x: "exec_step E n st (report n Running e) = (r1, e1)" by fastforce
  from exec_step_states[OF x] obtain ts where
    s: "ex_done e1 = ex_done e" "ex_covered e1 = ex_covered e" "states n e1 = states n e @ Running # map Transferring ts"
    "\<And>k. k \<noteq> n \<Longrightarrow> states k e1 = states k e" by metis
  note f = proto_fresh[OF assms(1,2)]
  have l: "legal None (states n e1)" using s(3) f legal_transfers(1) by simp
  have last: "moves (last_state (states n e1)) StepDone" "moves (last_state (states n e1)) (Failed m)" for m
    using s(3) f last_transfers by simp_all
  define fin where "fin s = report n s e1" for s
  have fin: "states n (fin s') = states n e1 @ [s']" "\<And>k. k \<noteq> n \<Longrightarrow> states k (fin s') = states k e"
      "ex_done (fin s') = ex_done e" "ex_covered (fin s') = ex_covered e" for s'
    using s by (simp_all add: fin_def)
  have pr: "proto (U - {n}) (fin s')" if "moves (last_state (states n e1)) s'" for s'
    by (rule proto_extend[OF assms(1) fin(3,4)]) (use fin(1,2) l that legal_snoc assms(2) in \<open>auto simp: fin_def\<close>)
  show ?thesis
  proof (cases r1)
    case (Inl msg)
    with assms(3) x have "r = Inl (n, msg)" "e' = fin (Failed msg)" by (simp_all add: run_step_def fin_def)
    with pr[OF last(2)] fin show ?thesis by (simp add: handled_def settled_def kept_def)
  next
    case (Inr u)
    have "r = Inr ()" "e' = (case u of Some v \<Rightarrow> (fin StepDone)\<lparr>ex_done := ex_done (fin StepDone) @ [(n, v)]\<rparr>
        | None \<Rightarrow> (fin StepDone)\<lparr>ex_covered := ex_covered (fin StepDone) @ [n]\<rparr>)"
      using assms(3) x Inr by (auto simp: run_step_def fin_def report_done_commute split: option.splits)
    with proto_keep[OF pr[OF last(1)], of n] f fin show ?thesis
      by (auto simp: handled_def settled_def finished_def kept_def split: option.split)
  qed
qed

subsection \<open>Records in a row\<close>

lemma states_fold_report:
  "distinct (map fst ns) \<Longrightarrow> states k (fold (\<lambda>nr. report (fst nr) s) ns e)
     = states k e @ (if k \<in> fst ` set ns then [s] else [])"
  by (induction ns arbitrary: e) auto

lemma fold_report_frame [simp]:
  "ex_done (fold (\<lambda>nr. report (fst nr) s) ns e) = ex_done e"
  "ex_covered (fold (\<lambda>nr. report (fst nr) s) ns e) = ex_covered e"
  by (induction ns arbitrary: e) auto

lemma resolve_state: "resolve t e = (r, e') \<Longrightarrow> e' = e"
  by (cases t) (auto simp: act_simps)

lemma batch_records_states:
  "batch_records E ns e = (r, e') \<Longrightarrow> ex_done e' = ex_done e \<and> ex_covered e' = ex_covered e
     \<and> (case r of Inr cs \<Rightarrow> e' = e \<and> length cs = length ns
        | Inl (n, m) \<Rightarrow> n \<in> fst ` set ns \<and> e' = report n (Failed m) e)"
proof (induction E ns e arbitrary: r e' rule: batch_records.induct)
  case (2 E n x rs e)
  obtain t e1 where t: "resolve (nrs_tunnel x) e = (t, e1)" by fastforce
  then have e1: "e1 = e" by (rule resolve_state)
  show ?case
  proof (cases t)
    case (Inl msg)
    with 2(2) t e1 show ?thesis by auto
  next
    case (Inr target)
    obtain r2 e2 where b: "batch_records E rs e = (r2, e2)" by fastforce
    from 2(1)[OF t[symmetric] Inr] b e1 have ih: "ex_done e2 = ex_done e \<and> ex_covered e2 = ex_covered e
       \<and> (case r2 of Inr cs \<Rightarrow> e2 = e \<and> length cs = length rs
          | Inl (n, m) \<Rightarrow> n \<in> fst ` set rs \<and> e2 = report n (Failed m) e)"
      unfolding e1 by blast
    show ?thesis
    proof (cases r2)
      case (Inl y)
      then have "r = Inl y \<and> e' = e2" using 2(2) t e1 b Inr by simp
      with ih Inl show ?thesis by (cases y) auto
    next
      case (Inr cs)
      with 2(2) t e1 b \<open>t = Inr target\<close> ih show ?thesis by auto
    qed
  qed
qed auto

lemma note_created_frame:
  "ex_covered (note_created E z nr c e) = ex_covered e"
  "ex_done (note_created E z nr c e) = ex_done e @ [(fst nr, UndoDeleteRecord z (rec_id c) (nrs_hostname (snd nr)))]"
  "states k (note_created E z nr c e) = states k e @ (if k = fst nr then [StepDone] else [])"
  by (simp_all add: note_created_def)

lemma note_created_proto:
  assumes "proto U e" and "distinct (map fst (map fst ncs))"
    and "\<forall>n \<in> fst ` fst ` set ncs. n \<notin> U \<and> last_state (states n e) = Some Running"
  shows "proto U (fold (\<lambda>(nr, c). note_created E z nr c) ncs e)
    \<and> (\<forall>k. states k (fold (\<lambda>(nr, c). note_created E z nr c) ncs e)
          = states k e @ (if k \<in> fst ` fst ` set ncs then [StepDone] else []))
    \<and> kept (fold (\<lambda>(nr, c). note_created E z nr c) ncs e) = kept e \<union> fst ` fst ` set ncs"
  using assms
proof (induction ncs arbitrary: e)
  case Nil
  then show ?case by simp
next
  case (Cons nc ncs)
  obtain nr c where nc: "nc = (nr, c)" by fastforce
  let ?e = "note_created E z nr c e"
  have last: "last_state (states (fst nr) e) = Some Running" and nU: "fst nr \<notin> U"
    using Cons.prems(3) nc by auto
  then have kept: "fst nr \<notin> fst ` set (ex_done e)" "fst nr \<notin> set (ex_covered e)"
    using Cons.prems(1) unfolding proto_def by (metis UnI1 UnI2 option.inject step_state.distinct(1))+
  have "legal None (states (fst nr) e @ [StepDone])"
    using Cons.prems(1) last by (simp add: legal_snoc proto_def)
  then have "proto U ?e"
    using Cons.prems(1) nU kept by (auto simp: proto_def note_created_frame)
  moreover have "\<forall>n \<in> fst ` fst ` set ncs. n \<notin> U \<and> last_state (states n ?e) = Some Running"
    using Cons.prems(2,3) nc by (force simp: note_created_frame)
  ultimately show ?case
    using Cons.IH[of ?e] Cons.prems(2) nc by (force simp: note_created_frame kept_def)
qed

text \<open>A service that answers a batch with one record for each it was sent.\<close>

definition answers_batches :: "'w env \<Rightarrow> bool" where
  "answers_batches E \<longleftrightarrow> (\<forall>z rs w. case api_create_records (dns_api (env_api E)) z rs w of
      (Inr cs, _) \<Rightarrow> length cs = length rs | (Inl _, _) \<Rightarrow> True)"

lemma answers_batchesD:
  assumes "answers_batches E" and "api_create_records (dns_api (env_api E)) z rs w = (Inr cs, w')"
  shows "length cs = length rs"
proof -
  have "case api_create_records (dns_api (env_api E)) z rs w of
      (Inr cs, _) \<Rightarrow> length cs = length rs | (Inl _, _) \<Rightarrow> True"
    by (rule assms(1)[unfolded answers_batches_def, THEN spec, THEN spec, THEN spec])
  then show ?thesis by (simp add: assms(2))
qed

lemma call_frame:
  "call f e = (r, e') \<Longrightarrow> ex_done e' = ex_done e \<and> ex_covered e' = ex_covered e \<and> states k e' = states k e"
  by (auto simp: call_def split: prod.splits)

lemma create_batch_handled:
  assumes "proto U e" and "distinct (map fst ns)" and K: "fst ` set ns = K" and "K \<subseteq> U" and "ns \<noteq> []"
    and "create_batch E z ns e = (r, e')" and "answers_batches E"
  shows "handled U K e r e'"
proof -
  obtain br e1 where b: "batch_records E ns e = (br, e1)" by fastforce
  note bs = batch_records_states[OF b, unfolded K]
  have empty: "states k e = []" if "k \<in> K" for k
    using that assms(1,4) by (auto simp: proto_def)
  show ?thesis
  proof (cases br)
    case (Inl x)
    obtain n m where x: "x = (n, m)" by fastforce
    with bs Inl have n: "n \<in> K" "e1 = report n (Failed m) e" by auto
    have "proto (U - K) e1"
      by (rule proto_extend[OF assms(1)]) (use n empty assms(4) in auto)
    moreover have "r = Inl (n, m)" "e' = e1" using b Inl x assms(6) by (auto simp: create_batch_def)
    ultimately show ?thesis using n empty by (simp add: handled_def settled_def finished_def last_state_def kept_def)
  next
    case (Inr cs)
    with bs have e1: "e1 = e" "length cs = length ns" by auto
    let ?run = "fold (\<lambda>nr. report (fst nr) Running) ns e"
    have run: "states k ?run = states k e @ (if k \<in> K then [Running] else [])" for k
      by (simp add: states_fold_report[OF assms(2)] K)
    obtain cr e2 where c: "call (api_create_records (dns_api (env_api E)) z cs) ?run = (cr, e2)" by fastforce
    have c2: "ex_done e2 = ex_done e" "ex_covered e2 = ex_covered e"
        "states k e2 = states k e @ (if k \<in> K then [Running] else [])" for k
      using call_frame[OF c] run by simp_all
    have p2: "proto (U - K) e2"
      by (rule proto_extend[OF assms(1) c2(1,2)]) (use c2(3) empty assms(4) in auto)
    show ?thesis
    proof (cases cr)
      case (Inl msg)
      let ?e3 = "fold (\<lambda>nr. report (fst nr) (Failed msg)) ns e2"
      have r: "r = Inl (fst (hd ns), msg)" "e' = ?e3"
        using assms(6) b Inr e1 c Inl by (auto simp: create_batch_def Let_def)
      have s3: "states k ?e3 = states k e @ (if k \<in> K then [Running, Failed msg] else [])" for k
        by (simp add: states_fold_report[OF assms(2)] K c2(3))
      have "proto (U - K) ?e3"
        by (rule proto_extend[OF assms(1)]) (use s3 c2 empty assms(4) in auto)
      moreover have "fst (hd ns) \<in> K" using assms(5) K by auto
      ultimately show ?thesis using r s3 c2(1,2) by (simp add: handled_def settled_def finished_def last_state_def kept_def)
    next
      case (Inr created)
      let ?e3 = "fold (\<lambda>(nr, c). note_created E z nr c) (zip ns created) e2"
      have r: "r = Inr ()" "e' = ?e3"
        using assms(6) b \<open>br = Inr cs\<close> e1 c Inr by (auto simp: create_batch_def Let_def)
      have "length created = length ns"
      proof -
        obtain w where "api_create_records (dns_api (env_api E)) z cs (ex_world ?run) = (Inr created, w)"
          using c Inr by (auto simp: call_def split: prod.splits)
        then show ?thesis using answers_batchesD[OF assms(7)] e1(2) by simp
      qed
      then have zip: "map fst (zip ns created) = ns" by simp
      then have zip': "fst ` fst ` set (zip ns created) = K" using K by (metis set_map)
      have d: "distinct (map fst (map fst (zip ns created)))" unfolding zip by (fact assms(2))
      have pre: "\<forall>n \<in> fst ` fst ` set (zip ns created). n \<notin> U - K \<and> last_state (states n e2) = Some Running"
        unfolding zip' by (simp add: c2(3))
      note fin = note_created_proto[OF p2 d pre, of E z, unfolded zip']
      have "states k ?e3 = states k e @ (if k \<in> K then [Running, StepDone] else [])" for k
        using fin by (simp add: c2(3))
      moreover have "kept ?e3 = kept e \<union> K" using fin c2(1,2) by (simp add: kept_def)
      ultimately show ?thesis using r fin by (simp add: handled_def settled_def finished_def last_state_def)
    qed
  qed
qed

lemma create_batches_handled:
  assumes "answers_batches E" and "proto U e" and "distinct (map fst (concat (map snd bs)))"
    and "fst ` set (concat (map snd bs)) \<subseteq> U" and "[] \<notin> set (map snd bs)" and "create_batches E bs e = (r, e')"
  shows "handled U (fst ` set (concat (map snd bs))) e r e'"
  using assms(2-6)
proof (induction bs arbitrary: U e)
  case Nil
  then show ?case by (auto simp: handled_def)
next
  case (Cons b bs)
  obtain z ns where b: "b = (z, ns)" by fastforce
  define A B where AB: "A = fst ` set ns" "B = fst ` set (concat (map snd bs))"
  have all: "fst ` set (concat (map snd (b # bs))) = A \<union> B" by (simp add: AB b image_Un)
  have disj: "A \<inter> B = {}" using Cons.prems(2) b by (auto simp: AB)
  have sub: "A \<subseteq> U" "B \<subseteq> U - A" using Cons.prems(3) disj unfolding all by blast+
  obtain r1 e1 where c: "create_batch E z ns e = (r1, e1)" by fastforce
  have one: "handled U A e r1 e1"
    by (rule create_batch_handled[OF Cons.prems(1) _ AB(1)[symmetric] sub(1) _ c assms(1)])
       (use Cons.prems b in auto)
  show ?case
  proof (cases r1)
    case (Inl x)
    with Cons.prems(5) b c have "r = Inl x" "e' = e1" by auto
    with handled_stop[OF one[unfolded Inl] disj _ Cons.prems(1)] sub show ?thesis unfolding all by blast
  next
    case (Inr u)
    with Cons.prems(5) b c have r: "create_batches E bs e1 = (r, e')" by simp
    have "handled (U - A) B e1 r e'" unfolding AB(2)
    proof (rule Cons.IH[OF _ _ _ _ r])
      show "proto (U - A) e1" using one by (simp add: handled_def)
      show "distinct (map fst (concat (map snd bs)))" using Cons.prems(2) by simp
      show "fst ` set (concat (map snd bs)) \<subseteq> U - A" using sub AB by simp
      show "[] \<notin> set (map snd bs)" using Cons.prems(4) by simp
    qed
    from handled_then[OF one[unfolded Inr] this disj] show ?thesis unfolding all .
  qed
qed

lemma concat_chunks: "concat (chunks n xs) = xs" and chunks_nonempty: "[] \<notin> set (chunks n xs)"
  by (induction n xs rule: chunks.induct) (auto simp: take_Cons' split: if_splits)

lemma zones_of_fold:
  "set (fold (\<lambda>r zs. if nrs_zone r \<in> set zs then zs else zs @ [nrs_zone r]) rs zs) = set zs \<union> nrs_zone ` set rs"
  "distinct zs \<Longrightarrow> distinct (fold (\<lambda>r zs. if nrs_zone r \<in> set zs then zs else zs @ [nrs_zone r]) rs zs)"
  by (induction rs arbitrary: zs) auto

lemma zones_of: "set (zones_of rs) = nrs_zone ` set rs" "distinct (zones_of rs)"
  by (simp_all add: zones_of_def zones_of_fold)

lemma distinct_groups:
  "distinct xs \<Longrightarrow> distinct zs \<Longrightarrow> distinct (concat (map (\<lambda>z. filter (\<lambda>x. f x = z) xs) zs))"
  by (induction zs) auto

lemma batches_cover:
  "[] \<notin> set (map snd (batches n rs))"
  "distinct (map fst (concat (map snd (batches n rs))))"
  "fst ` set (concat (map snd (batches n rs))) = {n ..< n + length rs}"
proof -
  let ?g = "concat (map (\<lambda>z. filter (\<lambda>nr. nrs_zone (snd nr) = z) (enumerate n rs)) (zones_of rs))"
  have snds: "map snd (batches n rs) = concat (map (\<lambda>z. chunks MAX_DNS_BATCH
      (filter (\<lambda>nr. nrs_zone (snd nr) = z) (enumerate n rs))) (zones_of rs))"
    by (simp add: batches_def map_concat o_def)
  have "concat (concat (map (\<lambda>z. chunks m (f z)) zs)) = concat (map f zs)" for m and f :: "string \<Rightarrow> 'b list" and zs
    by (induction zs) (simp_all add: concat_chunks)
  then have flat: "concat (map snd (batches n rs)) = ?g" by (simp add: snds)
  show "[] \<notin> set (map snd (batches n rs))" by (auto simp: snds chunks_nonempty)
  have d: "distinct (map fst (enumerate n rs))" by (simp only: map_fst_enumerate distinct_upt)
  have sub: "set ?g = set (enumerate n rs)"
    by (auto simp: zones_of enumerate_eq_zip image_iff) (metis set_zip_rightD)
  have "distinct ?g" by (rule distinct_groups[OF distinct_enumerate zones_of(2)])
  moreover have "inj_on fst (set ?g)" unfolding sub using d by (simp only: distinct_map)
  ultimately show "distinct (map fst (concat (map snd (batches n rs))))"
    unfolding flat distinct_map by (rule conjI)
  show "fst ` set (concat (map snd (batches n rs))) = {n ..< n + length rs}"
    unfolding flat sub by (metis list.set_map map_fst_enumerate set_upt)
qed

lemma create_records_handled:
  assumes "answers_batches E" and "proto U e" and "{n ..< n + length rs} \<subseteq> U" and "create_records E n rs e = (r, e')"
  shows "handled U {n ..< n + length rs} e r e'"
  using create_batches_handled[OF assms(1,2) batches_cover(2) _ batches_cover(1)] assms(3,4)
  by (simp only: create_records_def batches_cover(3))

subsection \<open>The loop\<close>

lemma record_run_length: "length (record_run sts) \<le> length sts"
  by (induction sts rule: record_run.induct) auto

lemma run_steps_handled:
  assumes "answers_batches E" and "proto U e" and "{n ..< n + length sts} \<subseteq> U" and "run_steps E n sts e = (r, e')"
  shows "handled U {n ..< n + length sts} e r e'"
  using assms
proof (induction E n sts e arbitrary: U r e' rule: run_steps.induct)
  case (1 E n e)
  then show ?case by (auto simp: handled_def)
next
  case (2 E n st sts e)
  let ?rs = "record_run (st # sts)" and ?K = "{n ..< n + length (st # sts)}"
  show ?case
  proof (cases "length ?rs > 1")
    case True
    obtain r1 e1 where c: "create_records E n ?rs e = (r1, e1)" by fastforce
    have split: "?K = {n ..< n + length ?rs} \<union> {n + length ?rs ..< n + length (st # sts)}"
      using record_run_length[of "st # sts"] by auto
    have sub: "{n ..< n + length ?rs} \<subseteq> U" "{n + length ?rs ..< n + length (st # sts)} \<subseteq> U"
      using 2(6) split by blast+
    note one = create_records_handled[OF 2(4,5) sub(1) c]
    show ?thesis
    proof (cases r1)
      case (Inl x)
      then have r: "r = Inl x" "e' = e1" using 2(7) True c by simp_all
      show ?thesis unfolding split r
        by (rule handled_stop[OF one[unfolded Inl] _ sub(2) 2(5)]) auto
    next
      case (Inr u)
      then have r: "run_steps E (n + length ?rs) (drop (length ?rs) (st # sts)) e1 = (r, e')"
        using 2(7) True c by (simp add: Let_def)
      have len: "n + length ?rs + length (drop (length ?rs) (st # sts)) = n + length (st # sts)"
        using record_run_length[of "st # sts"] by simp
      have "handled (U - {n ..< n + length ?rs}) {n + length ?rs ..< n + length (st # sts)} e1 r e'"
        by (rule 2(1)[OF refl True c[symmetric] Inr 2(4) _ _ r, unfolded len])
           (use handled_proto[OF one] sub in auto)
      from handled_then[OF one[unfolded Inr] this] show ?thesis unfolding split by auto
    qed
  next
    case False
    have split: "?K = {n} \<union> {Suc n ..< Suc n + length sts}" by auto
    have sub: "{n} \<subseteq> U" "{Suc n ..< Suc n + length sts} \<subseteq> U" using 2(6) by auto
    have rest: "handled U ?K e r e'"
      if "handled U {n} e (Inr ()) e1" and "handled (U - {n}) {Suc n ..< Suc n + length sts} e1 r e'" for e1
      unfolding split by (rule handled_then[OF that]) simp
    show ?thesis
    proof (cases "verify_host st")
      case (Some h)
      have "handled U {n} e (Inr ()) (report n Skipped e)"
        using proto_extend[OF 2(5), of "report n Skipped e" "{n}"] proto_fresh[OF 2(5), of n] sub(1)
        by (auto simp: handled_def settled_def finished_def kept_def)
      moreover have "handled (U - {n}) {Suc n ..< Suc n + length sts} (report n Skipped e) r e'"
        by (rule 2(2)[OF refl False]) (use Some 2(4) 2(7) sub calculation False in \<open>auto simp: handled_def\<close>)
      ultimately show ?thesis by (rule rest)
    next
      case None
      obtain r1 e1 where c: "run_step E n st e = (r1, e1)" by fastforce
      note one = run_step_handled[OF 2(5) _ c]
      show ?thesis
      proof (cases r1)
        case (Inl x)
        then have r: "r = Inl x" "e' = e1" using 2(7) False None c by simp_all
        show ?thesis unfolding split r
          by (rule handled_stop[OF _ _ sub(2) 2(5)]) (use one Inl sub in auto)
      next
        case (Inr u)
        have "handled (U - {n}) {Suc n ..< Suc n + length sts} e1 r e'"
          by (rule 2(3)[OF refl False _ c[symmetric] Inr]) (use None 2(4) 2(7) sub one False Inr c in \<open>auto simp: handled_def\<close>)
        then show ?thesis using one sub Inr by (intro rest) auto
      qed
    qed
  qed
qed

subsection \<open>Going back\<close>

lemma silent_frame:
  assumes "silent m" and "m e = (r, e')"
  shows "ex_done e' = ex_done e" "ex_covered e' = ex_covered e" "states k e' = states k e"
  using assms by (auto simp: silent_def states_def dest!: spec[of _ e])

text \<open>Every undo ends undone or with the reason it failed; what failed is what is left over.\<close>

lemma undo_steps_states:
  assumes "distinct (map fst us)" and "undo_steps E us e = (left, e')"
  shows "\<exists>f. (\<forall>k. f k = Undone \<or> (\<exists>m. f k = UndoFailed m))
      \<and> (\<forall>k. states k e' = states k e @ (if k \<in> fst ` set us then [Undoing, f k] else []))
      \<and> left = map (leftover \<circ> snd) (filter (\<lambda>(k, u). f k \<noteq> Undone) us)
      \<and> ex_covered e' = ex_covered e \<and> ex_done e' = ex_done e"
  using assms
proof (induction E us e arbitrary: left e' rule: undo_steps.induct)
  case (1 E e)
  then show ?case by (intro exI[of _ "\<lambda>_. Undone"]) simp
next
  case (2 E n u us e)
  obtain r1 e1 where x: "exec_undo E u (report n Undoing e) = (r1, e1)" by fastforce
  note fr = silent_frame[OF silent_exec_undo x]
  define s where "s = (case r1 of Inr _ \<Rightarrow> Undone | Inl m \<Rightarrow> UndoFailed m)"
  obtain l2 where rec: "undo_steps E us (report n s e1) = (l2, e')"
      and l: "left = (if s = Undone then l2 else leftover u # l2)"
    using 2(4) x by (auto simp: s_def split: sum.splits prod.splits)
  have "\<exists>f. (\<forall>k. f k = Undone \<or> (\<exists>m. f k = UndoFailed m))
      \<and> (\<forall>k. states k e' = states k (report n s e1) @ (if k \<in> fst ` set us then [Undoing, f k] else []))
      \<and> l2 = map (leftover \<circ> snd) (filter (\<lambda>(k, u). f k \<noteq> Undone) us)
      \<and> ex_covered e' = ex_covered (report n s e1) \<and> ex_done e' = ex_done (report n s e1)"
  proof (cases r1)
    case (Inl m)
    then have s: "s = UndoFailed m" by (simp add: s_def)
    show ?thesis unfolding s by (rule 2(1)[OF x[symmetric] Inl]) (use 2(3) rec s in auto)
  next
    case (Inr v)
    then have s: "s = Undone" by (simp add: s_def)
    show ?thesis unfolding s by (rule 2(2)[OF x[symmetric] Inr]) (use 2(3) rec s in auto)
  qed
  then obtain f where f: "\<And>k. f k = Undone \<or> (\<exists>m. f k = UndoFailed m)"
      "\<And>k. states k e' = states k (report n s e1) @ (if k \<in> fst ` set us then [Undoing, f k] else [])"
      "l2 = map (leftover \<circ> snd) (filter (\<lambda>(k, u). f k \<noteq> Undone) us)"
      "ex_covered e' = ex_covered (report n s e1)" "ex_done e' = ex_done (report n s e1)" by blast
  have n: "n \<notin> fst ` set us" using 2(3) by auto
  let ?f = "f(n := s)"
  have "filter (\<lambda>(k, u). ?f k \<noteq> Undone) us = filter (\<lambda>(k, u). f k \<noteq> Undone) us"
    using n by (intro filter_cong) (auto simp: image_iff)
  moreover have "s = Undone \<or> (\<exists>m. s = UndoFailed m)" by (cases r1) (simp_all add: s_def)
  ultimately show ?case
    using f fr n l by (intro exI[of _ ?f]) (auto simp: fr)
qed

subsection \<open>How a run ends\<close>

lemma states_fold_undone:
  "distinct ks \<Longrightarrow> states k (fold (\<lambda>n. report n Undone) ks e) = states k e @ (if k \<in> set ks then [Undone] else [])"
  by (induction ks arbitrary: e) auto

text \<open>What going back adds to the states of the steps, for some outcome \<open>f\<close> of every undo.\<close>

lemma roll_back_states:
  assumes "proto U e" and "roll_back E failed m e = (out, e')"
  shows "\<exists>f. (\<forall>k. f k = Undone \<or> (\<exists>m. f k = UndoFailed m))
    \<and> (if \<forall>k \<in> fst ` set (ex_done e). f k = Undone
       then out = RolledBack failed m \<and> (\<forall>k. states k e' = states k e @
         (if k \<in> fst ` set (ex_done e) then [Undoing, Undone] else if k \<in> set (ex_covered e) then [Undone] else []))
       else out = PartiallyApplied failed m (map (leftover \<circ> snd) (filter (\<lambda>(k, u). f k \<noteq> Undone) (ex_done e)))
         \<and> (\<forall>k. states k e' = states k e @ (if k \<in> fst ` set (ex_done e) then [Undoing, f k] else [])))"
proof -
  let ?D = "fst ` set (ex_done e)"
  obtain left e1 where u: "undo_steps E (rev (ex_done e)) (e\<lparr>ex_done := []\<rparr>) = (left, e1)" by fastforce
  have d: "distinct (map fst (rev (ex_done e)))" "distinct (ex_covered e)" "?D \<inter> set (ex_covered e) = {}"
    using assms(1) by (auto simp: proto_def rev_map[symmetric])
  from undo_steps_states[OF d(1) u] obtain f where
    f: "\<And>k. f k = Undone \<or> (\<exists>m. f k = UndoFailed m)"
      "\<And>k. states k e1 = states k e @ (if k \<in> ?D then [Undoing, f k] else [])"
      "left = map (leftover \<circ> snd) (filter (\<lambda>(k, u). f k \<noteq> Undone) (rev (ex_done e)))"
      "ex_covered e1 = ex_covered e" by auto
  have left: "left = [] \<longleftrightarrow> (\<forall>k \<in> ?D. f k = Undone)" "rev left = map (leftover \<circ> snd) (filter (\<lambda>(k, u). f k \<noteq> Undone) (ex_done e))"
    unfolding f(3) by (auto simp: filter_empty_conv rev_map rev_filter)
  show ?thesis
  proof (cases "left = []")
    case True
    then have out: "out = RolledBack failed m" "e' = fold (\<lambda>n. report n Undone) (ex_covered e) (e1\<lparr>ex_covered := []\<rparr>)"
      using assms(2) u f(4) by (simp_all add: roll_back_def)
    have "states k e' = states k e @ (if k \<in> ?D then [Undoing, Undone] else if k \<in> set (ex_covered e) then [Undone] else [])" for k
      using True d(3) left(1) unfolding out by (auto simp: states_fold_undone[OF d(2)] f(2))
    with out True left(1) f(1) show ?thesis by (intro exI[of _ f]) simp
  next
    case False
    then have "out = PartiallyApplied failed m (rev left)" "e' = e1"
      using assms(2) u by (simp_all add: roll_back_def)
    with False left f show ?thesis by (intro exI[of _ f]) auto
  qed
qed

lemma ensure_connector_states:
  "ensure_connector E i e = (r, e') \<Longrightarrow> states k e' = states k e"
  using silent_frame(3) silent_parts(3) by blast

text \<open>The two ways a run ends: with all its steps finished, or by going back from a failed one.\<close>

lemma execute_cases:
  assumes "answers_batches E" and "execute E p serving (new_run w) = (out, e')"
  obtains (completes) tid why e1 where "run_steps E 0 (pl_steps p) (new_run w) = (Inr (), e1)"
      "handled UNIV {0 ..< length (pl_steps p)} (new_run w) (Inr ()) e1"
      "out = Applied tid (List.map_filter verify_host (pl_steps p)) why" "\<And>k. states k e' = states k e1"
    | (fails) n m e1 where "run_steps E 0 (pl_steps p) (new_run w) = (Inl (n, m), e1)"
      "handled UNIV {0 ..< length (pl_steps p)} (new_run w) (Inl (n, m)) e1"
      "roll_back E n m e1 = (out, e')"
proof -
  obtain r e1 where run: "run_steps E 0 (pl_steps p) (new_run w) = (r, e1)" by fastforce
  have h: "handled UNIV {0 ..< length (pl_steps p)} (new_run w) r e1"
    using run_steps_handled[OF assms(1) proto_new _ run] by simp
  show ?thesis
  proof (cases r)
    case (Inl x)
    obtain n m where "x = (n, m)" by fastforce
    with Inl run h assms(2) show ?thesis by (intro fails[of n m e1]) (simp_all add: execute_def)
  next
    case (Inr u)
    obtain tid why where "out = Applied tid (List.map_filter verify_host (pl_steps p)) why
        \<and> (e' = e1 \<or> (\<exists>i r2. ensure_connector E i e1 = (r2, e')))"
      using assms(2) run Inr
      by (auto simp: execute_def Let_def split: option.splits sum.splits prod.splits bool.splits if_splits)
    then show ?thesis
      using run h Inr ensure_connector_states by (intro completes[of e1 tid why]) auto
  qed
qed

end
