(* ===== verification/Run_Properties.thy ===== *)
theory Run_Properties
  imports Fake_World Run_Progress Samples
begin

text \<open>
  What a run guarantees over any Cloudflare, and its instance on the account in memory: the
  protocol of the progress it reports, what its outcome says of every step, and that a
  configuration changed elsewhere is never overwritten.
\<close>

subsection \<open>The contract of the port\<close>

text \<open>The last state of a step of which nothing is in place.\<close>

definition reverted :: "step_state option \<Rightarrow> bool" where
  "reverted s \<longleftrightarrow> s = None \<or> s = Some Skipped \<or> s = Some Undone \<or> (\<exists>m. s = Some (Failed m))"

definition undo_failed :: "step_state option \<Rightarrow> bool" where
  "undo_failed s \<longleftrightarrow> (\<exists>m. s = Some (UndoFailed m))"

text \<open>What a run relies on of Cloudflare: a batch of records is answered record for record.\<close>

locale batching =
  fixes E :: "'w env"
  assumes answers: "answers_batches E"
begin

lemma going_back:
  assumes "handled UNIV {0 ..< N} (new_run w) (Inl (n, m)) e1" and "roll_back E n m e1 = (out, e)"
  obtains f where "\<And>k. f k = Undone \<or> (\<exists>m. f k = UndoFailed m)"
    "\<And>k. states k e = states k e1 @ (if k \<in> fst ` set (ex_done e1) then [Undoing, f k]
           else if (\<forall>k \<in> fst ` set (ex_done e1). f k = Undone) \<and> k \<in> set (ex_covered e1) then [Undone] else [])"
    "out = (if \<forall>k \<in> fst ` set (ex_done e1). f k = Undone then RolledBack n m
       else PartiallyApplied n m (map (leftover \<circ> snd) (filter (\<lambda>(k, u). f k \<noteq> Undone) (ex_done e1))))"
    "\<And>k. legal None (states k e1)" "distinct (map fst (ex_done e1) @ ex_covered e1)"
    "\<And>k. k \<in> kept e1 \<Longrightarrow> last_state (states k e1) = Some StepDone"
    "\<And>k. settled (last_state (states k e1))" "\<And>k. last_state (states k e1) = Some StepDone \<Longrightarrow> k \<in> kept e1"
    "n < N" "last_state (states n e1) = Some (Failed m)" "n \<notin> kept e1"
proof -
  have p: "proto (UNIV - {0..<N}) e1" by (rule handled_proto[OF assms(1)])
  from roll_back_states[OF p assms(2)] obtain f where
    f: "\<And>k. f k = Undone \<or> (\<exists>m. f k = UndoFailed m)"
      "if \<forall>k \<in> fst ` set (ex_done e1). f k = Undone
       then out = RolledBack n m \<and> (\<forall>k. states k e = states k e1 @
         (if k \<in> fst ` set (ex_done e1) then [Undoing, Undone] else if k \<in> set (ex_covered e1) then [Undone] else []))
       else out = PartiallyApplied n m (map (leftover \<circ> snd) (filter (\<lambda>(k, u). f k \<noteq> Undone) (ex_done e1)))
         \<and> (\<forall>k. states k e = states k e1 @ (if k \<in> fst ` set (ex_done e1) then [Undoing, f k] else []))"
    by blast
  have outside: "states k e1 = []" if "k \<notin> {0..<N}" for k
    using assms(1) that by (simp add: handled_def new_run_def states_def)
  have k: "k \<in> kept e1 \<Longrightarrow> last_state (states k e1) = Some StepDone" for k
    using p by (auto simp: proto_def kept_def)
  have n: "n < N" "last_state (states n e1) = Some (Failed m)" using assms(1) by (simp_all add: handled_def)
  show ?thesis
  proof (rule that[of f])
    show "settled (last_state (states k e1))" for k
      using assms(1) outside[of k] by (cases "k \<in> {0..<N}") (auto simp: handled_def settled_def)
    show "k \<in> kept e1" if "last_state (states k e1) = Some StepDone" for k
      using assms(1) outside[of k] that by (cases "k \<in> {0..<N}") (auto simp: handled_def)
    show "n \<notin> kept e1" using k[of n] n(2) by auto
  qed (use f p k n in \<open>auto simp: proto_def split: if_splits\<close>)
qed

lemma run_protocol: "legal None (states k (snd (execute E p serving (new_run w))))"
proof -
  obtain out e where x: "execute E p serving (new_run w) = (out, e)" by fastforce
  show ?thesis
  proof (cases rule: execute_cases[OF answers x])
    case (1 tid why e1)
    then show ?thesis by (simp add: x handled_def proto_def)
  next
    case (2 n m e1)
    show ?thesis
    proof (rule going_back[OF 2(2,3)], goal_cases)
      case (1 f)
      show ?case
      proof (cases "k \<in> kept e1")
        case True
        with 1(6)[of k] have "last_state (states k e1) = Some StepDone" "states k e1 \<noteq> []" by auto
        with 1(1)[of k] 1(4)[of k] show ?thesis unfolding x snd_conv 1(2)[of k] by (auto simp: legal_append)
      next
        case False
        with 1(2)[of k] 1(4)[of k] show ?thesis by (simp add: x kept_def)
      qed
    qed
  qed
qed

lemma run_within:
  assumes "length (pl_steps p) \<le> k"
  shows "states k (snd (execute E p serving (new_run w))) = []"
proof -
  obtain out e where x: "execute E p serving (new_run w) = (out, e)" by fastforce
  have new: "states k (new_run w) = []" by (simp add: new_run_def states_def)
  show ?thesis
  proof (cases rule: execute_cases[OF answers x])
    case (1 tid why e1)
    then show ?thesis using assms new by (simp add: x handled_def)
  next
    case (2 n m e1)
    have e1: "states k e1 = []" using 2(2) assms new by (simp add: handled_def)
    show ?thesis
    proof (rule going_back[OF 2(2,3)], goal_cases)
      case (1 f)
      from 1(6)[of k] e1 have "k \<notin> kept e1" by auto
      with 1(2)[of k] e1 show ?case by (simp add: x kept_def)
    qed
  qed
qed

lemma run_outcome:
  assumes x: "execute E p serving (new_run w) = (out, e)"
  shows "case out of
      Applied _ hosts _ \<Rightarrow> hosts = List.map_filter verify_host (pl_steps p)
        \<and> (\<forall>k < length (pl_steps p). finished (last_state (states k e)))
    | RolledBack n m \<Rightarrow> n < length (pl_steps p) \<and> last_state (states n e) = Some (Failed m)
        \<and> (\<forall>k. reverted (last_state (states k e)))
    | PartiallyApplied n m left \<Rightarrow> n < length (pl_steps p) \<and> last_state (states n e) = Some (Failed m)
        \<and> left \<noteq> [] \<and> length left = card {k. undo_failed (last_state (states k e))}"
proof (cases rule: execute_cases[OF answers x])
  case (1 tid why e1)
  then show ?thesis by (simp add: handled_def)
next
  case (2 n m e1)
  let ?D = "fst ` set (ex_done e1)"
  show ?thesis
  proof (rule going_back[OF 2(2,3)], goal_cases)
  case (1 f)
  note f = 1(1,2) and out = 1(3) and d = 1(5) and s = 1(7,8) and n = 1(9-11)
  have nf: "last_state (states n e) = Some (Failed m)"
    using n(2,3) by (simp add: f(2) kept_def)
  show ?case
  proof (cases "\<forall>k \<in> ?D. f k = Undone")
    case True
    have "reverted (last_state (states k e))" for k
      using s[of k] True by (auto simp: f(2) reverted_def settled_def kept_def last_state_def split: if_splits)
    with True out n nf show ?thesis by simp
  next
    case False
    let ?F = "filter (\<lambda>(k, u). f k \<noteq> Undone) (ex_done e1)"
    have "undo_failed (last_state (states k e)) \<longleftrightarrow> k \<in> fst ` set ?F" for k
      using f(1)[of k] s(1)[of k] False
      by (force simp: f(2) undo_failed_def settled_def last_state_def split: if_splits)
    then have "{k. undo_failed (last_state (states k e))} = set (map fst ?F)" by auto
    moreover have "distinct (map fst ?F)" using d by (simp add: distinct_map_filter)
    ultimately have "card {k. undo_failed (last_state (states k e))} = length ?F"
      by (metis distinct_card length_map)
    with False out n nf show ?thesis by (auto simp: filter_empty_conv)
  qed
  qed
qed

end

lemma fake_answers: "answers_batches (fake_env Q H a s sl)"
  by (auto simp: answers_batches_def port_simps in_cloud_def split: prod.splits sum.splits dest: fake_batch_length)

interpretation fake: batching "fake_env Q H a s sl" for Q H a s sl
  by unfold_locales (rule fake_answers)

subsection \<open>A world to run in\<close>

definition sample_sql :: "unit sqlite" where
  "sample_sql = \<lparr>sql_new = (), sql_run = (\<lambda>_ d. Inr d)\<rparr>"

definition sample_host :: host where
  "sample_host = \<lparr>ho_read = (\<lambda>_ path. Inl (Msg ''snapshot.error.read'' [path])), ho_secret = None, ho_base64 = id,
     ho_bundled = \<lparr>json_text = (\<lambda>_. []), offline_js = [], inbox_js = [], site_js = [], overlay_js = []\<rparr>,
     ho_externals = sample_X\<rparr>"

definition empty_account :: "unit cloud_state" where
  "empty_account = \<lparr>cl_zones = [\<lparr>zone_id = ''z1'', zone_name = ''x.io''\<rparr>], cl_tunnels = [], cl_records = [],
     cl_access_org = True, cl_login_methods = [], cl_access_apps = [], cl_access_forbidden = False,
     cl_network_routes = [], cl_default_vnet = None, cl_networks_forbidden = False, cl_hostname_routes = [],
     cl_load_balancing = True, cl_lb_monitors = [], cl_lb_pools = [], cl_load_balancers = [], cl_workers = [],
     cl_worker_domains = [], cl_workers_subdomain = None, cl_assets = [], cl_asset_tokens = [], cl_zone_plans = [],
     cl_rulesets = [], cl_rulesets_forbidden = False, cl_cache_rules_forbidden = False, cl_service_tokens = [],
     cl_service_tokens_forbidden = False, cl_d1 = [], cl_d1_forbidden = False, cl_worker_routes = []\<rparr>"

definition sample_world :: "unit cloud_state \<Rightarrow> nat option \<Rightarrow> unit fake_world" where
  "sample_world s fail = \<lparr>fwd_cloud = (new_fake s)\<lparr>fk_fail_once := fail\<rparr>,
     fwd_connectors = \<lparr>fc_calls = [], fc_running = [], fc_fail_stop = False\<rparr>, fwd_local = empty_index\<rparr>"

definition sample_env :: "unit fake_world env" where
  "sample_env = fake_env sample_sql sample_host ''a'' sample SlotDefault"

definition new_route :: plan where
  "new_route = \<lparr>pl_steps = [step.CreateTunnel ''Mac'', PutConfig Created [sample_rule app_host] None [],
       CreateRecord ''z1'' app_host Created ''r1'', Verify app_host],
     pl_warnings = [], pl_requires_confirmation = False, pl_fingerprint = [], pl_tunnel_name = ''Mac''\<rparr>"

definition sample_run :: "nat option \<Rightarrow> outcome \<times> unit fake_world exec" where
  "sample_run fail = execute sample_env new_route True (new_run (sample_world empty_account fail))"

subsection \<open>The properties\<close>

lemmas run_eval = aret_def aof_def abind_def aupdate_def aget_def call_def note_local_def report_def Let_def fail_if_def
  execute_def run_step_def roll_back_def exec_create_tunnel_def exec_put_config_def put_ingress_def
  exec_create_record_def remove_tunnel_def ensure_connector_def conn_is_running_def new_run_def List.map_filter_simps

lemmas fake_eval = mutating_def mutate_def on_account_def with_id_def with_ids_def with_zone_def found_def in_cloud_def
  in_connectors_def fake_create_tunnel_def fake_delete_tunnel_def fake_tunnel_config_def fake_put_tunnel_config_def
  fake_tunnel_token_def fake_create_record_def new_record_def zone_records_def has_zone_def record_of_new_def
  tunnel_cname_def fake_conn_start_def fake_conn_state_def new_fake_def port_simps

lemmas sample_eval = sample_run_def sample_env_def sample_world_def new_route_def empty_account_def

lemma sample_ids: "numbered ''tunnel'' 0 = ''tunnel-0''" "numbered ''rec'' (Suc 0) = ''rec-1''"
  by code_simp+

lemma sample_applied: "fst (sample_run None) = Applied (Some ''tunnel-0'') [app_host] None"
  by (simp add: run_eval fake_eval sample_eval sample_ids)

lemma sample_rolled_back: "fst (sample_run (Some 2)) = RolledBack 2 (cf_text injected)"
  by (simp add: run_eval fake_eval sample_eval sample_ids)

text \<open>C18: The progress of a run follows a protocol: of each step of the plan it reports that it runs
  and then that it is done or failed, or that it was skipped, with transfers only while it runs; a
  step that is done may be undone, at most once; nothing is reported of a step beyond the plan.\<close>

theorem progress_protocol:
  assumes "answers_batches E"
  shows "legal None (states k (snd (execute E p serving (new_run w))))
    \<and> (length (pl_steps p) \<le> k \<longrightarrow> states k (snd (execute E p serving (new_run w))) = [])"
  using assms by (simp add: batching.run_protocol[OF batching.intro] batching.run_within[OF batching.intro])

lemma progress_protocol_witness:
  "legal None (states 1 (snd (sample_run (Some 2)))) \<and> states 4 (snd (sample_run None)) = []"
  using progress_protocol[OF fake_answers, of 1 sample_sql sample_host "''a''" sample SlotDefault new_route True
      "sample_world empty_account (Some 2)"]
    progress_protocol[OF fake_answers, of 4 sample_sql sample_host "''a''" sample SlotDefault new_route True
      "sample_world empty_account None"]
  by (simp add: sample_run_def sample_env_def) (simp add: new_route_def)



text \<open>C20: A configuration that changed since it was reviewed is not overwritten: when the tunnel's
  version is not the one the plan expects, the step fails with that message, and all it did was read
  the configuration.\<close>

theorem stale_config_refused:
  assumes "api_tunnel_config (tunnel_api (env_api E)) (env_account E) tunnel (ex_world e) = (Inr current, w)"
    and "vc_version current \<noteq> v"
  shows "exec_step E n (PutConfig (Existing tunnel) ingress (Some v) previous) e
    = (Inl (Msg ''apply.config_changed'' []), e\<lparr>ex_world := w\<rparr>)"
  using assms by (simp add: exec_put_config_def put_ingress_def abind_def aret_def aof_def call_def fail_if_def)

definition configured_account :: "unit cloud_state" where
  "configured_account = empty_account\<lparr>cl_tunnels := [(''t1'', \<lparr>ft_name = ''Mac'', ft_version = 4, ft_config = None\<rparr>)]\<rparr>"

lemma stale_config_refused_witness:
  "fst (exec_step sample_env 0 (PutConfig (Existing ''t1'') [sample_rule app_host] (Some 3) [])
     (new_run (sample_world configured_account None))) = Inl (Msg ''apply.config_changed'' [])"
proof -
  let ?w = "sample_world configured_account None"
  have "api_tunnel_config (tunnel_api (env_api sample_env)) (env_account sample_env) ''t1'' (ex_world (new_run ?w))
      = (Inr \<lparr>vc_version = 4, vc_config = None\<rparr>, ?w)"
    by (simp add: run_eval fake_eval sample_eval configured_account_def)
  from stale_config_refused[OF this, of 3 0 "[sample_rule app_host]" "[]"] show ?thesis by simp
qed



end
