(* ===== verification/Local_Laws.thy ===== *)
theory Local_Laws
  imports Local_Index
begin

text \<open>
  What the local index keeps: its keys, one default tunnel for each account, the last versions of
  each Snapshot. Every write of a run keeps it, and a row that was added and taken away again
  leaves no trace.
\<close>

subsection \<open>Maps\<close>

lemma set_bm_at: "set (bm_at k f m) = (\<lambda>(a, v). (a, if a = k then f v else v)) ` set m"
  by (simp add: bm_at_def bm_map_def)

lemma map_of_bm_at [simp]: "map_of (bm_at k f m) a = (if a = k then map_option f (map_of m a) else map_of m a)"
  by (cases "map_of m a") (auto simp: bm_at_def)

lemma sorted_bm_at [simp]: "sorted_map m \<Longrightarrow> sorted_map (bm_at k f m)"
  by (simp add: bm_at_def)

lemma keys_bm_at [simp]: "fst ` set (bm_at k f m) = fst ` set m"
  by (force simp: set_bm_at image_iff)

subsection \<open>One default tunnel\<close>

lemma defaults_ok_mono: "defaults_ok m \<Longrightarrow> set n \<subseteq> set m \<Longrightarrow> defaults_ok n"
  unfolding defaults_ok_def by blast

lemma defaults_okD: "defaults_ok m \<Longrightarrow> (k, r) \<in> set m \<Longrightarrow> (l, s) \<in> set m \<Longrightarrow> lt_account r = lt_account s
    \<Longrightarrow> lt_default r \<Longrightarrow> lt_default s \<Longrightarrow> k = l"
  unfolding defaults_ok_def by blast

lemma defaults_okI: "(\<And>k r l s. (k, r) \<in> set m \<Longrightarrow> (l, s) \<in> set m \<Longrightarrow> lt_account r = lt_account s
    \<Longrightarrow> lt_default r \<Longrightarrow> lt_default s \<Longrightarrow> k = l) \<Longrightarrow> defaults_ok m"
  unfolding defaults_ok_def by blast

lemma defaults_ok_at:
  assumes "defaults_ok m" and "\<And>r. lt_account (f r) = lt_account r" and "\<And>r. lt_default (f r) = lt_default r"
  shows "defaults_ok (bm_at k f m)"
proof (rule defaults_okI)
  fix a r b s
  assume h: "(a, r) \<in> set (bm_at k f m)" "(b, s) \<in> set (bm_at k f m)" "lt_account r = lt_account s"
    "lt_default r" "lt_default s"
  then obtain r' s' where "(a, r') \<in> set m" "(b, s') \<in> set m" "r = (if a = k then f r' else r')"
    "s = (if b = k then f s' else s')" by (auto simp: set_bm_at)
  with h assms show "a = b" by (intro defaults_okD[of m a r' b s']) (auto split: if_splits)
qed

lemma defaults_ok_insert:
  assumes "defaults_ok m" and "\<And>l s. (l, s) \<in> set m \<Longrightarrow> lt_account s = lt_account r \<Longrightarrow> lt_default r \<Longrightarrow> \<not> lt_default s"
  shows "defaults_ok (bm_insert k r m)"
proof -
  have "defaults_ok ((k, r) # m)"
    by (rule defaults_okI) (use assms(2) defaults_okD[OF assms(1)] in \<open>auto dest: sym\<close>)
  then show ?thesis by (rule defaults_ok_mono) (use set_bm_insert[of k r m] in simp)
qed

subsection \<open>Versions\<close>

lemma versions_ok_mono: "versions_ok sites vs \<Longrightarrow> set vs' \<subseteq> set vs \<Longrightarrow> fst ` set sites \<subseteq> fst ` set sites' \<Longrightarrow> versions_ok sites' vs'"
  unfolding versions_ok_def by blast

lemma versions_ok_at [simp]: "versions_ok (bm_at i f sites) vs \<longleftrightarrow> versions_ok sites vs"
  by (simp add: versions_ok_def)

lemma versions_ok_filter: "versions_ok sites vs \<Longrightarrow> versions_ok sites (bm_filter P vs)"
  by (rule versions_ok_mono) (auto simp: set_bm_filter)

lemma in_versions_of: "(n, v) \<in> set (versions_of i ix) \<longleftrightarrow> ((i, n), v) \<in> set (ix_versions ix)"
  by (force simp: versions_of_def)

lemma fold_max: "a \<le> fold max xs (a::nat) \<and> (\<forall>x \<in> set xs. x \<le> fold max xs a)"
proof (induction xs arbitrary: a)
  case (Cons x xs)
  from Cons[of "max x a"] show ?case by (simp add: max.bounded_iff)
qed simp

lemma next_number_new: "((i, n), v) \<in> set (ix_versions ix) \<Longrightarrow> n < next_number i ix"
proof -
  assume "((i, n), v) \<in> set (ix_versions ix)"
  then have "n \<in> set (map fst (versions_of i ix))" using in_versions_of by force
  then show ?thesis using fold_max[of 0 "map fst (versions_of i ix)"] by (auto simp: next_number_def less_Suc_eq_le)
qed

lemma versions_okI:
  assumes "\<And>i n v. ((i, n), v) \<in> set vs \<Longrightarrow> i \<in> fst ` set sites"
    and "\<And>i n v m w. ((i, n), v) \<in> set vs \<Longrightarrow> ((i, m), w) \<in> set vs \<Longrightarrow> n < m + KEPT_VERSIONS"
  shows "versions_ok sites vs"
  unfolding versions_ok_def by (auto intro: assms(2)) (use assms(1) in force)

lemma versions_okD:
  assumes "versions_ok sites vs" and "((i, n), v) \<in> set vs"
  shows "i \<in> fst ` set sites" and "((i, m), w) \<in> set vs \<Longrightarrow> n < m + KEPT_VERSIONS"
  using assms unfolding versions_ok_def by blast+

lemma versions_ok_record:
  assumes ok: "versions_ok sites vs" and site: "i \<in> fst ` set sites" and new: "\<And>m v. ((i, m), v) \<in> set vs \<Longrightarrow> m < n"
  shows "versions_ok sites (bm_filter (\<lambda>(k, m) _. \<not> (k = i \<and> m + KEPT_VERSIONS \<le> n)) (bm_insert (i, n) row vs))"
proof (rule versions_okI)
  let ?vs = "bm_filter (\<lambda>(k, m) _. \<not> (k = i \<and> m + KEPT_VERSIONS \<le> n)) (bm_insert (i, n) row vs)"
  have old: "((k, m), v) \<in> set vs \<or> k = i \<and> m = n" if "((k, m), v) \<in> set ?vs" for k m v
    using that set_bm_insert[of "(i, n)" row vs] by (auto simp: set_bm_filter)
  have late: "n < m + KEPT_VERSIONS" if "((i, m), v) \<in> set ?vs" for m v
    using that by (auto simp: set_bm_filter)
  have early: "m \<le> n" if "((i, m), v) \<in> set ?vs" for m v
    using old[OF that] new by (auto intro: less_imp_le)
  show "k \<in> fst ` set sites" if "((k, m), v) \<in> set ?vs" for k m v
    using old[OF that] site versions_okD(1)[OF ok] by blast
  show "m < l + KEPT_VERSIONS" if "((k, m), v) \<in> set ?vs" "((k, l), w) \<in> set ?vs" for k m v l w
  proof (cases "k = i")
    case True
    with that early[of m v] late[of l w] show ?thesis by simp
  next
    case False
    with old[OF that(1)] old[OF that(2)] show ?thesis using versions_okD(2)[OF ok] by blast
  qed
qed

subsection \<open>Every write keeps the invariant\<close>

lemmas index_defs = set_machine_tunnel_def add_tunnel_def replace_tunnel_def forget_tunnel_def set_applied_def
  own_record_def disown_record_def own_access_app_def disown_access_app_def set_balanced_def
  record_site_version_def set_site_live_def drop_site_version_def own_edge_rule_def disown_edge_rule_def
  own_service_token_def disown_service_token_def set_cloud_database_def save_front_def set_front_route_def
  forget_front_def set_live_def

lemma index_ok_machine: "index_ok ix \<Longrightarrow> set_machine_tunnel account i name ix = Some ix' \<Longrightarrow> index_ok ix'"
  by (auto simp: index_ok_def set_machine_tunnel_def Let_def tunnel_new_def split: if_splits
      intro!: defaults_ok_insert dest: defaults_ok_mono)
    (auto intro: defaults_ok_mono simp: set_bm_filter is_default_of_def)

lemma index_ok_add: "index_ok ix \<Longrightarrow> add_tunnel account i name ix = Some ix' \<Longrightarrow> index_ok ix'"
  by (auto simp: index_ok_def add_tunnel_def tunnel_new_def split: if_splits intro!: defaults_ok_insert)

lemma index_ok_replace:
  assumes "index_ok ix" and "replace_tunnel old new ix = Some ix'"
  shows "index_ok ix'"
proof (cases "map_of (ix_tunnels ix) old")
  case (Some r)
  let ?rest = "bm_remove old (ix_tunnels ix)"
  let ?r = "r\<lparr>lt_applied_version := None, lt_applied_ingress := None\<rparr>"
  have ok: "defaults_ok (ix_tunnels ix)" using assms(1) by (simp add: index_ok_def)
  have r: "(old, r) \<in> set (ix_tunnels ix)" using Some by (rule map_of_SomeD)
  have "defaults_ok (bm_insert new ?r ?rest)"
  proof (rule defaults_ok_insert)
    show "defaults_ok ?rest" using ok set_bm_remove by (rule defaults_ok_mono)
    show "\<not> lt_default s" if "(l, s) \<in> set ?rest" "lt_account s = lt_account ?r" "lt_default ?r" for l s
      using that defaults_okD[OF ok r, of l s] by (auto simp: bm_remove_def)
  qed
  with assms Some show ?thesis by (auto simp: index_ok_def replace_tunnel_def Let_def split: if_splits)
qed (use assms in \<open>simp add: replace_tunnel_def\<close>)

lemma index_ok_applied: "index_ok ix \<Longrightarrow> index_ok (set_applied i version rules ix)"
  by (auto simp: index_ok_def set_applied_def intro: defaults_ok_at)

lemma index_ok_forget: "index_ok ix \<Longrightarrow> index_ok (forget_tunnel i ix)"
  by (auto simp: index_ok_def forget_tunnel_def intro: defaults_ok_mono[OF _ set_bm_remove])

lemma index_ok_record:
  assumes "index_ok ix" and "record_site_version i version content spa password ix = Some (n, ix')"
  shows "index_ok ix'"
proof -
  from assms(2) have site: "i \<in> fst ` set (ix_sites ix)"
    by (auto simp: record_site_version_def map_of_eq_None_iff split: if_splits)
  obtain row where ix': "ix_versions ix' = bm_filter (\<lambda>(k, m) _. \<not> (k = i \<and> m + KEPT_VERSIONS \<le> next_number i ix))
        (bm_insert (i, next_number i ix) row (ix_versions ix))"
    "ix_sites ix' = bm_at i (\<lambda>r. r\<lparr>sw_live := Some version, sw_spa := spa, sw_password := password\<rparr>) (ix_sites ix)"
    "ix_tunnels ix' = ix_tunnels ix" "ix_records ix' = ix_records ix" "ix_apps ix' = ix_apps ix"
    "ix_balanced ix' = ix_balanced ix" "ix_edge_rules ix' = ix_edge_rules ix" "ix_tokens ix' = ix_tokens ix"
    "ix_databases ix' = ix_databases ix" "ix_fronts ix' = ix_fronts ix"
    using assms(2) by (auto simp: record_site_version_def set_live_def Let_def split: if_splits)
  have "versions_ok (ix_sites ix') (ix_versions ix')"
    unfolding ix' versions_ok_at
    by (rule versions_ok_record[OF _ site]) (use assms(1) next_number_new in \<open>auto simp: index_ok_def\<close>)
  with assms(1) show ?thesis by (simp add: index_ok_def ix'(1-10))
qed

lemma index_ok_live: "index_ok ix \<Longrightarrow> index_ok (set_site_live i version ix)"
  by (simp add: index_ok_def set_site_live_def Let_def)

lemma index_ok_drop: "index_ok ix \<Longrightarrow> index_ok (drop_site_version i version ix)"
  by (simp add: index_ok_def drop_site_version_def versions_ok_filter)

lemma index_ok_write: "index_ok ix \<Longrightarrow> local_write op ix = Some ix' \<Longrightarrow> index_ok ix'"
proof (induction op ix rule: local_write.induct)
  case (1 account i name ix) then show ?case by (simp add: index_ok_machine)
next
  case (2 account i name ix) then show ?case by (simp add: index_ok_add)
next
  case (3 old new ix) then show ?case by (simp add: index_ok_replace)
next
  case (4 i ix) then show ?case by (auto simp: index_ok_forget)
next
  case (5 i version rules ix) then show ?case by (auto simp: index_ok_applied)
next
  case (11 i version content spa password ix) then show ?case by (auto simp: index_ok_record)
next
  case (12 i version ix) then show ?case by (auto simp: index_ok_live)
next
  case (13 i version ix) then show ?case by (auto simp: index_ok_drop)
qed (auto simp: index_ok_def index_defs Let_def split: option.splits)

lemma index_ok_apply: "index_ok ix \<Longrightarrow> index_ok (local_apply op ix)"
  by (auto simp: local_apply_def index_ok_write split: option.split)

subsection \<open>What the writes are for\<close>

text \<open>C22: Whatever a run writes to the local index, in any order, the index keeps its keys in order, at
  most one default tunnel for each account, versions only of Snapshots it remembers, and numbers
  that lie within the last ten of each Snapshot; a write the schema refuses changes nothing.\<close>

theorem local_index_kept: "index_ok ix \<Longrightarrow> index_ok (fold local_apply ops ix)"
  by (induction ops arbitrary: ix) (simp_all add: index_ok_apply)

lemma local_index_kept_witness: "index_ok (fold local_apply
    [SetMachineTunnel ''a'' ''t1'' ''Mac'', AddTunnelRow ''a'' ''t2'' ''staging'', SetMachineTunnel ''a'' ''t2'' ''clash'']
    empty_index)"
  by (rule local_index_kept[OF index_ok_empty])

lemma find_default:
  assumes "defaults_ok m" and "(k, r) \<in> set m" and "is_default_of account r"
  shows "find (\<lambda>(k, r). is_default_of account r) m = Some (k, r) \<or> (\<exists>r'. r' \<noteq> r \<and> (k, r') \<in> set m)"
proof -
  obtain l s where f: "find (\<lambda>(k, r). is_default_of account r) m = Some (l, s)"
    using assms(2,3) by (cases "find (\<lambda>(k, r). is_default_of account r) m") (auto simp: find_None_iff')
  then have s: "(l, s) \<in> set m" "is_default_of account s" using find_SomeD by fastforce+
  with assms have "l = k" using defaults_okD by (metis is_default_of_def)
  with f s(1) show ?thesis by (cases "s = r") auto
qed

lemma machine_tunnel_iff:
  assumes "index_ok ix"
  shows "machine_tunnel ix account = Some (k, r) \<longleftrightarrow> map_of (ix_tunnels ix) k = Some r \<and> is_default_of account r"
proof
  assume "machine_tunnel ix account = Some (k, r)"
  then have "(k, r) \<in> set (ix_tunnels ix) \<and> is_default_of account r"
    unfolding machine_tunnel_def local_tunnel_def using find_SomeD by fastforce
  with assms show "map_of (ix_tunnels ix) k = Some r \<and> is_default_of account r"
    by (simp add: index_ok_def bm_map_of_iff)
next
  assume r: "map_of (ix_tunnels ix) k = Some r \<and> is_default_of account r"
  have s: "sorted_map (ix_tunnels ix)" "defaults_ok (ix_tunnels ix)" using assms by (simp_all add: index_ok_def)
  from r have "(k, r) \<in> set (ix_tunnels ix)" by (simp add: bm_map_of_iff[OF s(1)])
  from find_default[OF s(2) this] r s(1) show "machine_tunnel ix account = Some (k, r)"
    by (auto simp: machine_tunnel_def local_tunnel_def bm_map_of_iff)
qed

text \<open>Recording a new machine tunnel replaces the account's default: afterwards it is the machine
  tunnel, with no configuration written yet, the former default is forgotten, and every other
  tunnel, of this account or another, is as it was.\<close>

theorem machine_tunnel_replaced:
  assumes "index_ok ix" and "set_machine_tunnel account i name ix = Some ix'"
  shows "machine_tunnel ix' account = Some (i, tunnel_new account name True)
    \<and> (\<forall>other. other \<noteq> account \<longrightarrow> machine_tunnel ix' other = machine_tunnel ix other)
    \<and> (\<forall>k. k \<noteq> i \<longrightarrow> map_of (ix_tunnels ix') k = (case map_of (ix_tunnels ix) k of
         None \<Rightarrow> None | Some r \<Rightarrow> if is_default_of account r then None else Some r))"
proof -
  have s: "sorted_map (ix_tunnels ix)" using assms(1) by (simp add: index_ok_def)
  have ok: "index_ok ix'" using assms by (rule index_ok_machine)
  from assms(2) have free: "map_of (bm_filter (\<lambda>_ r. \<not> is_default_of account r) (ix_tunnels ix)) i = None"
    and rows: "map_of (ix_tunnels ix') k = (if k = i then Some (tunnel_new account name True)
      else case map_of (ix_tunnels ix) k of None \<Rightarrow> None | Some r \<Rightarrow> if is_default_of account r then None else Some r)" for k
    by (auto simp: set_machine_tunnel_def Let_def map_of_bm_filter[OF s] split: if_splits option.splits)
  from free have kept: "map_of (ix_tunnels ix) i = Some r \<Longrightarrow> is_default_of account r" for r
    by (simp add: map_of_bm_filter[OF s] split: if_splits)
  have new: "is_default_of other (tunnel_new account name True) \<longleftrightarrow> other = account" for other
    by (auto simp: is_default_of_def tunnel_new_def)
  have "machine_tunnel ix' other = machine_tunnel ix other" if "other \<noteq> account" for other
  proof -
    have "machine_tunnel ix' other = Some (k, r) \<longleftrightarrow> machine_tunnel ix other = Some (k, r)" for k r
      unfolding machine_tunnel_iff[OF ok] machine_tunnel_iff[OF assms(1)] rows
      using that new[of other] kept by (auto simp: is_default_of_def split: option.splits if_splits)
    then show ?thesis by (metis option.exhaust surj_pair)
  qed
  with ok rows new show ?thesis by (auto simp: machine_tunnel_iff)
qed

lemma machine_tunnel_replaced_witness:
  "machine_tunnel (empty_index\<lparr>ix_tunnels := [(''t1'', tunnel_new ''a'' ''Mac'' True)]\<rparr>) ''a'' =
     Some (''t1'', tunnel_new ''a'' ''Mac'' True)"
  using machine_tunnel_replaced[OF index_ok_empty, of "''a''" "''t1''" "''Mac''"
      "empty_index\<lparr>ix_tunnels := [(''t1'', tunnel_new ''a'' ''Mac'' True)]\<rparr>"]
  by (simp add: set_machine_tunnel_def empty_index_def bm_filter_def)

lemma numbers_ascend:
  assumes "sorted_map m"
  shows "sorted_wrt (<) (map fst (map (\<lambda>((_, n), v). (n :: nat, v)) (filter (\<lambda>(k, _). fst k = i) m)))"
  using assms
proof (induction m)
  case (Cons p m)
  obtain a n v where p: "p = ((a, n), v)" by (metis surj_pair)
  have "n < l" if "((a, l), w) \<in> set m" for l w
    using Cons.prems p that by force
  with Cons p show ?case by force
qed simp

lemma versions_ascend: "index_ok ix \<Longrightarrow> sorted_wrt (<) (map fst (versions_of i ix))"
  unfolding versions_of_def by (rule numbers_ascend) (simp add: index_ok_def)

lemma last_number:
  assumes "sorted_wrt (<) (map fst xs)" and "(n, x) \<in> set xs" and "\<And>m y. (m, y) \<in> set xs \<Longrightarrow> m \<le> n"
  shows "last xs = (n :: nat, x)"
proof -
  from assms(2) have "xs \<noteq> []" by auto
  then obtain ys l y where xs: "xs = ys @ [(l, y)]" by (metis append_butlast_last_id surj_pair)
  with assms(3) have "l \<le> n" by auto
  moreover have "(n, x) \<in> set ys \<Longrightarrow> n < l" using assms(1) xs by (auto simp: sorted_wrt_append)
  ultimately show ?thesis using assms(2) xs by auto
qed

lemma filter_bm_insert: "\<not> P k \<Longrightarrow> filter (\<lambda>p. P (fst p)) (bm_insert k v m) = filter (\<lambda>p. P (fst p)) m"
  by (induction k v m rule: bm_insert.induct) auto

lemma versions_of_other:
  assumes "j \<noteq> i" and "ix_versions ix' = bm_filter P (bm_insert (i, n) row (ix_versions ix))"
    and "\<And>m v. P (j, m) v"
  shows "versions_of j ix' = versions_of j ix"
proof -
  have "filter (\<lambda>p. fst (fst p) = j) (bm_filter P l) = filter (\<lambda>p. fst (fst p) = j) l" for l
    unfolding bm_filter_def filter_filter by (rule filter_cong) (use assms(3) in auto)
  with assms(1,2) filter_bm_insert[of "\<lambda>k. fst k = j" "(i, n)" row "ix_versions ix"]
  show ?thesis by (simp add: versions_of_def case_prod_unfold)
qed

text \<open>C23: Recording a version that went live numbers it after every version remembered, makes it the
  live version with its settings, lists it first, and keeps at most the last ten; the versions of
  other Snapshots are untouched.\<close>

theorem version_recorded:
  assumes "index_ok ix" and "record_site_version i version content spa password ix = Some (n, ix')"
  shows "(\<exists>row. hd (site_versions i ix') = (next_number i ix, row) \<and> vr_version row = version
        \<and> vr_manifest row = sc_files content \<and> vr_spa row = spa \<and> vr_password row = password)
    \<and> length (site_versions i ix') \<le> 10
    \<and> (\<exists>r. map_of (ix_sites ix') i = Some r \<and> sw_live r = Some version \<and> sw_spa r = spa \<and> sw_password r = password)
    \<and> (\<forall>j. j \<noteq> i \<longrightarrow> site_versions j ix' = site_versions j ix)"
proof -
  let ?N = "next_number i ix"
  let ?row = "\<lparr>vr_version = version, vr_files = stored (length (sc_files content)),
      vr_bytes = stored (content_bytes content), vr_manifest = sc_files content, vr_headers = sc_headers content,
      vr_redirects = sc_redirects content, vr_spa = spa, vr_password = password\<rparr>"
  obtain row r where row: "vr_version row = version" "vr_manifest row = sc_files content" "vr_spa row = spa"
      "vr_password row = password" "row = ?row"
    and vs: "ix_versions ix' = bm_filter (\<lambda>(k, m) _. \<not> (k = i \<and> m + KEPT_VERSIONS \<le> ?N)) (bm_insert (i, ?N) row (ix_versions ix))"
    and r: "map_of (ix_sites ix') i = Some r" "sw_live r = Some version" "sw_spa r = spa" "sw_password r = password"
  proof (rule that[of ?row])
    show "map_of (ix_sites ix') i = Some ((the (map_of (ix_sites ix) i))\<lparr>sw_live := Some version, sw_spa := spa, sw_password := password\<rparr>)"
      using assms(2) by (auto simp: record_site_version_def set_live_def Let_def split: if_splits)
  qed (use assms(2) in \<open>auto simp: record_site_version_def set_live_def Let_def split: if_splits\<close>)
  have ok: "index_ok ix'" using assms by (rule index_ok_record)
  have s: "sorted_map (ix_versions ix)" "sorted_map (ix_versions ix')" using assms(1) ok by (simp_all add: index_ok_def)
  let ?vs = "versions_of i ix'"
  have mem: "(m, v) \<in> set ?vs \<longleftrightarrow> (m, v) = (?N, row) \<or> ((i, m), v) \<in> set (ix_versions ix) \<and> ?N < m + 10" for m v
    unfolding in_versions_of vs set_bm_filter using next_number_new[of i m v ix] s
    by (auto simp: bm_map_of_iff KEPT_VERSIONS_def split: if_splits)
  have top: "(m, v) \<in> set ?vs \<Longrightarrow> m \<le> ?N" for m v
    using next_number_new[of i m v ix] by (auto simp: mem)
  have "(?N, row) \<in> set ?vs" by (simp add: mem)
  then have last: "last ?vs = (?N, row)" "?vs \<noteq> []"
    by (rule last_number[OF versions_ascend[OF ok]]) (use top \<open>(?N, row) \<in> set ?vs\<close> in auto)
  have "set (map fst ?vs) \<subseteq> {Suc ?N - 10 .. ?N}" 
  proof
    fix m assume "m \<in> set (map fst ?vs)"
    then obtain v where "(m, v) \<in> set ?vs" by auto
    with top mem[of m v] show "m \<in> {Suc ?N - 10 .. ?N}" by auto
  qed
  from card_mono[OF _ this] have "card (set (map fst ?vs)) \<le> 10" by simp
  then have "length ?vs \<le> 10"
    using distinct_card[of "map fst ?vs"] versions_ascend[OF ok, of i] strict_sorted_iff by fastforce
  moreover have "versions_of j ix' = versions_of j ix" if "j \<noteq> i" for j
    by (rule versions_of_other[OF that vs]) (use that in simp)
  ultimately show ?thesis using last row r by (auto simp: site_versions_def hd_rev)
qed

text \<open>An index with one Snapshot, and its eleventh version.\<close>

definition sample_site :: site_row where
  "sample_site = \<lparr>sw_account = ''a'', sw_name = ''docs'', sw_script = ''teitunnel-docs'', sw_hostname = None, sw_source = ''/docs'',
     sw_spa = False, sw_password = False, sw_access = None, sw_expires_at = None, sw_owner = ''Mac'', sw_live = None\<rparr>"

definition sample_version :: "nat \<Rightarrow> version_row" where
  "sample_version n = \<lparr>vr_version = replicate n CHR ''v'', vr_files = 0, vr_bytes = 0, vr_manifest = [], vr_headers = None,
     vr_redirects = None, vr_spa = False, vr_password = False\<rparr>"

definition sample_index :: local_index where
  "sample_index = empty_index\<lparr>ix_sites := [(''s'', sample_site)],
     ix_versions := map (\<lambda>n. ((''s'', n), sample_version n)) [1, 2, 3, 4, 5, 6, 7, 8, 9, 10]\<rparr>"

definition no_content :: site_content where
  "no_content = \<lparr>sc_root = None, sc_files = [], sc_headers = None, sc_redirects = None\<rparr>"

lemma sample_index_ok: "index_ok sample_index"
  by (simp add: index_ok_def sample_index_def empty_index_def defaults_ok_def versions_ok_def KEPT_VERSIONS_def
      sorted_map_def)

definition sample_recorded :: "(nat \<times> local_index) option" where
  "sample_recorded = record_site_version ''s'' ''new'' no_content True False sample_index"

lemmas sample_recorded_eval = sample_recorded_def record_site_version_def sample_index_def empty_index_def next_number_def
  versions_of_def set_live_def bm_filter_def bm_at_def bm_map_def KEPT_VERSIONS_def no_content_def content_bytes_def

lemma sample_numbered: "sample_recorded = Some (11, snd (the sample_recorded))"
  by (simp add: sample_recorded_eval Let_def)

lemma sample_listed: "map fst (site_versions ''s'' (snd (the sample_recorded))) = [11, 10, 9, 8, 7, 6, 5, 4, 3, 2]"
  by (simp add: sample_recorded_eval site_versions_def Let_def)

lemma version_recorded_witness:
  "length (site_versions ''s'' (snd (the sample_recorded))) \<le> 10
   \<and> map fst (site_versions ''s'' (snd (the sample_recorded))) = [11, 10, 9, 8, 7, 6, 5, 4, 3, 2]"
  using version_recorded[OF sample_index_ok sample_numbered[unfolded sample_recorded_def]] sample_listed
  by (simp add: sample_recorded_def)

end
