(* ===== verification/Drift.thy ===== *)
theory Drift
  imports Ingress
begin

text \<open>
  Drift (\<open>engine/drift.rs\<close>): the routes that differ between the configuration Teitunnel last
  wrote and the one there now.
\<close>

subsection \<open>The code\<close>

record rule_change =
  chg_hostname :: string
  chg_path :: "string option"
  chg_before :: "string option"
  chg_after :: "string option"

type_synonym rule_key = "string \<times> string option"

definition rule_key :: "ingress_rule \<Rightarrow> rule_key option" where
  "rule_key r = map_option (\<lambda>h. (h, rule_path r)) (rule_hostname r)"

definition find_rule :: "ingress_rule list \<Rightarrow> rule_key \<Rightarrow> ingress_rule option" where
  "find_rule rules k = find (\<lambda>r. rule_key r = Some k) rules"

definition drift_keys :: "ingress_rule list \<Rightarrow> ingress_rule list \<Rightarrow> rule_key list" where
  "drift_keys ours theirs = dedup (sort (List.map_filter rule_key (ours @ theirs)))"

definition diff :: "ingress_rule list \<Rightarrow> ingress_rule list \<Rightarrow> rule_change list" where
  "diff ours theirs =
     List.map_filter (\<lambda>k.
       let before = find_rule ours k; after = find_rule theirs k
       in if before \<noteq> after
          then Some \<lparr>chg_hostname = fst k, chg_path = snd k,
            chg_before = map_option rule_service before, chg_after = map_option rule_service after\<rparr>
          else None) (drift_keys ours theirs)"

subsection \<open>What it reports\<close>

lemma set_map_filter': "set (List.map_filter f xs) = {y. \<exists>x \<in> set xs. f x = Some y}"
  by (force simp: map_filter_def image_iff)

lemma find_rule_key: "find_rule rules k \<noteq> None \<longleftrightarrow> k \<in> {k. \<exists>r \<in> set rules. rule_key r = Some k}"
  by (auto simp: find_rule_def find_None_iff')

lemma drift_keys_set: "set (drift_keys ours theirs) = {k. \<exists>r \<in> set ours \<union> set theirs. rule_key r = Some k}"
  by (auto simp: drift_keys_def set_map_filter')

lemma drift_keys_strict: "sorted_wrt (<) (drift_keys ours theirs)"
  unfolding drift_keys_def by (rule sorted_wrt_dedup) simp

lemma diff_member:
  "c \<in> set (diff ours theirs) \<longleftrightarrow>
     (\<exists>k. find_rule ours k \<noteq> find_rule theirs k
        \<and> c = \<lparr>chg_hostname = fst k, chg_path = snd k,
            chg_before = map_option rule_service (find_rule ours k),
            chg_after = map_option rule_service (find_rule theirs k)\<rparr>)"
  (is "?l \<longleftrightarrow> (\<exists>k. ?P k)")
proof
  assume ?l
  then show "\<exists>k. ?P k" by (auto simp: diff_def set_map_filter' Let_def split: if_splits)
next
  assume "\<exists>k. ?P k"
  then obtain k where k: "?P k" by blast
  then have "find_rule ours k \<noteq> None \<or> find_rule theirs k \<noteq> None" by auto
  then have "k \<in> set (drift_keys ours theirs)"
    unfolding drift_keys_set using find_rule_key[of ours k] find_rule_key[of theirs k] by auto
  with k show ?l by (auto simp: diff_def set_map_filter' Let_def intro!: bexI[of _ k])
qed

lemma diff_empty: "diff ours theirs = [] \<longleftrightarrow> (\<forall>k. find_rule ours k = find_rule theirs k)"
proof -
  have "diff ours theirs = [] \<longleftrightarrow> (\<forall>c. c \<notin> set (diff ours theirs))" by (cases "diff ours theirs") auto
  then show ?thesis unfolding diff_member by blast
qed

lemma map_filter_strict:
  fixes key :: "'b \<Rightarrow> 'a::linorder"
  assumes "sorted_wrt (<) xs" and "\<And>x y. f x = Some y \<Longrightarrow> key y = x"
  shows "sorted_wrt (<) (map key (List.map_filter f xs))"
  using assms
proof (induction xs)
  case (Cons x xs)
  then have IH: "sorted_wrt (<) (map key (List.map_filter f xs))" by simp
  show ?case
  proof (cases "f x")
    case (Some y)
    then have y: "key y = x" by (rule Cons.prems(2))
    have "\<forall>z \<in> set (List.map_filter f xs). x < key z"
      using Cons.prems by (auto simp: set_map_filter')
    with IH y Some show ?thesis by (simp add: map_filter_def)
  qed (use IH in \<open>simp add: map_filter_def\<close>)
qed (simp add: map_filter_def)

text \<open>One change per route, in order of hostname and path.\<close>

lemma diff_sorted: "sorted_wrt (<) (map (\<lambda>c. (chg_hostname c, chg_path c)) (diff ours theirs))"
  unfolding diff_def by (rule map_filter_strict[OF drift_keys_strict]) (auto simp: Let_def split: if_splits)

end
