(* ===== verification/Data_Properties.thy ===== *)
theory Data_Properties
  imports Samples Drift Access_Laws
begin

text \<open>
  What the data the engine keeps in the account promises: the comment of a record and its dates, the
  login of a route and the machines it lets in, the normal form of a rule, and the drift report.
\<close>

subsection \<open>Comments\<close>

definition sample_ownership :: ownership where
  "sample_ownership = \<lparr>own_marker = Route ''7f3a'', own_owner = Some ''Ada's Mac'', own_lease = True, own_until = None\<rparr>"

lemma wf_sample_ownership: "wf_ownership sample_ownership"
  by code_simp

text \<open>C24: A comment Teitunnel wrote is read back as what was written: the route, whether it is a
  reservation, the end of the reservation to the minute, and the owner as the comment shows it.\<close>

theorem comment_roundtrip:
  "wf_ownership w \<Longrightarrow> ownership_parse (render w) = Some (w\<lparr>own_owner := shown_owner w,
     own_until := map_option (\<lambda>ms. ms div 60000 * 60000) (own_until w)\<rparr>)"
  by (rule parse_render)

lemma comment_roundtrip_witness:
  "ownership_parse (render sample_ownership) = Some (sample_ownership\<lparr>own_owner := Some ''Ada-s-Mac''\<rparr>)"
proof -
  have "shown_owner sample_ownership = Some ''Ada-s-Mac''" by code_simp
  with comment_roundtrip[OF wf_sample_ownership] show ?thesis by (simp add: sample_ownership_def)
qed

text \<open>C25: A comment fits Cloudflare's limit of a hundred characters whatever the owner is called, for a
  route id of up to 54 characters.\<close>

theorem comment_fits: "wf_ownership w \<Longrightarrow> marker_short 54 w \<Longrightarrow> length (render w) \<le> 100"
  using render_length[of w] by (simp add: MAX_COMMENT_def)

lemma comment_fits_witness:
  "length (render (sample_ownership\<lparr>own_owner := Some (replicate 200 CHR ''a'')\<rparr>)) \<le> 100"
  by (rule comment_fits) code_simp+

text \<open>The end of a reservation, written as a date, is read back to the minute, for every time up to
  the end of the year 9999.\<close>

theorem until_roundtrip: "ms \<le> LAST_UNTIL \<Longrightarrow> parse_until (format_until ms) = Some (ms div 60000 * 60000)"
  by (rule parse_format_until)

lemma until_roundtrip_witness: "parse_until (format_until 1709210096789) = Some 1709210040000"
  using until_roundtrip[of 1709210096789] by (simp add: LAST_UNTIL_def)

text \<open>The comment of a route keeps a reservation that is running exactly if it is this owner's, with
  its end to the minute; any other reservation is gone from it, and it names the route.\<close>

theorem reservation_kept:
  assumes "list_all is_alnum rid"
    and "\<And>h. Option.bind previous ownership_parse = Some h \<Longrightarrow> (case own_until h of None \<Rightarrow> True | Some ms \<Rightarrow> ms \<le> LAST_UNTIL)"
  shows "\<exists>w. ownership_parse (route_comment rid owner previous now) = Some w
     \<and> own_marker w = Route rid
     \<and> own_lease w = (case Option.bind previous ownership_parse of
          Some h \<Rightarrow> leased_at h now \<and> (\<exists>v. own_owner h = Some v \<and> same_owner v owner) | None \<Rightarrow> False)
     \<and> own_until w = (if own_lease w
          then map_option (\<lambda>ms. ms div 60000 * 60000) (own_until (the (Option.bind previous ownership_parse)))
          else None)"
  using assms by (rule route_comment_parse)

lemma reservation_kept_witness:
  "\<exists>w. ownership_parse (route_comment ''7f3a'' ''Mac'' (Some (render (ownership_lease ''Mac'' None))) 5) = Some w
     \<and> own_marker w = Route ''7f3a'' \<and> own_lease w \<and> own_until w = None"
proof -
  let ?h = "ownership_lease ''Mac'' None"
  have "wf_ownership ?h" "shown_owner ?h = Some ''Mac''" by code_simp+
  with parse_render[of ?h] have p: "ownership_parse (render ?h) = Some ?h" by (simp add: ownership_lease_def)
  have "leased_at ?h 5" "same_owner ''Mac'' ''Mac''" by code_simp+
  moreover have "list_all is_alnum ''7f3a''" by code_simp
  ultimately show ?thesis using reservation_kept[of "''7f3a''" "Some (render ?h)" "''Mac''" 5] p
    by (auto simp: ownership_lease_def)
qed

subsection \<open>Logins\<close>

text \<open>C26: The login Teitunnel writes for a rule in normal form is read back as that rule (its paths that
  skip the login are applications of their own).\<close>

theorem login_roundtrip:
  "normalized X r = Inr r \<Longrightarrow> from_new X (app_definition d r m) = Some (people_only r)"
  by (rule from_new_app_definition)

definition sample_rule_of_people :: access_rule where
  "sample_rule_of_people = default_rule\<lparr>ar_emails := [''ada@x.io''], ar_bypass := [''/hook'']\<rparr>"

lemma sample_rule_normal: "normalized sample_X sample_rule_of_people = Inr sample_rule_of_people"
  by code_simp

lemma login_roundtrip_witness:
  "from_new sample_X (app_definition app_host sample_rule_of_people None) = Some (sample_rule_of_people\<lparr>ar_bypass := []\<rparr>)"
  using login_roundtrip[OF sample_rule_normal] by (simp add: people_only_def)

text \<open>C27: Letting a service token through a login, or taking it away, changes nothing for people: the rule
  read from the application is the same, and of the tokens exactly that one comes or goes.\<close>

theorem machines_apart:
  "from_new X (with_service_token app i) = from_new X app
   \<and> set (service_tokens_of (with_service_token app i)) = insert i (set (service_tokens_of app))
   \<and> (from_new X app = Some r \<longrightarrow> from_new X (without_service_token app i) = Some r)
   \<and> (canonical_tokens app \<longrightarrow>
        set (service_tokens_of (without_service_token app i)) = set (service_tokens_of app) - {i})"
  by (simp add: with_service_token_tokens without_service_token_people without_service_token_tokens)

lemma machines_apart_witness:
  "from_new sample_X (without_service_token (app_definition app_host sample_rule_of_people None) ''t'') =
     Some (people_only sample_rule_of_people)
   \<and> set (service_tokens_of (without_service_token (app_definition app_host sample_rule_of_people None) ''t'')) = {}"
proof -
  let ?app = "app_definition app_host sample_rule_of_people None"
  have "canonical_tokens ?app" "service_tokens_of ?app = []" by code_simp+
  with machines_apart[of sample_X ?app "''t''" "people_only sample_rule_of_people"]
    from_new_app_definition[OF sample_rule_normal] show ?thesis by simp
qed

subsection \<open>Drift\<close>

text \<open>C28: The drift report is exactly the comparison rule by rule: a hostname and path is listed, with the
  service before and after, if and only if the first rule for it differs; each at most once, in order.\<close>

theorem drift_exact:
  "set (diff ours theirs) = {\<lparr>chg_hostname = fst k, chg_path = snd k,
        chg_before = map_option rule_service (find_rule ours k),
        chg_after = map_option rule_service (find_rule theirs k)\<rparr> | k. find_rule ours k \<noteq> find_rule theirs k}
   \<and> sorted_wrt (<) (map (\<lambda>c. (chg_hostname c, chg_path c)) (diff ours theirs))"
  using diff_member[of _ ours theirs] by (auto intro: diff_sorted)

end
