(* ===== verification/Oauth_Protocol.thy ===== *)
theory Oauth_Protocol
  imports Cf_Api Externals
begin

text \<open>
  The pure parts of the authorization server in front of shared MCP servers
  (\<open>mcp_auth/protocol.rs\<close>, \<open>mcp_auth/clients.rs\<close>): redirect rules, PKCE, the audience of a token,
  client documents and registrations, and which addresses a client document may be read from.
  URIs (\<open>http\<close>), base64, forms and JSON are other people's code, the fields of a \<open>web\<close>.
\<close>

subsection \<open>What other code provides\<close>

record uri =
  uri_scheme :: "string option"
  uri_authority :: "string option"
  uri_host :: "string option"
  uri_port :: "nat option"
  uri_path :: string
  uri_query :: "string option"

record web =
  parse_uri :: "string \<Rightarrow> uri option"
  parse_json :: "string \<Rightarrow> json option"
  parse_form :: "string \<Rightarrow> (string \<times> string) list"
  show_form :: "(string \<times> string) list \<Rightarrow> string"
  base64url :: "string \<Rightarrow> string"
  base64_decode :: "string \<Rightarrow> string option"
  digest :: "string \<Rightarrow> string"

subsection \<open>Addresses\<close>

text \<open>\<open>str::parse::<IpAddr>\<close>: four decimal numbers without leading zeros, or eight groups of hex
  digits, at least one of them as \<open>::\<close>, the last two perhaps written as an IPv4 address.\<close>

datatype address = V4 nat nat nat nat | V6 "nat list"

fun parse_octet :: "string \<Rightarrow> nat option" where
  "parse_octet s = (if list_all is_digit s \<and> s \<noteq> [] \<and> length s \<le> 3 \<and> (length s > 1 \<longrightarrow> hd s \<noteq> CHR ''0'')
     \<and> digits_value s < 256 then Some (digits_value s) else None)"

definition parse_v4 :: "string \<Rightarrow> (nat \<times> nat \<times> nat \<times> nat) option" where
  "parse_v4 s = (case map parse_octet (split_on (CHR ''.'') s) of
      [Some a, Some b, Some c, Some d] \<Rightarrow> Some (a, b, c, d) | _ \<Rightarrow> None)"

definition hex_value :: "char \<Rightarrow> nat option" where
  "hex_value c = (let d = lower_char c in
     if is_digit c then Some (code c - 48)
     else if 97 \<le> code d \<and> code d \<le> 102 then Some (code d - 87) else None)"

definition parse_group :: "string \<Rightarrow> nat option" where
  "parse_group s = (if s \<noteq> [] \<and> length s \<le> 4 \<and> list_all (\<lambda>c. hex_value c \<noteq> None) s
     then Some (fold (\<lambda>c n. 16 * n + the (hex_value c)) s 0) else None)"

text \<open>Groups between colons; with \<open>tail4\<close>, the last may be an IPv4 address.\<close>

fun parse_groups :: "bool \<Rightarrow> string list \<Rightarrow> nat list option" where
  "parse_groups tail4 [] = Some []"
| "parse_groups tail4 [g] = (case parse_group g of
      Some n \<Rightarrow> Some [n]
    | None \<Rightarrow> (if tail4 then map_option (\<lambda>(a, b, c, d). [256 * a + b, 256 * c + d]) (parse_v4 g) else None))"
| "parse_groups tail4 (g # gs) = Option.bind (parse_group g) (\<lambda>n. map_option ((#) n) (parse_groups tail4 gs))"

definition colons :: "string \<Rightarrow> string list" where
  "colons s = (if s = [] then [] else split_on (CHR '':'') s)"

definition parse_v6 :: "string \<Rightarrow> nat list option" where
  "parse_v6 s = (case split_once ''::'' s of
      None \<Rightarrow> (case parse_groups True (colons s) of
          Some gs \<Rightarrow> if length gs = 8 then Some gs else None | None \<Rightarrow> None)
    | Some (h, t) \<Rightarrow>
        (case (parse_groups False (colons h), parse_groups True (colons t)) of
          (Some hs, Some ts) \<Rightarrow> if length hs + length ts \<le> 7
              then Some (hs @ replicate (8 - length hs - length ts) 0 @ ts) else None
        | _ \<Rightarrow> None))"

definition parse_address :: "string \<Rightarrow> address option" where
  "parse_address s = (case parse_v4 s of
      Some (a, b, c, d) \<Rightarrow> Some (V4 a b c d) | None \<Rightarrow> map_option V6 (parse_v6 s))"

fun is_loopback :: "address \<Rightarrow> bool" where
  "is_loopback (V4 a _ _ _) \<longleftrightarrow> a = 127"
| "is_loopback (V6 gs) \<longleftrightarrow> gs = [0, 0, 0, 0, 0, 0, 0, 1]"

text \<open>Only addresses of the public internet may serve a client's document.\<close>

definition public_v4 :: "nat \<Rightarrow> nat \<Rightarrow> nat \<Rightarrow> nat \<Rightarrow> bool" where
  "public_v4 a b c d \<longleftrightarrow> \<not> (a = 127
     \<or> (a = 10 \<or> a = 172 \<and> 16 \<le> b \<and> b \<le> 31 \<or> a = 192 \<and> b = 168)
     \<or> (a = 169 \<and> b = 254)
     \<or> (a = 255 \<and> b = 255 \<and> c = 255 \<and> d = 255)
     \<or> (224 \<le> a \<and> a \<le> 239)
     \<or> (a = 0 \<and> b = 0 \<and> c = 0 \<and> d = 0)
     \<or> (a = 192 \<and> b = 0 \<and> c = 2 \<or> a = 198 \<and> b = 51 \<and> c = 100 \<or> a = 203 \<and> b = 0 \<and> c = 113)
     \<or> a = 0
     \<or> (a = 100 \<and> 64 \<le> b \<and> b \<le> 127)
     \<or> (a = 192 \<and> b = 0 \<and> c = 0)
     \<or> (a = 198 \<and> 18 \<le> b \<and> b \<le> 19)
     \<or> 240 \<le> a)"

text \<open>The mask \<open>first & 0xfe00\<close> leaves the upper seven bits, \<open>0xffc0\<close> the upper ten.\<close>

fun is_public :: "address \<Rightarrow> bool" where
  "is_public (V4 a b c d) = public_v4 a b c d"
| "is_public (V6 gs) =
     (if take 5 gs = [0, 0, 0, 0, 0] \<and> gs ! 5 = 65535
      then public_v4 (gs ! 6 div 256) (gs ! 6 mod 256) (gs ! 7 div 256) (gs ! 7 mod 256)
      else \<not> (gs = [0, 0, 0, 0, 0, 0, 0, 1] \<or> gs = [0, 0, 0, 0, 0, 0, 0, 0]
         \<or> gs ! 0 div 256 = 255
         \<or> gs ! 0 div 512 = 0xfc00 div 512
         \<or> gs ! 0 div 64 = 0xfe80 div 64
         \<or> gs ! 0 div 64 = 0xfec0 div 64
         \<or> (gs ! 0 = 0x2001 \<and> gs ! 1 = 0x0db8)
         \<or> (gs ! 0 = 0x0064 \<and> gs ! 1 = 0xff9b)))"

text \<open>The addresses a name resolved to: every one must be public.\<close>

definition may_fetch :: "address list \<Rightarrow> bool" where
  "may_fetch addresses \<longleftrightarrow> addresses \<noteq> [] \<and> list_all is_public addresses"

subsection \<open>How long a client document is kept\<close>

definition DEFAULT_TTL :: nat where "DEFAULT_TTL = 3600"
definition MAX_TTL :: nat where "MAX_TTL = 24 * 3600"
definition MIN_TTL :: nat where "MIN_TTL = 60"

definition ttl :: "string option \<Rightarrow> nat" where
  "ttl cache_control = (case cache_control of
      None \<Rightarrow> DEFAULT_TTL
    | Some value \<Rightarrow>
        if list_ex (\<lambda>d. lower (trim d) = ''no-store'' \<or> lower (trim d) = ''no-cache'') (split_on (CHR '','') value)
        then MIN_TTL
        else (case List.map_filter (\<lambda>d. Option.bind (strip_prefix ''max-age='' (trim d)) (parse_uint U64_MAX))
              (split_on (CHR '','') value) of
            [] \<Rightarrow> DEFAULT_TTL | secs # _ \<Rightarrow> max MIN_TTL (min MAX_TTL secs)))"

subsection \<open>Secrets\<close>

definition secret_hash :: "web \<Rightarrow> string \<Rightarrow> string" where
  "secret_hash W secret = base64url W (digest W secret)"

definition secret_matches :: "web \<Rightarrow> string \<Rightarrow> string \<Rightarrow> bool" where
  "secret_matches W presented expected \<longleftrightarrow> secret_hash W presented = expected"

text \<open>The code a person compares. A byte past the largest multiple of the alphabet's size stands for
  nothing; the random bytes come in blocks, a source that fails gives none.\<close>

definition SHORT_CODE_LEN :: nat where "SHORT_CODE_LEN = 5"

definition ALPHABET :: string where "ALPHABET = ''ACDEFHJKMNPRTUVWXY3479''"

definition code_char :: "nat \<Rightarrow> char option" where
  "code_char byte = (let limit = 256 - 256 mod length ALPHABET in
     if byte < limit then Some (ALPHABET ! (byte mod length ALPHABET)) else None)"

fun short_code :: "string \<Rightarrow> nat list list \<Rightarrow> string option" where
  "short_code acc blocks = (if SHORT_CODE_LEN \<le> length acc then Some acc else
     (case blocks of
        [] \<Rightarrow> None
      | b # bs \<Rightarrow> short_code (take SHORT_CODE_LEN (acc @ List.map_filter code_char b)) bs))"

declare short_code.simps [simp del]

subsection \<open>PKCE\<close>

definition unreserved :: "char \<Rightarrow> bool" where
  "unreserved c \<longleftrightarrow> is_alnum c \<or> c \<in> set ''-._~''"

definition pkce_ok :: "web \<Rightarrow> string \<Rightarrow> string \<Rightarrow> bool" where
  "pkce_ok W verifier challenge \<longleftrightarrow> 43 \<le> length verifier \<and> length verifier \<le> 128 \<and> list_all unreserved verifier
     \<and> base64url W (digest W verifier) = challenge"

definition challenge_ok :: "string \<Rightarrow> bool" where
  "challenge_ok challenge \<longleftrightarrow> length challenge = 43
     \<and> list_all (\<lambda>c. is_alnum c \<or> c = CHR ''-'' \<or> c = CHR ''_'') challenge"

subsection \<open>Redirects\<close>

definition loopback_host :: "string \<Rightarrow> bool" where
  "loopback_host h \<longleftrightarrow> eq_ic h ''localhost''
     \<or> (case parse_address (trim_end_char (CHR '']'') (trim_start_char (CHR ''['') h)) of
          Some a \<Rightarrow> is_loopback a | None \<Rightarrow> False)"

definition authority_has_at :: "uri \<Rightarrow> bool" where
  "authority_has_at u \<longleftrightarrow> (case uri_authority u of Some a \<Rightarrow> CHR ''@'' \<in> set a | None \<Rightarrow> False)"

definition redirect_allowed :: "web \<Rightarrow> string \<Rightarrow> bool" where
  "redirect_allowed W s = (case parse_uri W s of
      None \<Rightarrow> False
    | Some u \<Rightarrow> (case uri_host u of
        None \<Rightarrow> False
      | Some h \<Rightarrow> \<not> (CHR ''#'' \<in> set s \<or> authority_has_at u)
          \<and> (uri_scheme u = Some ''https'' \<or> (uri_scheme u = Some ''http'' \<and> loopback_host h))))"

text \<open>\<open>path_and_query\<close>.\<close>

definition path_and_query :: "uri \<Rightarrow> string \<times> string option" where
  "path_and_query u = (uri_path u, uri_query u)"

definition redirect_matches :: "web \<Rightarrow> string list \<Rightarrow> string \<Rightarrow> bool" where
  "redirect_matches W registered asked \<longleftrightarrow> asked \<in> set registered
     \<or> (case parse_uri W asked of
          None \<Rightarrow> False
        | Some a \<Rightarrow> uri_scheme a = Some ''http''
            \<and> (case uri_host a of Some h \<Rightarrow> loopback_host h | None \<Rightarrow> False)
            \<and> list_ex (\<lambda>r. case parse_uri W r of
                 None \<Rightarrow> False
               | Some reg \<Rightarrow> uri_scheme reg = Some ''http'' \<and> uri_host reg = uri_host a
                   \<and> path_and_query reg = path_and_query a) registered)"

definition redirect_host :: "web \<Rightarrow> string \<Rightarrow> string" where
  "redirect_host W s = (case Option.bind (parse_uri W s) uri_host of Some h \<Rightarrow> h | None \<Rightarrow> [])"

definition redirect_is_loopback :: "web \<Rightarrow> string \<Rightarrow> bool" where
  "redirect_is_loopback W s = (case Option.bind (parse_uri W s) uri_host of Some h \<Rightarrow> loopback_host h | None \<Rightarrow> False)"

subsection \<open>The audience of a token\<close>

definition issuer :: "string \<Rightarrow> string" where
  "issuer h = ''https://'' @ h"

definition audience :: "web \<Rightarrow> string \<Rightarrow> string \<Rightarrow> string \<Rightarrow> string option" where
  "audience W h path resource = (case parse_uri W resource of
      None \<Rightarrow> None
    | Some u \<Rightarrow>
        let fits = (case uri_scheme u of Some s \<Rightarrow> eq_ic s ''https'' | None \<Rightarrow> False)
              \<and> (case uri_host u of Some x \<Rightarrow> eq_ic x h | None \<Rightarrow> False)
              \<and> (case uri_port u of None \<Rightarrow> True | Some p \<Rightarrow> p = 443)
              \<and> uri_query u = None \<and> CHR ''#'' \<notin> set resource;
            asked = trim_end_char (CHR ''/'') (uri_path u);
            server = trim_end_char (CHR ''/'') path;
            covers = asked = [] \<or> asked = server
              \<or> (case strip_prefix asked server of Some rest \<Rightarrow> starts_with ''/'' rest | None \<Rightarrow> False)
        in if fits \<and> covers then Some (issuer (lower h) @ asked) else None)"

subsection \<open>Clients\<close>

definition is_document_url :: "web \<Rightarrow> string \<Rightarrow> bool" where
  "is_document_url W client_id = (case parse_uri W client_id of
      None \<Rightarrow> False
    | Some u \<Rightarrow> uri_scheme u = Some ''https'' \<and> uri_host u \<noteq> None \<and> uri_path u \<noteq> ''/'' \<and> uri_path u \<noteq> []
        \<and> CHR ''#'' \<notin> set client_id \<and> \<not> authority_has_at u)"

record oauth_client =
  oc_id :: string
  oc_name :: string
  oc_redirect_uris :: "string list"
  oc_secret_hash :: "string option"
  oc_published_by :: "string option"

definition MAX_NAME :: nat where "MAX_NAME = 100"
definition MAX_REDIRECTS :: nat where "MAX_REDIRECTS = 10"

text \<open>The characters of UTF-8 text, each as its bytes.\<close>

definition continuation :: "char \<Rightarrow> bool" where
  "continuation c \<longleftrightarrow> 128 \<le> code c \<and> code c < 192"

fun utf8_chars :: "string \<Rightarrow> string list" where
  "utf8_chars [] = []"
| "utf8_chars (c # s) = (case utf8_chars s of
      [] \<Rightarrow> [[c]]
    | x # xs \<Rightarrow> if x \<noteq> [] \<and> continuation (hd x) then (c # x) # xs else [c] # x # xs)"

definition clean_name :: "string option \<Rightarrow> string \<Rightarrow> string" where
  "clean_name nm fallback =
     (let text = (case nm of Some n \<Rightarrow> n | None \<Rightarrow> fallback);
          n = trim (concat (take MAX_NAME (filter (\<lambda>c. \<not> has_control c) (utf8_chars text))))
      in if n = [] then fallback else n)"

fun json_array :: "json \<Rightarrow> json list option" where
  "json_array (JArr vs) = Some vs"
| "json_array _ = None"

fun is_object :: "json \<Rightarrow> bool" where
  "is_object (JObj _) = True"
| "is_object _ = False"

definition json_strings :: "json list \<Rightarrow> string + string list" where
  "json_strings vs = (if list_ex (\<lambda>v. json_str v = None) vs then Inl ''redirect_uris must be strings''
     else Inr (List.map_filter json_str vs))"

definition redirect_list :: "web \<Rightarrow> json option \<Rightarrow> string + string list" where
  "redirect_list W value =
     ebind (ok_or ''redirect_uris is required'' (Option.bind value json_array)) (\<lambda>vs.
     ebind (json_strings vs) (\<lambda>uris.
     ebind (fail_if (uris = [] \<or> length uris > MAX_REDIRECTS) ''list between 1 and 10 redirect_uris'') (\<lambda>_.
     case find (\<lambda>u. \<not> redirect_allowed W u) uris of
       Some bad \<Rightarrow> Inl (''redirect URI '' @ bad @ '' must use HTTPS, or HTTP to localhost'')
     | None \<Rightarrow> Inr uris)))"

definition client_from_document :: "web \<Rightarrow> string \<Rightarrow> json \<Rightarrow> string + oauth_client" where
  "client_from_document W url document =
     ebind (fail_if (Option.bind (json_get ''client_id'' document) json_str \<noteq> Some url)
        ''the document's client_id isn't its own URL'') (\<lambda>_.
     ebind (case Option.bind (json_get ''token_endpoint_auth_method'' document) json_str of
         Some other \<Rightarrow> fail_if (other \<noteq> ''none'')
            (''token_endpoint_auth_method '' @ other @ '' isn't supported (use none)'')
       | None \<Rightarrow> Inr ()) (\<lambda>_.
     let h = map_option lower (Option.bind (parse_uri W url) uri_host)
     in ebind (redirect_list W (json_get ''redirect_uris'' document)) (\<lambda>uris.
     Inr \<lparr>oc_id = url,
       oc_name = clean_name (Option.bind (json_get ''client_name'' document) json_str)
         (case h of Some x \<Rightarrow> x | None \<Rightarrow> ''An MCP client''),
       oc_redirect_uris = uris, oc_secret_hash = None, oc_published_by = h\<rparr>)))"

record registration =
  rg_name :: string
  rg_redirect_uris :: "string list"
  rg_auth_method :: string
  rg_application_type :: "string option"

definition registration_of :: "web \<Rightarrow> json \<Rightarrow> string + registration" where
  "registration_of W body =
     ebind (fail_if (\<not> is_object body) ''the registration must be a JSON object'') (\<lambda>_.
     ebind (case Option.bind (json_get ''token_endpoint_auth_method'' body) json_str of
         None \<Rightarrow> Inr ''none''
       | Some m \<Rightarrow> if m \<in> set [''none'', ''client_secret_post'', ''client_secret_basic''] then Inr m
           else Inl (''token_endpoint_auth_method '' @ m @ '' isn't supported'')) (\<lambda>auth_method.
     ebind (case Option.bind (json_get ''grant_types'' body) json_array of
         Some grants \<Rightarrow> fail_if (list_ex (\<lambda>g. json_str g \<noteq> Some ''authorization_code'' \<and> json_str g \<noteq> Some ''refresh_token'') grants)
            ''only authorization_code and refresh_token grants are supported''
       | None \<Rightarrow> Inr ()) (\<lambda>_.
     ebind (case Option.bind (json_get ''response_types'' body) json_array of
         Some types \<Rightarrow> fail_if (list_ex (\<lambda>t. json_str t \<noteq> Some ''code'') types) ''only the code response type is supported''
       | None \<Rightarrow> Inr ()) (\<lambda>_.
     ebind (redirect_list W (json_get ''redirect_uris'' body)) (\<lambda>uris.
     Inr \<lparr>rg_name = clean_name (Option.bind (json_get ''client_name'' body) json_str) ''An MCP client'',
       rg_redirect_uris = uris, rg_auth_method = auth_method,
       rg_application_type = (case Option.bind (json_get ''application_type'' body) json_str of
           Some t \<Rightarrow> if t = ''web'' \<or> t = ''native'' then Some t else None | None \<Rightarrow> None)\<rparr>)))))"

text \<open>A form or query: the last value of a key wins.\<close>

definition form_of :: "web \<Rightarrow> string \<Rightarrow> string \<Rightarrow> string option" where
  "form_of W text = map_of (rev (parse_form W text))"

definition with_query :: "web \<Rightarrow> string \<Rightarrow> (string \<times> string) list \<Rightarrow> string" where
  "with_query W s pairs = s @ (if CHR ''?'' \<in> set s then ''&'' else ''?'') @ show_form W pairs"

end
