(* ===== verification/Oauth_Server.thy ===== *)
theory Oauth_Server
  imports Oauth_Protocol Btree_Map
begin

text \<open>
  The authorization server (\<open>mcp_auth.rs\<close>, \<open>mcp_auth/store.rs\<close>): what it keeps in memory and in
  the database, and its endpoints. A request that waits for the database in between is split where
  it does, so that the phases can be interleaved (theory \<open>Oauth_Runs\<close>); an endpoint is its phases
  one after the other. Random values and the clock are inputs; times are in milliseconds, of the
  wall clock (\<open>now\<close>) or of the monotonic one (\<open>at\<close>).
\<close>

subsection \<open>Keys\<close>

text \<open>Client addresses are keys of the limits; any linear order of them does.\<close>

fun address_key :: "address \<Rightarrow> nat list" where
  "address_key (V4 a b c d) = [0, a, b, c, d]"
| "address_key (V6 gs) = 1 # gs"

lemma address_key_inject: "address_key x = address_key y \<longleftrightarrow> x = y"
  by (cases x; cases y) auto

instantiation address :: linorder
begin

definition less_eq_address :: "address \<Rightarrow> address \<Rightarrow> bool" where
  "less_eq_address x y \<longleftrightarrow> address_key x \<le> address_key y"

definition less_address :: "address \<Rightarrow> address \<Rightarrow> bool" where
  "less_address x y \<longleftrightarrow> address_key x < address_key y"

instance
  by standard (auto simp: less_eq_address_def less_address_def address_key_inject less_le)

end

subsection \<open>Limits\<close>

definition ACCESS_TTL :: nat where "ACCESS_TTL = 3600 * 1000"
definition REFRESH_TTL :: nat where "REFRESH_TTL = 30 * 24 * 3600 * 1000"
definition CODE_TTL :: nat where "CODE_TTL = 60 * 1000"
definition PENDING_TTL :: nat where "PENDING_TTL = 300 * 1000"
definition MINUTE :: nat where "MINUTE = 60 * 1000"
definition MAX_WAITING_PER_IP :: nat where "MAX_WAITING_PER_IP = 2"
definition MAX_WAITING :: nat where "MAX_WAITING = 10"
definition PER_MINUTE :: nat where "PER_MINUTE = 20"
definition PER_MINUTE_PER_HOST :: nat where "PER_MINUTE_PER_HOST = 60"
definition MAX_CLIENTS :: nat where "MAX_CLIENTS = 200"
definition MAX_CACHED :: nat where "MAX_CACHED = 256"

subsection \<open>The database\<close>

text \<open>A connection the person approved, by id; a \<open>u64\<close> is stored as at most the largest \<open>i64\<close>.\<close>

record grant =
  gr_host :: string
  gr_client_id :: string
  gr_client_name :: string
  gr_redirect_host :: string
  gr_created_at :: nat
  gr_last_used_at :: nat
  gr_access_hash :: "string option"
  gr_access_expires_at :: "nat option"
  gr_refresh_hash :: string
  gr_previous :: "string option"
  gr_refresh_expires_at :: nat
  gr_resource :: "string option"
  gr_expires_at :: nat

record client_row =
  cr_host :: string
  cr_client :: oauth_client
  cr_created_at :: nat

text \<open>Clients in the order they registered.\<close>

record oauth_db =
  db_clients :: "client_row list"
  db_grants :: "(string, grant) bmap"

definition as_i64 :: "nat \<Rightarrow> nat" where
  "as_i64 n = min n I64_MAX"

definition with_connection :: "string \<Rightarrow> oauth_db \<Rightarrow> string list" where
  "with_connection h d = map gr_client_id (filter (\<lambda>g. gr_host g = h) (bm_values (db_grants d)))"

text \<open>The newest clients of a hostname; of two registered at once the later row comes first.\<close>

definition newest_clients :: "string \<Rightarrow> client_row list \<Rightarrow> string list" where
  "newest_clients h rows = map (oc_id \<circ> cr_client) (take MAX_CLIENTS
     (rev (sort_key cr_created_at (filter (\<lambda>r. cr_host r = h) rows))))"

definition save_client :: "string \<Rightarrow> oauth_client \<Rightarrow> nat \<Rightarrow> oauth_db \<Rightarrow> oauth_db option" where
  "save_client h c now d =
     (if list_ex (\<lambda>r. oc_id (cr_client r) = oc_id c) (db_clients d) then None
      else
        let rows = db_clients d @ [\<lparr>cr_host = h, cr_client = c\<lparr>oc_published_by := None\<rparr>, cr_created_at = as_i64 now\<rparr>]
        in Some (d\<lparr>db_clients := filter (\<lambda>r. \<not> (cr_host r = h
              \<and> oc_id (cr_client r) \<notin> set (with_connection h d)
              \<and> oc_id (cr_client r) \<notin> set (newest_clients h rows))) rows\<rparr>))"

definition stored_client :: "string \<Rightarrow> string \<Rightarrow> oauth_db \<Rightarrow> oauth_client option" where
  "stored_client h i d = map_option cr_client
     (find (\<lambda>r. cr_host r = h \<and> oc_id (cr_client r) = i) (db_clients d))"

text \<open>The id and the refresh token of a connection are unique.\<close>

definition insert_grant :: "string \<Rightarrow> grant \<Rightarrow> oauth_db \<Rightarrow> oauth_db option" where
  "insert_grant i g d =
     (if map_of (db_grants d) i \<noteq> None
         \<or> list_ex (\<lambda>o'. gr_refresh_hash o' = gr_refresh_hash g) (bm_values (db_grants d)) then None
      else Some (d\<lparr>db_grants := bm_insert i (g\<lparr>gr_created_at := as_i64 (gr_created_at g),
          gr_last_used_at := as_i64 (gr_last_used_at g),
          gr_access_expires_at := map_option as_i64 (gr_access_expires_at g), gr_previous := None,
          gr_refresh_expires_at := as_i64 (gr_refresh_expires_at g),
          gr_expires_at := as_i64 (gr_expires_at g)\<rparr>) (db_grants d)\<rparr>))"

datatype refresh_found = Current string grant | Reused string | Unknown

definition find_refresh :: "string \<Rightarrow> string \<Rightarrow> oauth_db \<Rightarrow> refresh_found" where
  "find_refresh h hash d =
     (case find (\<lambda>(_, g). gr_host g = h \<and> gr_refresh_hash g = hash) (db_grants d) of
        Some (i, g) \<Rightarrow> Current i g
      | None \<Rightarrow> (case find (\<lambda>(_, g). gr_host g = h \<and> gr_previous g = Some hash) (db_grants d) of
          Some (i, _) \<Rightarrow> Reused i | None \<Rightarrow> Unknown))"

text \<open>A compare-and-swap: only the holder of the current refresh token gets new tokens.\<close>

definition rotate_grant :: "string \<Rightarrow> string \<Rightarrow> string \<times> nat \<Rightarrow> string \<times> nat \<Rightarrow> nat \<Rightarrow> oauth_db \<Rightarrow> bool \<times> oauth_db" where
  "rotate_grant i presented access refresh now d =
     (case map_of (db_grants d) i of
        None \<Rightarrow> (False, d)
      | Some g \<Rightarrow>
          if gr_refresh_hash g \<noteq> presented then (False, d)
          else (True, d\<lparr>db_grants := bm_insert i (g\<lparr>gr_previous := Some (gr_refresh_hash g),
              gr_refresh_hash := fst refresh, gr_refresh_expires_at := as_i64 (snd refresh),
              gr_access_hash := Some (fst access), gr_access_expires_at := Some (as_i64 (snd access)),
              gr_last_used_at := as_i64 now\<rparr>) (db_grants d)\<rparr>))"

definition delete_grant :: "string \<Rightarrow> oauth_db \<Rightarrow> bool \<times> oauth_db" where
  "delete_grant i d = (map_of (db_grants d) i \<noteq> None, d\<lparr>db_grants := bm_remove i (db_grants d)\<rparr>)"

text \<open>The connections of a hostname or all of them, the newest first.\<close>

definition grants_of :: "string option \<Rightarrow> oauth_db \<Rightarrow> (string \<times> grant) list" where
  "grants_of h d = rev (sort_key (\<lambda>(_, g). gr_created_at g)
     (filter (\<lambda>(_, g). h = None \<or> h = Some (gr_host g)) (db_grants d)))"

definition sweep :: "nat \<Rightarrow> oauth_db \<Rightarrow> oauth_db" where
  "sweep now d = d\<lparr>db_grants := bm_filter (\<lambda>_ g. \<not> (gr_refresh_expires_at g \<le> as_i64 now \<or> gr_expires_at g \<le> as_i64 now))
     (db_grants d)\<rparr>"

subsection \<open>The memory\<close>

datatype answer = Waiting | Approved string | Denied

record pending =
  pe_host :: string
  pe_redirect_uri :: string
  pe_state :: "string option"
  pe_answer :: answer
  pe_shown :: string
  pe_client_name :: string
  pe_ip :: address
  pe_created :: nat

record auth_code =
  cd_host :: string
  cd_client_id :: string
  cd_client_name :: string
  cd_redirect_uri :: string
  cd_challenge :: string
  cd_resource :: "string option"
  cd_expires :: nat

record access =
  ac_host :: string
  ac_grant :: string
  ac_resource :: "string option"
  ac_expires_at :: nat

record auth_state =
  st_pending :: "(string, pending) bmap"
  st_codes :: "(string, auth_code) bmap"
  st_used_codes :: "(string, nat \<times> string) bmap"
  st_access :: "(string, access) bmap"
  st_hits :: "(address, nat list) bmap"
  st_host_hits :: "(string, nat list) bmap"

definition empty_auth :: auth_state where
  "empty_auth = \<lparr>st_pending = [], st_codes = [], st_used_codes = [], st_access = [], st_hits = [], st_host_hits = []\<rparr>"

record auth =
  au_state :: auth_state
  au_db :: oauth_db
  au_documents :: "(string, oauth_client \<times> nat) bmap"

record policy =
  po_dynamic_registration :: bool
  po_max_grant :: nat

record auth_env =
  ae_web :: web
  ae_fetch :: "string \<Rightarrow> string + (string \<times> nat option)"
  ae_policy :: policy

text \<open>A shared server, as the authorization server sees it.\<close>

record resource =
  rs_host :: string
  rs_path :: string
  rs_name :: string

definition resource_at :: "string \<Rightarrow> string \<Rightarrow> string \<Rightarrow> resource" where
  "resource_at h path nm = \<lparr>rs_host = lower (trim h), rs_path = trim_end_char (CHR ''/'') path, rs_name = nm\<rparr>"

definition resource_uri :: "resource \<Rightarrow> string" where
  "resource_uri R = issuer (rs_host R) @ rs_path R"

datatype oauth_error = OAuthError string string

type_synonym form = "string \<Rightarrow> string option"

definition field :: "form \<Rightarrow> string \<Rightarrow> string" where
  "field form k = (case form k of Some v \<Rightarrow> v | None \<Rightarrow> [])"

subsection \<open>Keeping memory in step with the database\<close>

definition live_access :: "nat \<Rightarrow> string \<times> grant \<Rightarrow> (string \<times> access) option" where
  "live_access now = (\<lambda>(i, g). Option.bind (gr_access_hash g) (\<lambda>hash.
     Option.bind (gr_access_expires_at g) (\<lambda>e.
     let ends = min e (gr_expires_at g) in
     if ends > now then Some (hash, \<lparr>ac_host = gr_host g, ac_grant = i, ac_resource = gr_resource g, ac_expires_at = ends\<rparr>)
     else None)))"

definition recent :: "nat \<Rightarrow> nat list \<Rightarrow> nat list" where
  "recent at hits = filter (\<lambda>t. at - t < MINUTE) hits"

text \<open>The first half of \<open>sync\<close> reads the database, the second replaces what memory holds.\<close>

definition sync_read :: "nat \<Rightarrow> auth \<Rightarrow> (string \<times> grant) list \<times> auth" where
  "sync_read now A = (let d = sweep now (au_db A) in (grants_of None d, A\<lparr>au_db := d\<rparr>))"

definition sync_apply :: "nat \<Rightarrow> nat \<Rightarrow> (string \<times> grant) list \<Rightarrow> auth_state \<Rightarrow> auth_state" where
  "sync_apply now at grants st = st\<lparr>
     st_access := fold (\<lambda>(k, v). bm_insert k v) (List.map_filter (live_access now) grants) [],
     st_pending := bm_filter (\<lambda>_ p. at - pe_created p < PENDING_TTL) (st_pending st),
     st_codes := bm_filter (\<lambda>_ c. cd_expires c > at) (st_codes st),
     st_used_codes := bm_filter (\<lambda>_ (t, _). at - t < 2 * PENDING_TTL) (st_used_codes st),
     st_hits := bm_filter (\<lambda>_ hits. hits \<noteq> []) (bm_map (\<lambda>_. recent at) (st_hits st)),
     st_host_hits := bm_filter (\<lambda>_ hits. hits \<noteq> []) (bm_map (\<lambda>_. recent at) (st_host_hits st))\<rparr>"

definition sync :: "nat \<Rightarrow> nat \<Rightarrow> auth \<Rightarrow> auth" where
  "sync now at A = (case sync_read now A of (gs, A') \<Rightarrow> A'\<lparr>au_state := sync_apply now at gs (au_state A')\<rparr>)"

definition forget :: "string \<Rightarrow> auth_state \<Rightarrow> auth_state" where
  "forget g st = st\<lparr>st_access := bm_filter (\<lambda>_ a. ac_grant a \<noteq> g) (st_access st)\<rparr>"

definition end_grant :: "string \<Rightarrow> auth \<Rightarrow> auth" where
  "end_grant g A = A\<lparr>au_state := forget g (au_state A), au_db := snd (delete_grant g (au_db A))\<rparr>"

definition disconnect :: "string \<Rightarrow> auth \<Rightarrow> bool \<times> auth" where
  "disconnect g A = (case delete_grant g (au_db A) of
     (ended, d) \<Rightarrow> (ended, A\<lparr>au_db := d, au_state := forget g (au_state A)\<rparr>))"

subsection \<open>Limits on requests\<close>

definition hits_of :: "'k \<Rightarrow> ('k, nat list) bmap \<Rightarrow> nat list" where
  "hits_of k m = (case map_of m k of Some hits \<Rightarrow> hits | None \<Rightarrow> [])"

definition allow :: "string \<Rightarrow> address \<Rightarrow> nat \<Rightarrow> auth_state \<Rightarrow> bool \<times> auth_state" where
  "allow h ip at st =
     (let for_host = recent at (hits_of h (st_host_hits st));
          st = st\<lparr>st_host_hits := bm_insert h for_host (st_host_hits st)\<rparr>
      in if PER_MINUTE_PER_HOST \<le> length for_host then (False, st)
         else
           let for_ip = recent at (hits_of ip (st_hits st));
               st = st\<lparr>st_hits := bm_insert ip for_ip (st_hits st)\<rparr>
           in if PER_MINUTE \<le> length for_ip then (False, st)
              else (True, st\<lparr>st_hits := bm_insert ip (for_ip @ [at]) (st_hits st),
                st_host_hits := bm_insert h (for_host @ [at]) (st_host_hits st)\<rparr>))"

subsection \<open>Clients\<close>

definition keep_document :: "string \<Rightarrow> oauth_client \<Rightarrow> nat \<Rightarrow> nat \<Rightarrow> auth \<Rightarrow> auth" where
  "keep_document url c til at A =
     (let cache = au_documents A;
          cache = (if MAX_CACHED \<le> length cache then bm_filter (\<lambda>_ (_, t). t > at) cache else cache);
          cache = (if MAX_CACHED \<le> length cache then [] else cache)
      in A\<lparr>au_documents := bm_insert url (c, til) cache\<rparr>)"

definition fetch_document :: "auth_env \<Rightarrow> string \<Rightarrow> nat \<Rightarrow> auth \<Rightarrow> (string + oauth_client) \<times> auth" where
  "fetch_document E url at A =
     (case ebind (map_err (\<lambda>why. ''the client's metadata at '' @ url @ '': '' @ why) (ae_fetch E url)) (\<lambda>(body, secs).
        ebind (ok_or (''the client's metadata at '' @ url @ '' isn't JSON'') (parse_json (ae_web E) body)) (\<lambda>document.
        ebind (client_from_document (ae_web E) url document) (\<lambda>c. Inr (c, secs)))) of
        Inl why \<Rightarrow> (Inl why, A)
      | Inr (c, secs) \<Rightarrow>
          (Inr c, keep_document url c (at + 1000 * (case secs of Some t \<Rightarrow> t | None \<Rightarrow> DEFAULT_TTL)) at A))"

text \<open>A client document, from the cache or fetched anew.\<close>

definition documents_client :: "auth_env \<Rightarrow> string \<Rightarrow> nat \<Rightarrow> auth \<Rightarrow> (string + oauth_client) \<times> auth" where
  "documents_client E url at A =
     (case map_of (au_documents A) url of
        Some (c, til) \<Rightarrow> if til > at then (Inr c, A) else fetch_document E url at A
      | None \<Rightarrow> fetch_document E url at A)"

definition client_of :: "auth_env \<Rightarrow> string \<Rightarrow> string \<Rightarrow> nat \<Rightarrow> auth \<Rightarrow> (oauth_error + oauth_client) \<times> auth" where
  "client_of E h i at A =
     (if is_document_url (ae_web E) i
      then (case documents_client E i at A of (r, A') \<Rightarrow> (map_err (OAuthError ''invalid_client'') r, A'))
      else (ok_or (OAuthError ''invalid_client'' ''Unknown client: register again (the server may have been reset).'')
        (stored_client h i (au_db A)), A))"

text \<open>\<open>String::from_utf8\<close>.\<close>

fun valid_utf8 :: "string \<Rightarrow> bool" where
  "valid_utf8 [] = True"
| "valid_utf8 (a # s) =
     (if code a < 128 then valid_utf8 s
      else if 194 \<le> code a \<and> code a \<le> 223 then
        (case s of b # s' \<Rightarrow> continuation b \<and> valid_utf8 s' | [] \<Rightarrow> False)
      else if 224 \<le> code a \<and> code a \<le> 239 then
        (case s of b # c # s' \<Rightarrow> continuation b \<and> continuation c
            \<and> (code a = 224 \<longrightarrow> 160 \<le> code b) \<and> (code a = 237 \<longrightarrow> code b < 160) \<and> valid_utf8 s' | _ \<Rightarrow> False)
      else if 240 \<le> code a \<and> code a \<le> 244 then
        (case s of b # c # d # s' \<Rightarrow> continuation b \<and> continuation c \<and> continuation d
            \<and> (code a = 240 \<longrightarrow> 144 \<le> code b) \<and> (code a = 244 \<longrightarrow> code b < 144) \<and> valid_utf8 s' | _ \<Rightarrow> False)
      else False)"

text \<open>The secret of HTTP Basic authentication, when it names the client.\<close>

definition basic_secret :: "web \<Rightarrow> string \<Rightarrow> string option \<Rightarrow> string option" where
  "basic_secret W client_id authorization =
     Option.bind authorization (\<lambda>v.
     Option.bind (case strip_prefix ''Basic '' v of Some b \<Rightarrow> Some b | None \<Rightarrow> strip_prefix ''basic '' v) (\<lambda>b.
     Option.bind (base64_decode W (trim b)) (\<lambda>raw.
     if \<not> valid_utf8 raw then None else
     Option.bind (split_once '':'' raw) (\<lambda>(i, secret).
     if form_of W (''x='' @ i) ''x'' = Some client_id then form_of W (''x='' @ secret) ''x'' else None))))"

definition authenticate :: "web \<Rightarrow> oauth_client \<Rightarrow> form \<Rightarrow> string option \<Rightarrow> oauth_error + unit" where
  "authenticate W c form authorization = (case oc_secret_hash c of
      None \<Rightarrow> Inr ()
    | Some expected \<Rightarrow>
        (case (case basic_secret W (oc_id c) authorization of Some s \<Rightarrow> Some s | None \<Rightarrow> form ''client_secret'') of
           Some s \<Rightarrow> fail_if (\<not> secret_matches W s expected) (OAuthError ''invalid_client'' ''The client secret is wrong.'')
         | None \<Rightarrow> Inl (OAuthError ''invalid_client'' ''The client secret is wrong.'')))"

end
