(* ===== verification/Oauth_Endpoints.thy ===== *)
theory Oauth_Endpoints
  imports Oauth_Server
begin

text \<open>
  The endpoints of the authorization server (\<open>mcp_auth.rs\<close>): metadata, authorization with the
  person's approval, the exchange of a code, refreshing, registration and revocation, and the check
  of a token on each request to the shared server.
\<close>

subsection \<open>Requests and answers\<close>

datatype verb = Get | Head | Post | Options | OtherVerb

record request =
  rq_verb :: verb
  rq_path :: string
  rq_query :: string
  rq_body :: string
  rq_authorization :: "string option"
  rq_ip :: address

text \<open>What a request reads besides: the clocks, and random values, none when the source fails.\<close>

record draws =
  dw_now :: nat
  dw_at :: nat
  dw_request :: "string option"
  dw_shown :: "string option"
  dw_grant :: "string option"
  dw_access :: "string option"
  dw_refresh :: "string option"
  dw_client :: "string option"
  dw_secret :: "string option"

datatype reply =
    Preflight
  | Html nat string string
      \<comment> \<open>status, title, text\<close>
  | WaitingPage string string string string
      \<comment> \<open>hostname, client, code to compare, request\<close>
  | RedirectTo string
  | JsonReply nat json

definition oauth_failure :: "oauth_error \<Rightarrow> reply" where
  "oauth_failure e = (case e of OAuthError error description \<Rightarrow>
     JsonReply (if error = ''invalid_client'' then 401 else 400)
       (JObj [(''error'', JStr error), (''error_description'', JStr description)]))"

abbreviation oauth_err :: "string \<Rightarrow> string \<Rightarrow> auth \<Rightarrow> (oauth_error + 'a) \<times> auth" where
  "oauth_err e d A \<equiv> (Inl (OAuthError e d), A)"

abbreviation with_memory :: "(auth_state \<Rightarrow> auth_state) \<Rightarrow> auth \<Rightarrow> auth" where
  "with_memory f A \<equiv> A\<lparr>au_state := f (au_state A)\<rparr>"

subsection \<open>Metadata\<close>

definition OAUTH :: string where "OAUTH = ''/__teitunnel/oauth''"
definition AUTHORIZE :: string where "AUTHORIZE = ''/__teitunnel/oauth/authorize''"
definition WAIT :: string where "WAIT = ''/__teitunnel/oauth/wait''"
definition TOKEN :: string where "TOKEN = ''/__teitunnel/oauth/token''"
definition REGISTER :: string where "REGISTER = ''/__teitunnel/oauth/register''"
definition REVOKE :: string where "REVOKE = ''/__teitunnel/oauth/revoke''"
definition RESOURCE_METADATA :: string where "RESOURCE_METADATA = ''/.well-known/oauth-protected-resource''"
definition SERVER_METADATA :: string where "SERVER_METADATA = ''/.well-known/oauth-authorization-server''"
definition OPENID_METADATA :: string where "OPENID_METADATA = ''/.well-known/openid-configuration''"

definition resource_metadata :: "string \<Rightarrow> string \<Rightarrow> string \<Rightarrow> json" where
  "resource_metadata h resource nm = JObj [(''resource'', JStr resource),
     (''authorization_servers'', JArr [JStr (issuer h)]), (''bearer_methods_supported'', JArr [JStr ''header'']),
     (''resource_name'', JStr nm)]"

definition server_metadata :: "string \<Rightarrow> bool \<Rightarrow> json" where
  "server_metadata h dynamic_registration = (let base = issuer h in JObj ([
     (''issuer'', JStr base),
     (''authorization_endpoint'', JStr (base @ AUTHORIZE)),
     (''token_endpoint'', JStr (base @ TOKEN)),
     (''revocation_endpoint'', JStr (base @ REVOKE)),
     (''response_types_supported'', JArr [JStr ''code'']),
     (''response_modes_supported'', JArr [JStr ''query'']),
     (''grant_types_supported'', JArr [JStr ''authorization_code'', JStr ''refresh_token'']),
     (''code_challenge_methods_supported'', JArr [JStr ''S256'']),
     (''scopes_supported'', JArr [JStr ''offline_access'']),
     (''token_endpoint_auth_methods_supported'', JArr [JStr ''none'', JStr ''client_secret_post'', JStr ''client_secret_basic'']),
     (''revocation_endpoint_auth_methods_supported'', JArr [JStr ''none'', JStr ''client_secret_post'', JStr ''client_secret_basic'']),
     (''client_id_metadata_document_supported'', JBool True),
     (''authorization_response_iss_parameter_supported'', JBool True)]
     @ (if dynamic_registration then [(''registration_endpoint'', JStr (base @ REGISTER))] else [])))"

definition handles :: "string \<Rightarrow> bool" where
  "handles path \<longleftrightarrow> path = RESOURCE_METADATA \<or> starts_with (RESOURCE_METADATA @ ''/'') path
     \<or> path = SERVER_METADATA \<or> path = OPENID_METADATA \<or> starts_with (OAUTH @ ''/'') path"

subsection \<open>Tokens on requests\<close>

definition valid :: "web \<Rightarrow> resource \<Rightarrow> nat \<Rightarrow> string \<Rightarrow> auth_state \<Rightarrow> bool" where
  "valid W R now token st = (case map_of (st_access st) (secret_hash W token) of
      None \<Rightarrow> False
    | Some a \<Rightarrow> ac_host a = rs_host R \<and> ac_expires_at a > now
        \<and> (case ac_resource a of None \<Rightarrow> True
           | Some granted \<Rightarrow> audience W (rs_host R) (rs_path R) granted \<noteq> None))"

text \<open>New tokens of a connection, which end with it at the latest: when they expire.\<close>

definition issue :: "web \<Rightarrow> string \<Rightarrow> string \<Rightarrow> string option \<Rightarrow> nat \<Rightarrow> nat \<Rightarrow> string \<Rightarrow> auth_state
    \<Rightarrow> (nat \<times> nat) \<times> auth_state" where
  "issue W g h res ends now secret st =
     (let e = min (now + ACCESS_TTL) ends in
      ((e, min (now + REFRESH_TTL) ends),
       st\<lparr>st_access := bm_insert (secret_hash W secret)
         \<lparr>ac_host = h, ac_grant = g, ac_resource = res, ac_expires_at = e\<rparr> (st_access st)\<rparr>))"

definition tokens :: "string \<Rightarrow> string \<Rightarrow> json" where
  "tokens acc ref = JObj [(''access_token'', JStr acc), (''token_type'', JStr ''Bearer''),
     (''expires_in'', JInt (int (ACCESS_TTL div 1000))), (''refresh_token'', JStr ref)]"

definition requested_audience :: "web \<Rightarrow> resource \<Rightarrow> form \<Rightarrow> oauth_error + string option" where
  "requested_audience W R form = (case form ''resource'' of
      None \<Rightarrow> Inr None
    | Some asked \<Rightarrow> (case audience W (rs_host R) (rs_path R) asked of
        None \<Rightarrow> Inl (OAuthError ''invalid_target'' ''This server can only issue tokens for itself.'')
      | Some a \<Rightarrow> Inr (Some a)))"

subsection \<open>Asking for authorization\<close>

text \<open>What the person is asked, and what the code will be made of.\<close>

record consent =
  ct_request :: string
  ct_host :: string
  ct_client :: oauth_client
  ct_redirect_uri :: string
  ct_challenge :: string
  ct_resource :: "string option"
  ct_shown :: string
  ct_ip :: address

definition waiting_ips :: "string \<Rightarrow> auth_state \<Rightarrow> address list" where
  "waiting_ips h st = map pe_ip (filter (\<lambda>p. pe_host p = h \<and> pe_answer p = Waiting) (bm_values (st_pending st)))"

definition with_state :: "string option \<Rightarrow> (string \<times> string) list" where
  "with_state s = (case s of None \<Rightarrow> [] | Some v \<Rightarrow> [(''state'', v)])"

text \<open>The checks after the redirect is known to be the client's: their failures are sent there.\<close>

definition authorize_check :: "web \<Rightarrow> resource \<Rightarrow> form \<Rightarrow> (string \<times> string) + (string \<times> string option)" where
  "authorize_check W R query =
     ebind (fail_if (query ''response_type'' \<noteq> Some ''code'')
        (''unsupported_response_type'', ''Only the code response type is supported.'')) (\<lambda>_.
     ebind (fail_if (query ''code_challenge_method'' \<noteq> Some ''S256'' \<or> \<not> challenge_ok (field query ''code_challenge''))
        (''invalid_request'', ''PKCE with S256 is required.'')) (\<lambda>_.
     ebind (case query ''resource'' of
         None \<Rightarrow> Inr None
       | Some asked \<Rightarrow> (case audience W (rs_host R) (rs_path R) asked of
           None \<Rightarrow> Inl (''invalid_target'', ''This server can only authorize itself.'') | Some a \<Rightarrow> Inr (Some a))) (\<lambda>res.
     Inr (field query ''code_challenge'', res))))"

text \<open>With the redirect known to be the client's: the request waits for the person, unless too many do.\<close>

definition ask_person :: "auth_env \<Rightarrow> resource \<Rightarrow> request \<Rightarrow> draws \<Rightarrow> oauth_client \<Rightarrow> string \<Rightarrow> auth \<Rightarrow> (reply \<times> consent option) \<times> auth" where
  "ask_person E R rq dw c redirect_uri A =
     (let W = ae_web E; query = form_of W (rq_query rq); h = rs_host R;
          failure = (\<lambda>e d. (RedirectTo (with_query W redirect_uri
             ([(''error'', e), (''error_description'', d)] @ with_state (query ''state'') @ [(''iss'', issuer h)])), None))
      in (case authorize_check W R query of
            Inl e \<Rightarrow> (failure (fst e) (snd e), A)
          | Inr asked \<Rightarrow>
            (case (dw_request dw, dw_shown dw) of
               (Some i, Some shown) \<Rightarrow>
                 let ips = waiting_ips h (au_state A) in
                 if MAX_WAITING \<le> length ips \<or> MAX_WAITING_PER_IP \<le> length (filter (\<lambda>ip. ip = rq_ip rq) ips)
                 then ((Html 429 ''Too many requests are waiting'' ''Answer the ones waiting in Teitunnel, then try again.'', None), A)
                 else ((WaitingPage h (oc_name c) shown i,
                     Some \<lparr>ct_request = i, ct_host = h, ct_client = c, ct_redirect_uri = redirect_uri,
                       ct_challenge = fst asked, ct_resource = snd asked, ct_shown = shown, ct_ip = rq_ip rq\<rparr>),
                   with_memory (\<lambda>st. st\<lparr>st_pending := bm_insert i \<lparr>pe_host = h, pe_redirect_uri = redirect_uri,
                     pe_state = query ''state'', pe_answer = Waiting, pe_shown = shown, pe_client_name = oc_name c,
                     pe_ip = rq_ip rq, pe_created = dw_at dw\<rparr> (st_pending st)\<rparr>) A)
             | _ \<Rightarrow> (failure ''server_error'' ''No randomness.'', A))))"

definition authorize :: "auth_env \<Rightarrow> resource \<Rightarrow> request \<Rightarrow> draws \<Rightarrow> auth \<Rightarrow> (reply \<times> consent option) \<times> auth" where
  "authorize E R rq dw A =
     (let query = form_of (ae_web E) (rq_query rq) in
      case allow (rs_host R) (rq_ip rq) (dw_at dw) (au_state A) of
        (False, st) \<Rightarrow> ((Html 429 ''Too many attempts'' ''Please wait a minute and try again.'', None), A\<lparr>au_state := st\<rparr>)
      | (True, st) \<Rightarrow>
      (case client_of E (rs_host R) (field query ''client_id'') (dw_at dw) (A\<lparr>au_state := st\<rparr>) of
        (Inl (OAuthError _ why), A) \<Rightarrow> ((Html 400 ''This app couldn't be identified'' why, None), A)
      | (Inr c, A) \<Rightarrow>
         (case query ''redirect_uri'' of
            Some redirect_uri \<Rightarrow>
              if redirect_matches (ae_web E) (oc_redirect_uris c) redirect_uri
              then ask_person E R rq dw c redirect_uri A
              else ((Html 400 ''This app's address doesn't match''
                ''The app asked to be sent somewhere it didn't register. Nothing was shared.'', None), A)
          | None \<Rightarrow> ((Html 400 ''This app's address doesn't match''
                ''The app asked to be sent somewhere it didn't register. Nothing was shared.'', None), A))))"

text \<open>The person answered, or did not in time. An approval makes a code, if there is randomness.\<close>

definition decide :: "web \<Rightarrow> consent \<Rightarrow> bool \<Rightarrow> string option \<Rightarrow> nat \<Rightarrow> auth_state \<Rightarrow> auth_state" where
  "decide W ct approved secret at st =
     (let (ans, st) = (case (approved, secret) of
          (True, Some s) \<Rightarrow> (Approved s, st\<lparr>st_codes := bm_insert (secret_hash W s)
             \<lparr>cd_host = ct_host ct, cd_client_id = oc_id (ct_client ct), cd_client_name = oc_name (ct_client ct),
              cd_redirect_uri = ct_redirect_uri ct, cd_challenge = ct_challenge ct, cd_resource = ct_resource ct,
              cd_expires = at + CODE_TTL\<rparr> (st_codes st)\<rparr>)
        | _ \<Rightarrow> (Denied, st))
      in case map_of (st_pending st) (ct_request ct) of
           None \<Rightarrow> st
         | Some p \<Rightarrow> st\<lparr>st_pending := bm_insert (ct_request ct) (p\<lparr>pe_answer := ans\<rparr>) (st_pending st)\<rparr>)"

definition wait :: "web \<Rightarrow> resource \<Rightarrow> request \<Rightarrow> auth_state \<Rightarrow> reply \<times> auth_state" where
  "wait W R rq st =
     (let i = field (form_of W (rq_query rq)) ''request'';
          gone = (Html 404 ''This request expired'' ''Go back to your AI app and connect again.'', st) in
      case map_of (st_pending st) i of
        None \<Rightarrow> gone
      | Some p \<Rightarrow> if pe_host p \<noteq> rs_host R then gone else
          let go = (\<lambda>pairs. (RedirectTo (with_query W (pe_redirect_uri p)
                (pairs @ with_state (pe_state p) @ [(''iss'', issuer (rs_host R))])), st\<lparr>st_pending := bm_remove i (st_pending st)\<rparr>))
          in (case pe_answer p of
                Waiting \<Rightarrow> (WaitingPage (rs_host R) (pe_client_name p) (pe_shown p) i, st)
              | Approved given \<Rightarrow> go [(''code'', given)]
              | Denied \<Rightarrow> go [(''error'', ''access_denied''), (''error_description'', ''The connection wasn't approved.'')]))"

subsection \<open>Exchanging a code\<close>

definition take_code :: "string \<Rightarrow> auth_state \<Rightarrow> auth_code option \<times> auth_state" where
  "take_code hash st = (map_of (st_codes st) hash, st\<lparr>st_codes := bm_remove hash (st_codes st)\<rparr>)"

text \<open>A code used twice: what it made ends.\<close>

definition replay_code :: "string \<Rightarrow> auth \<Rightarrow> auth" where
  "replay_code hash A = (case map_of (st_used_codes (au_state A)) hash of
      None \<Rightarrow> A
    | Some (_, g) \<Rightarrow> end_grant g (with_memory (\<lambda>st. st\<lparr>st_used_codes := bm_remove hash (st_used_codes st)\<rparr>) A))"

definition exchange_check :: "web \<Rightarrow> resource \<Rightarrow> form \<Rightarrow> auth_code \<Rightarrow> nat \<Rightarrow> oauth_error + string option" where
  "exchange_check W R form c at =
     ebind (fail_if (cd_host c \<noteq> rs_host R \<or> cd_expires c \<le> at \<or> cd_client_id c \<noteq> field form ''client_id''
          \<or> form ''redirect_uri'' \<noteq> Some (cd_redirect_uri c))
        (OAuthError ''invalid_grant'' ''The code doesn't match this request.'')) (\<lambda>_.
     ebind (fail_if (\<not> pkce_ok W (field form ''code_verifier'') (cd_challenge c))
        (OAuthError ''invalid_grant'' ''The code verifier is wrong.'')) (\<lambda>_.
     ebind (requested_audience W R form) (\<lambda>asked. case (asked, cd_resource c) of
        (Some a, Some b) \<Rightarrow> if a \<noteq> b then Inl (OAuthError ''invalid_target'' ''The resource differs from the one authorized.'')
            else Inr (Some b)
      | (_, Some b) \<Rightarrow> Inr (Some b)
      | (a, None) \<Rightarrow> Inr a)))"

definition new_grant :: "web \<Rightarrow> resource \<Rightarrow> auth_code \<Rightarrow> string option \<Rightarrow> nat \<Rightarrow> nat \<Rightarrow> string \<Rightarrow> nat \<Rightarrow> string \<Rightarrow> nat \<Rightarrow> grant" where
  "new_grant W R c res now ends acc acc_ends ref ref_ends = \<lparr>gr_host = rs_host R, gr_client_id = cd_client_id c,
     gr_client_name = cd_client_name c, gr_redirect_host = redirect_host W (cd_redirect_uri c), gr_created_at = now,
     gr_last_used_at = now, gr_access_hash = Some (secret_hash W acc), gr_access_expires_at = Some acc_ends,
     gr_refresh_hash = secret_hash W ref, gr_previous = None, gr_refresh_expires_at = ref_ends, gr_resource = res,
     gr_expires_at = ends\<rparr>"

text \<open>The last phases: the tokens go into memory, the connection into the database, and the code among
  the used ones.\<close>

definition connect :: "auth_env \<Rightarrow> resource \<Rightarrow> string \<Rightarrow> auth_code \<Rightarrow> string option \<Rightarrow> draws \<Rightarrow> auth \<Rightarrow> (oauth_error + json) \<times> auth" where
  "connect E R hash c res dw A =
     (case (dw_grant dw, dw_access dw, dw_refresh dw) of
        (Some g, Some acc, Some ref) \<Rightarrow>
          let W = ae_web E; ends = dw_now dw + po_max_grant (ae_policy E);
              ((acc_ends, ref_ends), st) = issue W g (rs_host R) res ends (dw_now dw) acc (au_state A);
              A = A\<lparr>au_state := st\<rparr>
          in (case insert_grant g (new_grant W R c res (dw_now dw) ends acc acc_ends ref ref_ends) (au_db A) of
                None \<Rightarrow> oauth_err ''server_error'' ''UNIQUE constraint failed'' (with_memory (forget g) A)
              | Some d \<Rightarrow> (Inr (tokens acc ref),
                  with_memory (\<lambda>st. st\<lparr>st_used_codes := bm_insert hash (dw_at dw, g) (st_used_codes st)\<rparr>) (A\<lparr>au_db := d\<rparr>)))
      | _ \<Rightarrow> oauth_err ''server_error'' ''No randomness.'' A)"

definition exchange_code :: "auth_env \<Rightarrow> resource \<Rightarrow> form \<Rightarrow> string option \<Rightarrow> draws \<Rightarrow> auth \<Rightarrow> (oauth_error + json) \<times> auth" where
  "exchange_code E R form authorization dw A =
     (let W = ae_web E; hash = secret_hash W (field form ''code'') in
      case take_code hash (au_state A) of
        (None, _) \<Rightarrow> oauth_err ''invalid_grant'' ''The code is invalid, expired or used.'' (replay_code hash A)
      | (Some c, st) \<Rightarrow>
          (case exchange_check W R form c (dw_at dw) of
             Inl e \<Rightarrow> (Inl e, A\<lparr>au_state := st\<rparr>)
           | Inr res \<Rightarrow>
               (case client_of E (rs_host R) (field form ''client_id'') (dw_at dw) (A\<lparr>au_state := st\<rparr>) of
                  (Inl e, A) \<Rightarrow> (Inl e, A)
                | (Inr cl, A) \<Rightarrow>
                    (case authenticate W cl form authorization of
                       Inl e \<Rightarrow> (Inl e, A)
                     | Inr _ \<Rightarrow> connect E R hash c res dw A))))"

subsection \<open>Refreshing\<close>

definition refresh_check :: "web \<Rightarrow> resource \<Rightarrow> form \<Rightarrow> grant \<Rightarrow> nat \<Rightarrow> oauth_error + unit" where
  "refresh_check W R form g now =
     ebind (fail_if (gr_client_id g \<noteq> field form ''client_id'' \<or> gr_refresh_expires_at g \<le> now)
        (OAuthError ''invalid_grant'' ''The refresh token is invalid or expired.'')) (\<lambda>_.
     ebind (requested_audience W R form) (\<lambda>asked. case (asked, gr_resource g) of
        (Some a, Some b) \<Rightarrow> fail_if (a \<noteq> b) (OAuthError ''invalid_target'' ''The resource differs from the one authorized.'')
      | _ \<Rightarrow> Inr ()))"

abbreviation reused_refresh :: oauth_error where
  "reused_refresh \<equiv> OAuthError ''invalid_grant''
     ''This refresh token was already used; the connection was ended. Connect again.''"

text \<open>The last phases: new tokens in memory, the exchange of the refresh token, and only the newest access
  token kept; if somebody else exchanged it first, the connection ends.\<close>

definition keep_newest :: "string \<Rightarrow> string \<Rightarrow> auth_state \<Rightarrow> auth_state" where
  "keep_newest g fresh st = st\<lparr>st_access := bm_filter (\<lambda>hash a. ac_grant a \<noteq> g \<or> hash = fresh) (st_access st)\<rparr>"

definition renew :: "auth_env \<Rightarrow> resource \<Rightarrow> string \<Rightarrow> string \<Rightarrow> grant \<Rightarrow> draws \<Rightarrow> auth \<Rightarrow> (oauth_error + json) \<times> auth" where
  "renew E R presented i g dw A =
     (case (dw_access dw, dw_refresh dw) of
        (Some acc, Some ref) \<Rightarrow>
          let W = ae_web E;
              ((acc_ends, ref_ends), st) = issue W i (rs_host R) (gr_resource g) (gr_expires_at g) (dw_now dw) acc (au_state A);
              A = A\<lparr>au_state := st\<rparr>
          in (case rotate_grant i presented (secret_hash W acc, acc_ends) (secret_hash W ref, ref_ends) (dw_now dw) (au_db A) of
                (False, _) \<Rightarrow> (Inl reused_refresh, end_grant i A)
              | (True, d) \<Rightarrow> (Inr (tokens acc ref), with_memory (keep_newest i (secret_hash W acc)) (A\<lparr>au_db := d\<rparr>)))
      | _ \<Rightarrow> oauth_err ''server_error'' ''No randomness.'' A)"

definition refresh :: "auth_env \<Rightarrow> resource \<Rightarrow> form \<Rightarrow> string option \<Rightarrow> draws \<Rightarrow> auth \<Rightarrow> (oauth_error + json) \<times> auth" where
  "refresh E R form authorization dw A =
     (let W = ae_web E; presented = secret_hash W (field form ''refresh_token'') in
      case find_refresh (rs_host R) presented (au_db A) of
        Reused i \<Rightarrow> (Inl reused_refresh, end_grant i A)
      | Unknown \<Rightarrow> oauth_err ''invalid_grant'' ''The refresh token is invalid or expired.'' A
      | Current i g \<Rightarrow>
          if gr_expires_at g \<le> dw_now dw
          then oauth_err ''invalid_grant'' ''This connection reached the end of its lifetime. Connect again.'' (end_grant i A)
          else (case refresh_check W R form g (dw_now dw) of
             Inl e \<Rightarrow> (Inl e, A)
           | Inr _ \<Rightarrow>
               (case client_of E (rs_host R) (field form ''client_id'') (dw_at dw) A of
                  (Inl e, A) \<Rightarrow> (Inl e, A)
                | (Inr cl, A) \<Rightarrow>
                    (case authenticate W cl form authorization of
                       Inl e \<Rightarrow> (Inl e, A)
                     | Inr _ \<Rightarrow> renew E R presented i g dw A))))"

definition token_endpoint :: "auth_env \<Rightarrow> resource \<Rightarrow> request \<Rightarrow> draws \<Rightarrow> auth \<Rightarrow> reply \<times> auth" where
  "token_endpoint E R rq dw A =
     (let form = form_of (ae_web E) (rq_body rq);
          (r, A) = (if form ''grant_type'' = Some ''authorization_code'' then exchange_code E R form (rq_authorization rq) dw A
             else if form ''grant_type'' = Some ''refresh_token'' then refresh E R form (rq_authorization rq) dw A
             else oauth_err ''unsupported_grant_type'' ''Use authorization_code or refresh_token.'' A)
      in (case r of Inr js \<Rightarrow> JsonReply 200 js | Inl e \<Rightarrow> oauth_failure e, A))"

subsection \<open>Registration and revocation\<close>

definition registered :: "string \<Rightarrow> registration \<Rightarrow> string option \<Rightarrow> nat \<Rightarrow> json" where
  "registered client_id rg secret issued_at = JObj (
     [(''client_id'', JStr client_id), (''client_id_issued_at'', JInt (int issued_at)), (''client_name'', JStr (rg_name rg)),
      (''redirect_uris'', JArr (map JStr (rg_redirect_uris rg))),
      (''grant_types'', JArr [JStr ''authorization_code'', JStr ''refresh_token'']), (''response_types'', JArr [JStr ''code'']),
      (''token_endpoint_auth_method'', JStr (rg_auth_method rg))]
     @ (case secret of None \<Rightarrow> [] | Some s \<Rightarrow> [(''client_secret'', JStr s), (''client_secret_expires_at'', JInt 0)])
     @ (case rg_application_type rg of None \<Rightarrow> [] | Some k \<Rightarrow> [(''application_type'', JStr k)]))"

definition register :: "auth_env \<Rightarrow> resource \<Rightarrow> request \<Rightarrow> draws \<Rightarrow> auth \<Rightarrow> reply \<times> auth" where
  "register E R rq dw A =
     (let W = ae_web E in
      if \<not> po_dynamic_registration (ae_policy E)
      then (JsonReply 404 (JObj [(''error'', JStr ''invalid_request''), (''error_description'', JStr
        ''Registration is turned off on this server: identify the client with a Client ID Metadata Document.'')]), A)
      else (case allow (rs_host R) (rq_ip rq) (dw_at dw) (au_state A) of
        (False, st) \<Rightarrow> (oauth_failure (OAuthError ''slow_down'' ''Too many registrations; wait a minute.''), A\<lparr>au_state := st\<rparr>)
      | (True, st) \<Rightarrow>
          let A = A\<lparr>au_state := st\<rparr> in
          (case parse_json W (rq_body rq) of
             None \<Rightarrow> (oauth_failure (OAuthError ''invalid_client_metadata'' ''The registration must be JSON.''), A)
           | Some body \<Rightarrow>
          (case registration_of W body of
             Inl why \<Rightarrow> (oauth_failure (OAuthError ''invalid_client_metadata'' why), A)
           | Inr rg \<Rightarrow>
          (case (dw_client dw, dw_secret dw) of
             (Some i, Some s) \<Rightarrow>
               let secret = (if rg_auth_method rg \<noteq> ''none'' then Some s else None);
                   cl = \<lparr>oc_id = i, oc_name = rg_name rg, oc_redirect_uris = rg_redirect_uris rg,
                     oc_secret_hash = map_option (secret_hash W) secret, oc_published_by = None\<rparr>
               in (case save_client (rs_host R) cl (dw_now dw) (au_db A) of
                     None \<Rightarrow> (oauth_failure (OAuthError ''server_error'' ''UNIQUE constraint failed''), A)
                   | Some d \<Rightarrow> (JsonReply 201 (registered i rg secret (dw_now dw div 1000)), A\<lparr>au_db := d\<rparr>))
           | _ \<Rightarrow> (oauth_failure (OAuthError ''server_error'' ''No randomness.''), A))))))"

definition revoke :: "auth_env \<Rightarrow> resource \<Rightarrow> request \<Rightarrow> auth \<Rightarrow> reply \<times> auth" where
  "revoke E R rq A =
     (let W = ae_web E; hash = secret_hash W (field (form_of W (rq_body rq)) ''token'');
          by_access = (case map_of (st_access (au_state A)) hash of
              Some a \<Rightarrow> if ac_host a = rs_host R then Some (ac_grant a) else None | None \<Rightarrow> None);
          g = (case by_access of Some g \<Rightarrow> Some g
             | None \<Rightarrow> (case find_refresh (rs_host R) hash (au_db A) of Current i _ \<Rightarrow> Some i | _ \<Rightarrow> None))
      in (JsonReply 200 (JObj []), case g of None \<Rightarrow> A | Some i \<Rightarrow> end_grant i A))"

subsection \<open>Every path\<close>

definition answer :: "auth_env \<Rightarrow> resource \<Rightarrow> request \<Rightarrow> draws \<Rightarrow> auth \<Rightarrow> (reply \<times> consent option) \<times> auth" where
  "answer E R rq dw A =
     (let p = rq_path rq; get = rq_verb rq = Get \<or> rq_verb rq = Head; post = rq_verb rq = Post;
          plain = (\<lambda>(r, A). ((r, None), A)) in
      if rq_verb rq = Options then ((Preflight, None), A)
      else if get \<and> (p = RESOURCE_METADATA \<or> starts_with (RESOURCE_METADATA @ ''/'') p)
      then ((JsonReply 200 (resource_metadata (rs_host R) (resource_uri R) (rs_name R)), None), A)
      else if get \<and> (p = SERVER_METADATA \<or> p = OPENID_METADATA)
      then ((JsonReply 200 (server_metadata (rs_host R) (po_dynamic_registration (ae_policy E))), None), A)
      else if get \<and> p = AUTHORIZE then authorize E R rq dw A
      else if get \<and> p = WAIT then
        (case wait (ae_web E) R rq (au_state A) of (r, st) \<Rightarrow> ((r, None), A\<lparr>au_state := st\<rparr>))
      else if post \<and> p = TOKEN then plain (token_endpoint E R rq dw A)
      else if post \<and> p = REGISTER then plain (register E R rq dw A)
      else if post \<and> p = REVOKE then plain (revoke E R rq A)
      else ((Html (if get \<or> post then 404 else 405) ''Not found'' ''There's nothing here.'', None), A))"

end
