(* ===== verification/Oauth_Runs.thy ===== *)
theory Oauth_Runs
  imports Oauth_Endpoints
begin

text \<open>
  The authorization server under many requests at once. A request in flight is the point it waits
  at; a step lets one of them go on to its next point, starts one, or synchronises memory with the
  database. What was ever drawn, approved and exchanged is kept beside the state, so that what must
  happen at most once can be said.
\<close>

subsection \<open>Requests in flight\<close>

datatype flight =
    Asked consent
  | Taken resource string form "string option" auth_code
      \<comment> \<open>the code's hash, the form, the authorization header\<close>
  | Cleared resource string auth_code "string option"
  | Issued string string grant
      \<comment> \<open>the code's hash, the connection\<close>
  | Inserted string string
  | Found resource form "string option" string string grant
      \<comment> \<open>the refresh token's hash, the connection as it was read\<close>
  | Granted resource string string grant
  | Renewing string string "string \<times> nat" "string \<times> nat"
      \<comment> \<open>the refresh token's hash, the connection, the new tokens and their ends\<close>
  | Renewed string string
  | Dropping string
  | Ending string
  | Disconnected string
  | Syncing nat "(string \<times> grant) list"

datatype event = Approval string consent | Connected string string | Rotated string string

record run =
  rn_auth :: auth
  rn_flights :: "flight list"
  rn_seen :: "string list"
      \<comment> \<open>hashes of every secret drawn\<close>
  rn_charter :: "string \<rightharpoonup> string \<times> string \<times> string option \<times> nat"
      \<comment> \<open>of every connection: the code it was made for, its hostname, its audience and its end\<close>
  rn_log :: "event list"

definition memory :: "run \<Rightarrow> auth_state" where
  "memory y = au_state (rn_auth y)"

definition database :: "run \<Rightarrow> oauth_db" where
  "database y = au_db (rn_auth y)"

definition on_memory :: "(auth_state \<Rightarrow> auth_state) \<Rightarrow> run \<Rightarrow> run" where
  "on_memory f y = y\<lparr>rn_auth := with_memory f (rn_auth y)\<rparr>"

definition set_database :: "oauth_db \<Rightarrow> run \<Rightarrow> run" where
  "set_database d y = y\<lparr>rn_auth := (rn_auth y)\<lparr>au_db := d\<rparr>\<rparr>"

text \<open>One request goes from one point to others.\<close>

definition fly :: "flight list \<Rightarrow> flight list \<Rightarrow> run \<Rightarrow> run" where
  "fly from to y = y\<lparr>rn_flights := to @ fold remove1 from (rn_flights y)\<rparr>"

definition draw :: "string list \<Rightarrow> run \<Rightarrow> run" where
  "draw hashes y = y\<lparr>rn_seen := hashes @ rn_seen y\<rparr>"

definition logged :: "event \<Rightarrow> run \<Rightarrow> run" where
  "logged ev y = y\<lparr>rn_log := ev # rn_log y\<rparr>"

lemmas run_ops = memory_def database_def on_memory_def set_database_def fly_def draw_def logged_def

subsection \<open>Steps\<close>

text \<open>A secret that is drawn is a new one (256 random bits), and so is its hash.\<close>

inductive auth_step :: "auth_env \<Rightarrow> run \<Rightarrow> run \<Rightarrow> bool" for E where
  authorizes: "authorize E R rq dw (rn_auth y) = ((rep, asked), A)
    \<Longrightarrow> auth_step E y (fly [] (case asked of Some ct \<Rightarrow> [Asked ct] | None \<Rightarrow> []) (y\<lparr>rn_auth := A\<rparr>))"
| approved: "Asked ct \<in> set (rn_flights y) \<Longrightarrow> h = secret_hash (ae_web E) s \<Longrightarrow> h \<notin> set (rn_seen y)
    \<Longrightarrow> auth_step E y (logged (Approval h ct) (draw [h] (fly [Asked ct] []
         (on_memory (decide (ae_web E) ct True (Some s) at) y))))"
| refused: "Asked ct \<in> set (rn_flights y)
    \<Longrightarrow> auth_step E y (fly [Asked ct] [] (on_memory (decide (ae_web E) ct ok None at) y))"
| waits: "auth_step E y (on_memory (snd \<circ> wait (ae_web E) R rq) y)"
| registers: "register E R rq dw (rn_auth y) = (rep, A) \<Longrightarrow> auth_step E y (y\<lparr>rn_auth := A\<rparr>)"
| takes: "map_of (st_codes (memory y)) h = Some c
    \<Longrightarrow> auth_step E y (fly [] [Taken R h form authorization c] (on_memory (snd \<circ> take_code h) y))"
| replays: "map_of (st_used_codes (memory y)) h = Some (t, g)
    \<Longrightarrow> auth_step E y (fly [] [Dropping g] (on_memory (\<lambda>st. st\<lparr>st_used_codes := bm_remove h (st_used_codes st)\<rparr>) y))"
| clears: "Taken R h form authorization c \<in> set (rn_flights y) \<Longrightarrow> exchange_check (ae_web E) R form c at = Inr res
    \<Longrightarrow> client_of E (rs_host R) (field form ''client_id'') at (rn_auth y) = (Inr cl, A)
    \<Longrightarrow> authenticate (ae_web E) cl form authorization = Inr ()
    \<Longrightarrow> auth_step E y (fly [Taken R h form authorization c] [Cleared R h c res] (y\<lparr>rn_auth := A\<rparr>))"
| rejects: "Taken R h form authorization c \<in> set (rn_flights y)
    \<Longrightarrow> client_of E (rs_host R) (field form ''client_id'') at (rn_auth y) = (r, A) \<Longrightarrow> A' = rn_auth y \<or> A' = A
    \<Longrightarrow> auth_step E y (fly [Taken R h form authorization c] [] (y\<lparr>rn_auth := A'\<rparr>))"
| issues: "Cleared R h c res \<in> set (rn_flights y) \<Longrightarrow> rn_charter y g = None
    \<Longrightarrow> distinct [secret_hash (ae_web E) acc, secret_hash (ae_web E) ref]
    \<Longrightarrow> set [secret_hash (ae_web E) acc, secret_hash (ae_web E) ref] \<inter> set (rn_seen y) = {}
    \<Longrightarrow> ends = now + po_max_grant (ae_policy E)
    \<Longrightarrow> issue (ae_web E) g (rs_host R) res ends now acc (memory y) = ((acc_ends, ref_ends), st)
    \<Longrightarrow> auth_step E y (draw [secret_hash (ae_web E) acc, secret_hash (ae_web E) ref]
         (fly [Cleared R h c res] [Issued h g (new_grant (ae_web E) R c res now ends acc acc_ends ref ref_ends)]
           ((on_memory (\<lambda>_. st) y)\<lparr>rn_charter := (rn_charter y)(g \<mapsto> (h, rs_host R, res, ends))\<rparr>)))"
| inserts: "Issued h g gr \<in> set (rn_flights y) \<Longrightarrow> insert_grant g gr (database y) = Some d
    \<Longrightarrow> auth_step E y (logged (Connected h g) (fly [Issued h g gr] [Inserted h g] (set_database d y)))"
| fails_to_insert: "Issued h g gr \<in> set (rn_flights y)
    \<Longrightarrow> auth_step E y (fly [Issued h g gr] [] (on_memory (forget g) y))"
| uses: "Inserted h g \<in> set (rn_flights y)
    \<Longrightarrow> auth_step E y (fly [Inserted h g] [] (on_memory (\<lambda>st. st\<lparr>st_used_codes := bm_insert h (at, g) (st_used_codes st)\<rparr>) y))"
| finds: "find_refresh (rs_host R) p (database y) = Current i g
    \<Longrightarrow> auth_step E y (fly [] [Found R form authorization p i g] y)"
| finds_reused: "find_refresh h p (database y) = Reused i \<Longrightarrow> auth_step E y (fly [] [Dropping i] y)"
| expires: "Found R form authorization p i g \<in> set (rn_flights y) \<Longrightarrow> gr_expires_at g \<le> now
    \<Longrightarrow> auth_step E y (fly [Found R form authorization p i g] [Dropping i] y)"
| accepts: "Found R form authorization p i g \<in> set (rn_flights y) \<Longrightarrow> now < gr_expires_at g
    \<Longrightarrow> refresh_check (ae_web E) R form g now = Inr ()
    \<Longrightarrow> client_of E (rs_host R) (field form ''client_id'') at (rn_auth y) = (Inr cl, A)
    \<Longrightarrow> authenticate (ae_web E) cl form authorization = Inr ()
    \<Longrightarrow> auth_step E y (fly [Found R form authorization p i g] [Granted R p i g] (y\<lparr>rn_auth := A\<rparr>))"
| declines: "Found R form authorization p i g \<in> set (rn_flights y)
    \<Longrightarrow> client_of E (rs_host R) (field form ''client_id'') at (rn_auth y) = (r, A) \<Longrightarrow> A' = rn_auth y \<or> A' = A
    \<Longrightarrow> auth_step E y (fly [Found R form authorization p i g] [] (y\<lparr>rn_auth := A'\<rparr>))"
| renews: "Granted R p i g \<in> set (rn_flights y)
    \<Longrightarrow> distinct [secret_hash (ae_web E) acc, secret_hash (ae_web E) ref]
    \<Longrightarrow> set [secret_hash (ae_web E) acc, secret_hash (ae_web E) ref] \<inter> set (rn_seen y) = {}
    \<Longrightarrow> issue (ae_web E) i (rs_host R) (gr_resource g) (gr_expires_at g) now acc (memory y) = ((acc_ends, ref_ends), st)
    \<Longrightarrow> auth_step E y (draw [secret_hash (ae_web E) acc, secret_hash (ae_web E) ref]
         (fly [Granted R p i g] [Renewing p i (secret_hash (ae_web E) acc, acc_ends) (secret_hash (ae_web E) ref, ref_ends)]
           (on_memory (\<lambda>_. st) y)))"
| rotates: "Renewing p i acc ref \<in> set (rn_flights y) \<Longrightarrow> rotate_grant i p acc ref now (database y) = (True, d)
    \<Longrightarrow> auth_step E y (logged (Rotated i p) (fly [Renewing p i acc ref] [Renewed i (fst acc)] (set_database d y)))"
| loses: "Renewing p i acc ref \<in> set (rn_flights y) \<Longrightarrow> rotate_grant i p acc ref now (database y) = (False, d)
    \<Longrightarrow> auth_step E y (fly [Renewing p i acc ref] [Dropping i] y)"
| keeps: "Renewed i fresh \<in> set (rn_flights y)
    \<Longrightarrow> auth_step E y (fly [Renewed i fresh] [] (on_memory (keep_newest i fresh) y))"
| revokes: "auth_step E y (fly [] [Dropping g] y)"
| drops: "Dropping g \<in> set (rn_flights y) \<Longrightarrow> auth_step E y (fly [Dropping g] [Ending g] (on_memory (forget g) y))"
| ends: "Ending g \<in> set (rn_flights y)
    \<Longrightarrow> auth_step E y (fly [Ending g] [] (set_database (snd (delete_grant g (database y))) y))"
| disconnects: "auth_step E y (fly [] [Disconnected g] (set_database (snd (delete_grant g (database y))) y))"
| disconnected: "Disconnected g \<in> set (rn_flights y) \<Longrightarrow> auth_step E y (fly [Disconnected g] [] (on_memory (forget g) y))"
| sync_reads: "sync_read now (rn_auth y) = (gs, A) \<Longrightarrow> auth_step E y (fly [] [Syncing now gs] (y\<lparr>rn_auth := A\<rparr>))"
| syncs: "Syncing now gs \<in> set (rn_flights y)
    \<Longrightarrow> auth_step E y (fly [Syncing now gs] [] (on_memory (sync_apply now at gs) y))"

text \<open>The server starts with an empty memory and database.\<close>

definition fresh_run :: run where
  "fresh_run = \<lparr>rn_auth = \<lparr>au_state = empty_auth, au_db = \<lparr>db_clients = [], db_grants = []\<rparr>, au_documents = []\<rparr>,
     rn_flights = [], rn_seen = [], rn_charter = Map.empty, rn_log = []\<rparr>"

inductive reachable :: "auth_env \<Rightarrow> run \<Rightarrow> bool" for E where
  start: "reachable E fresh_run"
| step: "reachable E y \<Longrightarrow> auth_step E y y' \<Longrightarrow> reachable E y'"

subsection \<open>Frames\<close>

text \<open>What asking, waiting and registering leave alone.\<close>

definition same_tokens :: "auth \<Rightarrow> auth \<Rightarrow> bool" where
  "same_tokens A B \<longleftrightarrow> st_codes (au_state A) = st_codes (au_state B) \<and> st_access (au_state A) = st_access (au_state B)
     \<and> db_grants (au_db A) = db_grants (au_db B)"

lemma same_tokens_refl [simp]: "same_tokens A A"
  by (simp add: same_tokens_def)

lemma allow_same: "allow h ip at (au_state A) = (b, st) \<Longrightarrow> same_tokens A (A\<lparr>au_state := st\<rparr>)"
  by (auto simp: allow_def same_tokens_def Let_def split: if_splits)

lemma client_of_same: "client_of E h i at A = (r, B) \<Longrightarrow> same_tokens A B"
  by (auto simp: client_of_def documents_client_def fetch_document_def keep_document_def same_tokens_def Let_def
      split: if_splits option.splits sum.splits prod.splits)

lemma same_tokens_trans: "same_tokens A B \<Longrightarrow> same_tokens B C \<Longrightarrow> same_tokens A C"
  by (simp add: same_tokens_def)

lemma ask_person_same: "ask_person E R rq dw c u A = (r, B) \<Longrightarrow> same_tokens A B"
  unfolding ask_person_def Let_def
  by (cases "authorize_check (ae_web E) R (form_of (ae_web E) (rq_query rq))"; cases "dw_request dw"; cases "dw_shown dw")
     (auto simp: same_tokens_def split: if_splits)

lemma authorize_same: "authorize E R rq dw A = (r, B) \<Longrightarrow> same_tokens A B"
proof -
  assume a: "authorize E R rq dw A = (r, B)"
  obtain ok st where al: "allow (rs_host R) (rq_ip rq) (dw_at dw) (au_state A) = (ok, st)" by fastforce
  obtain c C where cl: "client_of E (rs_host R) (field (form_of (ae_web E) (rq_query rq)) ''client_id'') (dw_at dw)
      (A\<lparr>au_state := st\<rparr>) = (c, C)" by fastforce
  have s: "same_tokens A C" "same_tokens A (A\<lparr>au_state := st\<rparr>)"
    using allow_same[OF al] client_of_same[OF cl] same_tokens_trans by blast+
  have "B = A\<lparr>au_state := st\<rparr> \<or> B = C \<or> (\<exists>c u. ask_person E R rq dw c u C = (r, B))"
    using a unfolding authorize_def Let_def al cl
    by (cases ok; cases c) (auto simp: cl split: option.splits if_splits oauth_error.splits)
  then show ?thesis using s ask_person_same same_tokens_trans by blast
qed

lemma save_client_grants: "save_client h c now d = Some d' \<Longrightarrow> db_grants d' = db_grants d"
  by (auto simp: save_client_def Let_def split: if_splits)

lemma register_same: "register E R rq dw A = (r, B) \<Longrightarrow> same_tokens A B"
proof -
  assume a: "register E R rq dw A = (r, B)"
  obtain ok st where al: "allow (rs_host R) (rq_ip rq) (dw_at dw) (au_state A) = (ok, st)" by fastforce
  have s: "same_tokens A (A\<lparr>au_state := st\<rparr>)" by (rule allow_same[OF al])
  have "B = A \<or> B = A\<lparr>au_state := st\<rparr>
      \<or> (\<exists>h c now d. save_client h c now (au_db A) = Some d \<and> B = A\<lparr>au_state := st, au_db := d\<rparr>)"
    using a unfolding register_def Let_def al
    by (cases "po_dynamic_registration (ae_policy E)"; cases ok; cases "parse_json (ae_web E) (rq_body rq)";
        cases "registration_of (ae_web E) (the (parse_json (ae_web E) (rq_body rq)))"; cases "dw_client dw"; cases "dw_secret dw")
       (auto split: option.splits)
  then show ?thesis using s save_client_grants by (auto simp: same_tokens_def)
qed

lemma decide_same:
  "st_access (decide W ct ok s at st) = st_access st"
  "st_codes (decide W ct ok None at st) = st_codes st"
  "st_codes (decide W ct True (Some s') at st) = bm_insert (secret_hash W s')
     \<lparr>cd_host = ct_host ct, cd_client_id = oc_id (ct_client ct), cd_client_name = oc_name (ct_client ct),
      cd_redirect_uri = ct_redirect_uri ct, cd_challenge = ct_challenge ct, cd_resource = ct_resource ct,
      cd_expires = at + CODE_TTL\<rparr> (st_codes st)"
  by (auto simp: decide_def Let_def split: option.splits bool.splits)

lemma wait_same:
  "st_access (snd (wait W R rq st)) = st_access st" "st_codes (snd (wait W R rq st)) = st_codes st"
  by (auto simp: wait_def Let_def split: option.splits answer.splits)

end
