(* ===== verification/Oauth_Laws.thy ===== *)
theory Oauth_Laws
  imports Oauth_Runs Transitions
begin

text \<open>
  A secret is exchanged at most once, however requests are interleaved: the hash of a code or refresh
  token is in one place, waiting, in the hands of one request, or exchanged.
\<close>

subsection \<open>Maps and multisets\<close>

lemma set_keys_insert: "set (map fst (bm_insert k v m)) \<subseteq> insert k (set (map fst m))"
  using set_bm_insert[of k v m] by auto

lemma mset_keys_insert: "mset (map fst (bm_insert k v m)) \<subseteq># add_mset k (mset (map fst m))"
  by (induction k v m rule: bm_insert.induct) (auto simp: add_mset_commute)

lemma mset_bm_filter: "mset (map f (bm_filter P m)) \<subseteq># mset (map f m)"
  unfolding bm_filter_def mset_map by (rule image_mset_subseteq_mono) simp

lemma mset_bm_remove_key: "map_of m k = Some v \<Longrightarrow> add_mset k (mset (map fst (bm_remove k m))) \<subseteq># mset (map fst m)"
proof (induction m)
  case (Cons p m)
  have "mset (map fst (bm_remove k m)) \<subseteq># mset (map fst m)" by (auto simp: bm_remove_def intro: image_mset_subseteq_mono)
  with Cons show ?case by (cases p) (auto simp: bm_remove_def split: if_splits)
qed simp

lemma mset_bm_removed: "mset (map f (bm_remove k m)) \<subseteq># mset (map f m)"
  unfolding bm_remove_def mset_map by (rule image_mset_subseteq_mono) simp

lemma mset_bm_update:
  assumes "sorted_map m" and "map_of m k = Some u"
  shows "add_mset (k, u) (mset (bm_insert k v m)) = add_mset (k, v) (mset m)"
proof -
  have "mset m = add_mset (k, u) (mset (bm_remove k m))" by (rule mset_bm_remove[OF assms])
  moreover have "bm_insert k v m = bm_insert k v (bm_remove k m)"
    by (rule bm_eqI) (use assms(1) in \<open>auto simp: fun_eq_iff\<close>)
  moreover have "mset (bm_insert k v (bm_remove k m)) = add_mset (k, v) (mset (bm_remove k m))"
    by (rule mset_bm_insert) simp
  ultimately show ?thesis by simp
qed

subsection \<open>Once\<close>

text \<open>Where the hashes of codes and refresh tokens are: waiting to be exchanged, in the hands of a request
  in flight, or exchanged.\<close>

fun held :: "flight \<Rightarrow> string list" where
  "held (Taken _ h _ _ _) = [h]"
| "held (Cleared _ h _ _) = [h]"
| "held (Issued h _ g) = [h, gr_refresh_hash g]"
| "held (Renewing _ _ _ r) = [fst r]"
| "held _ = []"

fun spent :: "event \<Rightarrow> string list" where
  "spent (Connected h _) = [h]"
| "spent (Rotated _ p) = [p]"
| "spent _ = []"

definition held_all :: "flight list \<Rightarrow> string multiset" where
  "held_all fs = mset (concat (map held fs))"

definition tracks :: "run \<Rightarrow> string multiset" where
  "tracks y = mset (map fst (st_codes (memory y))) + mset (map (gr_refresh_hash \<circ> snd) (db_grants (database y)))
     + held_all (rn_flights y) + mset (concat (map spent (rn_log y)))"

definition once :: "run \<Rightarrow> bool" where
  "once y \<longleftrightarrow> sorted_map (db_grants (database y)) \<and> (\<forall>h. count (tracks y) h \<le> 1) \<and> set_mset (tracks y) \<subseteq> set (rn_seen y)"

lemma held_all_simps [simp]:
  "held_all [] = {#}" "held_all (f # fs) = mset (held f) + held_all fs" "held_all (fs @ gs) = held_all fs + held_all gs"
  by (simp_all add: held_all_def)

lemma held_all_remove1: "f \<in> set fs \<Longrightarrow> held_all fs = mset (held f) + held_all (remove1 f fs)"
  by (induction fs) auto

lemma onceI:
  assumes "once y" and "sorted_map (db_grants (database y'))" and "tracks y' \<subseteq># tracks y + mset fresh"
    and "distinct fresh" and "set fresh \<inter> set (rn_seen y) = {}" and "set fresh \<union> set (rn_seen y) \<subseteq> set (rn_seen y')"
  shows "once y'"
proof -
  have y: "count (tracks y) h \<le> 1" "set_mset (tracks y) \<subseteq> set (rn_seen y)" for h
    using assms(1) by (simp_all add: once_def)
  have c: "count (tracks y') h \<le> count (tracks y) h + count (mset fresh) h" for h
    using mset_subset_eq_count[OF assms(3), of h] by simp
  have "count (tracks y) h + count (mset fresh) h \<le> 1" for h
  proof (cases "h \<in> set fresh")
    case True
    then have "h \<notin># tracks y" using y(2) assms(5) by blast
    moreover have "count (mset fresh) h \<le> 1" using assms(4) by (simp add: distinct_count_atmost_1)
    ultimately show ?thesis by (simp add: not_in_iff)
  next
    case False
    then have "count (mset fresh) h = 0" by (simp add: count_mset_0_iff)
    then show ?thesis using y(1)[of h] by linarith
  qed
  then have "count (tracks y') h \<le> 1" for h using c[of h] le_trans by blast
  moreover have "set_mset (tracks y') \<subseteq> set_mset (tracks y) \<union> set fresh"
    using set_mset_mono[OF assms(3)] by simp
  ultimately show ?thesis using y(2) assms(2,6) unfolding once_def by blast
qed

lemmas once_same = onceI[where fresh = "[]", simplified]

lemma tracks_parts:
  "st_codes (memory y') = st_codes (memory y) \<Longrightarrow> db_grants (database y') = db_grants (database y)
    \<Longrightarrow> rn_log y' = rn_log y \<Longrightarrow> held_all (rn_flights y') \<subseteq># held_all (rn_flights y) \<Longrightarrow> tracks y' \<subseteq># tracks y"
  unfolding tracks_def by simp

subsection \<open>Every step\<close>

lemmas parts = memory_def database_def on_memory_def set_database_def fly_def draw_def logged_def

lemma once_quiet:
  assumes "once y" and "same_tokens (rn_auth y) A" and "held_all fs' \<subseteq># held_all (rn_flights y)"
  shows "once (y\<lparr>rn_auth := A, rn_flights := fs'\<rparr>)"
  by (rule once_same[OF assms(1)]) (use assms in \<open>auto simp: same_tokens_def parts once_def intro!: tracks_parts\<close>)

lemma held_land: "f \<in> set fs \<Longrightarrow> held f' = held f \<Longrightarrow> held_all (f' # remove1 f fs) = held_all fs"
  by (simp add: held_all_remove1[of f fs])

lemma held_less: "held_all (remove1 f fs) \<subseteq># held_all fs"
  by (cases "f \<in> set fs") (simp_all add: held_all_remove1[of f fs] remove1_idem)

lemma insert_grant_Some:
  "insert_grant i g d = Some d' \<Longrightarrow> map_of (db_grants d) i = None
     \<and> (\<exists>g'. db_grants d' = bm_insert i g' (db_grants d) \<and> gr_refresh_hash g' = gr_refresh_hash g
         \<and> gr_host g' = gr_host g \<and> gr_resource g' = gr_resource g \<and> gr_expires_at g' \<le> gr_expires_at g)"
  by (auto simp: insert_grant_def as_i64_def split: if_splits)

lemma rotate_grant_True:
  "rotate_grant i p a r now d = (True, d') \<Longrightarrow> \<exists>g g'. map_of (db_grants d) i = Some g \<and> gr_refresh_hash g = p
     \<and> db_grants d' = bm_insert i g' (db_grants d) \<and> gr_refresh_hash g' = fst r
     \<and> gr_host g' = gr_host g \<and> gr_resource g' = gr_resource g \<and> gr_expires_at g' = gr_expires_at g"
  by (auto simp: rotate_grant_def split: option.splits if_splits)

lemma held_all_fold: "held_all (fold remove1 fs gs) \<subseteq># held_all gs"
  by (induction fs arbitrary: gs) (auto intro: subset_mset.order_trans held_less)

text \<open>A request that goes on holds no more than it did; the rest of the state tracks no more.\<close>

lemma once_on:
  assumes "once y" and "sorted_map (db_grants (database y'))" and "rn_seen y' = rn_seen y"
    and "mset (map fst (st_codes (memory y'))) + mset (map (gr_refresh_hash \<circ> snd) (db_grants (database y')))
       + held_all (rn_flights y') + mset (concat (map spent (rn_log y')))
      \<subseteq># mset (map fst (st_codes (memory y))) + mset (map (gr_refresh_hash \<circ> snd) (db_grants (database y)))
       + held_all (rn_flights y) + mset (concat (map spent (rn_log y)))"
  shows "once y'"
  by (rule once_same[OF assms(1,2)]) (use assms(3,4) in \<open>simp_all add: tracks_def\<close>)

lemma once_sorted: "once y \<Longrightarrow> sorted_map (db_grants (database y))"
  by (simp add: once_def)

lemma sync_read_grants: "sync_read now A = (gs, B) \<Longrightarrow> au_state B = au_state A
    \<and> db_grants (au_db B) = bm_filter (\<lambda>_ g. \<not> (gr_refresh_expires_at g \<le> as_i64 now \<or> gr_expires_at g \<le> as_i64 now)) (db_grants (au_db A))"
  by (auto simp: sync_read_def sweep_def Let_def)

lemma issue_codes: "issue W g h res ends now acc st = (r, st') \<Longrightarrow> st_codes st' = st_codes st"
  by (auto simp: issue_def Let_def)

lemma rotate_grant_tracks:
  assumes "rotate_grant i p a r now d = (True, d')" and "sorted_map (db_grants d)"
  shows "sorted_map (db_grants d')"
    and "add_mset p (mset (map (gr_refresh_hash \<circ> snd) (db_grants d')))
      = add_mset (fst r) (mset (map (gr_refresh_hash \<circ> snd) (db_grants d)))"
proof -
  obtain g g' where g: "map_of (db_grants d) i = Some g" "gr_refresh_hash g = p"
      "db_grants d' = bm_insert i g' (db_grants d)" "gr_refresh_hash g' = fst r"
    using rotate_grant_True[OF assms(1)] by blast
  from g(3) assms(2) show "sorted_map (db_grants d')" by simp
  have "image_mset (gr_refresh_hash \<circ> snd) (add_mset (i, g) (mset (db_grants d')))
      = image_mset (gr_refresh_hash \<circ> snd) (add_mset (i, g') (mset (db_grants d)))"
    unfolding g(3) by (simp only: mset_bm_update[OF assms(2) g(1)])
  with g(2,4) show "add_mset p (mset (map (gr_refresh_hash \<circ> snd) (db_grants d')))
      = add_mset (fst r) (mset (map (gr_refresh_hash \<circ> snd) (db_grants d)))" by simp
qed

lemma once_step: "auth_step E y y' \<Longrightarrow> once y \<Longrightarrow> once y'"
proof (induction rule: auth_step.induct)
  case (authorizes R rq dw y rep asked A)
  have "held_all ((case asked of Some ct \<Rightarrow> [Asked ct] | None \<Rightarrow> []) @ rn_flights y) = held_all (rn_flights y)"
    by (cases asked) simp_all
  with authorizes once_quiet[OF authorizes(2) authorize_same[OF authorizes(1)]] show ?case by (simp add: fly_def)
next
  case (approved ct y h s at)
  let ?y = "logged (Approval h ct) (draw [h] (fly [Asked ct] [] (on_memory (decide (ae_web E) ct True (Some s) at) y)))"
  have "tracks ?y \<subseteq># tracks y + mset [h]"
  proof -
    have "mset (map fst (st_codes (memory ?y))) \<subseteq># add_mset h (mset (map fst (st_codes (memory y))))"
      using mset_keys_insert by (simp add: parts decide_same approved(2))
    then have "tracks ?y \<subseteq># add_mset h (mset (map fst (st_codes (memory y)))) + mset (map (gr_refresh_hash \<circ> snd) (db_grants (database y)))
        + held_all (rn_flights y) + mset (concat (map spent (rn_log y)))"
      unfolding tracks_def
      by (intro subset_mset.add_mono) (use held_less in \<open>auto simp: parts\<close>)
    then show ?thesis by (simp add: tracks_def)
  qed
  from onceI[OF approved(4) _ this] show ?case using approved(3,4) by (auto simp: parts once_def)
next
  case (refused ct y ok at)
  show ?case by (rule once_on[OF refused(2)]; (intro subset_mset.add_mono)?)
      (use once_sorted[OF refused(2)] held_less in \<open>auto simp: parts decide_same\<close>)
next
  case (waits y R rq)
  show ?case by (rule once_on[OF waits]; (intro subset_mset.add_mono)?)
      (use once_sorted[OF waits] in \<open>auto simp: parts wait_same\<close>)
next
  case (registers R rq dw y rep A)
  with once_quiet[OF registers(2) register_same[OF registers(1)], of "rn_flights y"] show ?case by simp
next
  case (takes y h c R form authorization)
  show ?case by (rule once_on[OF takes(2)])
      (use once_sorted[OF takes(2)] mset_bm_remove_key[OF takes(1)] in \<open>auto simp: parts take_code_def\<close>)
next
  case (replays y h t g)
  show ?case by (rule once_on[OF replays(2)])
      (use once_sorted[OF replays(2)] in \<open>auto simp: parts\<close>)
next
  case (clears R h form authorization c y at res cl A)
  then show ?case
    using once_quiet[OF clears(5) client_of_same[OF clears(3)],
        of "Cleared R h c res # remove1 (Taken R h form authorization c) (rn_flights y)"]
    by (simp add: fly_def held_all_remove1[OF clears(1)])
next
  case (rejects R h form authorization c y at r A A')
  then have "same_tokens (rn_auth y) A'" using client_of_same same_tokens_refl by blast
  from once_quiet[OF rejects(4) this, of "remove1 (Taken R h form authorization c) (rn_flights y)"]
  show ?case by (simp add: fly_def held_less)
next
  case (issues R h c res y g acc ref ends now acc_ends ref_ends st)
  let ?r = "secret_hash (ae_web E) ref"
  show ?case
    by (rule onceI[OF issues(7), where fresh = "[secret_hash (ae_web E) acc, ?r]"])
      (use issues(3,4) once_sorted[OF issues(7)] issue_codes[OF issues(6)] held_all_remove1[OF issues(1)] in
        \<open>auto simp: parts tracks_def new_grant_def\<close>)
next
  case (inserts h g gr y d)
  from insert_grant_Some[OF inserts(2)] obtain g' where g': "map_of (db_grants (database y)) g = None"
      "db_grants d = bm_insert g g' (db_grants (database y))" "gr_refresh_hash g' = gr_refresh_hash gr" by blast
  show ?case by (rule once_on[OF inserts(3)])
      (use once_sorted[OF inserts(3)] g' held_all_remove1[OF inserts(1)] in \<open>simp_all add: parts mset_bm_insert\<close>)
next
  case (fails_to_insert h g gr y)
  show ?case by (rule once_on[OF fails_to_insert(2)]; (intro subset_mset.add_mono)?)
      (use once_sorted[OF fails_to_insert(2)] held_less in \<open>auto simp: parts forget_def\<close>)
next
  case (uses h g y at)
  show ?case by (rule once_on[OF uses(2)]; (intro subset_mset.add_mono)?)
      (use once_sorted[OF uses(2)] held_less in \<open>auto simp: parts\<close>)
next
  case (finds R p y i g form authorization)
  show ?case by (rule once_on[OF finds(2)]) (use once_sorted[OF finds(2)] in \<open>auto simp: parts\<close>)
next
  case (finds_reused h p y i)
  show ?case by (rule once_on[OF finds_reused(2)]) (use once_sorted[OF finds_reused(2)] in \<open>auto simp: parts\<close>)
next
  case (expires R form authorization p i g y now)
  show ?case by (rule once_on[OF expires(3)]; (intro subset_mset.add_mono)?)
      (use once_sorted[OF expires(3)] held_less in \<open>auto simp: parts\<close>)
next
  case (accepts R form authorization p i g y now at cl A)
  from once_quiet[OF accepts(6) client_of_same[OF accepts(4)],
      of "Granted R p i g # remove1 (Found R form authorization p i g) (rn_flights y)"]
  show ?case by (simp add: fly_def held_less)
next
  case (declines R form authorization p i g y at r A A')
  then have "same_tokens (rn_auth y) A'" using client_of_same same_tokens_refl by blast
  from once_quiet[OF declines(4) this, of "remove1 (Found R form authorization p i g) (rn_flights y)"]
  show ?case by (simp add: fly_def held_less)
next
  case (renews R p i g y acc ref now acc_ends ref_ends st)
  let ?r = "secret_hash (ae_web E) ref"
  show ?case
    by (rule onceI[OF renews(5), where fresh = "[secret_hash (ae_web E) acc, ?r]"])
      (use renews(2,3) once_sorted[OF renews(5)] issue_codes[OF renews(4)] held_all_remove1[OF renews(1)] in
        \<open>auto simp: parts tracks_def\<close>)
next
  case (rotates p i acc ref y now d)
  note r = rotate_grant_tracks[OF rotates(2) once_sorted[OF rotates(3)]]
  show ?case by (rule once_on[OF rotates(3)])
      (use r held_all_remove1[OF rotates(1)] in \<open>simp_all add: parts\<close>)
next
  case (loses p i acc ref y now d)
  show ?case by (rule once_on[OF loses(3)]; (intro subset_mset.add_mono)?)
      (use once_sorted[OF loses(3)] held_less in \<open>auto simp: parts\<close>)
next
  case (keeps i fresh y)
  show ?case by (rule once_on[OF keeps(2)]; (intro subset_mset.add_mono)?)
      (use once_sorted[OF keeps(2)] held_less in \<open>auto simp: parts keep_newest_def\<close>)
next
  case (revokes y g)
  show ?case by (rule once_on[OF revokes]) (use once_sorted[OF revokes] in \<open>auto simp: parts\<close>)
next
  case (drops g y)
  show ?case by (rule once_on[OF drops(2)]; (intro subset_mset.add_mono)?)
      (use once_sorted[OF drops(2)] held_less in \<open>auto simp: parts forget_def\<close>)
next
  case (ends g y)
  show ?case by (rule once_on[OF ends(2)]; (intro subset_mset.add_mono)?)
      (use once_sorted[OF ends(2)] held_less mset_bm_removed in \<open>auto simp: parts delete_grant_def\<close>)
next
  case (disconnects y g)
  show ?case by (rule once_on[OF disconnects]; (intro subset_mset.add_mono)?)
      (use once_sorted[OF disconnects] mset_bm_removed in \<open>auto simp: parts delete_grant_def\<close>)
next
  case (disconnected g y)
  show ?case by (rule once_on[OF disconnected(2)]; (intro subset_mset.add_mono)?)
      (use once_sorted[OF disconnected(2)] held_less in \<open>auto simp: parts forget_def\<close>)
next
  case (sync_reads now y gs A)
  note A = sync_read_grants[OF sync_reads(1)]
  show ?case by (rule once_on[OF sync_reads(2)]; (intro subset_mset.add_mono)?)
      (use once_sorted[OF sync_reads(2)] A mset_bm_filter in \<open>auto simp: parts\<close>)
next
  case (syncs now gs y at)
  show ?case by (rule once_on[OF syncs(2)]; (intro subset_mset.add_mono)?)
      (use once_sorted[OF syncs(2)] held_less mset_bm_filter in \<open>auto simp: parts sync_apply_def\<close>)
qed

text \<open>What can be reached is reached by steps from the fresh server, so an invariant of the steps holds there.\<close>

lemma reachable_steps: "reachable E y \<Longrightarrow> (auth_step E)\<^sup>*\<^sup>* fresh_run y"
  by (induction rule: reachable.induct) (auto intro: rtranclp.rtrancl_into_rtrancl)

interpretation exchanges: invariant "auth_step E" "\<lambda>y. y = fresh_run" once for E
proof unfold_locales
  show "once y" if "y = fresh_run" for y using that by (simp add: once_def tracks_def fresh_run_def parts empty_auth_def)
qed (rule once_step)

lemma reachable_once: "reachable E y \<Longrightarrow> once y"
  using exchanges.reached reachable_steps by blast

end
