(* ===== verification/Oauth_Backing.thy ===== *)
theory Oauth_Backing
  imports Oauth_Laws
begin

text \<open>
  What stands behind an access token: a connection a person approved, for the hostname and the
  audience they approved, until its end. And what follows when a connection has ended.
\<close>

subsection \<open>What stands behind what\<close>

definition approved_for :: "run \<Rightarrow> string \<Rightarrow> string \<Rightarrow> string option \<Rightarrow> bool" where
  "approved_for y h host res \<longleftrightarrow> (\<exists>ct. Approval h ct \<in> set (rn_log y) \<and> ct_host ct = host
     \<and> (\<forall>r. ct_resource ct = Some r \<longrightarrow> res = Some r))"

definition chartered :: "run \<Rightarrow> string \<times> grant \<Rightarrow> bool" where
  "chartered y = (\<lambda>(i, g). \<exists>h e. rn_charter y i = Some (h, gr_host g, gr_resource g, e) \<and> gr_expires_at g \<le> e)"

definition code_ok :: "run \<Rightarrow> string \<times> auth_code \<Rightarrow> bool" where
  "code_ok y = (\<lambda>(h, c). approved_for y h (cd_host c) (cd_resource c))"

definition access_ok :: "run \<Rightarrow> access \<Rightarrow> bool" where
  "access_ok y a \<longleftrightarrow> (\<exists>h e. rn_charter y (ac_grant a) = Some (h, ac_host a, ac_resource a, e) \<and> ac_expires_at a \<le> e)"

fun flight_ok :: "run \<Rightarrow> flight \<Rightarrow> bool" where
  "flight_ok y (Taken _ h _ _ c) = code_ok y (h, c)"
| "flight_ok y (Cleared R h _ res) = approved_for y h (rs_host R) res"
| "flight_ok y (Issued _ i g) = chartered y (i, g)"
| "flight_ok y (Found R _ _ _ i g) = (chartered y (i, g) \<and> gr_host g = rs_host R)"
| "flight_ok y (Granted R _ i g) = (chartered y (i, g) \<and> gr_host g = rs_host R)"
| "flight_ok y (Syncing _ gs) = list_all (chartered y) gs"
| "flight_ok y _ = True"

definition backed :: "run \<Rightarrow> bool" where
  "backed y \<longleftrightarrow> (\<forall>p\<in>set (st_codes (memory y)). code_ok y p) \<and> (\<forall>a\<in>snd ` set (st_access (memory y)). access_ok y a)
     \<and> (\<forall>p\<in>set (db_grants (database y)). chartered y p) \<and> (\<forall>f\<in>set (rn_flights y). flight_ok y f)
     \<and> (\<forall>i h host res e. rn_charter y i = Some (h, host, res, e) \<longrightarrow> approved_for y h host res)"

text \<open>Approvals and the charter only grow, so what stood behind something still does.\<close>

definition later :: "run \<Rightarrow> run \<Rightarrow> bool" where
  "later y y' \<longleftrightarrow> set (rn_log y) \<subseteq> set (rn_log y') \<and> rn_charter y \<subseteq>\<^sub>m rn_charter y'"

lemma later_approved: "later y y' \<Longrightarrow> approved_for y h host res \<Longrightarrow> approved_for y' h host res"
  unfolding later_def approved_for_def by blast

lemma later_charter: "later y y' \<Longrightarrow> rn_charter y i = Some x \<Longrightarrow> rn_charter y' i = Some x"
  unfolding later_def map_le_def by (metis domI)

lemma later_chartered: "later y y' \<Longrightarrow> chartered y p \<Longrightarrow> chartered y' p"
  by (auto simp: chartered_def dest: later_charter)

lemma later_ok:
  assumes "later y y'"
  shows "code_ok y c \<Longrightarrow> code_ok y' c" and "access_ok y a \<Longrightarrow> access_ok y' a" and "flight_ok y f \<Longrightarrow> flight_ok y' f"
proof -
  show "code_ok y c \<Longrightarrow> code_ok y' c" for c unfolding code_ok_def by (cases c) (auto intro: later_approved[OF assms])
  then show "flight_ok y f \<Longrightarrow> flight_ok y' f"
    by (cases f) (auto intro: later_approved[OF assms] later_chartered[OF assms] simp: list.pred_set)
  show "access_ok y a \<Longrightarrow> access_ok y' a" by (auto simp: access_ok_def dest: later_charter[OF assms])
qed

lemma ball_new: "(\<And>x. x \<in> A' \<Longrightarrow> x \<in> A \<or> Q x) \<Longrightarrow> \<forall>x\<in>A. P x \<Longrightarrow> (\<And>x. P x \<Longrightarrow> Q x) \<Longrightarrow> \<forall>x\<in>A'. Q x"
  by blast

text \<open>Only what is new must be shown.\<close>

lemma backedI:
  assumes "backed y" and "later y y'"
    and "\<And>c. c \<in> set (st_codes (memory y')) \<Longrightarrow> c \<in> set (st_codes (memory y)) \<or> code_ok y' c"
    and "\<And>a. a \<in> snd ` set (st_access (memory y')) \<Longrightarrow> a \<in> snd ` set (st_access (memory y)) \<or> access_ok y' a"
    and "\<And>p. p \<in> set (db_grants (database y')) \<Longrightarrow> p \<in> set (db_grants (database y)) \<or> chartered y' p"
    and "\<And>f. f \<in> set (rn_flights y') \<Longrightarrow> f \<in> set (rn_flights y) \<or> flight_ok y' f"
    and "\<And>i h host res e. rn_charter y' i = Some (h, host, res, e) \<Longrightarrow> rn_charter y i = Some (h, host, res, e) \<or> approved_for y' h host res"
  shows "backed y'"
proof -
  note y = assms(1)[unfolded backed_def] and ok = later_ok[OF assms(2)] later_chartered[OF assms(2)] later_approved[OF assms(2)]
  have "\<forall>c\<in>set (st_codes (memory y')). code_ok y' c"
    by (rule ball_new[OF assms(3) _ ok(1)]) (use y in simp_all)
  moreover have "\<forall>a\<in>snd ` set (st_access (memory y')). access_ok y' a"
    by (rule ball_new[OF assms(4) _ ok(2)]) (use y in simp_all)
  moreover have "\<forall>p\<in>set (db_grants (database y')). chartered y' p"
    by (rule ball_new[OF assms(5) _ ok(4)]) (use y in simp_all)
  moreover have "\<forall>f\<in>set (rn_flights y'). flight_ok y' f"
    by (rule ball_new[OF assms(6) _ ok(3)]) (use y in simp_all)
  moreover have "\<forall>i h host res e. rn_charter y' i = Some (h, host, res, e) \<longrightarrow> approved_for y' h host res"
  proof (intro allI impI)
    fix i h host res e
    assume "rn_charter y' i = Some (h, host, res, e)"
    from assms(7)[OF this] show "approved_for y' h host res"
    proof
      assume "rn_charter y i = Some (h, host, res, e)"
      with y have "approved_for y h host res" by blast
      then show ?thesis by (rule ok(5))
    qed
  qed
  ultimately show ?thesis unfolding backed_def by (intro conjI)
qed

lemma later_refl [simp]: "rn_log y' = rn_log y \<Longrightarrow> rn_charter y' = rn_charter y \<Longrightarrow> later y y'"
  by (simp add: later_def)

text \<open>A step that adds neither approval, code, token nor connection.\<close>

lemma backed_on:
  assumes "backed y" and "rn_log y' = rn_log y" and "rn_charter y' = rn_charter y"
    and "set (st_codes (memory y')) \<subseteq> set (st_codes (memory y))"
    and "snd ` set (st_access (memory y')) \<subseteq> snd ` set (st_access (memory y))"
    and "set (db_grants (database y')) \<subseteq> set (db_grants (database y))"
    and "\<And>f. f \<in> set (rn_flights y') \<Longrightarrow> f \<in> set (rn_flights y) \<or> flight_ok y f"
  shows "backed y'"
proof (rule backedI[OF assms(1)])
  show l: "later y y'" using assms(2,3) by simp
  show "f \<in> set (rn_flights y') \<Longrightarrow> f \<in> set (rn_flights y) \<or> flight_ok y' f" for f
    using assms(7) later_ok(3)[OF l] by blast
qed (use assms in \<open>auto\<close>)

lemma backed_flight: "backed y \<Longrightarrow> f \<in> set (rn_flights y) \<Longrightarrow> flight_ok y f"
  by (simp add: backed_def)

lemma set_remove1_in: "x \<in> set (remove1 f fs) \<Longrightarrow> x \<in> set fs"
  using set_remove1_subset by fast

lemmas in_maps = set_bm_insert[THEN subsetD] set_remove1_in

lemma issue_access: "issue W g h res ends now s st = ((a, r), st') \<Longrightarrow> a \<le> ends \<and> r \<le> ends \<and> st_codes st' = st_codes st
    \<and> st_access st' = bm_insert (secret_hash W s) \<lparr>ac_host = h, ac_grant = g, ac_resource = res, ac_expires_at = a\<rparr> (st_access st)"
  by (auto simp: issue_def Let_def)

lemma live_access_Some: "live_access now (i, g) = Some (hash, a) \<Longrightarrow> ac_host a = gr_host g \<and> ac_grant a = i
    \<and> ac_resource a = gr_resource g \<and> ac_expires_at a \<le> gr_expires_at g \<and> now < ac_expires_at a \<and> gr_access_hash g = Some hash"
  by (auto simp: live_access_def Let_def split: bind_splits if_splits)

lemma set_fold_insert: "set (fold (\<lambda>(k, v). bm_insert k v) ps m) \<subseteq> set ps \<union> set m"
proof (induction ps arbitrary: m)
  case (Cons p ps)
  obtain k v where p: "p = (k, v)" by fastforce
  have "set (fold (\<lambda>(k, v). bm_insert k v) ps (bm_insert k v m)) \<subseteq> set ps \<union> set (bm_insert k v m)" by (rule Cons)
  moreover have "set (bm_insert k v m) \<subseteq> insert (k, v) (set m)" by (rule set_bm_insert)
  ultimately show ?case by (simp add: p) blast
qed simp

lemma sync_apply_codes: "set (st_codes (sync_apply now at gs st)) \<subseteq> set (st_codes st)"
  by (auto simp: sync_apply_def set_bm_filter)

lemma sync_apply_access: "a \<in> snd ` set (st_access (sync_apply now at gs st)) \<Longrightarrow> \<exists>i g hash. (i, g) \<in> set gs \<and> live_access now (i, g) = Some (hash, a)"
  using set_fold_insert[of "List.map_filter (live_access now) gs" "[]"]
  by (fastforce simp: sync_apply_def List.map_filter_def split: prod.splits)

subsection \<open>Every step\<close>

lemma exchange_check_Inr: "exchange_check W R form c at = Inr res \<Longrightarrow> cd_host c = rs_host R \<and> at < cd_expires c
    \<and> cd_client_id c = field form ''client_id'' \<and> form ''redirect_uri'' = Some (cd_redirect_uri c)
    \<and> pkce_ok W (field form ''code_verifier'') (cd_challenge c) \<and> (\<forall>r. cd_resource c = Some r \<longrightarrow> res = Some r)"
  by (cases "requested_audience W R form")
     (auto simp: exchange_check_def fail_if_def split: if_splits option.splits)

lemma find_refresh_Current: "find_refresh h p d = Current i g \<Longrightarrow> (i, g) \<in> set (db_grants d) \<and> gr_host g = h \<and> gr_refresh_hash g = p"
  by (auto simp: find_refresh_def split: option.splits prod.splits dest!: find_SomeD)

lemma backed_same:
  assumes "backed y" and "same_tokens (rn_auth y) A" and "\<And>f. f \<in> set fs' \<Longrightarrow> f \<in> set (rn_flights y) \<or> flight_ok y f"
  shows "backed (y\<lparr>rn_auth := A, rn_flights := fs'\<rparr>)"
  by (rule backed_on[OF assms(1)]) (use assms(2,3) in \<open>auto simp: same_tokens_def parts\<close>)

lemma backed_fly:
  assumes "backed y" and "same_tokens (rn_auth y) A" and "list_all (flight_ok y) to"
  shows "backed (fly [f] to (y\<lparr>rn_auth := A\<rparr>))"
  using backed_same[OF assms(1,2), of "to @ remove1 f (rn_flights y)"] assms(3)
  unfolding fly_def list.pred_set list_ex_iff by (fastforce dest: set_remove1_in)

lemma sync_read_set:
  assumes "sync_read now A = (gs, B)"
  shows "set gs \<subseteq> set (db_grants (au_db A))" and "set (db_grants (au_db B)) \<subseteq> set (db_grants (au_db A))"
proof -
  have "gs = grants_of None (au_db B)" using assms by (auto simp: sync_read_def Let_def)
  then have "set gs = set (db_grants (au_db B))" by (simp add: grants_of_def)
  moreover show "set (db_grants (au_db B)) \<subseteq> set (db_grants (au_db A))"
    using sync_read_grants[OF assms] by (simp add: set_bm_filter Collect_case_prod_Sigma subset_iff)
  ultimately show "set gs \<subseteq> set (db_grants (au_db A))" by simp
qed

lemma backed_step: "auth_step E y y' \<Longrightarrow> backed y \<Longrightarrow> backed y'"
proof (induction rule: auth_step.induct)
  case (authorizes R rq dw y rep asked A)
  have "f \<in> set (rn_flights y) \<or> flight_ok y f"
    if "f \<in> set ((case asked of Some ct \<Rightarrow> [Asked ct] | None \<Rightarrow> []) @ rn_flights y)" for f
    using that by (cases asked) auto
  then have "backed (y\<lparr>rn_auth := A, rn_flights := (case asked of Some ct \<Rightarrow> [Asked ct] | None \<Rightarrow> []) @ rn_flights y\<rparr>)"
    by (rule backed_same[OF authorizes(2) authorize_same[OF authorizes(1)]])
  then show ?case by (simp add: fly_def)
next
  case (approved ct y h s at)
  let ?y = "logged (Approval h ct) (draw [h] (fly [Asked ct] [] (on_memory (decide (ae_web E) ct True (Some s) at) y)))"
  have "Approval h ct \<in> set (rn_log ?y)" by (simp add: parts)
  then have "approved_for ?y h (ct_host ct) (ct_resource ct)" unfolding approved_for_def by blast
  then show ?case
    by (intro backedI[OF approved(4)]) (auto simp: parts later_def decide_same code_ok_def approved(2)[symmetric] dest!: in_maps)
next
  case (refused ct y ok at)
  show ?case by (rule backed_on[OF refused(2)]) (auto simp: parts decide_same dest: in_maps)
next
  case (waits y R rq)
  show ?case by (rule backed_on[OF waits]) (auto simp: parts wait_same)
next
  case (registers R rq dw y rep A)
  with backed_same[OF registers(2) register_same[OF registers(1)], of "rn_flights y"] show ?case by simp
next
  case (takes y h c R form authorization)
  have "code_ok y (h, c)" using takes map_of_SomeD[OF takes(1)] by (force simp: backed_def)
  then show ?case by (intro backed_on[OF takes(2)]) (auto simp: parts take_code_def dest: set_bm_remove[THEN subsetD])
next
  case (replays y h t g)
  show ?case by (rule backed_on[OF replays(2)]) (auto simp: parts)
next
  case (clears R h form authorization c y at res cl A)
  have "flight_ok y (Cleared R h c res)"
    using backed_flight[OF clears(5) clears(1)] exchange_check_Inr[OF clears(2)] by (auto simp: code_ok_def approved_for_def)
  then show ?case by (intro backed_fly[OF clears(5) client_of_same[OF clears(3)]]) simp
next
  case (rejects R h form authorization c y at r A A')
  then have "same_tokens (rn_auth y) A'" using client_of_same same_tokens_refl by blast
  then show ?case by (rule backed_fly[OF rejects(4)]) simp
next
  case (issues R h c res y g acc ref ends now acc_ends ref_ends st)
  note i = issue_access[OF issues(6)] and c = backed_flight[OF issues(7) issues(1)]
  show ?case
    by (rule backedI[OF issues(7)])
      (use issues(2) i c in \<open>auto simp: parts later_def map_le_def chartered_def access_ok_def new_grant_def approved_for_def
        dest!: in_maps split: if_splits\<close>)
next
  case (inserts h g gr y d)
  from insert_grant_Some[OF inserts(2)] obtain g' where g': "db_grants d = bm_insert g g' (db_grants (database y))"
      "gr_host g' = gr_host gr" "gr_resource g' = gr_resource gr" "gr_expires_at g' \<le> gr_expires_at gr" by blast
  show ?case by (rule backedI[OF inserts(3)])
      (use g' backed_flight[OF inserts(3,1)] in \<open>auto simp: parts later_def chartered_def dest!: in_maps intro: le_trans\<close>)
next
  case (fails_to_insert h g gr y)
  show ?case by (rule backed_on[OF fails_to_insert(2)]) (auto simp: parts forget_def set_bm_filter dest: in_maps intro: rev_image_eqI)
next
  case (uses h g y at)
  show ?case by (rule backed_on[OF uses(2)]) (auto simp: parts dest: in_maps)
next
  case (finds R p y i g form authorization)
  have "flight_ok y (Found R form authorization p i g)" using find_refresh_Current[OF finds(1)] finds(2) by (simp add: backed_def)
  then show ?case by (intro backed_on[OF finds(2)]) (auto simp: parts)
next
  case (finds_reused h p y i)
  show ?case by (rule backed_on[OF finds_reused(2)]) (auto simp: parts)
next
  case (expires R form authorization p i g y now)
  show ?case by (rule backed_on[OF expires(3)]) (auto simp: parts dest: in_maps)
next
  case (accepts R form authorization p i g y now at cl A)
  show ?case by (rule backed_fly[OF accepts(6) client_of_same[OF accepts(4)]]) (use backed_flight[OF accepts(6,1)] in simp)
next
  case (declines R form authorization p i g y at r A A')
  then have "same_tokens (rn_auth y) A'" using client_of_same same_tokens_refl by blast
  then show ?case by (rule backed_fly[OF declines(4)]) simp
next
  case (renews R p i g y acc ref now acc_ends ref_ends st)
  note a = issue_access[OF renews(4)] and c = backed_flight[OF renews(5) renews(1)]
  show ?case
    by (rule backedI[OF renews(5)])
      (use a c in \<open>auto simp: parts later_def chartered_def access_ok_def dest!: in_maps intro: le_trans\<close>)
next
  case (rotates p i acc ref y now d)
  from rotate_grant_True[OF rotates(2)] obtain g g' where g: "map_of (db_grants (database y)) i = Some g"
      "db_grants d = bm_insert i g' (db_grants (database y))" "gr_host g' = gr_host g" "gr_resource g' = gr_resource g"
      "gr_expires_at g' = gr_expires_at g" by blast
  have "chartered y (i, g)" using rotates(3) map_of_SomeD[OF g(1)] by (simp add: backed_def)
  then show ?case by (intro backedI[OF rotates(3)])
      (use g in \<open>auto simp: parts later_def chartered_def dest!: in_maps\<close>)
next
  case (loses p i acc ref y now d)
  show ?case by (rule backed_on[OF loses(3)]) (auto simp: parts dest: in_maps)
next
  case (keeps i fresh y)
  show ?case by (rule backed_on[OF keeps(2)]) (auto simp: parts keep_newest_def set_bm_filter dest: in_maps intro: rev_image_eqI)
next
  case (revokes y g)
  show ?case by (rule backed_on[OF revokes]) (auto simp: parts)
next
  case (drops g y)
  show ?case by (rule backed_on[OF drops(2)]) (auto simp: parts forget_def set_bm_filter dest: in_maps intro: rev_image_eqI)
next
  case (ends g y)
  show ?case by (rule backed_on[OF ends(2)]) (auto simp: parts delete_grant_def dest: in_maps set_bm_remove[THEN subsetD])
next
  case (disconnects y g)
  show ?case by (rule backed_on[OF disconnects]) (auto simp: parts delete_grant_def dest: in_maps set_bm_remove[THEN subsetD])
next
  case (disconnected g y)
  show ?case by (rule backed_on[OF disconnected(2)]) (auto simp: parts forget_def set_bm_filter dest: in_maps intro: rev_image_eqI)
next
  case (sync_reads now y gs A)
  have "set gs \<subseteq> set (db_grants (database y))" using sync_read_set[OF sync_reads(1)] by (simp add: database_def)
  then have "list_all (chartered y) gs" using sync_reads(2) by (auto simp: backed_def list_all_iff)
  then show ?case by (intro backed_on[OF sync_reads(2)])
      (use sync_read_grants[OF sync_reads(1)] sync_read_set[OF sync_reads(1)] in \<open>auto simp: parts\<close>)
next
  case (syncs now gs y at)
  have "access_ok y a" if "(i, g) \<in> set gs" "live_access now (i, g) = Some (hash, a)" for i g hash a
  proof -
    have "chartered y (i, g)" using backed_flight[OF syncs(2,1)] that(1) by (auto simp: list_all_iff)
    with live_access_Some[OF that(2)] show ?thesis by (auto simp: chartered_def access_ok_def intro: le_trans)
  qed
  then have "a \<in> snd ` set (st_access (sync_apply now at gs (memory y))) \<Longrightarrow> access_ok y a" for a
    using sync_apply_access by metis
  moreover note sync_apply_codes[of now at gs "memory y"]
  ultimately show ?case by (intro backedI[OF syncs(2)]) (auto simp: parts access_ok_def dest: in_maps)
qed

interpretation charters: invariant "auth_step E" "\<lambda>y. y = fresh_run" backed for E
proof unfold_locales
  show "backed y" if "y = fresh_run" for y using that by (simp add: backed_def fresh_run_def parts empty_auth_def)
qed (rule backed_step)

lemma reachable_backed: "reachable E y \<Longrightarrow> backed y"
  using charters.reached reachable_steps by blast

subsection \<open>Ended connections\<close>

text \<open>A request in flight that may still make a token of a connection: one that found it, and a synchronisation
  that read it before.\<close>

fun concerns :: "string \<Rightarrow> flight \<Rightarrow> bool" where
  "concerns g (Issued _ i _) = (i = g)"
| "concerns g (Found _ _ _ _ i _) = (i = g)"
| "concerns g (Granted _ _ i _) = (i = g)"
| "concerns g (Syncing _ gs) = (g \<in> fst ` set gs)"
| "concerns g _ = False"

definition gone :: "string \<Rightarrow> run \<Rightarrow> bool" where
  "gone g y \<longleftrightarrow> rn_charter y g \<noteq> None \<and> g \<notin> fst ` set (db_grants (database y)) \<and> \<not> list_ex (concerns g) (rn_flights y)
     \<and> \<not> list_ex (\<lambda>(_, a). ac_grant a = g) (st_access (memory y))"

lemma goneI:
  assumes "gone g y" and "rn_charter y g \<noteq> None \<Longrightarrow> rn_charter y' g \<noteq> None"
    and "\<And>i. i \<in> fst ` set (db_grants (database y')) \<Longrightarrow> i \<in> fst ` set (db_grants (database y)) \<or> i \<noteq> g"
    and "\<And>f. f \<in> set (rn_flights y') \<Longrightarrow> f \<in> set (rn_flights y) \<or> \<not> concerns g f"
    and "\<And>a. a \<in> snd ` set (st_access (memory y')) \<Longrightarrow> a \<in> snd ` set (st_access (memory y)) \<or> ac_grant a \<noteq> g"
  shows "gone g y'"
proof -
  note y = assms(1)[unfolded gone_def list_ex_iff]
  have "g \<notin> fst ` set (db_grants (database y'))" using assms(3)[of g] y by blast
  moreover have "\<not> concerns g f" if "f \<in> set (rn_flights y')" for f using assms(4)[OF that] y by blast
  moreover have "ac_grant a \<noteq> g" if "(h, a) \<in> set (st_access (memory y'))" for h a
    using assms(5)[of a] y that by force
  ultimately show ?thesis using y assms(2) unfolding gone_def list_ex_iff by fast
qed

lemma gone_same:
  assumes "gone g y" and "same_tokens (rn_auth y) A" and "\<And>f. f \<in> set fs' \<Longrightarrow> f \<in> set (rn_flights y) \<or> \<not> concerns g f"
  shows "gone g (y\<lparr>rn_auth := A, rn_flights := fs'\<rparr>)"
  by (rule goneI[OF assms(1)]) (use assms(2,3) in \<open>auto simp: same_tokens_def parts\<close>)

lemma gone_fly:
  assumes "gone g y" and "same_tokens (rn_auth y) A" and "\<not> list_ex (concerns g) to"
  shows "gone g (fly [f] to (y\<lparr>rn_auth := A\<rparr>))"
  using gone_same[OF assms(1,2), of "to @ remove1 f (rn_flights y)"] assms(3)
  unfolding fly_def list.pred_set list_ex_iff by (fastforce dest: set_remove1_in)

lemma gone_flight: "gone g y \<Longrightarrow> f \<in> set (rn_flights y) \<Longrightarrow> \<not> concerns g f"
  by (auto simp: gone_def list_ex_iff)

lemma gone_db: "gone g y \<Longrightarrow> (g, x) \<notin> set (db_grants (database y))"
  by (force simp: gone_def)

lemma gone_step: "auth_step E y y' \<Longrightarrow> gone g y \<Longrightarrow> gone g y'"
proof (induction rule: auth_step.induct)
  case (authorizes R rq dw y rep asked A)
  have "f \<in> set (rn_flights y) \<or> \<not> concerns g f"
    if "f \<in> set ((case asked of Some ct \<Rightarrow> [Asked ct] | None \<Rightarrow> []) @ rn_flights y)" for f
    using that by (cases asked) auto
  then have "gone g (y\<lparr>rn_auth := A, rn_flights := (case asked of Some ct \<Rightarrow> [Asked ct] | None \<Rightarrow> []) @ rn_flights y\<rparr>)"
    by (rule gone_same[OF authorizes(2) authorize_same[OF authorizes(1)]])
  then show ?case by (simp add: fly_def)
next
  case (approved ct y h s at)
  show ?case by (rule goneI[OF approved(4)]) (auto simp: parts decide_same dest: in_maps)
next
  case (refused ct y ok at)
  show ?case by (rule goneI[OF refused(2)]) (auto simp: parts decide_same dest: in_maps)
next
  case (waits y R rq)
  show ?case by (rule goneI[OF waits]) (auto simp: parts wait_same)
next
  case (registers R rq dw y rep A)
  with gone_same[OF registers(2) register_same[OF registers(1)], of "rn_flights y"] show ?case by simp
next
  case (takes y h c R form authorization)
  show ?case by (rule goneI[OF takes(2)]) (auto simp: parts take_code_def)
next
  case (replays y h t i)
  show ?case by (rule goneI[OF replays(2)]) (auto simp: parts)
next
  case (clears R h form authorization c y at res cl A)
  show ?case by (rule gone_fly[OF clears(5) client_of_same[OF clears(3)]]) simp
next
  case (rejects R h form authorization c y at r A A')
  then have "same_tokens (rn_auth y) A'" using client_of_same same_tokens_refl by blast
  then show ?case by (rule gone_fly[OF rejects(4)]) simp
next
  case (issues R h c res y i acc ref ends now acc_ends ref_ends st)
  have "i \<noteq> g" using issues(2,7) by (auto simp: gone_def)
  with issue_access[OF issues(6)] show ?case
    by (intro goneI[OF issues(7)]) (auto simp: parts dest!: in_maps)
next
  case (inserts h i gr y d)
  from insert_grant_Some[OF inserts(2)] obtain g' where g': "db_grants d = bm_insert i g' (db_grants (database y))" by blast
  have "i \<noteq> g" using gone_flight[OF inserts(3,1)] by simp
  with g' show ?case by (intro goneI[OF inserts(3)]) (auto simp: parts dest!: in_maps)
next
  case (fails_to_insert h i gr y)
  show ?case by (rule goneI[OF fails_to_insert(2)]) (auto simp: parts forget_def set_bm_filter dest: in_maps intro: rev_image_eqI)
next
  case (uses h i y at)
  show ?case by (rule goneI[OF uses(2)]) (auto simp: parts dest: in_maps)
next
  case (finds R p y i gr form authorization)
  have "i \<noteq> g" using find_refresh_Current[OF finds(1)] gone_db[OF finds(2)] by blast
  then show ?case by (intro goneI[OF finds(2)]) (auto simp: parts)
next
  case (finds_reused h p y i)
  show ?case by (rule goneI[OF finds_reused(2)]) (auto simp: parts)
next
  case (expires R form authorization p i gr y now)
  show ?case by (rule goneI[OF expires(3)]) (auto simp: parts dest: in_maps)
next
  case (accepts R form authorization p i gr y now at cl A)
  show ?case by (rule gone_fly[OF accepts(6) client_of_same[OF accepts(4)]]) (use gone_flight[OF accepts(6,1)] in simp)
next
  case (declines R form authorization p i gr y at r A A')
  then have "same_tokens (rn_auth y) A'" using client_of_same same_tokens_refl by blast
  then show ?case by (rule gone_fly[OF declines(4)]) simp
next
  case (renews R p i gr y acc ref now acc_ends ref_ends st)
  have "i \<noteq> g" using gone_flight[OF renews(5,1)] by simp
  with issue_access[OF renews(4)] show ?case by (intro goneI[OF renews(5)]) (auto simp: parts dest!: in_maps)
next
  case (rotates p i acc ref y now d)
  from rotate_grant_True[OF rotates(2)] obtain gr g' where r: "map_of (db_grants (database y)) i = Some gr"
      "db_grants d = bm_insert i g' (db_grants (database y))" by blast
  have "i \<noteq> g" using gone_db[OF rotates(3)] map_of_SomeD[OF r(1)] by blast
  with r(2) show ?case by (intro goneI[OF rotates(3)]) (auto simp: parts dest!: in_maps)
next
  case (loses p i acc ref y now d)
  show ?case by (rule goneI[OF loses(3)]) (auto simp: parts dest: in_maps)
next
  case (keeps i fresh y)
  show ?case by (rule goneI[OF keeps(2)]) (auto simp: parts keep_newest_def set_bm_filter dest: in_maps intro: rev_image_eqI)
next
  case (revokes y i)
  show ?case by (rule goneI[OF revokes]) (auto simp: parts)
next
  case (drops i y)
  show ?case by (rule goneI[OF drops(2)]) (auto simp: parts forget_def set_bm_filter dest: in_maps intro: rev_image_eqI)
next
  case (ends i y)
  show ?case by (rule goneI[OF ends(2)]) (auto simp: parts delete_grant_def dest: in_maps set_bm_remove[THEN subsetD])
next
  case (disconnects y i)
  show ?case by (rule goneI[OF disconnects]) (auto simp: parts delete_grant_def dest: in_maps set_bm_remove[THEN subsetD])
next
  case (disconnected i y)
  show ?case by (rule goneI[OF disconnected(2)]) (auto simp: parts forget_def set_bm_filter dest: in_maps intro: rev_image_eqI)
next
  case (sync_reads now y gs A)
  have "set gs \<subseteq> set (db_grants (database y))" using sync_read_set[OF sync_reads(1)] by (simp add: database_def)
  then have "\<not> concerns g (Syncing now gs)" using gone_db[OF sync_reads(2)] by auto
  then show ?case by (intro goneI[OF sync_reads(2)])
      (use sync_read_grants[OF sync_reads(1)] sync_read_set[OF sync_reads(1)] in \<open>auto simp: parts\<close>)
next
  case (syncs now gs y at)
  have "\<not> concerns g (Syncing now gs)" using gone_flight[OF syncs(2,1)] .
  then have "ac_grant a \<noteq> g" if "a \<in> snd ` set (st_access (sync_apply now at gs (memory y)))" for a
    using sync_apply_access[OF that] live_access_Some by force
  then show ?case by (intro goneI[OF syncs(2)]) (auto simp: parts dest: in_maps)
qed

lemma gone_steps: "(auth_step E)\<^sup>*\<^sup>* y y' \<Longrightarrow> gone g y \<Longrightarrow> gone g y'"
  by (induction rule: rtranclp_induct) (auto intro: gone_step)

lemma gone_not_valid: "gone g y \<Longrightarrow> map_of (st_access (memory y)) h = Some a \<Longrightarrow> ac_grant a \<noteq> g"
  using map_of_SomeD by (force simp: gone_def list_ex_iff)

end
