(* ===== verification/Oauth_Exchange.thy ===== *)
theory Oauth_Exchange
  imports Oauth_Backing
begin

text \<open>
  Single requests to the authorization server: what a successful exchange of a code checked and
  made, what a second one does, what memory holds after a synchronisation, and how many requests a
  minute lets in.
\<close>

subsection \<open>Exchanging a code\<close>

lemma client_of_state: "client_of E h i at A = (r, B) \<Longrightarrow> au_state B = au_state A \<and> au_db B = au_db A"
  by (auto simp: client_of_def documents_client_def fetch_document_def keep_document_def Let_def
      split: if_splits option.splits sum.splits prod.splits)

lemma take_code_Some: "take_code h st = (Some c, st') \<Longrightarrow> map_of (st_codes st) h = Some c \<and> st' = st\<lparr>st_codes := bm_remove h (st_codes st)\<rparr>"
  by (simp add: take_code_def)

lemma connect_Inr:
  assumes "connect E R hash c res dw A = (Inr js, A')"
  obtains g acc ref d st where
    "dw_grant dw = Some g" "dw_access dw = Some acc" "dw_refresh dw = Some ref" "js = tokens acc ref"
    "st = snd (issue (ae_web E) g (rs_host R) res (dw_now dw + po_max_grant (ae_policy E)) (dw_now dw) acc (au_state A))"
    "insert_grant g (new_grant (ae_web E) R c res (dw_now dw) (dw_now dw + po_max_grant (ae_policy E)) acc
       (min (dw_now dw + ACCESS_TTL) (dw_now dw + po_max_grant (ae_policy E))) ref
       (min (dw_now dw + REFRESH_TTL) (dw_now dw + po_max_grant (ae_policy E)))) (au_db A) = Some d"
    "A' = A\<lparr>au_state := st\<lparr>st_used_codes := bm_insert hash (dw_at dw, g) (st_used_codes st)\<rparr>, au_db := d\<rparr>"
  using assms by (auto simp: connect_def issue_def Let_def split: option.splits)

lemma exchange_code_Inr:
  assumes "exchange_code E R form authorization dw A = (Inr js, A')"
  obtains c res cl B where
    "map_of (st_codes (au_state A)) (secret_hash (ae_web E) (field form ''code'')) = Some c"
    "exchange_check (ae_web E) R form c (dw_at dw) = Inr res"
    "fst (client_of E (rs_host R) (field form ''client_id'') (dw_at dw) A) = Inr cl"
    "authenticate (ae_web E) cl form authorization = Inr ()"
    "au_state B = (au_state A)\<lparr>st_codes := bm_remove (secret_hash (ae_web E) (field form ''code'')) (st_codes (au_state A))\<rparr>"
    "au_db B = au_db A"
    "connect E R (secret_hash (ae_web E) (field form ''code'')) c res dw B = (Inr js, A')"
proof -
  let ?h = "secret_hash (ae_web E) (field form ''code'')"
  obtain c where c: "map_of (st_codes (au_state A)) ?h = Some c"
    using assms by (auto simp: exchange_code_def take_code_def Let_def split: option.splits)
  let ?A = "A\<lparr>au_state := (au_state A)\<lparr>st_codes := bm_remove ?h (st_codes (au_state A))\<rparr>\<rparr>"
  obtain r B where B: "client_of E (rs_host R) (field form ''client_id'') (dw_at dw) ?A = (r, B)" by fastforce
  have r: "fst (client_of E (rs_host R) (field form ''client_id'') (dw_at dw) A) = r"
    using B by (auto simp: client_of_def documents_client_def fetch_document_def Let_def
        split: if_splits option.splits sum.splits prod.splits)
  from assms c B obtain res cl where "exchange_check (ae_web E) R form c (dw_at dw) = Inr res" "r = Inr cl"
      "authenticate (ae_web E) cl form authorization = Inr ()" "connect E R ?h c res dw B = (Inr js, A')"
    by (auto simp: exchange_code_def take_code_def Let_def split: sum.splits)
  with client_of_state[OF B] r show thesis by (intro that[OF c, of res cl B]) simp_all
qed

text \<open>A new connection lasts no longer than the policy says, a stored end no longer than an \<open>i64\<close>.\<close>

lemma insert_grant_new: "insert_grant i g d = Some d' \<Longrightarrow>
    \<exists>g'. db_grants d' = bm_insert i g' (db_grants d) \<and> gr_host g' = gr_host g \<and> gr_client_id g' = gr_client_id g
      \<and> gr_resource g' = gr_resource g \<and> gr_refresh_hash g' = gr_refresh_hash g \<and> gr_access_hash g' = gr_access_hash g
      \<and> gr_expires_at g' = as_i64 (gr_expires_at g)"
  by (auto simp: insert_grant_def split: if_splits)

lemma map_of_bm_insert_same: "map_of (bm_insert k v m) k = Some v"
  by simp

lemma end_grant_gone: "map_of (db_grants (au_db (end_grant g A))) g = None"
    "map_of (st_access (au_state (end_grant g A))) h = Some a \<Longrightarrow> ac_grant a \<noteq> g"
  using map_of_SomeD[of "st_access (au_state (end_grant g A))" h a]
  by (auto simp: end_grant_def delete_grant_def forget_def set_bm_filter)

subsection \<open>Memory and database\<close>

lemma map_of_fold_insert:
  assumes "\<And>k v w. (k, v) \<in> set ps \<Longrightarrow> (k, w) \<in> set ps \<Longrightarrow> v = w"
  shows "map_of (fold (\<lambda>(k, v). bm_insert k v) ps m) k = (case map_of ps k of Some v \<Rightarrow> Some v | None \<Rightarrow> map_of m k)"
  using assms
proof (induction ps arbitrary: m)
  case (Cons p ps)
  obtain k' v' where p: "p = (k', v')" by fastforce
  have "map_of (fold (\<lambda>(k, v). bm_insert k v) ps (bm_insert k' v' m)) k
      = (case map_of ps k of Some v \<Rightarrow> Some v | None \<Rightarrow> map_of (bm_insert k' v' m) k)"
    by (rule Cons.IH) (use Cons.prems in auto)
  moreover have "map_of ps k = Some w \<Longrightarrow> k = k' \<Longrightarrow> w = v'" for w
    using Cons.prems[of k w v'] map_of_SomeD[of ps k w] by (auto simp: p)
  ultimately show ?case by (auto simp: p split: option.splits)
qed simp

definition one_each :: "(string \<times> grant) list \<Rightarrow> bool" where
  "one_each gs \<longleftrightarrow> sorted_map gs
     \<and> (\<forall>p\<in>set gs. \<forall>q\<in>set gs. gr_access_hash (snd p) = gr_access_hash (snd q) \<longrightarrow> gr_access_hash (snd p) \<noteq> None \<longrightarrow> p = q)"

lemma one_each_subset: "one_each gs \<Longrightarrow> sorted_map gs' \<Longrightarrow> set gs' \<subseteq> set gs \<Longrightarrow> one_each gs'"
  unfolding one_each_def by (meson subsetD)

lemma sync_access:
  assumes "one_each gs" and "set gs' = set gs"
  shows "map_of (st_access (sync_apply now at gs' st)) h = Some a \<longleftrightarrow> (\<exists>p\<in>set gs. live_access now p = Some (h, a))"
proof -
  let ?ps = "List.map_filter (live_access now) gs'"
  have ps: "(k, v) \<in> set ?ps \<longleftrightarrow> (\<exists>p\<in>set gs. live_access now p = Some (k, v))" for k v
    using assms(2) by (force simp: List.map_filter_def)
  have uniq: "v = w" if "(k, v) \<in> set ?ps" "(k, w) \<in> set ?ps" for k v w
  proof -
    from that ps obtain p q where p: "p \<in> set gs" "live_access now p = Some (k, v)" and q: "q \<in> set gs" "live_access now q = Some (k, w)"
      by blast
    have "gr_access_hash (snd p) = Some k" "gr_access_hash (snd q) = Some k"
      using live_access_Some[of now "fst p" "snd p" k v] live_access_Some[of now "fst q" "snd q" k w] p(2) q(2) by simp_all
    with assms(1) p(1) q(1) have "p = q" by (simp add: one_each_def)
    with p(2) q(2) show ?thesis by simp
  qed
  have "map_of (st_access (sync_apply now at gs' st)) h = map_of ?ps h"
    using map_of_fold_insert[OF uniq, where m = "[]" and k = h] by (simp add: sync_apply_def split: option.splits)
  moreover have "map_of ?ps h = Some a \<longleftrightarrow> (h, a) \<in> set ?ps"
    using uniq map_of_SomeD[of ?ps h a] weak_map_of_SomeI[of h a ?ps] map_of_SomeD[of ?ps h] by metis
  ultimately show ?thesis using ps by simp
qed

subsection \<open>Requests in a minute\<close>

text \<open>Requests that are counted and synchronisations, each at its time.\<close>

datatype tick = Counted string address | Swept nat "(string \<times> grant) list"

fun let_in :: "(nat \<times> tick) list \<Rightarrow> auth_state \<Rightarrow> (nat \<times> string \<times> address) list" where
  "let_in [] st = []"
| "let_in ((at, Counted h ip) # ts) st = (case allow h ip at st of (ok, st') \<Rightarrow> (if ok then [(at, h, ip)] else []) @ let_in ts st')"
| "let_in ((at, Swept now gs) # ts) st = let_in ts (sync_apply now at gs st)"

definition stamps :: "('x \<Rightarrow> 'k) \<Rightarrow> 'k \<Rightarrow> (nat \<times> 'x) list \<Rightarrow> nat list" where
  "stamps f k xs = map fst (filter (\<lambda>(_, x). f x = k) xs)"

definition in_minute :: "nat \<Rightarrow> nat list \<Rightarrow> nat" where
  "in_minute t ns = length (filter (\<lambda>n. t \<le> n \<and> n < t + MINUTE) ns)"

lemma stamps_append [simp]: "stamps f k (xs @ ys) = stamps f k xs @ stamps f k ys"
  by (simp add: stamps_def)

lemma recent_recent: "at \<le> at' \<Longrightarrow> recent at' (recent at ns) = recent at' ns"
  by (auto simp: recent_def intro!: filter_cong)

lemma recent_append [simp]: "recent at (ns @ ms) = recent at ns @ recent at ms"
  by (simp add: recent_def)

lemma in_minute_snoc:
  assumes "length (recent at ns) < L" and "\<forall>n\<in>set ns. n \<le> at" and "in_minute t ns \<le> L"
  shows "in_minute t (ns @ [at]) \<le> L"
proof (cases "t \<le> at \<and> at < t + MINUTE")
  case True
  have "filter (\<lambda>n. t \<le> n \<and> n < t + MINUTE) ns = filter (\<lambda>n. t \<le> n \<and> n < t + MINUTE) (recent at ns)"
    using True assms(2) by (auto simp: recent_def intro!: filter_cong)
  then have "in_minute t ns \<le> length (recent at ns)" by (simp add: in_minute_def)
  with assms(1) True show ?thesis by (simp add: in_minute_def)
qed (use assms(3) in \<open>auto simp: in_minute_def\<close>)

text \<open>What the limits remember is what they let in, of the last minute.\<close>

definition remembers :: "nat \<Rightarrow> ('x \<Rightarrow> 'k::linorder) \<Rightarrow> (nat \<times> 'x) list \<Rightarrow> ('k, nat list) bmap \<Rightarrow> bool" where
  "remembers at f seen m \<longleftrightarrow> sorted_map m \<and> (\<forall>k at'. at \<le> at' \<longrightarrow> recent at' (hits_of k m) = recent at' (stamps f k seen))"

lemma remembers_now: "remembers at f seen m \<Longrightarrow> recent at (hits_of k m) = recent at (stamps f k seen)"
  by (simp add: remembers_def)

lemma remembers_sorted: "remembers at f seen m \<Longrightarrow> sorted_map m"
  by (simp add: remembers_def)

lemma remembers_later: "remembers at f seen m \<Longrightarrow> at \<le> at' \<Longrightarrow> remembers at' f seen m"
  by (simp add: remembers_def)

lemma hits_of_insert: "hits_of k (bm_insert k' ns m) = (if k = k' then ns else hits_of k m)"
  by (simp add: hits_of_def)

lemma remembers_tidied: "remembers at f seen m \<Longrightarrow> remembers at f seen (bm_insert k (recent at (stamps f k seen)) m)"
  by (auto simp: remembers_def hits_of_insert recent_recent)

lemma remembers_next: "remembers at f seen m \<Longrightarrow> f x = k
    \<Longrightarrow> remembers at f (seen @ [(at, x)]) (bm_insert k (recent at (stamps f k seen) @ [at]) m)"
  by (auto simp: remembers_def hits_of_insert recent_recent) (auto simp: stamps_def recent_def)

lemma hits_of_swept: "sorted_map m
    \<Longrightarrow> hits_of k (bm_filter (\<lambda>_ hits. hits \<noteq> []) (bm_map (\<lambda>_. recent at) m)) = recent at (hits_of k m)"
  by (auto simp: hits_of_def map_of_bm_filter recent_def split: option.splits)

lemma remembers_swept: "remembers at f seen m
    \<Longrightarrow> remembers at f seen (bm_filter (\<lambda>_ hits. hits \<noteq> []) (bm_map (\<lambda>_. recent at) m))"
  unfolding remembers_def by (simp add: hits_of_swept recent_recent)

lemma bm_insert_again: "sorted_map m \<Longrightarrow> bm_insert k v (bm_insert k w m) = bm_insert k v m"
  by (rule bm_eqI) (auto simp: fun_eq_iff)

lemma allow_limited:
  assumes "allow h ip at st = (ok, st')" and "remembers at fst seen (st_host_hits st)" and "remembers at snd seen (st_hits st)"
  shows "remembers at fst (seen @ (if ok then [(at, h, ip)] else [])) (st_host_hits st')"
    and "remembers at snd (seen @ (if ok then [(at, h, ip)] else [])) (st_hits st')"
    and "ok \<Longrightarrow> length (recent at (stamps fst h seen)) < PER_MINUTE_PER_HOST \<and> length (recent at (stamps snd ip seen)) < PER_MINUTE"
  using assms(1) remembers_tidied[OF assms(2), of h] remembers_tidied[OF assms(3), of ip]
    remembers_next[OF assms(2), of "(h, ip)" h] remembers_next[OF assms(3), of "(h, ip)" ip]
    remembers_now[OF assms(2), of h] remembers_now[OF assms(3), of ip] assms(2,3)
    bm_insert_again[OF remembers_sorted[OF assms(2)]] bm_insert_again[OF remembers_sorted[OF assms(3)]]
  by (auto simp: allow_def Let_def split: if_splits)

lemma let_in_limited:
  assumes "sorted (map fst ts)" and "\<forall>n\<in>fst ` set ts. at \<le> n" and "\<forall>n\<in>fst ` set seen. n \<le> at"
    and "remembers at fst seen (st_host_hits st)" and "remembers at snd seen (st_hits st)"
    and "\<And>t h. in_minute t (stamps fst h seen) \<le> PER_MINUTE_PER_HOST" and "\<And>t ip. in_minute t (stamps snd ip seen) \<le> PER_MINUTE"
  shows "in_minute t (stamps fst h (seen @ let_in ts st)) \<le> PER_MINUTE_PER_HOST
    \<and> in_minute t (stamps snd ip (seen @ let_in ts st)) \<le> PER_MINUTE"
  using assms
proof (induction ts arbitrary: at seen st)
  case (Cons p ts)
  obtain now k where p: "p = (now, k)" by fastforce
  have le: "at \<le> now" using Cons.prems(2) by (simp add: p)
  note m = Cons.prems(4,5)[THEN remembers_later, OF le]
  have seen: "\<forall>n\<in>fst ` set seen. n \<le> now" using Cons.prems(3) le by fastforce
  have ts: "sorted (map fst ts)" "\<forall>n\<in>fst ` set ts. now \<le> n" using Cons.prems(1) by (auto simp: p)
  show ?case
  proof (cases k)
    case (Counted host ad)
    obtain ok st' where a: "allow host ad now st = (ok, st')" by fastforce
    let ?seen = "seen @ (if ok then [(now, host, ad)] else [])"
    note l = allow_limited[OF a m]
    have st: "\<forall>n\<in>set (stamps f k seen). n \<le> now" for f :: "string \<times> address \<Rightarrow> 'k" and k
      using seen by (auto simp: stamps_def)
    have 1: "in_minute t (stamps fst h ?seen) \<le> PER_MINUTE_PER_HOST" for t h
      using in_minute_snoc[of now "stamps fst h seen", OF _ st Cons.prems(6)] l(3) Cons.prems(6)[of t h]
      by (auto simp: stamps_def)
    have 2: "in_minute t (stamps snd h ?seen) \<le> PER_MINUTE" for t h
      using in_minute_snoc[of now "stamps snd h seen", OF _ st Cons.prems(7)] l(3) Cons.prems(7)[of t h]
      by (auto simp: stamps_def)
    have "\<forall>n\<in>fst ` set ?seen. n \<le> now" using seen by auto
    from Cons.IH[OF ts this l(1,2) 1 2] show ?thesis by (simp add: p Counted a)
  next
    case (Swept w gs)
    have "remembers now fst seen (st_host_hits (sync_apply w now gs st))" "remembers now snd seen (st_hits (sync_apply w now gs st))"
      using m[THEN remembers_swept] by (simp_all add: sync_apply_def)
    from Cons.IH[OF ts seen this Cons.prems(6,7)] show ?thesis by (simp add: p Swept)
  qed
qed simp

end
