(* ===== verification/Oauth_Redirects.thy ===== *)
theory Oauth_Redirects
  imports Oauth_Exchange
begin

text \<open>
  Where the browser is sent: only to addresses that use HTTPS, or HTTP on this machine. A client's
  addresses are checked when it registers or its document is read, and what an authorization is
  asked to come back to is compared with them.
\<close>

subsection \<open>Addresses of clients\<close>

definition safe_redirect :: "web \<Rightarrow> string \<Rightarrow> bool" where
  "safe_redirect W s \<longleftrightarrow> (\<exists>u h. parse_uri W s = Some u \<and> uri_host u = Some h
     \<and> (uri_scheme u = Some ''https'' \<or> uri_scheme u = Some ''http'' \<and> loopback_host h))"

lemma allowed_safe: "redirect_allowed W s \<Longrightarrow> safe_redirect W s"
  by (auto simp: redirect_allowed_def safe_redirect_def split: option.splits)

lemma matches_safe: "redirect_matches W rs s \<Longrightarrow> list_all (safe_redirect W) rs \<Longrightarrow> safe_redirect W s"
  by (auto simp: redirect_matches_def safe_redirect_def list_all_iff split: option.splits)

lemma redirect_list_safe:
  assumes "redirect_list W v = Inr uris"
  shows "list_all (safe_redirect W) uris"
proof -
  have "list_all (redirect_allowed W) uris"
    using assms by (auto simp: redirect_list_def ebind_def list_all_iff find_None_iff split: sum.splits option.splits)
  then show ?thesis using allowed_safe by (auto simp: list_all_iff)
qed

lemma client_from_document_safe: "client_from_document W url d = Inr c \<Longrightarrow> list_all (safe_redirect W) (oc_redirect_uris c)"
  by (auto simp: client_from_document_def Let_def ebind_def dest!: redirect_list_safe split: sum.splits)

lemma registration_of_safe: "registration_of W b = Inr rg \<Longrightarrow> list_all (safe_redirect W) (rg_redirect_uris rg)"
  by (auto simp: registration_of_def ebind_def dest!: redirect_list_safe split: sum.splits)

subsection \<open>What the server keeps\<close>

definition known_safe :: "web \<Rightarrow> auth \<Rightarrow> bool" where
  "known_safe W A \<longleftrightarrow> (\<forall>r\<in>set (db_clients (au_db A)). list_all (safe_redirect W) (oc_redirect_uris (cr_client r)))
     \<and> (\<forall>p\<in>snd ` set (au_documents A). list_all (safe_redirect W) (oc_redirect_uris (fst p)))
     \<and> (\<forall>p\<in>snd ` set (st_pending (au_state A)). safe_redirect W (pe_redirect_uri p))"

lemma known_safeD:
  assumes "known_safe W A"
  shows "r \<in> set (db_clients (au_db A)) \<Longrightarrow> list_all (safe_redirect W) (oc_redirect_uris (cr_client r))"
    and "(u, c, t) \<in> set (au_documents A) \<Longrightarrow> list_all (safe_redirect W) (oc_redirect_uris c)"
    and "(i, p) \<in> set (st_pending (au_state A)) \<Longrightarrow> safe_redirect W (pe_redirect_uri p)"
  using assms unfolding known_safe_def by force+

text \<open>Whatever leaves clients, documents and waiting requests alone, or drops some, keeps them safe.\<close>

lemma known_safe_on:
  assumes "known_safe W A" and "set (db_clients (au_db B)) \<subseteq> set (db_clients (au_db A))"
    and "set (au_documents B) \<subseteq> set (au_documents A)" and "set (st_pending (au_state B)) \<subseteq> set (st_pending (au_state A))"
  shows "known_safe W B"
  using assms unfolding known_safe_def by fast

lemma keep_document_safe:
  assumes "known_safe W A" and "list_all (safe_redirect W) (oc_redirect_uris c)"
  shows "known_safe W (keep_document url c til at A)"
proof -
  have "set (au_documents (keep_document url c til at A)) \<subseteq> insert (url, c, til) (set (au_documents A))"
    by (auto simp: keep_document_def Let_def set_bm_filter dest!: set_bm_insert[THEN subsetD])
  then have "\<forall>p\<in>snd ` set (au_documents (keep_document url c til at A)). list_all (safe_redirect W) (oc_redirect_uris (fst p))"
    using assms known_safeD(2)[OF assms(1)] by fastforce
  then show ?thesis using assms(1) by (simp add: known_safe_def keep_document_def Let_def)
qed

lemma fetch_document_safe:
  assumes "known_safe (ae_web E) A" and "fetch_document E url at A = (r, B)"
  shows "known_safe (ae_web E) B \<and> (\<forall>c. r = Inr c \<longrightarrow> list_all (safe_redirect (ae_web E)) (oc_redirect_uris c))"
proof (cases r)
  case (Inl why)
  then show ?thesis using assms by (auto simp: fetch_document_def split: sum.splits prod.splits)
next
  case (Inr c)
  then obtain document secs where "client_from_document (ae_web E) url document = Inr c"
      "B = keep_document url c (at + 1000 * (case secs of Some t \<Rightarrow> t | None \<Rightarrow> DEFAULT_TTL)) at A"
    using assms(2) by (auto simp: fetch_document_def res_simps split: sum.splits prod.splits)
  then show ?thesis using Inr keep_document_safe[OF assms(1)] client_from_document_safe by blast
qed

lemma client_of_safe:
  assumes "known_safe (ae_web E) A" and "client_of E h i at A = (r, B)"
  shows "known_safe (ae_web E) B \<and> (\<forall>c. r = Inr c \<longrightarrow> list_all (safe_redirect (ae_web E)) (oc_redirect_uris c))"
proof (cases "is_document_url (ae_web E) i")
  case True
  then obtain d where d: "documents_client E i at A = (d, B)" "r = map_err (OAuthError ''invalid_client'') d"
    using assms(2) by (auto simp: client_of_def split: prod.splits)
  have "known_safe (ae_web E) B \<and> (\<forall>c. d = Inr c \<longrightarrow> list_all (safe_redirect (ae_web E)) (oc_redirect_uris c))"
    using d(1) fetch_document_safe[OF assms(1)] assms(1) known_safeD(2)[OF assms(1)] map_of_SomeD[of "au_documents A" i]
    by (auto simp: documents_client_def split: option.splits if_splits prod.splits)
  then show ?thesis using d(2) by (cases d) (auto simp: map_err_def)
next
  case False
  then show ?thesis using assms known_safeD(1)[OF assms(1)]
    by (auto simp: client_of_def stored_client_def ok_or_def split: option.splits dest!: find_SomeD)
qed

lemma known_safe_memory: "known_safe W A \<Longrightarrow> st_pending st = st_pending (au_state A) \<Longrightarrow> known_safe W (A\<lparr>au_state := st\<rparr>)"
  by (simp add: known_safe_def)

lemma allow_pending: "allow h ip at st = (ok, st') \<Longrightarrow> st_pending st' = st_pending st"
  by (auto simp: allow_def Let_def split: if_splits)

lemma ask_person_safe:
  assumes "known_safe (ae_web E) A" and "safe_redirect (ae_web E) u" and "ask_person E R rq dw c u A = ((rep, asked), B)"
  shows "known_safe (ae_web E) B \<and> (\<forall>s. rep = RedirectTo s \<longrightarrow> (\<exists>ps. s = with_query (ae_web E) u ps))"
proof -
  have "set (bm_insert i p m) \<subseteq> insert (i, p) (set m)" for i :: string and p :: pending and m by (rule set_bm_insert)
  then have "known_safe (ae_web E) (with_memory (\<lambda>st. st\<lparr>st_pending := bm_insert i p (st_pending st)\<rparr>) A)"
    if "pe_redirect_uri p = u" for i p
    using assms(1,2) that unfolding known_safe_def by fastforce
  then show ?thesis using assms(1,3)
    by (auto simp: ask_person_def Let_def split: sum.splits option.splits if_splits)
qed

lemma authorize_safe:
  assumes "known_safe (ae_web E) A" and "authorize E R rq dw A = ((rep, asked), B)"
  shows "known_safe (ae_web E) B
    \<and> (\<forall>s. rep = RedirectTo s \<longrightarrow> (\<exists>u ps. safe_redirect (ae_web E) u \<and> s = with_query (ae_web E) u ps))"
proof -
  obtain ok st where al: "allow (rs_host R) (rq_ip rq) (dw_at dw) (au_state A) = (ok, st)" by fastforce
  have 1: "known_safe (ae_web E) (A\<lparr>au_state := st\<rparr>)" by (rule known_safe_memory[OF assms(1) allow_pending[OF al]])
  obtain c C where cl: "client_of E (rs_host R) (field (form_of (ae_web E) (rq_query rq)) ''client_id'') (dw_at dw)
      (A\<lparr>au_state := st\<rparr>) = (c, C)" by fastforce
  note 2 = client_of_safe[OF 1 cl]
  show ?thesis
  proof (cases "\<exists>c' u. c = Inr c' \<and> redirect_matches (ae_web E) (oc_redirect_uris c') u
      \<and> ask_person E R rq dw c' u C = ((rep, asked), B)")
    case True
    then obtain c' u where u: "c = Inr c'" "redirect_matches (ae_web E) (oc_redirect_uris c') u"
        "ask_person E R rq dw c' u C = ((rep, asked), B)" by blast
    have "safe_redirect (ae_web E) u" using matches_safe[OF u(2)] 2 u(1) by blast
    with ask_person_safe[OF conjunct1[OF 2] this u(3)] show ?thesis by blast
  next
    case False
    then have "(B = C \<or> B = A\<lparr>au_state := st\<rparr>) \<and> (\<forall>s. rep \<noteq> RedirectTo s)"
      using assms(2) al cl unfolding authorize_def Let_def
      by (cases ok; cases c) (auto split: option.splits if_splits oauth_error.splits)
    with 1 2 show ?thesis by blast
  qed
qed

lemma wait_safe:
  assumes "known_safe W A" and "wait W R rq (au_state A) = (rep, st)"
  shows "known_safe W (A\<lparr>au_state := st\<rparr>) \<and> (\<forall>s. rep = RedirectTo s \<longrightarrow> (\<exists>u ps. safe_redirect W u \<and> s = with_query W u ps))"
proof -
  let ?i = "field (form_of W (rq_query rq)) ''request''"
  have "st = au_state A \<or> st = (au_state A)\<lparr>st_pending := bm_remove ?i (st_pending (au_state A))\<rparr>"
    using assms(2) by (auto simp: wait_def Let_def split: option.splits if_splits answer.splits)
  then have "known_safe W (A\<lparr>au_state := st\<rparr>)"
    using set_bm_remove by (intro known_safe_on[OF assms(1)]) (auto dest: subsetD[OF set_bm_remove])
  moreover have "\<exists>u ps. safe_redirect W u \<and> s = with_query W u ps" if sent: "rep = RedirectTo s" for s
  proof -
    obtain p ps where p: "map_of (st_pending (au_state A)) ?i = Some p" "s = with_query W (pe_redirect_uri p) ps"
      using assms(2) sent by (auto simp: wait_def Let_def split: option.splits if_splits answer.splits)
    then show ?thesis using known_safeD(3)[OF assms(1) map_of_SomeD[OF p(1)]] by blast
  qed
  ultimately show ?thesis by blast
qed

lemma decide_pending: "(i, p) \<in> set (st_pending (decide W ct ok s at st))
    \<Longrightarrow> \<exists>j q. (j, q) \<in> set (st_pending st) \<and> pe_redirect_uri p = pe_redirect_uri q"
  by (auto simp: decide_def Let_def split: option.splits bool.splits dest!: set_bm_insert[THEN subsetD] dest: map_of_SomeD)
     (auto dest: map_of_SomeD)

lemma decide_safe:
  assumes "known_safe W A"
  shows "known_safe W (A\<lparr>au_state := decide W' ct ok s at (au_state A)\<rparr>)"
proof -
  have "safe_redirect W (pe_redirect_uri p)" if p: "(i, p) \<in> set (st_pending (decide W' ct ok s at (au_state A)))" for i p
    using decide_pending[OF p] known_safeD(3)[OF assms] by auto
  then show ?thesis using assms unfolding known_safe_def by auto
qed

lemma save_client_set: "save_client h c now d = Some d' \<Longrightarrow> r \<in> set (db_clients d')
    \<Longrightarrow> r \<in> set (db_clients d) \<or> oc_redirect_uris (cr_client r) = oc_redirect_uris c"
  by (auto simp: save_client_def Let_def split: if_splits)

lemma register_safe:
  assumes "known_safe (ae_web E) A" and "register E R rq dw A = (rep, B)"
  shows "known_safe (ae_web E) B \<and> (\<forall>s. rep \<noteq> RedirectTo s)"
proof -
  obtain ok st where al: "allow (rs_host R) (rq_ip rq) (dw_at dw) (au_state A) = (ok, st)" by fastforce
  have 1: "known_safe (ae_web E) (A\<lparr>au_state := st\<rparr>)" by (rule known_safe_memory[OF assms(1) allow_pending[OF al]])
  show ?thesis
  proof (cases "\<exists>b rg i sec d. registration_of (ae_web E) b = Inr rg
      \<and> save_client (rs_host R) \<lparr>oc_id = i, oc_name = rg_name rg, oc_redirect_uris = rg_redirect_uris rg,
                     oc_secret_hash = sec, oc_published_by = None\<rparr> (dw_now dw) (au_db A) = Some d
      \<and> B = A\<lparr>au_state := st, au_db := d\<rparr> \<and> (\<forall>s. rep \<noteq> RedirectTo s)")
    case True
    then obtain b rg i sec d where r: "registration_of (ae_web E) b = Inr rg"
        "save_client (rs_host R) \<lparr>oc_id = i, oc_name = rg_name rg, oc_redirect_uris = rg_redirect_uris rg,
                     oc_secret_hash = sec, oc_published_by = None\<rparr> (dw_now dw) (au_db A) = Some d"
        "B = A\<lparr>au_state := st, au_db := d\<rparr>" "\<forall>s. rep \<noteq> RedirectTo s" by blast
    have "list_all (safe_redirect (ae_web E)) (oc_redirect_uris (cr_client r))" if "r \<in> set (db_clients d)" for r
      using save_client_set[OF r(2) that] registration_of_safe[OF r(1)] known_safeD(1)[OF assms(1)] by auto
    then show ?thesis using 1 r(3,4) by (simp add: known_safe_def)
  next
    case False
    have "(B = A \<or> B = A\<lparr>au_state := st\<rparr>) \<and> (\<forall>s. rep \<noteq> RedirectTo s)"
      using assms(2) False unfolding register_def Let_def al
      by (cases "po_dynamic_registration (ae_policy E)"; cases ok; cases "parse_json (ae_web E) (rq_body rq)";
          cases "registration_of (ae_web E) (the (parse_json (ae_web E) (rq_body rq)))"; cases "dw_client dw"; cases "dw_secret dw")
         (auto simp: oauth_failure_def split: option.splits)
    with 1 assms(1) show ?thesis by blast
  qed
qed

subsection \<open>Every step\<close>

lemma known_safe_step: "auth_step E y y' \<Longrightarrow> known_safe (ae_web E) (rn_auth y) \<Longrightarrow> known_safe (ae_web E) (rn_auth y')"
proof (induction rule: auth_step.induct)
  case (authorizes R rq dw y rep asked A)
  then show ?case using authorize_safe[OF authorizes(2,1)] by (simp add: fly_def)
next
  case (approved ct y h s at)
  then show ?case using decide_safe[OF approved(4)] by (simp add: parts)
next
  case (refused ct y ok at)
  then show ?case using decide_safe[OF refused(2)] by (simp add: parts)
next
  case (waits y R rq)
  obtain rep st where w: "wait (ae_web E) R rq (au_state (rn_auth y)) = (rep, st)" by fastforce
  then show ?case using wait_safe[OF waits w] by (simp add: parts)
next
  case (registers R rq dw y rep A)
  then show ?case using register_safe[OF registers(2,1)] by simp
next
  case (clears R h form authorization c y at res cl A)
  then show ?case using client_of_safe[OF clears(5,3)] by (simp add: fly_def)
next
  case (rejects R h form authorization c y at r A A')
  then show ?case using client_of_safe[OF rejects(4,2)] by (auto simp: fly_def)
next
  case (accepts R form authorization p i g y now at cl A)
  then show ?case using client_of_safe[OF accepts(6,4)] by (simp add: fly_def)
next
  case (declines R form authorization p i g y at r A A')
  then show ?case using client_of_safe[OF declines(4,2)] by (auto simp: fly_def)
next
  case (inserts h g gr y d)
  show ?case by (rule known_safe_on[OF inserts(3)]) (use inserts(2) in \<open>auto simp: parts insert_grant_def split: if_splits\<close>)
next
  case (rotates p i acc ref y now d)
  show ?case by (rule known_safe_on[OF rotates(3)])
      (use rotates(2) in \<open>auto simp: parts rotate_grant_def split: option.splits if_splits\<close>)
qed (rule known_safe_on, assumption; force simp: parts take_code_def forget_def keep_newest_def delete_grant_def sync_read_def
    sync_apply_def sweep_def issue_def Let_def set_bm_filter)+

interpretation addresses: invariant "auth_step E" "\<lambda>y. y = fresh_run" "\<lambda>y. known_safe (ae_web E) (rn_auth y)" for E
proof unfold_locales
  show "known_safe (ae_web E) (rn_auth y)" if "y = fresh_run" for y
    using that by (simp add: known_safe_def fresh_run_def empty_auth_def)
qed (rule known_safe_step)

lemma reachable_known_safe: "reachable E y \<Longrightarrow> known_safe (ae_web E) (rn_auth y)"
  using addresses.reached reachable_steps by blast

lemma token_endpoint_stays: "fst (token_endpoint E R rq dw A) \<noteq> RedirectTo s"
  by (auto simp: token_endpoint_def oauth_failure_def Let_def split: prod.splits sum.splits oauth_error.splits)

lemma answer_safe:
  assumes "known_safe (ae_web E) A" and "answer E R rq dw A = ((RedirectTo s, asked), B)"
  shows "\<exists>u ps. safe_redirect (ae_web E) u \<and> s = with_query (ae_web E) u ps"
proof -
  obtain r1 a1 A1 where 1: "authorize E R rq dw A = ((r1, a1), A1)" by (metis prod.exhaust)
  obtain r2 st where 2: "wait (ae_web E) R rq (au_state A) = (r2, st)" by fastforce
  obtain r3 A3 where 3: "register E R rq dw A = (r3, A3)" by fastforce
  obtain r4 A4 where 4: "token_endpoint E R rq dw A = (r4, A4)" by fastforce
  have "r4 \<noteq> RedirectTo s" using token_endpoint_stays[of E R rq dw A s] 4 by simp
  moreover have "r3 \<noteq> RedirectTo s" using register_safe[OF assms(1) 3] by blast
  ultimately have "r1 = RedirectTo s \<or> r2 = RedirectTo s"
    using assms(2) by (auto simp: answer_def Let_def 1 2 3 4 revoke_def split: if_splits)
  then show ?thesis using authorize_safe[OF assms(1) 1] wait_safe[OF assms(1) 2] by blast
qed

end
