(* ===== verification/Oauth_Samples.thy ===== *)
theory Oauth_Samples
  imports Oauth_Redirects
begin

text \<open>
  A run of the authorization server, from a client that registers to its connection and its end, on
  which the properties are evaluated. Forms, URIs, JSON and hashes are those of one short exchange.
\<close>

definition demo_back :: string where "demo_back = ''https://app/cb''"
definition demo_verifier :: string where "demo_verifier = replicate 43 (CHR ''v'')"

definition demo_web :: web where
  "demo_web = \<lparr>
     parse_uri = (\<lambda>s. if s = demo_back then Some \<lparr>uri_scheme = Some ''https'', uri_authority = Some ''app'', uri_host = Some ''app'',
       uri_port = None, uri_path = ''/cb'', uri_query = None\<rparr> else None),
     parse_json = (\<lambda>_. Some (JObj [(''redirect_uris'', JArr [JStr demo_back])])),
     parse_form = (\<lambda>s. if s = ''ask'' then [(''client_id'', ''c''), (''redirect_uri'', demo_back), (''response_type'', ''code''),
           (''code_challenge_method'', ''S256''), (''code_challenge'', demo_verifier), (''state'', ''st'')]
       else if s = ''wait'' then [(''request'', ''r'')]
       else if s = ''exchange'' then [(''grant_type'', ''authorization_code''), (''code'', ''k''), (''client_id'', ''c''),
           (''redirect_uri'', demo_back), (''code_verifier'', demo_verifier)]
       else []),
     show_form = (\<lambda>ps. concat (map (\<lambda>(k, v). k @ ''='' @ v @ ''&'') ps)),
     base64url = (\<lambda>s. s), base64_decode = Some, digest = (\<lambda>s. s)\<rparr>"

definition demo_env :: auth_env where
  "demo_env = \<lparr>ae_web = demo_web, ae_fetch = (\<lambda>_. Inl ''no network''),
     ae_policy = \<lparr>po_dynamic_registration = True, po_max_grant = 100\<rparr>\<rparr>"

definition demo_server :: resource where
  "demo_server = \<lparr>rs_host = ''h'', rs_path = ''/mcp'', rs_name = ''Notes''\<rparr>"

definition demo_request :: "verb \<Rightarrow> string \<Rightarrow> string \<Rightarrow> string \<Rightarrow> request" where
  "demo_request v path query body = \<lparr>rq_verb = v, rq_path = path, rq_query = query, rq_body = body,
     rq_authorization = None, rq_ip = V4 1 1 1 1\<rparr>"

definition demo_draws :: draws where
  "demo_draws = \<lparr>dw_now = 10, dw_at = 1, dw_request = Some ''r'', dw_shown = Some ''AAAAA'', dw_grant = Some ''g'',
     dw_access = Some ''acc'', dw_refresh = Some ''ref'', dw_client = Some ''c'', dw_secret = Some ''s''\<rparr>"

definition demo_client :: oauth_client where
  "demo_client = \<lparr>oc_id = ''c'', oc_name = ''An MCP client'', oc_redirect_uris = [demo_back], oc_secret_hash = None, oc_published_by = None\<rparr>"

definition demo_consent :: consent where
  "demo_consent = \<lparr>ct_request = ''r'', ct_host = ''h'', ct_client = demo_client, ct_redirect_uri = demo_back,
     ct_challenge = demo_verifier, ct_resource = None, ct_shown = ''AAAAA'', ct_ip = V4 1 1 1 1\<rparr>"

definition demo_form :: form where
  "demo_form = form_of demo_web ''exchange''"

definition demo_code :: auth_code where
  "demo_code = \<lparr>cd_host = ''h'', cd_client_id = ''c'', cd_client_name = ''An MCP client'', cd_redirect_uri = demo_back,
     cd_challenge = demo_verifier, cd_resource = None, cd_expires = 1 + CODE_TTL\<rparr>"

definition demo_grant :: grant where
  "demo_grant = new_grant demo_web demo_server demo_code None 10 110 ''acc'' 110 ''ref'' 110"

text \<open>The client registers; the person is asked and approves; the code is exchanged.\<close>

definition demo_memory :: auth_state where
  "demo_memory = empty_auth\<lparr>st_hits := [(V4 1 1 1 1, [1])], st_host_hits := [(''h'', [1])]\<rparr>"

definition demo1 :: run where
  "demo1 = fresh_run\<lparr>rn_auth := \<lparr>au_state = demo_memory,
     au_db = \<lparr>db_clients = [\<lparr>cr_host = ''h'', cr_client = demo_client, cr_created_at = 10\<rparr>], db_grants = []\<rparr>, au_documents = []\<rparr>\<rparr>"

definition demo_pending :: pending where
  "demo_pending = \<lparr>pe_host = ''h'', pe_redirect_uri = demo_back, pe_state = Some ''st'', pe_answer = Waiting,
     pe_shown = ''AAAAA'', pe_client_name = ''An MCP client'', pe_ip = V4 1 1 1 1, pe_created = 1\<rparr>"

definition demo2 :: run where
  "demo2 = fly [] [Asked demo_consent]
     (demo1\<lparr>rn_auth := (rn_auth demo1)\<lparr>au_state := demo_memory\<lparr>st_pending := [(''r'', demo_pending)],
        st_hits := [(V4 1 1 1 1, [1, 1])], st_host_hits := [(''h'', [1, 1])]\<rparr>\<rparr>\<rparr>)"

definition demo3 :: run where
  "demo3 = logged (Approval ''k'' demo_consent) (draw [''k''] (fly [Asked demo_consent] []
     (on_memory (decide demo_web demo_consent True (Some ''k'') 1) demo2)))"

definition demo4 :: run where
  "demo4 = fly [] [Taken demo_server ''k'' demo_form None demo_code] (on_memory (snd \<circ> take_code ''k'') demo3)"

definition demo5 :: run where
  "demo5 = fly [Taken demo_server ''k'' demo_form None demo_code] [Cleared demo_server ''k'' demo_code None] demo4"

definition demo6 :: run where
  "demo6 = draw [''acc'', ''ref''] (fly [Cleared demo_server ''k'' demo_code None] [Issued ''k'' ''g'' demo_grant]
     ((on_memory (\<lambda>_. snd (issue demo_web ''g'' ''h'' None 110 10 ''acc'' (memory demo5))) demo5)
        \<lparr>rn_charter := (rn_charter demo5)(''g'' \<mapsto> (''k'', ''h'', None, 110))\<rparr>))"

definition demo7 :: run where
  "demo7 = logged (Connected ''k'' ''g'') (fly [Issued ''k'' ''g'' demo_grant] [Inserted ''k'' ''g'']
     (set_database (the (insert_grant ''g'' demo_grant (database demo6))) demo6))"

definition demo8 :: run where
  "demo8 = fly [Inserted ''k'' ''g''] []
     (on_memory (\<lambda>st. st\<lparr>st_used_codes := bm_insert ''k'' (1, ''g'') (st_used_codes st)\<rparr>) demo7)"

lemma demo_env_web [simp]: "ae_web demo_env = demo_web"
  by (simp add: demo_env_def)

lemma demo_hash [simp]: "secret_hash demo_web s = s"
  by (simp add: secret_hash_def demo_web_def)

lemmas limits = PER_MINUTE_PER_HOST_def PER_MINUTE_def MINUTE_def MAX_WAITING_def MAX_WAITING_PER_IP_def

lemma demo_as_i64 [simp]: "as_i64 10 = 10" "as_i64 110 = 110"
  by (simp_all add: as_i64_def I64_MAX_def)

lemma demo_redirects: "registration_of demo_web (JObj [(''redirect_uris'', JArr [JStr demo_back])])
    = Inr \<lparr>rg_name = ''An MCP client'', rg_redirect_uris = [demo_back], rg_auth_method = ''none'', rg_application_type = None\<rparr>"
  by code_simp

lemma demo_register: "register demo_env demo_server (demo_request Post REGISTER [] []) demo_draws (rn_auth fresh_run)
    = (JsonReply 201 (registered ''c'' \<lparr>rg_name = ''An MCP client'', rg_redirect_uris = [demo_back], rg_auth_method = ''none'',
         rg_application_type = None\<rparr> None 0), rn_auth demo1)"
proof -
  have "parse_json demo_web s = Some (JObj [(''redirect_uris'', JArr [JStr demo_back])])" for s by (simp add: demo_web_def)
  then show ?thesis
    by (simp add: register_def demo_env_def demo_redirects demo_draws_def demo_request_def demo_server_def fresh_run_def allow_def
        empty_auth_def recent_def hits_of_def limits save_client_def with_connection_def newest_clients_def demo1_def demo_memory_def
        demo_client_def MAX_CLIENTS_def Let_def)
qed

lemma demo1_reachable: "reachable demo_env demo1"
  using reachable.step[OF reachable.start registers[OF demo_register]] by (simp add: demo1_def)

lemma demo_ask: "form_of demo_web ''ask'' = map_of [(''state'', ''st''), (''code_challenge'', demo_verifier),
    (''code_challenge_method'', ''S256''), (''response_type'', ''code''), (''redirect_uri'', demo_back), (''client_id'', ''c'')]"
  by (simp add: form_of_def demo_web_def)

lemma demo_no_document [simp]: "is_document_url demo_web ''c'' = False"
  by code_simp

lemma demo_challenge [simp]: "challenge_ok demo_verifier"
  by code_simp

lemma demo2_asks: "authorize demo_env demo_server (demo_request Get AUTHORIZE ''ask'' []) demo_draws (rn_auth demo1)
    = ((WaitingPage ''h'' ''An MCP client'' ''AAAAA'' ''r'', Some demo_consent), rn_auth demo2)"
  by (simp add: authorize_def demo_ask demo_draws_def demo_request_def demo_server_def demo1_def demo2_def allow_def demo_memory_def
      empty_auth_def recent_def hits_of_def limits client_of_def stored_client_def ok_or_def field_def redirect_matches_def
      demo_client_def ask_person_def authorize_check_def fail_if_def waiting_ips_def bm_values_def fly_def demo_consent_def demo_pending_def Let_def)

lemma demo2_reachable: "reachable demo_env demo2"
proof -
  have "demo2 = fly [] [Asked demo_consent] (demo1\<lparr>rn_auth := rn_auth demo2\<rparr>)" by (simp add: demo2_def fly_def)
  then show ?thesis using reachable.step[OF demo1_reachable authorizes[OF demo2_asks]] by simp
qed

lemma demo3_reachable: "reachable demo_env demo3"
proof -
  have "rn_flights demo1 = []" "rn_seen demo1 = []" by (simp_all add: demo1_def fresh_run_def)
  then have "Asked demo_consent \<in> set (rn_flights demo2)" "''k'' \<notin> set (rn_seen demo2)" by (simp_all add: demo2_def fly_def)
  from reachable.step[OF demo2_reachable approved[OF this(1) _ this(2), where E = demo_env and s = "''k''" and at = 1]]
  show ?thesis by (simp add: demo3_def)
qed

lemma demo_take: "map_of (st_codes (memory demo3)) ''k'' = Some demo_code"
  by (simp add: demo3_def run_ops decide_same demo_code_def demo_consent_def demo_client_def)

lemma demo4_reachable: "reachable demo_env demo4"
  using reachable.step[OF demo3_reachable takes[OF demo_take]] by (simp add: demo4_def)

lemma demo_fields [simp]:
  "demo_form ''code'' = Some ''k''" "demo_form ''client_id'' = Some ''c''" "demo_form ''redirect_uri'' = Some demo_back"
  "demo_form ''code_verifier'' = Some demo_verifier" "demo_form ''resource'' = None"
  by (simp_all add: demo_form_def form_of_def demo_web_def)

lemma demo_exchange_check: "exchange_check demo_web demo_server demo_form demo_code 1 = Inr None"
proof -
  have "pkce_ok demo_web demo_verifier demo_verifier" by code_simp
  then show ?thesis
    by (simp add: exchange_check_def fail_if_def demo_code_def demo_server_def field_def CODE_TTL_def requested_audience_def)
qed

lemma demo_client_of: "client_of demo_env ''h'' ''c'' 1 (rn_auth demo4) = (Inr demo_client, rn_auth demo4)"
  by (simp add: client_of_def stored_client_def ok_or_def demo4_def demo3_def demo2_def demo1_def run_ops demo_client_def)

lemma demo5_reachable: "reachable demo_env demo5"
proof -
  have f: "Taken demo_server ''k'' demo_form None demo_code \<in> set (rn_flights demo4)" by (simp add: demo4_def fly_def)
  have "demo5 = fly [Taken demo_server ''k'' demo_form None demo_code] [Cleared demo_server ''k'' demo_code None]
     (demo4\<lparr>rn_auth := rn_auth demo4\<rparr>)" by (simp add: demo5_def)
  moreover have "rs_host demo_server = ''h''" "field demo_form ''client_id'' = ''c''"
    by (simp_all add: demo_server_def field_def demo_form_def form_of_def demo_web_def)
  moreover have "authenticate demo_web demo_client demo_form None = Inr ()" by (simp add: authenticate_def demo_client_def)
  ultimately show ?thesis
    using reachable.step[OF demo4_reachable clears[OF f, where E = demo_env and at = 1 and res = None and cl = demo_client and A = "rn_auth demo4"]]
      demo_exchange_check demo_client_of by simp
qed

lemma demo6_reachable: "reachable demo_env demo6"
proof -
  have f: "Cleared demo_server ''k'' demo_code None \<in> set (rn_flights demo5)" by (simp add: demo5_def fly_def)
  have c: "rn_charter demo5 ''g'' = None" "rn_seen demo5 = [''k'']"
    by (simp_all add: demo5_def demo4_def demo3_def demo2_def demo1_def run_ops fresh_run_def)
  have h: "rs_host demo_server = ''h''" by (simp add: demo_server_def)
  obtain st where i: "issue demo_web ''g'' ''h'' None 110 10 ''acc'' (memory demo5) = ((110, 110), st)"
    by (simp add: issue_def ACCESS_TTL_def REFRESH_TTL_def Let_def)
  have "reachable demo_env (draw [''acc'', ''ref''] (fly [Cleared demo_server ''k'' demo_code None]
      [Issued ''k'' ''g'' (new_grant demo_web demo_server demo_code None 10 110 ''acc'' 110 ''ref'' 110)]
      ((on_memory (\<lambda>_. st) demo5)\<lparr>rn_charter := (rn_charter demo5)(''g'' \<mapsto> (''k'', rs_host demo_server, None, 110))\<rparr>)))"
    using reachable.step[OF demo5_reachable issues[OF f c(1), where E = demo_env and acc = "''acc''" and ref = "''ref''" and ends = 110 and now = 10
          and acc_ends = 110 and ref_ends = 110 and st = st]] i c(2) h by (simp add: demo_env_def)
  then show ?thesis by (simp add: demo6_def demo_grant_def i h)
qed

lemma demo7_reachable: "reachable demo_env demo7"
proof -
  have f: "Issued ''k'' ''g'' demo_grant \<in> set (rn_flights demo6)" by (simp add: demo6_def fly_def draw_def)
  have "db_grants (database demo6) = []"
    by (simp add: demo6_def demo5_def demo4_def demo3_def demo2_def demo1_def run_ops)
  then have "insert_grant ''g'' demo_grant (database demo6) \<noteq> None" by (simp add: insert_grant_def bm_values_def)
  then have "insert_grant ''g'' demo_grant (database demo6) = Some (the (insert_grant ''g'' demo_grant (database demo6)))" by simp
  from reachable.step[OF demo6_reachable inserts[OF f this]] show ?thesis by (simp add: demo7_def)
qed

lemma demo8_reachable: "reachable demo_env demo8"
proof -
  have "Inserted ''k'' ''g'' \<in> set (rn_flights demo7)" by (simp add: demo7_def logged_def fly_def)
  from reachable.step[OF demo7_reachable uses[OF this, where E = demo_env and at = 1]] show ?thesis by (simp add: demo8_def)
qed

text \<open>The connection, as the database has it, and what memory knows of its token.\<close>

lemma demo8_log: "rn_log demo8 = [Connected ''k'' ''g'', Approval ''k'' demo_consent]" "rn_flights demo8 = []"
  by (simp_all add: demo8_def demo7_def demo6_def demo5_def demo4_def demo3_def demo2_def demo1_def run_ops fresh_run_def)

lemma demo8_grants: "db_grants (database demo8) = [(''g'', demo_grant)]"
  by (simp add: demo8_def demo7_def demo6_def demo5_def demo4_def demo3_def demo2_def demo1_def run_ops insert_grant_def bm_values_def
      demo_grant_def new_grant_def)

lemma demo8_access: "st_access (memory demo8) = [(''acc'', \<lparr>ac_host = ''h'', ac_grant = ''g'', ac_resource = None, ac_expires_at = 110\<rparr>)]"
  by (simp add: demo8_def demo7_def demo6_def demo5_def demo4_def demo3_def demo2_def demo1_def run_ops issue_def ACCESS_TTL_def
      take_code_def demo_memory_def empty_auth_def decide_same Let_def)

text \<open>The exchange as the endpoint does it, on the state before it.\<close>

lemma demo_exchange: "\<exists>A. exchange_code demo_env demo_server demo_form None demo_draws (rn_auth demo3) = (Inr (tokens ''acc'' ''ref''), A)"
proof -
  let ?A = "(rn_auth demo3)\<lparr>au_state := snd (take_code ''k'' (memory demo3))\<rparr>"
  have t: "take_code ''k'' (au_state (rn_auth demo3)) = (Some demo_code, snd (take_code ''k'' (memory demo3)))"
    using demo_take by (simp add: take_code_def memory_def)
  have c: "client_of demo_env ''h'' ''c'' 1 ?A = (Inr demo_client, ?A)"
    by (simp add: client_of_def stored_client_def ok_or_def demo3_def demo2_def demo1_def run_ops demo_client_def)
  have i: "insert_grant ''g'' gr (au_db (rn_auth demo3)) \<noteq> None" for gr
    by (simp add: insert_grant_def bm_values_def demo3_def demo2_def demo1_def run_ops)
  have "\<exists>A. connect demo_env demo_server ''k'' demo_code None demo_draws ?A = (Inr (tokens ''acc'' ''ref''), A)"
    using i by (auto simp: connect_def demo_draws_def issue_def Let_def split: option.splits)
  moreover have "authenticate demo_web demo_client demo_form None = Inr ()" by (simp add: authenticate_def demo_client_def)
  moreover have "field demo_form ''code'' = ''k''" "field demo_form ''client_id'' = ''c''" "rs_host demo_server = ''h''" "dw_at demo_draws = 1"
    by (simp_all add: field_def demo_server_def demo_draws_def)
  moreover note t c demo_exchange_check
  ultimately show ?thesis by (simp add: exchange_code_def Let_def)
qed

lemma demo_wait: "answer demo_env demo_server (demo_request Get WAIT ''wait'' []) demo_draws (rn_auth demo3)
    = ((RedirectTo ''https://app/cb?code=k&state=st&iss=https://h&'', None),
       (rn_auth demo3)\<lparr>au_state := (au_state (rn_auth demo3))\<lparr>st_pending := bm_remove ''r'' (st_pending (au_state (rn_auth demo3)))\<rparr>\<rparr>)"
proof -
  have f: "form_of demo_web ''wait'' = [''request'' \<mapsto> ''r'']" by (simp add: form_of_def demo_web_def)
  have p: "map_of (st_pending (au_state (rn_auth demo3))) ''r'' = Some (demo_pending\<lparr>pe_answer := Approved ''k''\<rparr>)"
    by (simp add: demo3_def demo2_def demo1_def run_ops decide_def demo_consent_def demo_pending_def Let_def)
  have q: "with_query demo_web demo_back [(''code'', ''k''), (''state'', ''st''), (''iss'', ''https://h'')]
      = ''https://app/cb?code=k&state=st&iss=https://h&''" by code_simp
  show ?thesis using f p q
    by (simp add: answer_def demo_request_def WAIT_def RESOURCE_METADATA_def SERVER_METADATA_def OPENID_METADATA_def AUTHORIZE_def
        starts_with_def wait_def field_def demo_pending_def demo_server_def with_state_def issuer_def Let_def)
qed

text \<open>The connection ends on this computer.\<close>

definition demo9 :: run where
  "demo9 = fly [] [Disconnected ''g''] (set_database (snd (delete_grant ''g'' (database demo8))) demo8)"

definition demo10 :: run where
  "demo10 = fly [Disconnected ''g''] [] (on_memory (forget ''g'') demo9)"

lemma demo10_reachable: "reachable demo_env demo10"
proof -
  have "Disconnected ''g'' \<in> set (rn_flights demo9)" by (simp add: demo9_def fly_def)
  from reachable.step[OF reachable.step[OF demo8_reachable disconnects[of demo_env demo8 "''g''", folded demo9_def]]
      disconnected[OF this, where E = demo_env]]
  show ?thesis by (simp add: demo10_def)
qed

lemma demo10_gone: "gone ''g'' demo10"
  using demo8_grants demo8_access demo8_log(2)
  by (simp add: gone_def demo10_def demo9_def run_ops delete_grant_def bm_remove_def forget_def bm_filter_def list_ex_iff)
     (simp add: demo8_def demo7_def demo6_def run_ops)

text \<open>Unless a synchronisation had read the database before: what it puts into memory comes back.\<close>

definition demo_stale :: "(string \<times> grant) list" where
  "demo_stale = fst (sync_read 20 (rn_auth demo8))"

definition demo11 :: run where
  "demo11 = fly [] [Syncing 20 demo_stale] (demo8\<lparr>rn_auth := snd (sync_read 20 (rn_auth demo8))\<rparr>)"

definition demo12 :: run where
  "demo12 = fly [] [Disconnected ''g''] (set_database (snd (delete_grant ''g'' (database demo11))) demo11)"

definition demo13 :: run where
  "demo13 = fly [Disconnected ''g''] [] (on_memory (forget ''g'') demo12)"

definition demo14 :: run where
  "demo14 = fly [Syncing 20 demo_stale] [] (on_memory (sync_apply 20 2 demo_stale) demo13)"

lemma demo_stale_eq: "demo_stale = [(''g'', demo_grant)]" "db_grants (database demo11) = [(''g'', demo_grant)]"
proof -
  have "as_i64 20 = 20" by (simp add: as_i64_def I64_MAX_def)
  then show "demo_stale = [(''g'', demo_grant)]" "db_grants (database demo11) = [(''g'', demo_grant)]"
    using demo8_grants
    by (simp_all add: demo_stale_def demo11_def sync_read_def sweep_def grants_of_def bm_filter_def demo_grant_def new_grant_def
        database_def fly_def Let_def)
qed

lemma demo14_reachable: "reachable demo_env demo14"
proof -
  have "sync_read 20 (rn_auth demo8) = (demo_stale, snd (sync_read 20 (rn_auth demo8)))" by (simp add: demo_stale_def)
  from reachable.step[OF demo8_reachable sync_reads[OF this, where E = demo_env]]
  have "reachable demo_env demo11" by (simp add: demo11_def)
  from reachable.step[OF this disconnects[of demo_env demo11 "''g''", folded demo12_def]] have 12: "reachable demo_env demo12" .
  have "Disconnected ''g'' \<in> set (rn_flights demo12)" by (simp add: demo12_def fly_def)
  from reachable.step[OF 12 disconnected[OF this, where E = demo_env]] have 13: "reachable demo_env demo13" by (simp add: demo13_def)
  have "Syncing 20 demo_stale \<in> set (rn_flights demo13)"
    by (simp add: demo13_def demo12_def demo11_def run_ops)
  from reachable.step[OF 13 syncs[OF this, where E = demo_env and at = 2]] show ?thesis by (simp add: demo14_def)
qed

lemma demo14_revived: "rn_flights demo14 = []" "db_grants (database demo14) = []"
    "valid demo_web demo_server 50 ''acc'' (memory demo14)"
proof -
  have "live_access 20 (''g'', demo_grant) = Some (''acc'', \<lparr>ac_host = ''h'', ac_grant = ''g'', ac_resource = None, ac_expires_at = 110\<rparr>)"
    by (simp add: live_access_def demo_grant_def new_grant_def demo_server_def)
  then show "valid demo_web demo_server 50 ''acc'' (memory demo14)"
    by (simp add: demo14_def run_ops sync_apply_def List.map_filter_def demo_stale_eq(1) valid_def demo_server_def)
  show "rn_flights demo14 = []" using demo8_log(2) by (simp add: demo14_def demo13_def demo12_def demo11_def run_ops)
  show "db_grants (database demo14) = []"
    using demo_stale_eq(2) by (simp add: demo14_def demo13_def demo12_def run_ops delete_grant_def bm_remove_def)
qed

end
