(* ===== verification/Oauth_Properties.thy ===== *)
theory Oauth_Properties
  imports Oauth_Samples
begin

text \<open>
  What the authorization server in front of shared MCP servers promises, over every interleaving of
  requests and for single ones, with a run on which each is evaluated.
\<close>

subsection \<open>Over every run\<close>

text \<open>C29: a secret is exchanged at most once. In every reachable state no code and no refresh token has been
  exchanged twice, whatever requests ran side by side, and no code that still waits was ever exchanged.\<close>

theorem single_use:
  assumes "reachable E y"
  shows "distinct (concat (map spent (rn_log y)))
    \<and> set (map fst (st_codes (memory y))) \<inter> set (concat (map spent (rn_log y))) = {}"
proof
  have c: "count (tracks y) h \<le> 1" for h using reachable_once[OF assms] by (simp add: once_def)
  have "count (mset (concat (map spent (rn_log y)))) h \<le> 1" for h
    using c[of h] by (simp add: tracks_def)
  then show "distinct (concat (map spent (rn_log y)))" unfolding distinct_count_atmost_1
    by (metis One_nat_def count_mset_0_iff le_Suc_eq le_zero_eq not_in_iff set_mset_mset)
  show "set (map fst (st_codes (memory y))) \<inter> set (concat (map spent (rn_log y))) = {}"
  proof (rule ccontr)
    assume "\<not> ?thesis"
    then obtain h where h: "h \<in> set (map fst (st_codes (memory y)))" "h \<in> set (concat (map spent (rn_log y)))" by blast
    then have "h \<in># mset (map fst (st_codes (memory y)))" "h \<in># mset (concat (map spent (rn_log y)))"
      by (simp_all only: set_mset_mset)
    then have "0 < count (mset (map fst (st_codes (memory y)))) h" "0 < count (mset (concat (map spent (rn_log y)))) h"
      by (simp_all only: count_greater_zero_iff)
    with c[of h] show False unfolding tracks_def count_union by linarith
  qed
qed

theorem single_use_witness:
  "rn_log demo8 = [Connected ''k'' ''g'', Approval ''k'' demo_consent] \<and> distinct (concat (map spent (rn_log demo8)))
    \<and> set (map fst (st_codes (memory demo8))) \<inter> set (concat (map spent (rn_log demo8))) = {}"
  using single_use[OF demo8_reachable] demo8_log(1) by simp



text \<open>C31: ended is ended. Once a connection is out of the database and out of memory, and no request in flight has read it
  before, no token of it ever passes again, whatever is asked of the server from then on.\<close>

theorem ended_stays_ended:
  assumes "gone g y" and "(auth_step E)\<^sup>*\<^sup>* y y'"
  shows "\<not> list_ex (\<lambda>(_, a). ac_grant a = g) (st_access (memory y')) \<and> g \<notin> fst ` set (db_grants (database y'))"
  using gone_steps[OF assms(2,1)] by (simp add: gone_def)

theorem ended_stays_ended_witness:
  "(auth_step demo_env)\<^sup>*\<^sup>* demo10 (fly [] [Dropping ''g''] demo10)
    \<and> \<not> list_ex (\<lambda>(_, a). ac_grant a = ''g'') (st_access (memory (fly [] [Dropping ''g''] demo10)))"
proof -
  have s: "(auth_step demo_env)\<^sup>*\<^sup>* demo10 (fly [] [Dropping ''g''] demo10)" by (rule r_into_rtranclp, rule revokes)
  with ended_stays_ended[OF demo10_gone s] show ?thesis by simp
qed

text \<open>A synchronisation that read the database before a connection ended puts its token back: the state in which nothing
  is in flight, the database is empty and the token passes is reachable.\<close>

lemma stale_sync_revives:
  "\<exists>y. reachable demo_env y \<and> rn_flights y = [] \<and> db_grants (database y) = [] \<and> valid demo_web demo_server 50 ''acc'' (memory y)"
  using demo14_reachable demo14_revived by blast

text \<open>C32: a browser is sent nowhere else. Whatever is asked of a server in a reachable state, an answer that redirects goes to
  an address that uses HTTPS, or HTTP on the machine itself, with parameters appended.\<close>

theorem redirects_are_safe:
  assumes "reachable E y" and "answer E R rq dw (rn_auth y) = ((RedirectTo s, asked), A)"
  shows "\<exists>u ps. safe_redirect (ae_web E) u \<and> s = with_query (ae_web E) u ps"
  by (rule answer_safe[OF reachable_known_safe[OF assms(1)] assms(2)])

theorem redirects_are_safe_witness:
  "fst (fst (answer demo_env demo_server (demo_request Get WAIT ''wait'' []) demo_draws (rn_auth demo3)))
      = RedirectTo ''https://app/cb?code=k&state=st&iss=https://h&''
    \<and> (\<exists>u ps. safe_redirect demo_web u \<and> ''https://app/cb?code=k&state=st&iss=https://h&'' = with_query demo_web u ps)"
  using redirects_are_safe[OF demo3_reachable demo_wait] demo_wait by simp

subsection \<open>Single requests\<close>

text \<open>C33: an exchange checks everything. A code that was exchanged waited, for this hostname, not expired, and came back with
  the client, the redirect and the PKCE verifier it was approved with, from a client that proved itself; it waits no more, and
  the tokens handed out belong to one new connection of that hostname and client that ends when the policy says.\<close>

theorem exchange_checked:
  assumes "exchange_code E R form authorization dw A = (Inr js, A')"
  shows "\<exists>c cl g acc ref made a. map_of (st_codes (au_state A)) (secret_hash (ae_web E) (field form ''code'')) = Some c
    \<and> cd_host c = rs_host R \<and> dw_at dw < cd_expires c \<and> cd_client_id c = field form ''client_id''
    \<and> form ''redirect_uri'' = Some (cd_redirect_uri c) \<and> pkce_ok (ae_web E) (field form ''code_verifier'') (cd_challenge c)
    \<and> fst (client_of E (rs_host R) (field form ''client_id'') (dw_at dw) A) = Inr cl
    \<and> authenticate (ae_web E) cl form authorization = Inr ()
    \<and> js = tokens acc ref \<and> map_of (st_codes (au_state A')) (secret_hash (ae_web E) (field form ''code'')) = None
    \<and> map_of (db_grants (au_db A)) g = None \<and> map_of (db_grants (au_db A')) g = Some made
    \<and> gr_host made = rs_host R \<and> gr_client_id made = cd_client_id c \<and> gr_refresh_hash made = secret_hash (ae_web E) ref
    \<and> gr_expires_at made \<le> dw_now dw + po_max_grant (ae_policy E)
    \<and> map_of (st_access (au_state A')) (secret_hash (ae_web E) acc) = Some a \<and> ac_grant a = g \<and> ac_host a = rs_host R
    \<and> ac_expires_at a \<le> dw_now dw + ACCESS_TTL"
proof -
  obtain c res cl B where x:
      "map_of (st_codes (au_state A)) (secret_hash (ae_web E) (field form ''code'')) = Some c"
      "exchange_check (ae_web E) R form c (dw_at dw) = Inr res"
      "fst (client_of E (rs_host R) (field form ''client_id'') (dw_at dw) A) = Inr cl"
      "authenticate (ae_web E) cl form authorization = Inr ()"
      "au_state B = (au_state A)\<lparr>st_codes := bm_remove (secret_hash (ae_web E) (field form ''code'')) (st_codes (au_state A))\<rparr>"
      "au_db B = au_db A" "connect E R (secret_hash (ae_web E) (field form ''code'')) c res dw B = (Inr js, A')"
    by (rule exchange_code_Inr[OF assms])
  obtain g acc ref d st where n: "js = tokens acc ref"
      "st = snd (issue (ae_web E) g (rs_host R) res (dw_now dw + po_max_grant (ae_policy E)) (dw_now dw) acc (au_state B))"
      "insert_grant g (new_grant (ae_web E) R c res (dw_now dw) (dw_now dw + po_max_grant (ae_policy E)) acc
         (min (dw_now dw + ACCESS_TTL) (dw_now dw + po_max_grant (ae_policy E))) ref
         (min (dw_now dw + REFRESH_TTL) (dw_now dw + po_max_grant (ae_policy E)))) (au_db B) = Some d"
      "A' = B\<lparr>au_state := st\<lparr>st_used_codes := bm_insert (secret_hash (ae_web E) (field form ''code'')) (dw_at dw, g) (st_used_codes st)\<rparr>, au_db := d\<rparr>"
    using connect_Inr[OF x(7)] by metis
  obtain made where m: "map_of (db_grants (au_db A')) g = Some made" "gr_host made = rs_host R" "gr_client_id made = cd_client_id c"
      "gr_refresh_hash made = secret_hash (ae_web E) ref" "gr_expires_at made \<le> dw_now dw + po_max_grant (ae_policy E)"
    using insert_grant_new[OF n(3)] n(4) by (auto simp: new_grant_def as_i64_def)
  have "map_of (db_grants (au_db A)) g = None" using insert_grant_Some[OF n(3)] x(6) by simp
  moreover have "map_of (st_codes (au_state A')) (secret_hash (ae_web E) (field form ''code'')) = None"
    by (simp add: n(2,4) issue_def x(5) Let_def)
  moreover obtain a where "map_of (st_access (au_state A')) (secret_hash (ae_web E) acc) = Some a" "ac_grant a = g" "ac_host a = rs_host R"
      "ac_expires_at a \<le> dw_now dw + ACCESS_TTL"
    by (simp add: n(2,4) issue_def Let_def)
  ultimately show ?thesis using x(1,3,4) n(1) m exchange_check_Inr[OF x(2)] by blast
qed

theorem exchange_checked_witness:
  "\<exists>c A. exchange_code demo_env demo_server demo_form None demo_draws (rn_auth demo3) = (Inr (tokens ''acc'' ''ref''), A)
    \<and> map_of (st_codes (au_state (rn_auth demo3))) ''k'' = Some c \<and> cd_host c = ''h''"
proof -
  obtain A where a: "exchange_code demo_env demo_server demo_form None demo_draws (rn_auth demo3) = (Inr (tokens ''acc'' ''ref''), A)"
    using demo_exchange by blast
  have "field demo_form ''code'' = ''k''" "rs_host demo_server = ''h''" by (simp_all add: field_def demo_server_def)
  then show ?thesis using a exchange_checked[OF a] by auto
qed

text \<open>C34: a code used again ends what it made. After a successful exchange, the same code, from whoever and with whatever else
  in the request, is refused, and the connection of the first exchange is gone from the database and its tokens from memory.\<close>

theorem code_replayed:
  assumes "exchange_code E R form authorization dw A = (Inr js, A1)" and "field form' ''code'' = field form ''code''"
  shows "\<exists>g A2. dw_grant dw = Some g \<and> map_of (db_grants (au_db A1)) g \<noteq> None
    \<and> exchange_code E R' form' authorization' dw' A1 = oauth_err ''invalid_grant'' ''The code is invalid, expired or used.'' A2
    \<and> map_of (db_grants (au_db A2)) g = None \<and> \<not> list_ex (\<lambda>(_, a). ac_grant a = g) (st_access (au_state A2))"
proof -
  let ?h = "secret_hash (ae_web E) (field form ''code'')"
  obtain c res B where x: "au_state B = (au_state A)\<lparr>st_codes := bm_remove ?h (st_codes (au_state A))\<rparr>"
      "connect E R ?h c res dw B = (Inr js, A1)"
    by (rule exchange_code_Inr[OF assms(1)])
  obtain g acc gr d st where n: "dw_grant dw = Some g"
      "st = snd (issue (ae_web E) g (rs_host R) res (dw_now dw + po_max_grant (ae_policy E)) (dw_now dw) acc (au_state B))"
      "insert_grant g gr (au_db B) = Some d"
      "A1 = B\<lparr>au_state := st\<lparr>st_used_codes := bm_insert ?h (dw_at dw, g) (st_used_codes st)\<rparr>, au_db := d\<rparr>"
    using connect_Inr[OF x(2)] by metis
  have "map_of (st_codes (au_state A1)) ?h = None" by (simp add: n(2,4) issue_def x(1) Let_def)
  moreover have "map_of (st_used_codes (au_state A1)) ?h = Some (dw_at dw, g)" by (simp add: n(4))
  moreover have "map_of (db_grants (au_db A1)) g \<noteq> None" using insert_grant_new[OF n(3)] n(4) by auto
  ultimately show ?thesis
    using n(1) assms(2)
    by (simp add: exchange_code_def take_code_def replay_code_def end_grant_def delete_grant_def forget_def set_bm_filter list_ex_iff Let_def)
qed

theorem code_replayed_witness:
  "\<exists>A1 A2. exchange_code demo_env demo_server demo_form None demo_draws (rn_auth demo3) = (Inr (tokens ''acc'' ''ref''), A1)
    \<and> exchange_code demo_env demo_server demo_form None demo_draws A1
      = oauth_err ''invalid_grant'' ''The code is invalid, expired or used.'' A2 \<and> map_of (db_grants (au_db A2)) ''g'' = None"
proof -
  obtain A1 where a: "exchange_code demo_env demo_server demo_form None demo_draws (rn_auth demo3) = (Inr (tokens ''acc'' ''ref''), A1)"
    using demo_exchange by blast
  have "dw_grant demo_draws = Some ''g''" by (simp add: demo_draws_def)
  with a code_replayed[OF a, of demo_form demo_server None demo_draws] show ?thesis by auto
qed



text \<open>C36: requests are limited. However requests and synchronisations follow one another, in no minute does the server let in
  more than 60 requests for one hostname or more than 20 from one address.\<close>

theorem requests_limited:
  assumes "sorted (map fst ts)"
  shows "in_minute t (stamps fst h (let_in ts empty_auth)) \<le> 60 \<and> in_minute t (stamps snd ip (let_in ts empty_auth)) \<le> 20"
proof -
  have "remembers 0 fst [] (st_host_hits empty_auth)" "remembers 0 snd [] (st_hits empty_auth)"
    by (simp_all add: remembers_def empty_auth_def hits_of_def stamps_def)
  from let_in_limited[OF assms _ _ this, of t h ip] show ?thesis
    by (simp add: in_minute_def stamps_def PER_MINUTE_PER_HOST_def PER_MINUTE_def)
qed

theorem requests_limited_witness:
  "let_in [(5, Counted ''h'' (V4 1 1 1 1)), (7, Swept 9 [])] empty_auth = [(5, ''h'', V4 1 1 1 1)]
    \<and> in_minute 0 (stamps fst ''h'' (let_in [(5, Counted ''h'' (V4 1 1 1 1)), (7, Swept 9 [])] empty_auth)) \<le> 60"
  using requests_limited[of "[(5, Counted ''h'' (V4 1 1 1 1)), (7, Swept 9 [])]" 0 "''h''" "V4 1 1 1 1"]
  by (simp add: allow_def empty_auth_def hits_of_def recent_def limits Let_def)

end
