(* ===== verification/Runtime.thy ===== *)
theory Runtime
  imports Cloud Oauth_Server
begin

text \<open>
  Around the connector processes (\<open>runtime/policy.rs\<close>, \<open>logbuf.rs\<close>, \<open>network.rs\<close>, \<open>ports.rs\<close>,
  \<open>registry.rs\<close>): when a crashed one is restarted, the log lines kept of it, noticing sleep and
  network changes, ports, and the files that remember which processes are ours. Times are in
  nanoseconds.
\<close>

subsection \<open>Restarting\<close>

record restart_policy =
  rp_initial_backoff :: nat
  rp_max_backoff :: nat
  rp_crash_loop_threshold :: nat
  rp_crash_window :: nat
  rp_connect_timeout :: nat
  rp_health_interval :: nat
  rp_stop_grace :: nat
  rp_nudge_check :: "nat option"
  rp_crash_loop_retry :: nat

definition secs :: "nat \<Rightarrow> nat" where
  "secs n = n * 1000000000"

definition default_policy :: restart_policy where
  "default_policy = \<lparr>rp_initial_backoff = secs 1, rp_max_backoff = secs 60, rp_crash_loop_threshold = 5,
     rp_crash_window = secs 120, rp_connect_timeout = secs 30, rp_health_interval = secs 2, rp_stop_grace = secs 5,
     rp_nudge_check = Some (secs 15), rp_crash_loop_retry = secs (10 * 60)\<rparr>"

text \<open>Restarting a quick share gives it a new address, so one that runs is never restarted.\<close>

definition quick_share_policy :: restart_policy where
  "quick_share_policy = default_policy\<lparr>rp_nudge_check := None\<rparr>"

definition DURATION_MAX :: nat where
  "DURATION_MAX = (2 ^ 64 - 1) * 1000000000 + 999999999"

text \<open>\<open>jitter\<close> is the multiplication by a random factor between 0.8 and 1.2.\<close>

definition backoff :: "(nat \<Rightarrow> nat) \<Rightarrow> restart_policy \<Rightarrow> nat \<Rightarrow> nat" where
  "backoff jitter P attempt =
     (let exponent = min (attempt - 1) 16;
          base = min (min (rp_initial_backoff P * 2 ^ exponent) DURATION_MAX) (rp_max_backoff P)
      in min (jitter base) (rp_max_backoff P))"

text \<open>\<open>CrashTracker::record\<close>: the attempt and whether it is a loop; the crashes it remembers, the oldest first.\<close>

definition record_crash :: "nat \<Rightarrow> restart_policy \<Rightarrow> nat list \<Rightarrow> (nat \<times> bool) \<times> nat list" where
  "record_crash now P crashes =
     (let kept = dropWhile (\<lambda>first. rp_crash_window P < now - first) (crashes @ [now]); n = length kept
      in ((min n U32_MAX, rp_crash_loop_threshold P < n), kept))"

subsection \<open>Log lines\<close>

text \<open>A buffer keeps at least one line; its capacity and the lines, the oldest first.\<close>

type_synonym 'l log_buffer = "nat \<times> 'l list"

definition log_new :: "nat \<Rightarrow> 'l log_buffer" where
  "log_new capacity = (max capacity 1, [])"

definition log_push :: "'l \<Rightarrow> 'l log_buffer \<Rightarrow> 'l log_buffer" where
  "log_push x = (\<lambda>(capacity, xs). (capacity, (if length xs = capacity then tl xs else xs) @ [x]))"

definition log_tail :: "nat \<Rightarrow> 'l log_buffer \<Rightarrow> 'l list" where
  "log_tail limit = (\<lambda>(_, xs). drop (length xs - limit) xs)"

subsection \<open>Sleep and network changes\<close>

definition TICK :: nat where "TICK = secs 5"
definition WAKE_GAP :: nat where "WAKE_GAP = secs 20"

datatype disruption = Woke | Online | NetworkChanged

text \<open>The network is unknown before the first look, and \<open>Some None\<close> when offline.\<close>

record observer =
  ob_last_tick :: nat
  ob_network :: "nat option option"

definition observer_new :: "nat \<Rightarrow> observer" where
  "observer_new now = \<lparr>ob_last_tick = now, ob_network = None\<rparr>"

fun routable :: "address \<Rightarrow> bool" where
  "routable (V4 a b c d) \<longleftrightarrow> a \<noteq> 127 \<and> \<not> (a = 169 \<and> b = 254) \<and> \<not> (a = 0 \<and> b = 0 \<and> c = 0 \<and> d = 0)"
| "routable (V6 gs) \<longleftrightarrow> gs \<noteq> [0, 0, 0, 0, 0, 0, 0, 1] \<and> gs \<noteq> [0, 0, 0, 0, 0, 0, 0, 0] \<and> gs ! 0 div 64 \<noteq> 0xfe80 div 64"

text \<open>\<open>hash\<close> stands for the standard hasher.\<close>

definition fingerprint :: "(address list \<Rightarrow> nat) \<Rightarrow> address list \<Rightarrow> nat option" where
  "fingerprint hash addresses = (let rs = filter routable addresses in
     if rs = [] then None else Some (hash (dedup (sort rs))))"

definition observe :: "(address list \<Rightarrow> nat) \<Rightarrow> nat \<Rightarrow> address list \<Rightarrow> observer \<Rightarrow> disruption option \<times> observer" where
  "observe hash now addresses ob =
     (let woke = TICK + WAKE_GAP < now - ob_last_tick ob;
          current = fingerprint hash addresses;
          ob' = \<lparr>ob_last_tick = now, ob_network = Some current\<rparr>
      in (if woke then Some Woke else
          (case (ob_network ob, current) of
             (None, _) \<Rightarrow> None
           | (_, None) \<Rightarrow> None
           | (Some before, Some h) \<Rightarrow> if before = Some h then None
               else (case before of None \<Rightarrow> Some Online | Some _ \<Rightarrow> Some NetworkChanged)), ob'))"

subsection \<open>Ports\<close>

record ports =
  pt_start :: nat
  pt_end :: nat
  pt_offset :: nat
  pt_taken :: "nat list"

definition TUNNEL_PORTS :: "nat \<times> nat" where "TUNNEL_PORTS = (20300, 20400)"
definition QUICK_SHARE_PORTS :: "nat \<times> nat" where "QUICK_SHARE_PORTS = (20400, 20500)"

definition ports_new :: "nat \<times> nat \<Rightarrow> ports" where
  "ports_new r = \<lparr>pt_start = fst r, pt_end = snd r, pt_offset = 0, pt_taken = []\<rparr>"

definition spread :: "nat \<Rightarrow> ports \<Rightarrow> ports" where
  "spread seed pt = pt\<lparr>pt_offset := seed mod max (pt_end pt - pt_start pt) 1\<rparr>"

text \<open>The sum of two \<open>u16\<close> wraps. \<open>free\<close> says which ports can be bound right now.\<close>

definition scan :: "ports \<Rightarrow> nat list" where
  "scan pt = (let len = pt_end pt - pt_start pt in
     map (\<lambda>i. pt_start pt + ((pt_offset pt + i) mod 2 ^ 16) mod len) [0..<len])"

definition allocate :: "(nat \<Rightarrow> bool) \<Rightarrow> ports \<Rightarrow> nat option \<times> ports" where
  "allocate free pt = (case find free (filter (\<lambda>p. p \<notin> set (pt_taken pt)) (scan pt)) of
      None \<Rightarrow> (None, pt) | Some p \<Rightarrow> (Some p, pt\<lparr>pt_taken := p # pt_taken pt\<rparr>))"

definition claim_port :: "(nat \<Rightarrow> bool) \<Rightarrow> nat \<Rightarrow> ports \<Rightarrow> bool \<times> ports" where
  "claim_port free p pt =
     (if pt_start pt \<le> p \<and> p < pt_end pt \<and> p \<notin> set (pt_taken pt) \<and> free p
      then (True, pt\<lparr>pt_taken := p # pt_taken pt\<rparr>) else (False, pt))"

definition release_port :: "nat \<Rightarrow> ports \<Rightarrow> ports" where
  "release_port p pt = pt\<lparr>pt_taken := removeAll p (pt_taken pt)\<rparr>"

subsection \<open>Process files\<close>

text \<open>A file of the directory, by its name: what it says, if it can be read. The process table gives the start time
  of a running process.\<close>

record pid_record =
  pr_marker :: string
  pr_pid :: nat
  pr_start :: nat
  pr_connector :: string

type_synonym run_dir = "(string \<times> pid_record option) list"

type_synonym processes = "nat \<rightharpoonup> nat"

definition MARKER :: string where "MARKER = ''teitunnel''"

definition safe_name :: "string \<Rightarrow> string" where
  "safe_name i = concat (map (\<lambda>c. case c of [x] \<Rightarrow> if is_alnum x \<or> x = CHR ''-'' then [x] else ''_'' | _ \<Rightarrow> ''_'') (utf8_chars i))"

definition pid_file :: "string \<Rightarrow> string" where
  "pid_file i = safe_name i @ ''.json''"

definition put_file :: "string \<Rightarrow> pid_record option \<Rightarrow> run_dir \<Rightarrow> run_dir" where
  "put_file f r dir = (f, r) # filter (\<lambda>(g, _). g \<noteq> f) dir"

definition record_pid :: "processes \<Rightarrow> string \<Rightarrow> nat \<Rightarrow> run_dir \<Rightarrow> run_dir" where
  "record_pid procs i pid dir = (case procs pid of
      None \<Rightarrow> dir
    | Some started \<Rightarrow> put_file (pid_file i) (Some \<lparr>pr_marker = MARKER, pr_pid = pid, pr_start = started, pr_connector = i\<rparr>) dir)"

definition remove_pid :: "string \<Rightarrow> run_dir \<Rightarrow> run_dir" where
  "remove_pid i dir = filter (\<lambda>(g, _). g \<noteq> pid_file i) dir"

definition read_pid :: "pid_record option \<Rightarrow> pid_record option" where
  "read_pid f = Option.bind f (\<lambda>r. if pr_marker r = MARKER then Some r else None)"

text \<open>\<open>Path::extension\<close>: what follows the last dot, unless nothing precedes it.\<close>

definition extension :: "string \<Rightarrow> string option" where
  "extension f = (let parts = split_on (CHR ''.'') f in
     if length parts < 2 \<or> concat (butlast parts) = [] \<and> length parts = 2 then None else Some (last parts))"

text \<open>\<open>kill\<close> is what stopping a process does to the table.\<close>

fun reap_orphans :: "(nat \<Rightarrow> processes \<Rightarrow> processes) \<Rightarrow> processes \<Rightarrow> run_dir \<Rightarrow> (nat list \<times> run_dir) \<times> processes" where
  "reap_orphans kill procs [] = (([], []), procs)"
| "reap_orphans kill procs ((f, content) # dir) =
     (if extension f = Some ''partial''
      then (case reap_orphans kill procs dir of ((pids, left), procs') \<Rightarrow> ((pids, (f, content) # left), procs'))
      else (case read_pid content of
          Some r \<Rightarrow>
            if procs (pr_pid r) = Some (pr_start r)
            then (case reap_orphans kill (kill (pr_pid r) procs) dir of
                ((pids, left), procs') \<Rightarrow> ((pr_pid r # pids, left), procs'))
            else reap_orphans kill procs dir
        | None \<Rightarrow> reap_orphans kill procs dir))"

text \<open>The registries of owners, by \<open><pid>-<start time>\<close>; names of another form are left alone.\<close>

definition identity_of :: "string \<Rightarrow> (nat \<times> nat) option" where
  "identity_of s = Option.bind (split_once ''-'' s) (\<lambda>(p, t).
     Option.bind (parse_uint U32_MAX p) (\<lambda>pid. Option.bind (parse_uint U64_MAX t) (\<lambda>started. Some (pid, started))))"

definition is_running_identity :: "processes \<Rightarrow> string \<Rightarrow> bool" where
  "is_running_identity procs s = (case identity_of s of None \<Rightarrow> False | Some (pid, started) \<Rightarrow> procs pid = Some started)"

fun reap_abandoned :: "(nat \<Rightarrow> processes \<Rightarrow> processes) \<Rightarrow> processes \<Rightarrow> (string \<times> run_dir) list
    \<Rightarrow> (nat list \<times> (string \<times> run_dir) list) \<times> processes" where
  "reap_abandoned kill procs [] = (([], []), procs)"
| "reap_abandoned kill procs ((n, dir) # root) =
     (if identity_of n = None \<or> is_running_identity procs n
      then (case reap_abandoned kill procs root of ((pids, left), procs') \<Rightarrow> ((pids, (n, dir) # left), procs'))
      else (case reap_orphans kill procs dir of ((pids, _), procs') \<Rightarrow>
          (case reap_abandoned kill procs' root of ((pids', left), procs'') \<Rightarrow> ((pids @ pids', left), procs''))))"

end
