(* ===== verification/Connector.thy ===== *)
theory Connector
  imports Runtime Transitions
begin

text \<open>
  One connector's actor (\<open>runtime/connector.rs\<close>): it starts cloudflared, polls whether it is ready,
  restarts it after crashes and stops it. Each step is one arm of a \<open>select!\<close> or what follows it up to
  the next wait; steps of the actor itself are kept apart from what it merely observes. The supervisor
  (\<open>runtime/supervisor.rs\<close>) keeps the actors by id.
\<close>

subsection \<open>State\<close>

datatype verdict = StopRequested | Restart

text \<open>Where the actor waits: at the head of its loop, beside the process (whether it had a connection, since when,
  when a nudge's check is due), for the process to stop, for a backoff or in a crash loop, or not at all.\<close>

datatype phase =
    AtTop
  | Supervising bool nat "nat option"
  | Halting verdict
  | Backoff
  | Looping
  | Ended

record conn =
  cn_phase :: phase
  cn_state :: connector_state
  cn_published :: "connector_state list"
      \<comment> \<open>the newest first\<close>
  cn_crashes :: "nat list"
  cn_stop :: bool
  cn_nudged :: bool
      \<comment> \<open>a nudge since nudges were last marked as seen\<close>
  cn_pid :: "nat option"
  cn_file :: "nat option"
      \<comment> \<open>the process the connector's file remembers\<close>
  cn_clock :: nat

definition conn_new :: conn where
  "conn_new = \<lparr>cn_phase = AtTop, cn_state = ConnStopped, cn_published = [], cn_crashes = [], cn_stop = False,
     cn_nudged = False, cn_pid = None, cn_file = None, cn_clock = 0\<rparr>"

definition set_state :: "connector_state \<Rightarrow> conn \<Rightarrow> conn" where
  "set_state s c = (if cn_state c = s then c else c\<lparr>cn_state := s, cn_published := s # cn_published c\<rparr>)"

definition stop_now :: "conn \<Rightarrow> conn" where
  "stop_now c = (set_state ConnStopped c)\<lparr>cn_phase := Ended\<rparr>"

definition reset_crashes :: "conn \<Rightarrow> conn" where
  "reset_crashes c = c\<lparr>cn_crashes := []\<rparr>"

text \<open>The process was started; whether its file could be written is \<open>written\<close>.\<close>

definition started :: "nat \<Rightarrow> bool \<Rightarrow> conn \<Rightarrow> conn" where
  "started pid written c = set_state ConnConnecting
     ((set_state ConnStarting c)\<lparr>cn_phase := Supervising False (cn_clock c) None, cn_nudged := False, cn_pid := Some pid,
        cn_file := (if written then Some pid else cn_file c)\<rparr>)"

text \<open>The process exited, or could not be started: a backoff, or a crash loop.\<close>

definition crashed :: "(nat \<Rightarrow> nat) \<Rightarrow> restart_policy \<Rightarrow> int option \<Rightarrow> conn \<Rightarrow> conn" where
  "crashed jitter P exit_code c =
     (let ((attempt, crash_loop), kept) = record_crash (cn_clock c) P (cn_crashes c);
          c = c\<lparr>cn_crashes := kept, cn_nudged := False\<rparr>
      in if crash_loop then (set_state (ConnCrashLoop exit_code) c)\<lparr>cn_phase := Looping\<rparr>
         else (set_state (ConnCrashed attempt (min (backoff jitter P attempt div 1000000) U64_MAX) exit_code) c)\<lparr>cn_phase := Backoff\<rparr>)"

text \<open>The process is gone: its file is removed.\<close>

definition gone_process :: "conn \<Rightarrow> conn" where
  "gone_process c = c\<lparr>cn_pid := None, cn_file := None\<rparr>"

text \<open>\<open>/ready\<close> answered with so many connections (none when it did not answer).\<close>

definition polled :: "restart_policy \<Rightarrow> nat \<Rightarrow> conn \<Rightarrow> conn" where
  "polled P connections c = (case cn_phase c of
      Supervising had since check \<Rightarrow>
        let due = (case check of Some at \<Rightarrow> at \<le> cn_clock c | None \<Rightarrow> False);
            check = (if due then None else check)
        in if due \<and> connections = 0 then (set_state ConnStopping c)\<lparr>cn_phase := Halting Restart\<rparr>
           else if 0 < connections then (set_state (ConnHealthy connections) c)\<lparr>cn_phase := Supervising True since check\<rparr>
           else if had \<or> rp_connect_timeout P < cn_clock c - since
           then (set_state ConnDegraded c)\<lparr>cn_phase := Supervising had since check\<rparr>
           else c\<lparr>cn_phase := Supervising had since check\<rparr>
    | _ \<Rightarrow> c)"

definition noticed :: "restart_policy \<Rightarrow> conn \<Rightarrow> conn" where
  "noticed P c = (case cn_phase c of
      Supervising had since check \<Rightarrow> c\<lparr>cn_nudged := False, cn_phase := Supervising had since
        (case rp_nudge_check P of None \<Rightarrow> check
         | Some d \<Rightarrow> Some (case check of Some at \<Rightarrow> at | None \<Rightarrow> cn_clock c + d))\<rparr>
    | _ \<Rightarrow> c)"

subsection \<open>Steps\<close>

text \<open>What happens to the actor: time passes, it is nudged or asked to stop, \<open>/ready\<close> answers.\<close>

inductive observes :: "restart_policy \<Rightarrow> conn \<Rightarrow> conn \<Rightarrow> bool" for P where
  ticks: "cn_clock c \<le> t \<Longrightarrow> observes P c (c\<lparr>cn_clock := t\<rparr>)"
| nudges: "observes P c (c\<lparr>cn_nudged := True\<rparr>)"
| asks: "observes P c (c\<lparr>cn_stop := True\<rparr>)"
| polls: "cn_phase c = Supervising had since check \<Longrightarrow> observes P c (polled P connections c)"
| notices: "cn_phase c = Supervising had since check \<Longrightarrow> cn_nudged c \<Longrightarrow> observes P c (noticed P c)"

text \<open>What it does: it goes on to the next wait.\<close>

inductive acts :: "restart_policy \<Rightarrow> conn \<Rightarrow> conn \<Rightarrow> bool" for P where
  stops: "cn_phase c \<in> {AtTop, Backoff, Looping} \<Longrightarrow> cn_stop c \<Longrightarrow> acts P c (stop_now c)"
| spawns: "cn_phase c = AtTop \<Longrightarrow> \<not> cn_stop c \<Longrightarrow> acts P c (started pid written c)"
| fails_to_spawn: "cn_phase c = AtTop \<Longrightarrow> \<not> cn_stop c \<Longrightarrow> acts P c (crashed jitter P None (set_state ConnStarting c))"
| exits: "cn_phase c = Supervising had since check \<Longrightarrow> acts P c (crashed jitter P exit_code (gone_process c))"
| halts: "cn_phase c = Supervising had since check \<Longrightarrow> cn_stop c
    \<Longrightarrow> acts P c ((set_state ConnStopping c)\<lparr>cn_phase := Halting StopRequested\<rparr>)"
| halted: "cn_phase c = Halting StopRequested \<Longrightarrow> acts P c (stop_now (gone_process c))"
| restarts: "cn_phase c = Halting Restart \<Longrightarrow> acts P c ((gone_process c)\<lparr>cn_phase := AtTop\<rparr>)"
| retries: "cn_phase c = Backoff \<Longrightarrow> acts P c (c\<lparr>cn_phase := AtTop\<rparr>)"
| retries_loop: "cn_phase c = Looping \<Longrightarrow> acts P c ((reset_crashes c)\<lparr>cn_phase := AtTop\<rparr>)"
| retries_at_once: "cn_phase c \<in> {Backoff, Looping} \<Longrightarrow> cn_nudged c \<Longrightarrow> acts P c ((reset_crashes c)\<lparr>cn_phase := AtTop\<rparr>)"

definition conn_step :: "restart_policy \<Rightarrow> conn \<Rightarrow> conn \<Rightarrow> bool" where
  "conn_step P c c' \<longleftrightarrow> observes P c c' \<or> acts P c c'"

subsection \<open>The diagram of the states\<close>

text \<open>Which state may follow which, as \<open>ConnectorState\<close> documents them.\<close>

inductive follows :: "connector_state \<Rightarrow> connector_state \<Rightarrow> bool" where
  "follows ConnStopped ConnStarting"
| "follows ConnStarting ConnConnecting"
| "s \<in> {ConnStarting, ConnConnecting, ConnHealthy n, ConnDegraded} \<Longrightarrow> follows s (ConnCrashed attempt ms exit_code)"
| "s \<in> {ConnStarting, ConnConnecting, ConnHealthy n, ConnDegraded} \<Longrightarrow> follows s (ConnCrashLoop exit_code)"
| "s \<in> {ConnConnecting, ConnHealthy m, ConnDegraded} \<Longrightarrow> s \<noteq> ConnHealthy n \<Longrightarrow> follows s (ConnHealthy n)"
| "s \<in> {ConnConnecting, ConnHealthy n} \<Longrightarrow> follows s ConnDegraded"
| "s \<in> {ConnConnecting, ConnHealthy n, ConnDegraded} \<Longrightarrow> follows s ConnStopping"
| "s \<in> {ConnStopping, ConnCrashed attempt ms exit_code, ConnCrashLoop exit_code} \<Longrightarrow> follows s ConnStarting"
| "s \<in> {ConnStopping, ConnCrashed attempt ms exit_code, ConnCrashLoop exit_code} \<Longrightarrow> follows s ConnStopped"

text \<open>The states published, the newest first, up to the state before the first.\<close>

fun drawn :: "connector_state list \<Rightarrow> bool" where
  "drawn [] \<longleftrightarrow> True"
| "drawn [s] \<longleftrightarrow> follows ConnStopped s"
| "drawn (s # r # ss) \<longleftrightarrow> follows r s \<and> drawn (r # ss)"

text \<open>What each phase says of the state and of the process.\<close>

definition supervised :: "connector_state \<Rightarrow> bool" where
  "supervised s \<longleftrightarrow> (case s of ConnConnecting \<Rightarrow> True | ConnHealthy _ \<Rightarrow> True | ConnDegraded \<Rightarrow> True | _ \<Rightarrow> False)"

definition waiting_state :: "connector_state \<Rightarrow> bool" where
  "waiting_state s \<longleftrightarrow> (case s of ConnCrashed _ _ _ \<Rightarrow> True | ConnCrashLoop _ \<Rightarrow> True | _ \<Rightarrow> False)"

fun fits :: "phase \<Rightarrow> connector_state \<Rightarrow> bool" where
  "fits AtTop s \<longleftrightarrow> s \<in> {ConnStopped, ConnStopping} \<or> waiting_state s"
| "fits (Supervising _ _ _) s \<longleftrightarrow> supervised s"
| "fits (Halting _) s \<longleftrightarrow> s = ConnStopping"
| "fits Backoff s \<longleftrightarrow> (case s of ConnCrashed _ _ _ \<Rightarrow> True | _ \<Rightarrow> False)"
| "fits Looping s \<longleftrightarrow> (case s of ConnCrashLoop _ \<Rightarrow> True | _ \<Rightarrow> False)"
| "fits Ended s \<longleftrightarrow> s = ConnStopped"

fun has_process :: "phase \<Rightarrow> bool" where
  "has_process (Supervising _ _ _) = True"
| "has_process (Halting _) = True"
| "has_process _ = False"

text \<open>How many steps of its own the actor still takes once it is asked to stop.\<close>

fun steps_left :: "phase \<Rightarrow> nat" where
  "steps_left Ended = 0"
| "steps_left AtTop = 1"
| "steps_left Backoff = 2"
| "steps_left Looping = 2"
| "steps_left (Halting _) = 2"
| "steps_left (Supervising _ _ _) = 3"

end
