(* ===== verification/Runtime_Laws.thy ===== *)
theory Runtime_Laws
  imports Connector
begin

text \<open>
  Laws of the runtime: the crashes and log lines that are remembered, ports, what counts as the same
  network, and the invariants of a connector's actor.
\<close>

subsection \<open>Crashes and backoffs\<close>

lemma dropWhile_sorted_filter:
  "sorted ts \<Longrightarrow> dropWhile (\<lambda>t. w < now - t) ts = filter (\<lambda>t. now - t \<le> w) ts" for now w :: nat
proof (induction ts)
  case (Cons t ts)
  show ?case
  proof (cases "w < now - t")
    case False
    then have "now - u \<le> w" if "u \<in> set ts" for u using Cons.prems that by fastforce
    with False show ?thesis by simp
  qed (use Cons in simp)
qed simp

definition tracked :: "restart_policy \<Rightarrow> nat list \<Rightarrow> nat list" where
  "tracked P ts = fold (\<lambda>t cs. snd (record_crash t P cs)) ts []"

lemma record_crash_kept:
  "sorted (cs @ [now]) \<Longrightarrow> snd (record_crash now P cs) = filter (\<lambda>t. now - t \<le> rp_crash_window P) (cs @ [now])"
  unfolding record_crash_def Let_def by (simp add: dropWhile_sorted_filter)

lemma tracked_filter:
  "sorted (ts @ [now]) \<Longrightarrow> \<exists>u. tracked P ts = filter (\<lambda>t. u \<le> t + rp_crash_window P) ts \<and> u \<le> now"
proof (induction ts arbitrary: now rule: rev_induct)
  case (snoc t ts)
  have s: "sorted (ts @ [t])" "t \<le> now" using snoc.prems by (auto simp: sorted_append)
  obtain u where u: "tracked P ts = filter (\<lambda>x. u \<le> x + rp_crash_window P) ts" "u \<le> t" using snoc.IH[OF s(1)] by blast
  have "sorted (tracked P ts @ [t])" using s(1) unfolding u(1) by (auto simp: sorted_append intro: sorted_wrt_filter)
  from record_crash_kept[OF this, of P]
  have "tracked P (ts @ [t]) = filter (\<lambda>x. t - x \<le> rp_crash_window P) (filter (\<lambda>x. u \<le> x + rp_crash_window P) ts @ [t])"
    by (simp add: tracked_def u(1)[unfolded tracked_def])
  also have "\<dots> = filter (\<lambda>x. t \<le> x + rp_crash_window P) (ts @ [t])"
    using u(2) by (auto intro!: filter_cong)
  finally show ?case using s(2) by blast
qed (auto simp: tracked_def)

lemma backoff_bounds:
  assumes "\<And>b. 8 * b \<le> 10 * jitter b"
  shows "backoff jitter P attempt \<le> rp_max_backoff P"
    and "8 * min (rp_initial_backoff P) (rp_max_backoff P) \<le> 10 * backoff jitter P attempt \<or> DURATION_MAX < rp_initial_backoff P"
proof -
  let ?b = "min (min (rp_initial_backoff P * 2 ^ min (attempt - 1) 16) DURATION_MAX) (rp_max_backoff P)"
  show "backoff jitter P attempt \<le> rp_max_backoff P" by (simp add: backoff_def Let_def)
  show "8 * min (rp_initial_backoff P) (rp_max_backoff P) \<le> 10 * backoff jitter P attempt \<or> DURATION_MAX < rp_initial_backoff P"
  proof (cases "DURATION_MAX < rp_initial_backoff P")
    case False
    have "rp_initial_backoff P * 1 \<le> rp_initial_backoff P * 2 ^ min (attempt - 1) 16" by (rule mult_le_mono2) simp
    then have "min (rp_initial_backoff P) (rp_max_backoff P) \<le> ?b" using False by linarith
    moreover have "8 * ?b \<le> 10 * jitter ?b" by (rule assms)
    moreover have "?b \<le> rp_max_backoff P" by simp
    ultimately show ?thesis unfolding backoff_def Let_def by (auto simp: min_def)
  qed simp
qed

subsection \<open>Log lines\<close>

lemma log_push_eq: "log_push x (c, ys) = (c, (if length ys = c then tl ys else ys) @ [x])"
  by (simp add: log_push_def)

lemma fold_log_push:
  "fold log_push xs (c, ys) = (c, drop (length ys + length xs - c) (ys @ xs))" if "length ys \<le> c" and "0 < c"
  using that
proof (induction xs arbitrary: ys)
  case (Cons x xs)
  show ?case
  proof (cases "length ys = c")
    case True
    then obtain y ys' where ys: "ys = y # ys'" using Cons.prems(2) by (cases ys) auto
    have "fold log_push xs (c, ys' @ [x]) = (c, drop (length (ys' @ [x]) + length xs - c) ((ys' @ [x]) @ xs))"
      by (rule Cons.IH) (use True ys Cons.prems in auto)
    then show ?thesis using True ys by (auto simp: log_push_eq)
  next
    case False
    have "fold log_push xs (c, ys @ [x]) = (c, drop (length (ys @ [x]) + length xs - c) ((ys @ [x]) @ xs))"
      by (rule Cons.IH) (use False Cons.prems in auto)
    then show ?thesis using False by (auto simp: log_push_eq)
  qed
qed simp

lemma log_keeps_newest: "log_tail n (fold log_push xs (log_new c)) = drop (length xs - min n (max c 1)) xs"
proof -
  have f: "fold log_push xs (max c 1, []) = (max c 1, drop (length xs - max c 1) xs)" using fold_log_push[of "[]" "max c 1" xs] by simp
  have "length xs - (length xs - m) - n + (length xs - m) = length xs - min n m" for m by linarith
  then show ?thesis by (simp add: log_tail_def log_new_def f[unfolded One_nat_def] add.commute)
qed

subsection \<open>Ports\<close>

definition ports_ok :: "ports \<Rightarrow> bool" where
  "ports_ok pt \<longleftrightarrow> set (pt_taken pt) \<subseteq> {pt_start pt..<pt_end pt} \<and> 2 * (pt_end pt - pt_start pt) \<le> 2 ^ 16
     \<and> (pt_offset pt < pt_end pt - pt_start pt \<or> pt_offset pt = 0)"

lemma rotate_range: "k < n \<Longrightarrow> set (map (\<lambda>i. (k + i) mod n) [0..<n]) = {0..<n}" for n :: nat
proof -
  assume k: "k < n"
  have "x \<in> (\<lambda>i. (k + i) mod n) ` {0..<n}" if x: "x < n" for x
  proof (cases "k \<le> x")
    case True
    then show ?thesis using x by (intro rev_image_eqI[of "x - k"]) auto
  next
    case False
    then show ?thesis using x k by (intro rev_image_eqI[of "n + x - k"]) auto
  qed
  then show ?thesis using k by auto
qed

lemma set_scan: "ports_ok pt \<Longrightarrow> set (scan pt) = {pt_start pt..<pt_end pt}"
proof -
  assume pt: "ports_ok pt"
  let ?n = "pt_end pt - pt_start pt"
  show ?thesis
  proof (cases "?n = 0")
    case False
    then have k: "pt_offset pt < ?n" using pt by (auto simp: ports_ok_def)
    have "(pt_offset pt + i) mod 2 ^ 16 = pt_offset pt + i" if "i < ?n" for i
      using that k pt by (auto simp: ports_ok_def)
    then have "scan pt = map ((+) (pt_start pt)) (map (\<lambda>i. (pt_offset pt + i) mod ?n) [0..<?n])"
      by (auto simp: scan_def Let_def)
    then have "set (scan pt) = (+) (pt_start pt) ` {0..<?n}" using rotate_range[OF k] by (metis set_map)
    also have "\<dots> = {pt_start pt..<pt_end pt}" using False by (auto simp: image_add_atLeastLessThan)
    finally show ?thesis .
  qed (simp add: scan_def)
qed

lemma allocate_Some:
  assumes "ports_ok pt" and "allocate free pt = (Some p, pt')"
  shows "p \<in> {pt_start pt..<pt_end pt}" and "free p" and "p \<notin> set (pt_taken pt)" and "ports_ok pt'"
  using assms set_scan[OF assms(1)] by (auto simp: allocate_def ports_ok_def split: option.splits dest!: find_SomeD)

lemma allocate_None:
  "ports_ok pt \<Longrightarrow> fst (allocate free pt) = None \<longleftrightarrow> (\<forall>p\<in>{pt_start pt..<pt_end pt}. p \<in> set (pt_taken pt) \<or> \<not> free p)"
  using set_scan[of pt] by (auto simp: allocate_def find_None_iff split: option.splits dest!: find_SomeD)

lemma release_claim_ok: "ports_ok pt \<Longrightarrow> ports_ok (release_port p pt)" "ports_ok pt \<Longrightarrow> ports_ok (snd (claim_port free p pt))"
  by (auto simp: ports_ok_def release_port_def claim_port_def)

lemma default_ports_ok: "ports_ok (spread seed (ports_new TUNNEL_PORTS))" "ports_ok (spread seed (ports_new QUICK_SHARE_PORTS))"
  by (simp_all add: ports_ok_def spread_def ports_new_def TUNNEL_PORTS_def QUICK_SHARE_PORTS_def)

subsection \<open>The network\<close>

text \<open>Only the set of routable addresses counts.\<close>

lemma fingerprint_cong:
  assumes "{a \<in> set as. routable a} = {b \<in> set bs. routable b}"
  shows "fingerprint h as = fingerprint h bs"
proof -
  have e: "set (filter routable as) = set (filter routable bs)" using assms by auto
  have sd: "sorted (dedup (sort ys))" "distinct (dedup (sort ys))" for ys :: "address list"
    using sorted_distinct_dedup[of "sort ys"] by simp_all
  have "dedup (sort (filter routable as)) = dedup (sort (filter routable bs))"
    by (rule sorted_distinct_set_unique) (use e sd in \<open>simp_all del: set_filter\<close>)
  moreover have "filter routable as = [] \<longleftrightarrow> filter routable bs = []" using e by (metis set_empty)
  ultimately show ?thesis by (simp add: fingerprint_def Let_def)
qed

lemma observe_quiet:
  assumes "fst (observe h now as ob) = d" and "observe h now as ob = (d, ob')" and "{a \<in> set as. routable a} = {b \<in> set bs. routable b}"
    and "now' - now \<le> TICK + WAKE_GAP"
  shows "fst (observe h now' bs ob') = None"
  using assms(2,4) fingerprint_cong[OF assms(3), of h]
  by (auto simp: observe_def Let_def split: option.splits)

subsection \<open>The actor\<close>

lemma drawn_snoc: "drawn ss \<Longrightarrow> follows (case ss of [] \<Rightarrow> ConnStopped | s # _ \<Rightarrow> s) s \<Longrightarrow> drawn (s # ss)"
  by (cases ss) auto

definition on_diagram :: "conn \<Rightarrow> bool" where
  "on_diagram c \<longleftrightarrow> drawn (cn_published c) \<and> cn_state c = (case cn_published c of [] \<Rightarrow> ConnStopped | s # _ \<Rightarrow> s)
     \<and> fits (cn_phase c) (cn_state c)"

definition traced :: "conn \<Rightarrow> bool" where
  "traced c \<longleftrightarrow> drawn (cn_published c) \<and> cn_state c = (case cn_published c of [] \<Rightarrow> ConnStopped | s # _ \<Rightarrow> s)"

lemma traced_set: "traced c \<Longrightarrow> s = cn_state c \<or> follows (cn_state c) s \<Longrightarrow> traced (set_state s c)"
  using drawn_snoc by (auto simp: traced_def set_state_def)

lemma set_state_simps [simp]:
  "cn_state (set_state s c) = s" "cn_phase (set_state s c) = cn_phase c" "cn_pid (set_state s c) = cn_pid c"
  "cn_file (set_state s c) = cn_file c" "cn_stop (set_state s c) = cn_stop c" "cn_clock (set_state s c) = cn_clock c"
  "cn_crashes (set_state s c) = cn_crashes c" "cn_nudged (set_state s c) = cn_nudged c"
  by (simp_all add: set_state_def)

lemma traced_cong: "traced c \<Longrightarrow> cn_state c' = cn_state c \<Longrightarrow> cn_published c' = cn_published c \<Longrightarrow> traced c'"
  by (simp add: traced_def)

lemma on_diagram_alt: "on_diagram c \<longleftrightarrow> traced c \<and> fits (cn_phase c) (cn_state c)"
  by (simp add: on_diagram_def traced_def)

inductive_simps follows_simps [simp]:
  "follows r ConnStarting" "follows r ConnConnecting" "follows r (ConnHealthy n)" "follows r ConnDegraded"
  "follows r ConnStopping" "follows r ConnStopped" "follows r (ConnCrashed a ms x)" "follows r (ConnCrashLoop x)"

lemma on_diagramI: "traced c \<Longrightarrow> fits (cn_phase c) (cn_state c) \<Longrightarrow> on_diagram c"
  by (simp add: on_diagram_alt)

lemmas phase_simps = supervised_def waiting_state_def

lemma crashed_state: "\<exists>ph s. crashed jitter P x c = (set_state s (c\<lparr>cn_crashes := snd (record_crash (cn_clock c) P (cn_crashes c)), cn_nudged := False\<rparr>))\<lparr>cn_phase := ph\<rparr>
    \<and> (ph = Looping \<and> s = ConnCrashLoop x \<or> ph = Backoff \<and> (\<exists>a ms. s = ConnCrashed a ms x))"
  by (auto simp: crashed_def Let_def split: prod.splits)

lemma crashed_diagram:
  assumes "traced c" and "s \<in> {ConnStarting, ConnConnecting, ConnHealthy n, ConnDegraded}" and "cn_state c = s"
  shows "on_diagram (crashed jitter P x c)"
proof -
  obtain ph r where c: "crashed jitter P x c = (set_state r (c\<lparr>cn_crashes := snd (record_crash (cn_clock c) P (cn_crashes c)), cn_nudged := False\<rparr>))\<lparr>cn_phase := ph\<rparr>"
      "ph = Looping \<and> r = ConnCrashLoop x \<or> ph = Backoff \<and> (\<exists>a ms. r = ConnCrashed a ms x)"
    using crashed_state by blast
  let ?c = "c\<lparr>cn_crashes := snd (record_crash (cn_clock c) P (cn_crashes c)), cn_nudged := False\<rparr>"
  have "traced ?c" by (rule traced_cong[OF assms(1)]) simp_all
  moreover have "follows (cn_state ?c) r" using c(2) assms(2,3) by auto
  ultimately have "traced (set_state r ?c)" using traced_set by blast
  then have "traced (crashed jitter P x c)" unfolding c(1) by (rule traced_cong) simp_all
  moreover have "fits (cn_phase (crashed jitter P x c)) (cn_state (crashed jitter P x c))" using c by auto
  ultimately show ?thesis by (rule on_diagramI)
qed

lemma supervisedE:
  assumes "supervised s"
  obtains n where "s \<in> {ConnStarting, ConnConnecting, ConnHealthy n, ConnDegraded}" "s \<in> {ConnConnecting, ConnHealthy n, ConnDegraded}"
  using assms by (cases s) (auto simp: supervised_def)

text \<open>Setting a state that may follow, and going to a phase it fits.\<close>

lemma diagram_set:
  assumes "traced c" and "s = cn_state c \<or> follows (cn_state c) s" and "fits ph s"
    and "cn_state c' = s" and "cn_published c' = cn_published (set_state s c)" and "cn_phase c' = ph"
  shows "on_diagram c'"
  by (rule on_diagramI[OF traced_cong[OF traced_set[OF assms(1,2)]]]) (use assms(3-6) in simp_all)

lemma set_same [simp]: "set_state (cn_state c) c = c"
  by (simp add: set_state_def)

lemma polled_cases:
  assumes "cn_phase c = Supervising had since check"
  obtains s ph where "polled P n c = (set_state s c)\<lparr>cn_phase := ph\<rparr>"
    "s = ConnStopping \<and> ph = Halting Restart
     \<or> s \<in> {ConnHealthy n, ConnDegraded, cn_state c} \<and> (\<exists>had' check'. ph = Supervising had' since check')"
proof -
  let ?due = "case check of Some at \<Rightarrow> at \<le> cn_clock c | None \<Rightarrow> False"
  let ?check = "if ?due then None else check"
  consider "?due \<and> n = 0" | "\<not> (?due \<and> n = 0)" "0 < n" | "\<not> ?due" "n = 0" "had \<or> rp_connect_timeout P < cn_clock c - since"
    | "\<not> ?due" "n = 0" "\<not> (had \<or> rp_connect_timeout P < cn_clock c - since)" by blast
  then show thesis
  proof cases
    case 1
    then have "polled P n c = (set_state ConnStopping c)\<lparr>cn_phase := Halting Restart\<rparr>" by (simp add: polled_def assms Let_def)
    then show thesis by (rule that) simp
  next
    case 2
    then have "polled P n c = (set_state (ConnHealthy n) c)\<lparr>cn_phase := Supervising True since ?check\<rparr>"
      unfolding polled_def assms Let_def by simp
    then show thesis by (rule that) blast
  next
    case 3
    then have "polled P n c = (set_state ConnDegraded c)\<lparr>cn_phase := Supervising had since ?check\<rparr>"
      unfolding polled_def assms Let_def by simp
    then show thesis by (rule that) simp
  next
    case 4
    then have "polled P n c = (set_state (cn_state c) c)\<lparr>cn_phase := Supervising had since ?check\<rparr>"
      unfolding polled_def assms Let_def by simp
    then show thesis by (rule that) simp
  qed
qed

lemma polled_diagram:
  assumes "on_diagram c" and "cn_phase c = Supervising had since check"
  shows "on_diagram (polled P n c)"
proof -
  have t: "traced c" "supervised (cn_state c)" using assms by (auto simp: on_diagram_alt)
  obtain s ph where p: "polled P n c = (set_state s c)\<lparr>cn_phase := ph\<rparr>"
    "s = ConnStopping \<and> ph = Halting Restart
     \<or> s \<in> {ConnHealthy n, ConnDegraded, cn_state c} \<and> (\<exists>had' check'. ph = Supervising had' since check')"
    by (rule polled_cases[OF assms(2)])
  have "s = cn_state c \<or> follows (cn_state c) s" using p(2) t(2) by (cases "cn_state c") (auto simp: supervised_def)
  moreover have "fits ph s" using p(2) t(2) by (auto simp: supervised_def)
  ultimately show ?thesis by (rule diagram_set[OF t(1)]) (simp_all add: p(1))
qed

lemma diagram_step: "on_diagram c \<Longrightarrow> conn_step P c c' \<Longrightarrow> on_diagram c'"
  unfolding conn_step_def
proof (elim disjE)
  assume d: "on_diagram c"
  then have t: "traced c" "fits (cn_phase c) (cn_state c)" by (simp_all add: on_diagram_alt)
  show "on_diagram c'" if "observes P c c'" using that
  proof cases
    case (polls had since check n)
    then show ?thesis using polled_diagram[OF d] by blast
  next
    case (notices had since check)
    then show ?thesis using d by (auto simp: noticed_def on_diagram_def)
  qed (use d in \<open>auto simp: on_diagram_def\<close>)
  show "on_diagram c'" if "acts P c c'" using that
  proof cases
    case stops
    then have "ConnStopped = cn_state c \<or> follows (cn_state c) ConnStopped"
      using t(2) by (cases "cn_state c") (auto simp: waiting_state_def)
    then show ?thesis by (rule diagram_set[OF t(1), where ph = Ended]) (simp_all add: stops(1) stop_now_def)
  next
    case (spawns pid written)
    have f: "follows (cn_state c) ConnStarting" using t(2) spawns(2) by (cases "cn_state c") (auto simp: waiting_state_def)
    let ?c = "(set_state ConnStarting c)\<lparr>cn_phase := Supervising False (cn_clock c) None, cn_nudged := False, cn_pid := Some pid,
        cn_file := (if written then Some pid else cn_file c)\<rparr>"
    have s: "traced ?c" by (rule traced_cong[OF traced_set[OF t(1)]]) (use f in simp_all)
    then have "on_diagram (set_state ConnConnecting ?c)"
      by (rule diagram_set[where ph = "Supervising False (cn_clock c) None"]) (simp_all add: supervised_def)
    then show ?thesis using spawns(1) by (simp add: started_def)
  next
    case (fails_to_spawn jitter)
    have "follows (cn_state c) ConnStarting" using t(2) fails_to_spawn(2) by (cases "cn_state c") (auto simp: waiting_state_def)
    then have s: "traced (set_state ConnStarting c)" using traced_set[OF t(1)] by blast
    show ?thesis unfolding fails_to_spawn(1) by (rule crashed_diagram[OF s, of ConnStarting]) simp_all
  next
    case (exits had since check jitter exit_code)
    then have "supervised (cn_state c)" using t(2) by simp
    then obtain n where n: "cn_state c \<in> {ConnStarting, ConnConnecting, ConnHealthy n, ConnDegraded}" by (rule supervisedE)
    have "traced (gone_process c)" by (rule traced_cong[OF t(1)]) (simp_all add: gone_process_def)
    then show ?thesis unfolding exits(1) by (rule crashed_diagram[OF _ n]) (simp add: gone_process_def)
  next
    case (halts had since check)
    then have "supervised (cn_state c)" using t(2) by simp
    then have "ConnStopping = cn_state c \<or> follows (cn_state c) ConnStopping" by (cases "cn_state c") (auto simp: supervised_def)
    then show ?thesis by (rule diagram_set[OF t(1), where ph = "Halting StopRequested"]) (simp_all add: halts(1))
  next
    case halted
    have g: "traced (gone_process c)" by (rule traced_cong[OF t(1)]) (simp_all add: gone_process_def)
    have "cn_state (gone_process c) = ConnStopping" using t(2) halted(2) by (simp add: gone_process_def)
    then have "ConnStopped = cn_state (gone_process c) \<or> follows (cn_state (gone_process c)) ConnStopped" by simp
    then show ?thesis by (rule diagram_set[OF g, where ph = Ended]) (simp_all add: halted(1) stop_now_def)
  next
    case restarts
    then show ?thesis using t by (auto simp: on_diagram_alt gone_process_def intro: traced_cong)
  next
    case retries
    then show ?thesis using t by (auto simp: on_diagram_alt waiting_state_def intro: traced_cong split: connector_state.splits)
  next
    case retries_loop
    then show ?thesis using t by (auto simp: on_diagram_alt waiting_state_def reset_crashes_def intro: traced_cong split: connector_state.splits)
  next
    case retries_at_once
    then show ?thesis using t by (auto simp: on_diagram_alt waiting_state_def reset_crashes_def intro: traced_cong split: connector_state.splits)
  qed
qed

interpretation diagram: invariant "conn_step P" "\<lambda>c. c = conn_new" on_diagram for P
  by unfold_locales (simp add: on_diagram_def conn_new_def, rule diagram_step)

definition accounted :: "conn \<Rightarrow> bool" where
  "accounted c \<longleftrightarrow> (cn_pid c \<noteq> None \<longleftrightarrow> has_process (cn_phase c)) \<and> cn_file c \<in> {None, cn_pid c}"

lemma crashed_process: "cn_pid (crashed jitter P x c) = cn_pid c \<and> cn_file (crashed jitter P x c) = cn_file c
    \<and> cn_stop (crashed jitter P x c) = cn_stop c \<and> cn_phase (crashed jitter P x c) \<in> {Looping, Backoff}"
  by (auto simp: crashed_def Let_def split: prod.splits)

lemma crashed_no_process [simp]: "has_process (cn_phase (crashed jitter P x c)) = False"
  using crashed_process[of jitter P x c] by auto

lemma polled_frame: "cn_pid (polled P n c) = cn_pid c \<and> cn_file (polled P n c) = cn_file c \<and> cn_stop (polled P n c) = cn_stop c"
  by (auto simp: polled_def Let_def split: phase.splits option.splits)

lemma polled_phase: "cn_phase c = Supervising had since check
    \<Longrightarrow> cn_phase (polled P n c) = Halting Restart \<or> (\<exists>had' check'. cn_phase (polled P n c) = Supervising had' since check')"
  by (auto simp: polled_def Let_def split: option.splits)

lemma accounted_step: "accounted c \<Longrightarrow> conn_step P c c' \<Longrightarrow> accounted c'"
  unfolding conn_step_def
proof (elim disjE)
  assume a: "accounted c"
  show "accounted c'" if "observes P c c'" using that a
  proof cases
    case (polls had since check n)
    then show ?thesis using a polled_frame[of P n c] polled_phase[OF polls(2), of P n] by (auto simp: accounted_def)
  qed (auto simp: accounted_def noticed_def)
  show "accounted c'" if "acts P c c'" using that a
    by cases (auto simp: accounted_def crashed_process gone_process_def stop_now_def started_def reset_crashes_def)
qed

interpretation process: invariant "conn_step P" "\<lambda>c. c = conn_new" accounted for P
  by unfold_locales (simp add: accounted_def conn_new_def, rule accounted_step)

subsection \<open>Stopping\<close>

lemma acts_stopping: "acts P c c' \<Longrightarrow> cn_stop c \<Longrightarrow> cn_stop c' \<and> steps_left (cn_phase c') < steps_left (cn_phase c)"
proof (induction rule: acts.induct)
  case (exits c had since check jitter exit_code)
  then show ?case using crashed_process[of jitter P exit_code "gone_process c"] by (auto simp: gone_process_def)
qed (auto simp: stop_now_def gone_process_def reset_crashes_def)

lemma observes_stopping: "observes P c c' \<Longrightarrow> cn_stop c \<Longrightarrow> cn_stop c' \<and> steps_left (cn_phase c') \<le> steps_left (cn_phase c)"
proof (induction rule: observes.induct)
  case (polls c had since check connections)
  then show ?case using polled_phase[OF polls(1), of P connections] polled_frame[of P connections c] by auto
qed (auto simp: noticed_def)

lemma observed_stopping: "(observes P)\<^sup>*\<^sup>* c c' \<Longrightarrow> cn_stop c \<Longrightarrow> cn_stop c' \<and> steps_left (cn_phase c') \<le> steps_left (cn_phase c)"
  by (induction rule: rtranclp_induct) (use observes_stopping le_trans in blast)+

lemma run_stopping:
  "(((observes P)\<^sup>*\<^sup>* OO acts P) ^^ n) c c' \<Longrightarrow> cn_stop c \<Longrightarrow> cn_stop c' \<and> n + steps_left (cn_phase c') \<le> steps_left (cn_phase c)"
proof (induction n arbitrary: c')
  case (Suc n)
  then obtain d e where d: "(((observes P)\<^sup>*\<^sup>* OO acts P) ^^ n) c d" "(observes P)\<^sup>*\<^sup>* d e" "acts P e c'" by auto
  from Suc.IH[OF d(1) Suc.prems(2)] observed_stopping[OF d(2)] acts_stopping[OF d(3)] show ?case by auto
qed simp

lemma run_steps_of: "(((observes P)\<^sup>*\<^sup>* OO acts P) ^^ n) c c' \<Longrightarrow> (conn_step P)\<^sup>*\<^sup>* c c'"
proof (induction n arbitrary: c')
  case (Suc n)
  then obtain d e where d: "(((observes P)\<^sup>*\<^sup>* OO acts P) ^^ n) c d" "(observes P)\<^sup>*\<^sup>* d e" "acts P e c'" by auto
  have "(conn_step P)\<^sup>*\<^sup>* d e" using d(2) by (rule mono_rtranclp[rule_format, rotated]) (simp add: conn_step_def)
  moreover have "conn_step P e c'" using d(3) by (simp add: conn_step_def)
  ultimately show ?case using Suc.IH[OF d(1)] by (meson rtranclp.rtrancl_into_rtrancl rtranclp_trans)
qed simp

lemma can_act: "cn_phase c \<noteq> Ended \<Longrightarrow> cn_stop c \<Longrightarrow> \<exists>c'. acts P c c'"
proof (cases "cn_phase c")
  case (Halting v)
  then show ?thesis by (cases v) (auto intro: acts.intros)
qed (auto intro: acts.intros)

lemma ended_acts: "cn_phase c = Ended \<Longrightarrow> \<not> acts P c c'"
  by (auto elim: acts.cases)

subsection \<open>Reaping\<close>

text \<open>Stopping a process starts none.\<close>

definition only_stops :: "(nat \<Rightarrow> processes \<Rightarrow> processes) \<Rightarrow> bool" where
  "only_stops kill \<longleftrightarrow> (\<forall>p procs. kill p procs \<subseteq>\<^sub>m procs)"

lemma map_le_Some: "m \<subseteq>\<^sub>m m' \<Longrightarrow> m k = Some v \<Longrightarrow> m' k = Some v"
  by (metis domI map_le_def)

definition ours :: "processes \<Rightarrow> run_dir \<Rightarrow> nat \<Rightarrow> bool" where
  "ours procs dir p \<longleftrightarrow> (\<exists>f r. (f, Some r) \<in> set dir \<and> pr_marker r = MARKER \<and> pr_pid r = p \<and> procs p = Some (pr_start r))"

lemma ours_mono: "ours procs' dir p \<Longrightarrow> procs' \<subseteq>\<^sub>m procs \<Longrightarrow> set dir \<subseteq> set dir' \<Longrightarrow> ours procs dir' p"
  unfolding ours_def using map_le_Some[of procs' procs] by blast

lemma reap_orphans_safe:
  assumes "only_stops kill"
  shows "reap_orphans kill procs dir = ((pids, left), procs') \<Longrightarrow> list_all (ours procs dir) pids
      \<and> left = filter (\<lambda>(f, _). extension f = Some ''partial'') dir \<and> procs' \<subseteq>\<^sub>m procs"
proof (induction dir arbitrary: procs pids left procs')
  case (Cons p dir)
  obtain f content where p: "p = (f, content)" by fastforce
  have skip: "list_all (ours procs dir) ps \<Longrightarrow> list_all (ours procs (p # dir)) ps" for procs ps
    by (auto simp: list_all_iff intro: ours_mono[OF _ map_le_refl])
  show ?case
  proof (cases "extension f = Some ''partial''")
    case True
    obtain ps l pr where r: "reap_orphans kill procs dir = ((ps, l), pr)" by (metis prod.exhaust)
    then show ?thesis using Cons.IH[OF r] Cons.prems True skip by (auto simp: p)
  next
    case False
    show ?thesis
    proof (cases "\<exists>r. read_pid content = Some r \<and> procs (pr_pid r) = Some (pr_start r)")
      case True
      then obtain r where r: "read_pid content = Some r" "procs (pr_pid r) = Some (pr_start r)" by blast
      obtain ps l pr where o: "reap_orphans kill (kill (pr_pid r) procs) dir = ((ps, l), pr)" by (metis prod.exhaust)
      have le: "kill (pr_pid r) procs \<subseteq>\<^sub>m procs" using assms by (simp add: only_stops_def)
      note IH = Cons.IH[OF o]
      have "ours procs (p # dir) (pr_pid r)"
        using r by (auto simp: ours_def p read_pid_def split: bind_splits if_splits)
      moreover have "list_all (ours procs (p # dir)) ps"
        using IH le by (auto simp: list_all_iff intro: ours_mono[OF _ le])
      ultimately show ?thesis using Cons.prems False r o IH le by (auto simp: p intro: map_le_trans)
    next
      case no: False
      then have "reap_orphans kill procs dir = ((pids, left), procs')" using Cons.prems False by (auto simp: p split: option.splits)
      from Cons.IH[OF this] show ?thesis using False skip by (simp add: p)
    qed
  qed
qed simp

text \<open>The registries of owners that still run, and what is no registry, are left alone.\<close>

definition abandoned :: "processes \<Rightarrow> (string \<times> run_dir) list \<Rightarrow> nat \<Rightarrow> bool" where
  "abandoned procs root p \<longleftrightarrow> (\<exists>n dir. (n, dir) \<in> set root \<and> identity_of n \<noteq> None \<and> ours procs dir p)"

lemma abandoned_mono: "abandoned procs' root p \<Longrightarrow> procs' \<subseteq>\<^sub>m procs \<Longrightarrow> set root \<subseteq> set root' \<Longrightarrow> abandoned procs root' p"
  unfolding abandoned_def using ours_mono[OF _ _ order_refl, of procs' _ p procs] by blast

lemma reap_abandoned_safe:
  assumes "only_stops kill"
  shows "reap_abandoned kill procs root = ((pids, left), procs') \<Longrightarrow> list_all (abandoned procs root) pids
      \<and> (\<forall>e\<in>set root. identity_of (fst e) = None \<longrightarrow> e \<in> set left) \<and> set left \<subseteq> set root \<and> procs' \<subseteq>\<^sub>m procs"
proof (induction root arbitrary: procs pids left procs')
  case (Cons e root)
  obtain n dir where e: "e = (n, dir)" by fastforce
  have mono: "list_all (abandoned procs (e # root)) ps" if "list_all (abandoned pr root) ps" "pr \<subseteq>\<^sub>m procs" for pr ps
    using that by (auto simp: list_all_iff intro: abandoned_mono)
  show ?case
  proof (cases "identity_of n = None \<or> is_running_identity procs n")
    case True
    obtain ps l pr where r: "reap_abandoned kill procs root = ((ps, l), pr)" by (metis prod.exhaust)
    have "pids = ps" "left = (n, dir) # l" "procs' = pr" using Cons.prems True r by (auto simp: e)
    with Cons.IH[OF r] mono[OF _ map_le_refl] show ?thesis by (auto simp: e)
  next
    case False
    obtain ps l pr where r: "reap_orphans kill procs dir = ((ps, l), pr)" by (metis prod.exhaust)
    obtain ps' l' pr' where r': "reap_abandoned kill pr root = ((ps', l'), pr')" by (metis prod.exhaust)
    note 1 = reap_orphans_safe[OF assms r] and 2 = Cons.IH[OF r']
    have x: "pids = ps @ ps'" "left = l'" "procs' = pr'" using Cons.prems False r r' by (auto simp: e)
    have "list_all (abandoned procs (e # root)) ps"
      using 1 False by (auto simp: list_all_iff abandoned_def e)
    moreover have "list_all (abandoned procs (e # root)) ps'" by (rule mono[of pr]) (use 1 2 in simp_all)
    ultimately show ?thesis using 1 2 False by (auto simp: x e intro: map_le_trans)
  qed
qed simp

end
