(* ===== verification/Runtime_Properties.thy ===== *)
theory Runtime_Properties
  imports Runtime_Laws
begin

text \<open>
  What the runtime promises: a connector's published states follow the documented diagram, it stops
  when asked, its crashes are counted over the window, and only processes of ours are ever stopped.
\<close>


text \<open>A connector that was started, became healthy and was asked to stop.\<close>

definition demo_running :: conn where
  "demo_running = (polled default_policy 4 (started 77 True conn_new))\<lparr>cn_stop := True\<rparr>"

lemma demo_running_reached: "(conn_step default_policy)\<^sup>*\<^sup>* conn_new demo_running"
proof -
  have 1: "conn_step default_policy conn_new (started 77 True conn_new)"
    unfolding conn_step_def by (intro disjI2 acts.spawns) (simp_all add: conn_new_def)
  have "cn_phase (started 77 True conn_new) = Supervising False 0 None" by (simp add: started_def conn_new_def)
  then have 2: "conn_step default_policy (started 77 True conn_new) (polled default_policy 4 (started 77 True conn_new))"
    unfolding conn_step_def by (intro disjI1 observes.polls)
  have 3: "conn_step default_policy (polled default_policy 4 (started 77 True conn_new)) demo_running"
    unfolding conn_step_def demo_running_def by (intro disjI1 observes.asks)
  from 1 2 3 show ?thesis by (meson rtranclp.rtrancl_refl rtranclp.rtrancl_into_rtrancl)
qed




text \<open>C39: crashes are counted over the window. After crashes at increasing times, the tracker says the attempt and whether
  it is a loop exactly as counting the crashes of the last window would; and a backoff stays within its cap and, with a
  jitter of at least 0.8, at least 0.8 of the first backoff.\<close>

theorem crashes_counted:
  assumes "sorted (ts @ [now])" and "\<And>b. 8 * b \<le> 10 * jitter b" and "rp_initial_backoff P \<le> DURATION_MAX"
  shows "fst (record_crash now P (tracked P ts)) =
      (let n = length (filter (\<lambda>t. now - t \<le> rp_crash_window P) (ts @ [now])) in (min n U32_MAX, rp_crash_loop_threshold P < n))
    \<and> backoff jitter P attempt \<le> rp_max_backoff P
    \<and> 8 * min (rp_initial_backoff P) (rp_max_backoff P) \<le> 10 * backoff jitter P attempt"
proof -
  obtain u where u: "tracked P ts = filter (\<lambda>t. u \<le> t + rp_crash_window P) ts" "u \<le> now"
    using tracked_filter[OF assms(1)] by blast
  have "sorted (tracked P ts @ [now])" using assms(1) unfolding u(1) by (auto simp: sorted_append intro: sorted_wrt_filter)
  from record_crash_kept[OF this, of P]
  have k: "snd (record_crash now P (tracked P ts)) = filter (\<lambda>t. now - t \<le> rp_crash_window P) (tracked P ts @ [now])" .
  also have "\<dots> = filter (\<lambda>t. now - t \<le> rp_crash_window P) (ts @ [now])" using u by (auto intro!: filter_cong)
  finally have "snd (record_crash now P (tracked P ts)) = filter (\<lambda>t. now - t \<le> rp_crash_window P) (ts @ [now])" .
  then have "fst (record_crash now P (tracked P ts)) =
      (let n = length (filter (\<lambda>t. now - t \<le> rp_crash_window P) (ts @ [now])) in (min n U32_MAX, rp_crash_loop_threshold P < n))"
    unfolding record_crash_def Let_def by simp
  then show ?thesis using backoff_bounds[of jitter P attempt] assms(2,3) by auto
qed

theorem crashes_counted_witness:
  "sorted [secs 0, secs 10, secs 20, secs 30, secs 40, secs 50]
    \<and> snd (fst (record_crash (secs 50) default_policy (tracked default_policy [secs 0, secs 10, secs 20, secs 30, secs 40])))"
proof -
  have s: "sorted ([secs 0, secs 10, secs 20, secs 30, secs 40] @ [secs 50])" by (simp add: secs_def)
  have "rp_initial_backoff default_policy \<le> DURATION_MAX" by (simp add: default_policy_def DURATION_MAX_def secs_def)
  from crashes_counted[OF s _ this, of "\<lambda>b. b"] s show ?thesis
    by (simp add: default_policy_def secs_def Let_def)
qed


definition demo_dir :: run_dir where
  "demo_dir = [(''a.json'', Some \<lparr>pr_marker = MARKER, pr_pid = 5, pr_start = 100, pr_connector = ''a''\<rparr>),
     (''b.json'', Some \<lparr>pr_marker = MARKER, pr_pid = 6, pr_start = 199, pr_connector = ''b''\<rparr>), (''c.json'', None)]"

lemma demo_reaped: "reap_orphans (\<lambda>p procs. procs(p := None)) [5 \<mapsto> 100, 6 \<mapsto> 200] demo_dir = (([5], []), [6 \<mapsto> 200])"
proof -
  have "extension ''a.json'' = Some ''json''" "extension ''b.json'' = Some ''json''" "extension ''c.json'' = Some ''json''"
    by code_simp+
  then show ?thesis by (simp add: demo_dir_def read_pid_def fun_eq_iff)
qed

lemma demo_one: "code (CHR ''1'') = 49"
  by code_simp

lemma demo_abandoned: "reap_abandoned (\<lambda>p procs. procs(p := None)) [5 \<mapsto> 100, 6 \<mapsto> 200] [(''1-1'', demo_dir), (''notes'', [])]
    = (([5], [(''notes'', [])]), [6 \<mapsto> 200])"
proof -
  have i: "identity_of ''1-1'' = Some (1, 1)" "identity_of ''notes'' = None"
    using demo_one by (simp_all add: identity_of_def starts_with_def parse_uint_def U32_MAX_def U64_MAX_def is_digit_def digits_value_def)
  then show ?thesis by (simp add: is_running_identity_def demo_reaped)
qed


end
